(* ===== verification/Go_Runtime.thy ===== *)
theory Go_Runtime
  imports Prelude
begin

text \<open>
  What the source uses of Go's language and standard library: error values and their
  chains (\<^verbatim>\<open>errors.Is\<close>, \<^verbatim>\<open>fmt.Errorf\<close> with \<^verbatim>\<open>%w\<close>), the calendar date of a
  timestamp (\<^verbatim>\<open>time.Format("2006-01-02")\<close>), and \<^verbatim>\<open>encoding/json\<close>. JSON text is
  represented by the value it denotes (a tree); text that is not JSON is a \<open>Text\<close>
  payload. The tree keeps what the decoder depends on: field order, duplicate
  keys, \<^verbatim>\<open>null\<close>, and numbers that are not integers.
\<close>

named_theorems sentinel_defs \<open>definitions of the sentinel errors\<close>
named_theorems codec_defs \<open>definitions of the JSON encoders and decoders\<close>

section \<open>Errors\<close>

text \<open>
  A sentinel error is identified by its package and name (pointer identity in Go: two
  sentinels with one message are different errors). \<open>Wrap pre e post\<close> is
  \<^verbatim>\<open>fmt.Errorf\<close> with one \<^verbatim>\<open>%w\<close> verb between the texts \<open>pre\<close> and \<open>post\<close>.
\<close>

datatype goerr =
    Sentinel (sentinel_name: string) (sentinel_text: string)
  | Msg string
  | Wrap string goerr string

fun Error :: "goerr \<Rightarrow> string" where
  "Error (Sentinel n t) = t"
| "Error (Msg t) = t"
| "Error (Wrap pre e post) = pre @ Error e @ post"

fun errors_Is :: "goerr \<Rightarrow> goerr \<Rightarrow> bool" where
  "errors_Is (Wrap pre e post) target \<longleftrightarrow> Wrap pre e post = target \<or> errors_Is e target"
| "errors_Is e target \<longleftrightarrow> e = target"

definition wrapf :: "string \<Rightarrow> goerr \<Rightarrow> goerr" where
  "wrapf pre e = Wrap pre e []"

lemma errors_Is_refl [simp]: "errors_Is e e"
  by (cases e) auto

lemma errors_Is_wrapf [simp]:
  "errors_Is (wrapf pre e) (Sentinel n t) = errors_Is e (Sentinel n t)"
  by (simp add: wrapf_def)

type_synonym ('s, 'a) go = "('s, goerr + 'a) state"

section \<open>Calendar dates\<close>

text \<open>
  \<^verbatim>\<open>t.Format("2006-01-02")\<close> of the Unix time \<open>ms\<close> (milliseconds) in a zone
  \<open>off\<close> seconds east of UTC: the proleptic Gregorian date of the day that contains it.
\<close>

definition civil_from_days :: "int \<Rightarrow> int \<times> int \<times> int" where
  "civil_from_days days =
     (let z = days + 719468;
          era = z div 146097;
          doe = z - era * 146097;
          yoe = (doe - doe div 1460 + doe div 36524 - doe div 146096) div 365;
          doy = doe - (365 * yoe + yoe div 4 - yoe div 100);
          mp = (5 * doy + 2) div 153;
          d = doy - (153 * mp + 2) div 5 + 1;
          m = (if mp < 10 then mp + 3 else mp - 9);
          y = yoe + era * 400 + (if m \<le> 2 then 1 else 0)
      in (y, m, d))"

definition pad :: "nat \<Rightarrow> string \<Rightarrow> string" where
  "pad n s = replicate (n - length s) (CHR ''0'') @ s"

definition day_of :: "int \<Rightarrow> int \<Rightarrow> int" where
  "day_of off ms = (ms div 1000 + off) div 86400"

definition date_text :: "int \<Rightarrow> string" where
  "date_text day = (case civil_from_days day of (y, m, d) \<Rightarrow>
     pad 4 (show_int y) @ ''-'' @ pad 2 (show_int m) @ ''-'' @ pad 2 (show_int d))"

definition format_date :: "int \<Rightarrow> int \<Rightarrow> string" where
  "format_date off ms = date_text (day_of off ms)"

text \<open>\<^verbatim>\<open>t.UTC().Format(time.RFC3339)\<close>.\<close>

definition format_rfc3339 :: "int \<Rightarrow> string" where
  "format_rfc3339 ms =
     (let s = (ms div 1000) mod 86400
      in date_text (day_of 0 ms) @ ''T'' @ pad 2 (show_int (s div 3600)) @ '':'' @
         pad 2 (show_int (s mod 3600 div 60)) @ '':'' @ pad 2 (show_int (s mod 60)) @ ''Z'')"

lemma format_date_example: "format_date 0 1786615200000 = ''2026-08-13''"
  by code_simp

section \<open>JSON\<close>

datatype json =
    JNull
  | JBool bool
  | JNum int
  | JFrac string
  | JStr string
  | JArr "json list"
  | JObj "(string \<times> json) list"

datatype payload = Text string | Json json

definition lower :: "char \<Rightarrow> char" where
  "lower c = (let n = of_char c :: nat in if 65 \<le> n \<and> n \<le> 90 then char_of (n + 32) else c)"

text \<open>The decoder matches keys to field tags case-insensitively; every tag is lower case.\<close>

definition key_is :: "string \<Rightarrow> string \<Rightarrow> bool" where
  "key_is tag k \<longleftrightarrow> map lower k = tag"

text \<open>
  Decoding one field: \<^verbatim>\<open>null\<close> leaves the field alone, a value of another type is
  remembered as an error while decoding goes on.
\<close>

definition set_string :: "(string \<Rightarrow> 'r \<Rightarrow> 'r) \<Rightarrow> json \<Rightarrow> 'r \<times> bool \<Rightarrow> 'r \<times> bool" where
  "set_string upd v acc = (case v of JStr s \<Rightarrow> (upd s (fst acc), snd acc)
     | JNull \<Rightarrow> acc | _ \<Rightarrow> (fst acc, False))"

definition set_int64 :: "(int \<Rightarrow> 'r \<Rightarrow> 'r) \<Rightarrow> json \<Rightarrow> 'r \<times> bool \<Rightarrow> 'r \<times> bool" where
  "set_int64 upd v acc = (case v of
       JNum i \<Rightarrow> (if - (2 ^ 63) \<le> i \<and> i < 2 ^ 63 then (upd i (fst acc), snd acc)
                  else (fst acc, False))
     | JNull \<Rightarrow> acc | _ \<Rightarrow> (fst acc, False))"

definition set_bool :: "(bool \<Rightarrow> 'r \<Rightarrow> 'r) \<Rightarrow> json \<Rightarrow> 'r \<times> bool \<Rightarrow> 'r \<times> bool" where
  "set_bool upd v acc = (case v of JBool b \<Rightarrow> (upd b (fst acc), snd acc)
     | JNull \<Rightarrow> acc | _ \<Rightarrow> (fst acc, False))"

definition unmarshal_error :: goerr where
  "unmarshal_error = Msg ''json: cannot unmarshal value into Go struct''"

definition unmarshal :: "(string \<Rightarrow> json \<Rightarrow> 'r \<times> bool \<Rightarrow> 'r \<times> bool) \<Rightarrow> 'r \<Rightarrow> payload \<Rightarrow>
    goerr + 'r" where
  "unmarshal field zero p = (case p of
       Text s \<Rightarrow> Inl (Msg ''invalid character in JSON text'')
     | Json (JObj fs) \<Rightarrow>
         (case foldl (\<lambda>acc (k, v). field k v acc) (zero, True) fs of
            (r, ok) \<Rightarrow> if ok then Inr r else Inl unmarshal_error)
     | Json JNull \<Rightarrow> Inr zero
     | Json _ \<Rightarrow> Inl unmarshal_error)"

section \<open>Quoted text\<close>

text \<open>
  \<^verbatim>\<open>%q\<close> of \<^verbatim>\<open>fmt\<close>: quotes, backslashes and control characters escaped, every
  other byte as it is (the text is printable UTF-8 otherwise).
\<close>

definition hex_digit :: "nat \<Rightarrow> char" where
  "hex_digit n = char_of (if n < 10 then 48 + n else 87 + n)"

text \<open>\<^verbatim>\<open>%x\<close> of a natural number.\<close>

fun show_hex :: "nat \<Rightarrow> string" where
  "show_hex n = (if n < 16 then [hex_digit n] else show_hex (n div 16) @ [hex_digit (n mod 16)])"

declare show_hex.simps [simp del]

definition quote_char :: "char \<Rightarrow> string" where
  "quote_char c =
     (let n = of_char c :: nat; back = char_of (92 :: nat)
      in if n = 34 \<or> n = 92 then [back, c]
         else if n = 7 then [back, CHR ''a''] else if n = 8 then [back, CHR ''b'']
         else if n = 9 then [back, CHR ''t''] else if n = 10 then [back, CHR ''n'']
         else if n = 11 then [back, CHR ''v''] else if n = 12 then [back, CHR ''f'']
         else if n = 13 then [back, CHR ''r'']
         else if n < 32 \<or> n = 127 then [back, CHR ''x'', hex_digit (n div 16), hex_digit (n mod 16)]
         else [c])"

definition go_quote :: "string \<Rightarrow> string" where
  "go_quote s = [char_of (34 :: nat)] @ concat (map quote_char s) @ [char_of (34 :: nat)]"

section \<open>64-bit integers and the clock\<close>

text \<open>
  The clock counts milliseconds since the epoch. \<^verbatim>\<open>Unix()\<close> and \<^verbatim>\<open>UnixMilli()\<close>
  return an \<^verbatim>\<open>int64\<close>, so they wrap around where it does.
\<close>

definition int64 :: "int \<Rightarrow> int" where
  "int64 i = (i + 2 ^ 63) mod 2 ^ 64 - 2 ^ 63"

definition Unix :: "int \<Rightarrow> int" where
  "Unix ms = int64 (ms div 1000)"

definition UnixMilli :: "int \<Rightarrow> int" where
  "UnixMilli ms = int64 ms"

definition in_int64 :: "int \<Rightarrow> bool" where
  "in_int64 i \<longleftrightarrow> - (2 ^ 63) \<le> i \<and> i < 2 ^ 63"

lemma in_int64_int64 [simp]: "in_int64 (int64 i)"
  by (simp add: in_int64_def int64_def)

lemma in_int64_Unix [simp]: "in_int64 (Unix ms)"
  by (simp add: Unix_def)

lemma in_int64_UnixMilli [simp]: "in_int64 (UnixMilli ms)"
  by (simp add: UnixMilli_def)

lemma int64_id: "in_int64 i \<Longrightarrow> int64 i = i"
  by (simp add: in_int64_def int64_def)

end
