(* ===== verification/Models.thy ===== *)
theory Models
  imports Go_Runtime
begin

text \<open>
  \<^verbatim>\<open>internal/models/models.go\<close>: the rows of the Postgres tables, the scan event that
  travels through Kafka, the wristband binding that lives in Redis, and the requests and
  responses of the voucher flows. The bookkeeping timestamps of the rows
  (\<^verbatim>\<open>created_at\<close>, \<^verbatim>\<open>updated_at\<close>) are kept only where a query reads them
  (the outbox is drained oldest first). Struct fields carry a prefix because records of
  one theory share a name space.
\<close>

section \<open>Enumerations\<close>

type_synonym BindingStatus = string

definition BindingStatusBinding :: BindingStatus where
  "BindingStatusBinding = ''BINDING''"

definition BindingStatusBound :: BindingStatus where
  "BindingStatusBound = ''BOUND''"

datatype TicketStatus =
  StatusUnclaimed | StatusClaimed | StatusActive | StatusPendingEntry | StatusUsed | StatusExpired

fun TicketStatus_text :: "TicketStatus \<Rightarrow> string" where
  "TicketStatus_text StatusUnclaimed = ''UNCLAIMED''"
| "TicketStatus_text StatusClaimed = ''CLAIMED''"
| "TicketStatus_text StatusActive = ''ACTIVE''"
| "TicketStatus_text StatusPendingEntry = ''PENDING_ENTRY''"
| "TicketStatus_text StatusUsed = ''USED''"
| "TicketStatus_text StatusExpired = ''EXPIRED''"

datatype MintStatus = MintPending | MintSubmitted | MintConfirmed | MintFailed

datatype ParticipantWalletState =
  ParticipantWalletNone | ParticipantWalletOwn | ParticipantWalletCustodial

fun WalletState_text :: "ParticipantWalletState \<Rightarrow> string" where
  "WalletState_text ParticipantWalletNone = ''NONE''"
| "WalletState_text ParticipantWalletOwn = ''OWN_NON_CUSTODIAL''"
| "WalletState_text ParticipantWalletCustodial = ''CUSTODIAL_PROXY''"

type_synonym DelegationMode = string

definition DelegationAccount :: DelegationMode where
  "DelegationAccount = ''account''"

definition DelegationDependent :: DelegationMode where
  "DelegationDependent = ''dependent''"

definition ErrAlreadyAllocated :: goerr where
  [sentinel_defs]: "ErrAlreadyAllocated =
     Sentinel ''models.ErrAlreadyAllocated'' ''voucher already allocated''"

section \<open>The scan event and the wristband binding\<close>

record ScanEvent =
  ev_UserID :: string
  ev_RideID :: string
  ev_Timestamp :: int
  ev_TraceID :: string
  ev_TicketID :: string

record WristbandBinding =
  wb_WristbandUID :: string
  wb_TicketID :: string
  wb_UserEmail :: string
  wb_Status :: BindingStatus
  wb_BoundAt :: int

text \<open>The JSON forms, from the struct tags; \<^verbatim>\<open>ticket_id\<close> of an event is \<^verbatim>\<open>omitempty\<close>.\<close>

definition marshal_ScanEvent :: "ScanEvent \<Rightarrow> payload" where
  [codec_defs]: "marshal_ScanEvent e = Json (JObj
     ([(''user_id'', JStr (ev_UserID e)),
       (''ride_id'', JStr (ev_RideID e)),
       (''timestamp'', JNum (ev_Timestamp e)),
       (''trace_id'', JStr (ev_TraceID e))]
      @ (if ev_TicketID e = [] then [] else [(''ticket_id'', JStr (ev_TicketID e))])))"

definition field_ScanEvent :: "string \<Rightarrow> json \<Rightarrow> ScanEvent \<times> bool \<Rightarrow> ScanEvent \<times> bool" where
  [codec_defs]: "field_ScanEvent k v =
     (if key_is ''user_id'' k then set_string (\<lambda>s r. r\<lparr>ev_UserID := s\<rparr>) v
      else if key_is ''ride_id'' k then set_string (\<lambda>s r. r\<lparr>ev_RideID := s\<rparr>) v
      else if key_is ''timestamp'' k then set_int64 (\<lambda>i r. r\<lparr>ev_Timestamp := i\<rparr>) v
      else if key_is ''trace_id'' k then set_string (\<lambda>s r. r\<lparr>ev_TraceID := s\<rparr>) v
      else if key_is ''ticket_id'' k then set_string (\<lambda>s r. r\<lparr>ev_TicketID := s\<rparr>) v
      else (\<lambda>acc. acc))"

definition zero_ScanEvent :: ScanEvent where
  [codec_defs]: "zero_ScanEvent =
     \<lparr>ev_UserID = [], ev_RideID = [], ev_Timestamp = 0, ev_TraceID = [], ev_TicketID = []\<rparr>"

definition unmarshal_ScanEvent :: "payload \<Rightarrow> goerr + ScanEvent" where
  "unmarshal_ScanEvent = unmarshal field_ScanEvent zero_ScanEvent"

definition marshal_WristbandBinding :: "WristbandBinding \<Rightarrow> payload" where
  [codec_defs]: "marshal_WristbandBinding b = Json (JObj
     [(''wristband_uid'', JStr (wb_WristbandUID b)),
      (''ticket_id'', JStr (wb_TicketID b)),
      (''user_email'', JStr (wb_UserEmail b)),
      (''status'', JStr (wb_Status b)),
      (''bound_at'', JNum (wb_BoundAt b))])"

definition field_WristbandBinding ::
    "string \<Rightarrow> json \<Rightarrow> WristbandBinding \<times> bool \<Rightarrow> WristbandBinding \<times> bool" where
  [codec_defs]: "field_WristbandBinding k v =
     (if key_is ''wristband_uid'' k then set_string (\<lambda>s r. r\<lparr>wb_WristbandUID := s\<rparr>) v
      else if key_is ''ticket_id'' k then set_string (\<lambda>s r. r\<lparr>wb_TicketID := s\<rparr>) v
      else if key_is ''user_email'' k then set_string (\<lambda>s r. r\<lparr>wb_UserEmail := s\<rparr>) v
      else if key_is ''status'' k then set_string (\<lambda>s r. r\<lparr>wb_Status := s\<rparr>) v
      else if key_is ''bound_at'' k then set_int64 (\<lambda>i r. r\<lparr>wb_BoundAt := i\<rparr>) v
      else (\<lambda>acc. acc))"

definition zero_WristbandBinding :: WristbandBinding where
  [codec_defs]: "zero_WristbandBinding =
     \<lparr>wb_WristbandUID = [], wb_TicketID = [], wb_UserEmail = [], wb_Status = [], wb_BoundAt = 0\<rparr>"

definition unmarshal_WristbandBinding :: "payload \<Rightarrow> goerr + WristbandBinding" where
  "unmarshal_WristbandBinding = unmarshal field_WristbandBinding zero_WristbandBinding"

lemma ScanEvent_roundtrip [simp]:
  assumes "in_int64 (ev_Timestamp e)"
  shows "unmarshal_ScanEvent (marshal_ScanEvent e) = Inr e"
  using assms
  by (cases e) (simp add: codec_defs unmarshal_ScanEvent_def unmarshal_def key_is_def lower_def
      set_string_def set_int64_def in_int64_def)

lemma WristbandBinding_roundtrip [simp]:
  assumes "in_int64 (wb_BoundAt b)"
  shows "unmarshal_WristbandBinding (marshal_WristbandBinding b) = Inr b"
  using assms
  by (cases b) (simp add: codec_defs unmarshal_WristbandBinding_def unmarshal_def key_is_def
      lower_def set_string_def set_int64_def in_int64_def)

section \<open>Table rows\<close>

record User =
  u_ID :: int
  u_Email :: string
  u_SuiAddress :: "string option"
  u_EphemeralKey :: "string option"
  u_ZkloginProof :: "string option"

record Ticket =
  t_ID :: int
  t_TicketID :: string
  t_UserID :: "int option"
  t_Status :: TicketStatus
  t_PurchasedBy :: "int option"

record TicketVoucher =
  v_ID :: int
  v_VoucherID :: string
  v_PurchaserID :: int
  v_OwnerID :: "int option"
  v_ParticipantID :: "int option"
  v_Status :: TicketStatus

record ScanRecord =
  s_ID :: int
  s_TraceID :: string
  s_UserID :: "int option"
  s_TicketID :: "string option"
  s_RideID :: string
  s_ScannedAt :: int

record MintLog =
  m_ID :: int
  m_UserID :: int
  m_ParticipantID :: "int option"
  m_RideID :: string
  m_MintDate :: int
  m_TxDigest :: "string option"
  m_Status :: MintStatus
  m_GasUsed :: "int option"

record Participant =
  p_ID :: int
  p_Name :: string
  p_AccountEmail :: "string option"
  p_GuardianID :: "int option"
  p_WalletState :: ParticipantWalletState
  p_CustodialWalletAddress :: "string option"
  p_KeysEnc :: "string option"

record PendingMint =
  pm_ID :: int
  pm_ParticipantID :: int
  pm_RideIDs :: "string list"
  pm_ScannedAts :: "int list"
  pm_MintDate :: string
  pm_WalletState :: ParticipantWalletState

record OutboxRow =
  o_ID :: int
  o_TraceID :: string
  o_UserEmail :: string
  o_RideID :: string
  o_ScannedAt :: int
  o_Status :: string
  o_Attempts :: int
  o_CreatedAt :: int

text \<open>The pinned IPFS identifiers of one ride (\<^verbatim>\<open>internal/storage/cache.go\<close>).\<close>

record RideAssets =
  a_ArtworkCID :: string
  a_ArtworkURI :: string
  a_MetadataCID :: string
  a_MetadataURI :: string

section \<open>Requests and responses of the voucher and mint flows\<close>

record DelegateRequest =
  dr_VoucherID :: string
  dr_Mode :: DelegationMode
  dr_AccountEmail :: string
  dr_Name :: string
  dr_GuardianID :: int

record MintResolution =
  mr_WalletState :: ParticipantWalletState
  mr_WalletAddress :: string
  mr_Pending :: bool

record DelegateResponse =
  ds_ParticipantID :: int
  ds_VoucherID :: string
  ds_Mode :: DelegationMode
  ds_WalletState :: ParticipantWalletState
  ds_WalletAddress :: string
  ds_Pending :: bool

record RecordPendingMintRequest =
  rp_ParticipantID :: int
  rp_MintDate :: string
  rp_RideIDs :: "string list"
  rp_ScannedAts :: "int list"

end
