(* ===== verification/Services.thy ===== *)
theory Services
  imports Models
begin

text \<open>
  The state the program works on and the calls that reach it. Redis is a key space with
  values and expiry times; Postgres is the tables of \<^verbatim>\<open>migrations/\<close> with their
  sequences; Kafka is the messages of the two topics and the commit requests. Every call
  to a service consumes one entry of a \<open>schedule\<close> the program cannot see: how long the
  call takes and whether it is answered, is refused before it takes effect (\<open>Down\<close>), or
  takes effect with the answer lost (\<open>LostAck\<close>). Theorems quantify over all schedules,
  so they hold for every latency and every pattern of failures.

  What is not code of the repository is a field of \<open>environment\<close>, never defined here:
  fresh UUIDs, Postgres's conversions between dates, time stamps and text, the row Postgres
  returns for a \<^verbatim>\<open>LIMIT 1\<close> without an order and its collation of text, the time zone of the process, the
  draws of \<^verbatim>\<open>math/rand\<close> from a seed, and the replies of the Sui and Pinata endpoints (a function of the requests
  so far).
\<close>

section \<open>Redis: keys, values, expiry\<close>

datatype rvalue = RStr payload | RSet "string set"

type_synonym keyspace = "string \<rightharpoonup> (rvalue \<times> int option)"

definition RedisNil :: goerr where
  [sentinel_defs]: "RedisNil = Sentinel ''redis.Nil'' ''redis: nil''"

definition ErrNoRows :: goerr where
  [sentinel_defs]: "ErrNoRows = Sentinel ''sql.ErrNoRows'' ''sql: no rows in result set''"

definition wrongtype :: goerr where
  "wrongtype = Msg ''WRONGTYPE Operation against a key holding the wrong kind of value''"

text \<open>Keys whose expiry time has come are gone.\<close>

definition purge :: "int \<Rightarrow> keyspace \<Rightarrow> keyspace" where
  "purge now ks = (\<lambda>k. case ks k of
       Some (v, Some e) \<Rightarrow> if e \<le> now then None else ks k
     | r \<Rightarrow> r)"

definition r_GET :: "string \<Rightarrow> keyspace \<Rightarrow> goerr + payload" where
  "r_GET k ks = (case ks k of None \<Rightarrow> Inl RedisNil
     | Some (RStr p, _) \<Rightarrow> Inr p | Some (RSet _, _) \<Rightarrow> Inl wrongtype)"

definition r_SET :: "string \<Rightarrow> payload \<Rightarrow> int option \<Rightarrow> keyspace \<Rightarrow> keyspace" where
  "r_SET k p e ks = ks(k \<mapsto> (RStr p, e))"

definition r_SETNX :: "string \<Rightarrow> payload \<Rightarrow> int option \<Rightarrow> keyspace \<Rightarrow> bool \<times> keyspace" where
  "r_SETNX k p e ks = (if ks k = None then (True, r_SET k p e ks) else (False, ks))"

definition r_SET_KEEPTTL :: "string \<Rightarrow> payload \<Rightarrow> keyspace \<Rightarrow> keyspace" where
  "r_SET_KEEPTTL k p ks = r_SET k p (case ks k of None \<Rightarrow> None | Some (_, e) \<Rightarrow> e) ks"

definition r_DEL :: "string \<Rightarrow> keyspace \<Rightarrow> keyspace" where
  "r_DEL k ks = ks(k := None)"

definition r_SADD :: "string \<Rightarrow> string \<Rightarrow> keyspace \<Rightarrow> (goerr + unit) \<times> keyspace" where
  "r_SADD k m ks = (case ks k of
       None \<Rightarrow> (Inr (), ks(k \<mapsto> (RSet {m}, None)))
     | Some (RSet s, e) \<Rightarrow> (Inr (), ks(k \<mapsto> (RSet (insert m s), e)))
     | Some (RStr _, _) \<Rightarrow> (Inl wrongtype, ks))"

definition r_EXPIRE :: "string \<Rightarrow> int \<Rightarrow> int \<Rightarrow> keyspace \<Rightarrow> keyspace" where
  "r_EXPIRE k secs now ks = (case ks k of None \<Rightarrow> ks
     | Some (v, _) \<Rightarrow> if secs \<le> 0 then r_DEL k ks
                     else ks(k \<mapsto> (v, Some (now + secs * 1000))))"

definition r_SMEMBERS :: "string \<Rightarrow> keyspace \<Rightarrow> goerr + string set" where
  "r_SMEMBERS k ks = (case ks k of None \<Rightarrow> Inr {}
     | Some (RSet s, _) \<Rightarrow> Inr s | Some (RStr _, _) \<Rightarrow> Inl wrongtype)"

text \<open>A TTL in seconds as go-redis sends it: none for a TTL of zero.\<close>

definition ttl :: "int \<Rightarrow> int \<Rightarrow> int option" where
  "ttl now secs = (if secs > 0 then Some (now + secs * 1000) else None)"

section \<open>Postgres: the tables\<close>

record pending_row =
  pr_ID :: int
  pr_ParticipantID :: int
  pr_RideIDs :: "string list"
  pr_ScannedAts :: "int list"
  pr_MintDate :: int
  pr_WalletState :: ParticipantWalletState

record database =
  users :: "User list"
  users_seq :: int
  tickets :: "Ticket list"
  tickets_seq :: int
  ticket_vouchers :: "TicketVoucher list"
  vouchers_seq :: int
  scan_events :: "ScanRecord list"
  scan_seq :: int
  mint_logs :: "MintLog list"
  mint_seq :: int
  participants :: "Participant list"
  participants_seq :: int
  pending_mints :: "pending_row list"
  pending_seq :: int
  outbox :: "OutboxRow list"
  outbox_seq :: int

definition empty_database :: database where
  "empty_database = \<lparr>users = [], users_seq = 0, tickets = [], tickets_seq = 0,
     ticket_vouchers = [], vouchers_seq = 0, scan_events = [], scan_seq = 0,
     mint_logs = [], mint_seq = 0, participants = [], participants_seq = 0,
     pending_mints = [], pending_seq = 0, outbox = [], outbox_seq = 0\<rparr>"

definition unique_violation :: "string \<Rightarrow> goerr" where
  "unique_violation c = Msg (''duplicate key value violates unique constraint '' @ c)"

definition fk_violation :: "string \<Rightarrow> goerr" where
  "fk_violation c = Msg (''insert or update on table violates foreign key constraint '' @ c)"

definition too_long :: goerr where
  "too_long = Msg ''value too long for type character varying''"

definition bad_date :: goerr where
  "bad_date = Msg ''invalid input syntax for type date''"

text \<open>\<^verbatim>\<open>VARCHAR(n)\<close> counts characters: the bytes that do not continue a UTF-8 sequence.\<close>

definition char_length :: "string \<Rightarrow> nat" where
  "char_length s = length (filter (\<lambda>c. (of_char c :: nat) < 128 \<or> (192::nat) \<le> of_char c) s)"

definition varchar :: "nat \<Rightarrow> string \<Rightarrow> bool" where
  "varchar n s \<longleftrightarrow> char_length s \<le> n"

section \<open>Kafka\<close>

record kmessage =
  k_Key :: string
  k_Value :: payload
  k_Headers :: "(string \<times> string) list"
  k_Offset :: int

section \<open>The world\<close>

text \<open>An HTTP answer: its status, its body, and what a JSON decoder reads from the body.\<close>

record http_response =
  hr_Status :: int
  hr_Body :: string
  hr_JSON :: payload

text \<open>
  A request to an endpoint: a method of the Sui SDK with its parameters, a JSON body posted to
  a URL, or a file posted as a form.
\<close>

datatype rpc_request =
    Rpc string "(string \<times> json) list"
  | HttpPost string "(string \<times> string) list" json
  | HttpForm string "(string \<times> string) list" string string

record environment =
  env_uuid :: "nat \<Rightarrow> string"
  env_date_in :: "string \<Rightarrow> int option"
  env_date_out :: "int \<Rightarrow> string"
  env_ts_date :: "int \<Rightarrow> int"
  env_zone :: int
  env_pick :: "int list \<Rightarrow> int"
  env_title :: "string \<Rightarrow> string"
  env_intn :: "int \<Rightarrow> int \<Rightarrow> int"
  env_int31n :: "int \<Rightarrow> nat \<Rightarrow> int \<Rightarrow> int"
  env_collate :: "string \<Rightarrow> string \<Rightarrow> bool"
  env_order :: "(string \<times> int) list \<Rightarrow> (string \<times> int) list"
  env_rpc :: "rpc_request list \<Rightarrow> rpc_request \<Rightarrow> goerr + json"
  env_http :: "rpc_request list \<Rightarrow> rpc_request \<Rightarrow> goerr + http_response"

datatype outcome = Up | Down string | LostAck string

record world =
  env :: environment
  clock :: int
  schedule :: "(outcome \<times> nat) list"
  redis :: keyspace
  db :: database
  ride_scans :: "kmessage list"
  dlq :: "kmessage list"
  commits :: "kmessage list"
  uuid_next :: nat
  rpc_log :: "rpc_request list"
  inflight :: nat
  cid_cache :: "string \<rightharpoonup> RideAssets"

definition elapse :: "nat \<Rightarrow> world \<Rightarrow> world" where
  "elapse d w = w\<lparr>clock := clock w + int d, redis := purge (clock w + int d) (redis w)\<rparr>"

definition next_event :: "world \<Rightarrow> outcome \<times> world" where
  "next_event w = (case schedule w of [] \<Rightarrow> (Up, w)
     | (f, d) # rest \<Rightarrow> (f, elapse d (w\<lparr>schedule := rest\<rparr>)))"

definition call :: "(world \<Rightarrow> (goerr + 'a) \<times> world) \<Rightarrow> (world, 'a) go" where
  "call f = State (\<lambda>w. case next_event w of
       (Up, w1) \<Rightarrow> f w1
     | (Down t, w1) \<Rightarrow> (Inl (Msg t), w1)
     | (LostAck t, w1) \<Rightarrow> (Inl (Msg t), snd (f w1)))"

text \<open>A Redis command and an SQL statement, as calls.\<close>

definition redis_call :: "(int \<Rightarrow> keyspace \<Rightarrow> (goerr + 'a) \<times> keyspace) \<Rightarrow> (world, 'a) go" where
  "redis_call cmd = call (\<lambda>w. case cmd (clock w) (redis w) of (r, ks) \<Rightarrow> (r, w\<lparr>redis := ks\<rparr>))"

definition sql :: "(environment \<Rightarrow> int \<Rightarrow> database \<Rightarrow> (goerr + 'a) \<times> database) \<Rightarrow> (world, 'a) go" where
  "sql stmt = call (\<lambda>w. case stmt (env w) (clock w) (db w) of (r, d) \<Rightarrow> (r, w\<lparr>db := d\<rparr>))"

text \<open>A request to an endpoint, as a call; the endpoint keeps what it has been asked.\<close>

definition sdk :: "rpc_request \<Rightarrow> (world, json) go" where
  "sdk req = call (\<lambda>w. (env_rpc (env w) (rpc_log w) req, w\<lparr>rpc_log := rpc_log w @ [req]\<rparr>))"

definition http :: "rpc_request \<Rightarrow> (world, http_response) go" where
  "http req = call (\<lambda>w. (env_http (env w) (rpc_log w) req, w\<lparr>rpc_log := rpc_log w @ [req]\<rparr>))"

text \<open>No failures and no time passing: the calls that remain are answered at once.\<close>

definition quiet :: "world \<Rightarrow> bool" where
  "quiet w \<longleftrightarrow> schedule w = []"

lemma next_event_quiet [simp]: "quiet w \<Longrightarrow> next_event w = (Up, w)"
  by (simp add: next_event_def quiet_def)

lemma run_call_quiet [simp]: "quiet w \<Longrightarrow> run_state (call f) w = f w"
  by (simp add: call_def)

lemma run_redis_call_quiet [simp]:
  "quiet w \<Longrightarrow> run_state (redis_call cmd) w =
     (case cmd (clock w) (redis w) of (r, ks) \<Rightarrow> (r, w\<lparr>redis := ks\<rparr>))"
  by (simp add: redis_call_def)

lemma run_sql_quiet [simp]:
  "quiet w \<Longrightarrow> run_state (sql stmt) w =
     (case stmt (env w) (clock w) (db w) of (r, d) \<Rightarrow> (r, w\<lparr>db := d\<rparr>))"
  by (simp add: sql_def)

lemma run_sdk_quiet [simp]:
  "quiet w \<Longrightarrow> run_state (sdk req) w =
     (env_rpc (env w) (rpc_log w) req, w\<lparr>rpc_log := rpc_log w @ [req]\<rparr>)"
  by (simp add: sdk_def)

lemma run_http_quiet [simp]:
  "quiet w \<Longrightarrow> run_state (http req) w =
     (env_http (env w) (rpc_log w) req, w\<lparr>rpc_log := rpc_log w @ [req]\<rparr>)"
  by (simp add: http_def)

lemma quiet_update [simp]:
  "quiet (w\<lparr>redis := ks\<rparr>) = quiet w"
  "quiet (w\<lparr>db := d\<rparr>) = quiet w"
  "quiet (w\<lparr>ride_scans := t\<rparr>) = quiet w"
  "quiet (w\<lparr>dlq := t\<rparr>) = quiet w"
  "quiet (w\<lparr>commits := t\<rparr>) = quiet w"
  "quiet (w\<lparr>uuid_next := n\<rparr>) = quiet w"
  "quiet (w\<lparr>rpc_log := l\<rparr>) = quiet w"
  "quiet (w\<lparr>inflight := n\<rparr>) = quiet w"
  "quiet (w\<lparr>cid_cache := c\<rparr>) = quiet w"
  by (simp_all add: quiet_def)

lemma elapse_sel [simp]:
  "quiet (elapse d w) = quiet w" "db (elapse d w) = db w" "env (elapse d w) = env w"
  "clock (elapse d w) = clock w + int d" "schedule (elapse d w) = schedule w"
  "redis (elapse d w) = purge (clock w + int d) (redis w)"
  "ride_scans (elapse d w) = ride_scans w" "dlq (elapse d w) = dlq w"
  "commits (elapse d w) = commits w" "rpc_log (elapse d w) = rpc_log w"
  "inflight (elapse d w) = inflight w" "cid_cache (elapse d w) = cid_cache w"
  by (simp_all add: elapse_def quiet_def)

text \<open>The three ways a call can end, and the invariants calls keep.\<close>

lemma run_call_cases:
  assumes "run_state (call f) w = (r, w')"
  obtains (up) w1 where "next_event w = (Up, w1)" "f w1 = (r, w')"
  | (down) t where "next_event w = (Down t, w')" "r = Inl (Msg t)"
  | (lost) t w1 where "next_event w = (LostAck t, w1)" "r = Inl (Msg t)" "w' = snd (f w1)"
  using assms by (auto simp: call_def split: prod.splits outcome.splits)

definition stable :: "(world \<Rightarrow> bool) \<Rightarrow> bool" where
  "stable I \<longleftrightarrow> (\<forall>w f w'. I w \<longrightarrow> next_event w = (f, w') \<longrightarrow> I w')"

text \<open>An invariant that does not depend on what the schedule still holds.\<close>

definition timeless :: "(world \<Rightarrow> bool) \<Rightarrow> bool" where
  "timeless I \<longleftrightarrow> (\<forall>w d rest. I w \<longrightarrow> I (elapse d (w\<lparr>schedule := rest\<rparr>)))"

lemma stable_next: "stable I \<Longrightarrow> I w \<Longrightarrow> next_event w = (f, w') \<Longrightarrow> I w'"
  unfolding stable_def by blast

lemma timeless_stable: "timeless I \<Longrightarrow> stable I"
  unfolding stable_def timeless_def by (auto simp: next_event_def split: list.splits)

lemma timeless_elapse: "timeless I \<Longrightarrow> I w \<Longrightarrow> I (elapse d w)"
  unfolding timeless_def
  by (drule spec [of _ w], drule spec [of _ d], drule spec [of _ "schedule w"]) simp

lemma keeps_call:
  assumes "stable I" and "\<And>w. I w \<Longrightarrow> I (snd (f w))"
  shows "keeps I (call f)"
proof (rule keepsI)
  fix w
  assume "I w"
  obtain o1 w1 where ev: "next_event w = (o1, w1)" by fastforce
  with assms(1) \<open>I w\<close> have "I w1" by (rule stable_next)
  with assms(2) ev show "I (snd (run_state (call f) w))"
    by (cases o1) (simp_all add: call_def)
qed

lemma keeps_redis_call:
  assumes "stable I"
    and "\<And>w r ks. I w \<Longrightarrow> cmd (clock w) (redis w) = (r, ks) \<Longrightarrow> I (w\<lparr>redis := ks\<rparr>)"
  shows "keeps I (redis_call cmd)"
  unfolding redis_call_def using assms by (intro keeps_call) (auto split: prod.split)

lemma keeps_sql:
  assumes "stable I"
    and "\<And>w r d. I w \<Longrightarrow> stmt (env w) (clock w) (db w) = (r, d) \<Longrightarrow> I (w\<lparr>db := d\<rparr>)"
  shows "keeps I (sql stmt)"
  unfolding sql_def using assms by (intro keeps_call) (auto split: prod.split)

text \<open>An invariant of one service is untouched by calls to another.\<close>

lemma keeps_sql_frame:
  "stable I \<Longrightarrow> (\<And>w d. I (w\<lparr>db := d\<rparr>) = I w) \<Longrightarrow> keeps I (sql stmt)"
  by (rule keeps_sql) auto

lemma keeps_redis_frame:
  "stable I \<Longrightarrow> (\<And>w ks. I (w\<lparr>redis := ks\<rparr>) = I w) \<Longrightarrow> keeps I (redis_call cmd)"
  by (rule keeps_redis_call) auto

lemma stable_db: "stable (\<lambda>w. J (db w))"
  by (rule timeless_stable) (simp add: timeless_def)

lemma purge_purge: "now \<le> now' \<Longrightarrow> purge now' (purge now ks) = purge now' ks"
  by (rule ext) (auto simp: purge_def split: option.splits)

lemma purge_cases: "purge now ks k = ks k \<or> purge now ks k = None"
  by (auto simp: purge_def split: option.splits)

lemma purge_Some: "purge now ks k = Some (v, e) \<longleftrightarrow>
    ks k = Some (v, e) \<and> (\<forall>t. e = Some t \<longrightarrow> now < t)"
  by (auto simp: purge_def split: option.splits)

lemma purge_None: "purge now ks k = None \<longleftrightarrow>
    ks k = None \<or> (\<exists>v t. ks k = Some (v, Some t) \<and> t \<le> now)"
  by (auto simp: purge_def split: option.splits)

section \<open>A concrete environment\<close>

text \<open>
  An environment on which the statements can be evaluated: numbered UUIDs, ISO dates, the
  zone UTC, and endpoints that refuse every request.
\<close>

definition days_from_civil :: "int \<Rightarrow> int \<Rightarrow> int \<Rightarrow> int" where
  "days_from_civil y0 m d =
     (let y = (if m \<le> 2 then y0 - 1 else y0);
          era = y div 400;
          yoe = y - era * 400;
          doy = (153 * (if m > 2 then m - 3 else m + 9) + 2) div 5 + d - 1;
          doe = yoe * 365 + yoe div 4 - yoe div 100 + doy
      in era * 146097 + doe - 719468)"

definition parse_date :: "string \<Rightarrow> int option" where
  "parse_date s =
     (if length s = 10 \<and> s ! 4 = CHR ''-'' \<and> s ! 7 = CHR ''-'' \<and>
         list_all is_digit (take 4 s) \<and> list_all is_digit (take 2 (drop 5 s)) \<and>
         list_all is_digit (drop 8 s)
      then (let d = days_from_civil (int (read_nat (take 4 s)))
                 (int (read_nat (take 2 (drop 5 s)))) (int (read_nat (drop 8 s)))
            in if date_text d = s then Some d else None)
      else None)"

definition plain_environment :: environment where
  "plain_environment = \<lparr>env_uuid = (\<lambda>n. ''uuid-'' @ show_nat n), env_date_in = parse_date,
     env_date_out = date_text, env_ts_date = (\<lambda>ms. ms div 86400000), env_zone = 0, env_pick = hd,
     env_title = (\<lambda>s. s), env_intn = (\<lambda>seed n. seed mod n),
     env_int31n = (\<lambda>seed k n. (seed + int k) mod n), env_collate = bytes_le, env_order = (\<lambda>rows. rows), env_rpc = (\<lambda>_ _. Inl (Msg ''connection refused'')),
     env_http = (\<lambda>_ _. Inl (Msg ''connection refused''))\<rparr>"

definition start_world :: "environment \<Rightarrow> int \<Rightarrow> (outcome \<times> nat) list \<Rightarrow> world" where
  "start_world e now sch = \<lparr>env = e, clock = now, schedule = sch, redis = Map.empty,
     db = empty_database, ride_scans = [], dlq = [], commits = [], uuid_next = 0, rpc_log = [],
     inflight = 0, cid_cache = Map.empty\<rparr>"

lemma start_world_sel [simp]:
  "env (start_world e now sch) = e" "clock (start_world e now sch) = now"
  "schedule (start_world e now sch) = sch" "redis (start_world e now sch) = Map.empty"
  "db (start_world e now sch) = empty_database" "rpc_log (start_world e now sch) = []"
  "inflight (start_world e now sch) = 0" "cid_cache (start_world e now sch) = Map.empty"
  "quiet (start_world e now sch) \<longleftrightarrow> sch = []"
  by (simp_all add: start_world_def quiet_def)

lemma parse_date_example: "parse_date ''2026-08-13'' = Some 20678"
  by code_simp

end
