(* ===== verification/Config.thy ===== *)
theory Config
  imports Go_Runtime
begin

text \<open>
  \<^verbatim>\<open>internal/config/config.go\<close>: the configuration structs and the functions on
  them. Reading the environment (viper and envconfig) is third-party code; what the
  functions below see of it is the process environment, a function from names to values
  with the empty string for a variable that is not set.
\<close>

section \<open>Splitting and joining\<close>

fun split_char :: "char \<Rightarrow> string \<Rightarrow> string list" where
  "split_char c [] = [[]]"
| "split_char c (x # xs) =
     (if x = c then [] # split_char c xs
      else (case split_char c xs of [] \<Rightarrow> [[x]] | t # ts \<Rightarrow> (x # t) # ts))"

lemma split_char_nonempty [simp]: "split_char c s \<noteq> []"
  by (induction s) (auto split: list.split)

lemma join_split_char: "join [c] (split_char c s) = s"
proof (induction s)
  case (Cons x xs)
  obtain t ts where *: "split_char c xs = t # ts" by (cases "split_char c xs") auto
  then show ?case using Cons by (cases ts) auto
qed simp

lemma split_char_no_sep: "t \<in> set (split_char c s) \<Longrightarrow> c \<notin> set t"
proof (induction s arbitrary: t)
  case (Cons x xs)
  then show ?case by (cases "split_char c xs") (auto split: if_splits)
qed simp

section \<open>Configuration structs\<close>

record AppConfig =
  ap_Env :: string
  ap_Name :: string
  ap_Port :: int
  ap_LogLevel :: string

record DemoConfig =
  dc_Port :: int
  dc_ProbeAmountMist :: string

record PostgresConfig =
  pc_Host :: string
  pc_Port :: int
  pc_User :: string
  pc_Password :: string
  pc_DB :: string
  pc_SSLMode :: string
  pc_MaxConns :: int

record RedisConfig =
  rc_Host :: string
  rc_Port :: int
  rc_Password :: string
  rc_DB :: int
  rc_DedupTTLSec :: int
  rc_GraceWindowSec :: int
  rc_AggTTLSec :: int

record KafkaConfig =
  kc_Brokers :: string
  kc_TopicRideScans :: string
  kc_TopicDLQ :: string
  kc_ConsumerGroup :: string
  kc_Partitions :: int
  kc_Replication :: int
  kc_RetentionMS :: int
  kc_ProducerAsync :: bool
  kc_ConsumerMaxRetries :: int
  kc_ConsumerBackoffMS :: int

record GateConfig =
  gc_HMACSecret :: string
  gc_QRRotationSeconds :: int
  gc_TxnCheckFailWhen :: string

record SuiConfig =
  sc_RPCURL :: string
  sc_Network :: string
  sc_PackageID :: string
  sc_MintCapID :: string
  sc_GasPoolMnemonic :: string
  sc_GasBudget :: string
  sc_RPCMaxConcurrency :: int
  sc_RPCMaxRetries :: int

record AuthConfig =
  ac_GoogleOAuthClientID :: string
  ac_GoogleOAuthClientSecret :: string
  ac_EncryptionKey :: string
  ac_DeterministicWalletSecret :: string

record OTelConfig =
  ot_ExporterEndpoint :: string
  ot_ServiceName :: string
  ot_DDAPIKey :: string
  ot_DDSite :: string

record PinataConfig =
  pi_APIKey :: string
  pi_APISecret :: string
  pi_JWT :: string
  pi_Gateway :: string

record AWSConfig =
  aw_Region :: string
  aw_ECRRegistry :: string
  aw_EC2InstanceID :: string

record Config =
  cf_App :: AppConfig
  cf_Postgres :: PostgresConfig
  cf_Redis :: RedisConfig
  cf_Kafka :: KafkaConfig
  cf_Gate :: GateConfig
  cf_Sui :: SuiConfig
  cf_Auth :: AuthConfig
  cf_Pinata :: PinataConfig
  cf_OTel :: OTelConfig
  cf_AWS :: AWSConfig
  cf_Demo :: DemoConfig

definition DSN :: "PostgresConfig \<Rightarrow> string" where
  "DSN p = ''host='' @ pc_Host p @ '' port='' @ show_int (pc_Port p) @ '' user='' @ pc_User p
     @ '' password='' @ pc_Password p @ '' dbname='' @ pc_DB p @ '' sslmode='' @ pc_SSLMode p"

definition Addr :: "RedisConfig \<Rightarrow> string" where
  "Addr r = rc_Host r @ '':'' @ show_int (rc_Port r)"

definition BrokerList :: "KafkaConfig \<Rightarrow> string list" where
  "BrokerList k = split_char (CHR '','') (kc_Brokers k)"

definition Validate :: "(string \<Rightarrow> string) \<Rightarrow> string list \<Rightarrow> goerr option" where
  "Validate getenv required =
     (let missing = filter (\<lambda>key. getenv key = []) required
      in if length missing > 0
         then Some (Msg (''required environment variables missing: '' @ join '', '' missing))
         else None)"

definition Config_String :: "Config \<Rightarrow> string" where
  "Config_String c = ''Config{App='' @ ap_Name (cf_App c) @ '', PG='' @ pc_Host (cf_Postgres c) @ '':'' @
     show_int (pc_Port (cf_Postgres c)) @ '', Redis='' @ rc_Host (cf_Redis c) @ '':'' @
     show_int (rc_Port (cf_Redis c)) @ '', Kafka='' @ kc_Brokers (cf_Kafka c) @ '', Sui='' @
     sc_Network (cf_Sui c) @ ''}''"

section \<open>Reading the environment\<close>

text \<open>
  \<^verbatim>\<open>strings.ToUpper\<close> and \<^verbatim>\<open>strconv.Atoi\<close> on ASCII text. The environment maps the
  names that are set to their values; \<^verbatim>\<open>os.Getenv\<close> gives the empty string for the others.
\<close>

definition upper :: "char \<Rightarrow> char" where
  "upper c = (let n = of_char c :: nat in if 97 \<le> n \<and> n \<le> 122 then char_of (n - 32) else c)"

definition atoi :: "string \<Rightarrow> int option" where
  "atoi s =
     (let sign = take 1 s;
          digits = (if sign = ''-'' \<or> sign = ''+'' then drop 1 s else s);
          n = (if sign = ''-'' then - int (read_nat digits) else int (read_nat digits))
      in if digits \<noteq> [] \<and> list_all is_digit digits \<and> in_int64 n then Some n else None)"

definition Getenv :: "(string \<rightharpoonup> string) \<Rightarrow> string \<Rightarrow> string" where
  "Getenv env name = (case env name of None \<Rightarrow> [] | Some v \<Rightarrow> v)"

definition ParseInt :: "(string \<rightharpoonup> string) \<Rightarrow> string \<Rightarrow> int \<Rightarrow> int" where
  "ParseInt env name def =
     (let v = Getenv env name
      in if v \<noteq> [] then (case atoi v of Some n \<Rightarrow> n | None \<Rightarrow> def) else def)"

text \<open>
  \<^verbatim>\<open>Load\<close>: the keys that viper read from \<^verbatim>\<open>.env\<close>, with their values, go to the
  environment unless they are set there; envconfig fills the structs from the result. \<open>process\<close>
  is envconfig.
\<close>

fun copy_keys :: "(string \<times> string) list \<Rightarrow> (string \<rightharpoonup> string) \<Rightarrow> (string \<rightharpoonup> string)" where
  "copy_keys [] env = env"
| "copy_keys ((key, v) # rest) env =
     copy_keys rest (if env (map upper key) = None then env(map upper key \<mapsto> v) else env)"

definition Load :: "((string \<rightharpoonup> string) \<Rightarrow> goerr + Config) \<Rightarrow> (string \<times> string) list \<Rightarrow>
    (string \<rightharpoonup> string) \<Rightarrow> goerr + Config" where
  "Load process dotenv env = (case process (copy_keys dotenv env) of
       Inl err \<Rightarrow> Inl (wrapf ''envconfig: '' err)
     | Inr cfg \<Rightarrow> Inr cfg)"

text \<open>A panic is the value \<open>None\<close>.\<close>

definition MustLoad :: "((string \<rightharpoonup> string) \<Rightarrow> goerr + Config) \<Rightarrow> (string \<times> string) list \<Rightarrow>
    (string \<rightharpoonup> string) \<Rightarrow> Config option" where
  "MustLoad process dotenv env = (case Load process dotenv env of Inl _ \<Rightarrow> None | Inr cfg \<Rightarrow> Some cfg)"

text \<open>The process environment always wins; a key of \<^verbatim>\<open>.env\<close> fills a variable that is not set.\<close>

lemma copy_keys_set: "env name = Some v \<Longrightarrow> copy_keys dotenv env name = Some v"
proof (induction dotenv arbitrary: env)
  case (Cons kv rest)
  obtain key va where kv: "kv = (key, va)" by fastforce
  show ?case
  proof (cases "env (map upper key) = None")
    case True
    with Cons.prems have "(env(map upper key \<mapsto> va)) name = Some v" by auto
    then have "copy_keys rest (env(map upper key \<mapsto> va)) name = Some v" by (rule Cons.IH)
    with True kv show ?thesis by simp
  next
    case False
    with Cons kv show ?thesis by auto
  qed
qed simp

lemma copy_keys_dom: "dom (copy_keys dotenv env) = dom env \<union> (map upper \<circ> fst) ` set dotenv"
  by (induction dotenv env rule: copy_keys.induct) (auto split: if_splits)

lemma atoi_show_int: "in_int64 n \<Longrightarrow> atoi (show_int n) = Some n"
proof -
  have "take 1 (show_nat m) \<noteq> ''-'' \<and> take 1 (show_nat m) \<noteq> ''+''" for m
    using hd_show_nat [of m] by (cases "show_nat m") (auto simp: is_digit_def)
  then show "in_int64 n \<Longrightarrow> atoi (show_int n) = Some n"
    using digits_show_nat by (auto simp: atoi_def show_int_def)
qed

text \<open>The defaults of the struct tags that the properties refer to.\<close>

definition default_RedisConfig :: RedisConfig where
  "default_RedisConfig = \<lparr>rc_Host = ''localhost'', rc_Port = 6379, rc_Password = [], rc_DB = 0, rc_DedupTTLSec = 300,
     rc_GraceWindowSec = 5, rc_AggTTLSec = 172800\<rparr>"

definition default_GateConfig :: "string \<Rightarrow> GateConfig" where
  "default_GateConfig secret =
     \<lparr>gc_HMACSecret = secret, gc_QRRotationSeconds = 30, gc_TxnCheckFailWhen = ''''\<rparr>"

definition default_KafkaConfig :: KafkaConfig where
  "default_KafkaConfig = \<lparr>kc_Brokers = ''localhost:29092'', kc_TopicRideScans = ''ride-scans'',
     kc_TopicDLQ = ''ride-scans-dlq'', kc_ConsumerGroup = ''ride-scan-consumers'', kc_Partitions = 6,
     kc_Replication = 1, kc_RetentionMS = 604800000, kc_ProducerAsync = False, kc_ConsumerMaxRetries = 3, kc_ConsumerBackoffMS = 500\<rparr>"

lemma Validate_ok_iff: "Validate getenv required = None \<longleftrightarrow> (\<forall>k \<in> set required. getenv k \<noteq> [])"
  by (auto simp: Validate_def filter_empty_conv Let_def)

end
