(* ===== verification/Redis_Client.thy ===== *)
theory Redis_Client
  imports Services Config
begin

text \<open>
  \<^verbatim>\<open>internal/redis/client.go\<close>: the Redis client of the engine. Every method is the
  sequence of commands the source sends, with its error handling; the two Lua scripts are
  functions of the key space because Redis runs them atomically. The central notion is
  \<open>index_ok\<close>: the forward key of a wristband and the reverse key of its ticket point at
  each other and expire together.
\<close>

section \<open>Errors and keys\<close>

definition ErrWristbandAlreadyBound :: goerr where
  [sentinel_defs]: "ErrWristbandAlreadyBound =
     Sentinel ''redis.ErrWristbandAlreadyBound'' ''wristband already bound''"

definition ErrTicketAlreadyBound :: goerr where
  [sentinel_defs]: "ErrTicketAlreadyBound =
     Sentinel ''redis.ErrTicketAlreadyBound'' ''ticket already bound''"

definition ErrBindingNotFound :: goerr where
  [sentinel_defs]: "ErrBindingNotFound =
     Sentinel ''redis.ErrBindingNotFound'' ''binding not found''"

definition bindingKey :: "string \<Rightarrow> string" where
  "bindingKey uid = ''bind:wristband:'' @ uid"

definition ticketKey :: "string \<Rightarrow> string" where
  "ticketKey ticketID = ''bind:ticket:'' @ ticketID"

definition dedupKey :: "string \<Rightarrow> string" where
  "dedupKey traceID = ''dedup:'' @ traceID"

definition rideSetKey :: "string \<Rightarrow> string \<Rightarrow> string" where
  "rideSetKey userID date = ''user:'' @ userID @ '':rides:'' @ date"

definition graceKey :: "string \<Rightarrow> string" where
  "graceKey ticketID = ''grace:'' @ ticketID"

definition qrKey :: "string \<Rightarrow> string" where
  "qrKey uuid = ''qr:'' @ uuid"

definition wristbandGraceKey :: "string \<Rightarrow> string" where
  "wristbandGraceKey uid = ''gracewb:'' @ uid"

lemmas key_defs = bindingKey_def ticketKey_def dedupKey_def rideSetKey_def graceKey_def
  qrKey_def wristbandGraceKey_def

lemma keys_inject [simp]:
  "bindingKey u = bindingKey u' \<longleftrightarrow> u = u'"
  "ticketKey t = ticketKey t' \<longleftrightarrow> t = t'"
  "dedupKey d = dedupKey d' \<longleftrightarrow> d = d'"
  "graceKey t = graceKey t' \<longleftrightarrow> t = t'"
  "qrKey q = qrKey q' \<longleftrightarrow> q = q'"
  "wristbandGraceKey u = wristbandGraceKey u' \<longleftrightarrow> u = u'"
  by (simp_all add: key_defs)

lemma keys_disjoint [simp]:
  "bindingKey u \<noteq> ticketKey t" "ticketKey t \<noteq> bindingKey u"
  "dedupKey d \<noteq> rideSetKey a b" "rideSetKey a b \<noteq> dedupKey d"
  "qrKey q \<noteq> bindingKey u" "bindingKey u \<noteq> qrKey q"
  "qrKey q \<noteq> ticketKey t" "ticketKey t \<noteq> qrKey q"
  "wristbandGraceKey u \<noteq> bindingKey u'" "bindingKey u' \<noteq> wristbandGraceKey u"
  "wristbandGraceKey u \<noteq> ticketKey t" "ticketKey t \<noteq> wristbandGraceKey u"
  "qrKey q \<noteq> wristbandGraceKey u" "wristbandGraceKey u \<noteq> qrKey q"
  "dedupKey d \<noteq> qrKey q" "qrKey q \<noteq> dedupKey d"
  "dedupKey d \<noteq> bindingKey u" "bindingKey u \<noteq> dedupKey d"
  "dedupKey d \<noteq> ticketKey t" "ticketKey t \<noteq> dedupKey d"
  "rideSetKey a b \<noteq> bindingKey u" "bindingKey u \<noteq> rideSetKey a b"
  "rideSetKey a b \<noteq> ticketKey t" "ticketKey t \<noteq> rideSetKey a b"
  "rideSetKey a b \<noteq> qrKey q" "qrKey q \<noteq> rideSetKey a b"
  "graceKey g \<noteq> bindingKey u" "bindingKey u \<noteq> graceKey g"
  "graceKey g \<noteq> ticketKey t" "ticketKey t \<noteq> graceKey g"
  by (simp_all add: key_defs)

section \<open>The commands the client sends\<close>

definition rdb_Get :: "string \<Rightarrow> (world, payload) go" where
  "rdb_Get k = redis_call (\<lambda>now ks. (r_GET k ks, ks))"

definition rdb_Set :: "string \<Rightarrow> payload \<Rightarrow> int \<Rightarrow> (world, unit) go" where
  "rdb_Set k p secs = redis_call (\<lambda>now ks. (Inr (), r_SET k p (ttl now secs) ks))"

definition rdb_SetNX :: "string \<Rightarrow> payload \<Rightarrow> int \<Rightarrow> (world, bool) go" where
  "rdb_SetNX k p secs = redis_call (\<lambda>now ks.
     if secs < 0 then (Inl (Msg ''ERR invalid expire time in set command''), ks)
     else case r_SETNX k p (ttl now secs) ks of (ok, ks') \<Rightarrow> (Inr ok, ks'))"

definition rdb_SetKeepTTL :: "string \<Rightarrow> payload \<Rightarrow> (world, unit) go" where
  "rdb_SetKeepTTL k p = redis_call (\<lambda>now ks. (Inr (), r_SET_KEEPTTL k p ks))"

definition rdb_Del :: "string \<Rightarrow> (world, unit) go" where
  "rdb_Del k = redis_call (\<lambda>now ks. (Inr (), r_DEL k ks))"

definition rdb_SAdd :: "string \<Rightarrow> string \<Rightarrow> (world, unit) go" where
  "rdb_SAdd k m = redis_call (\<lambda>now ks. r_SADD k m ks)"

definition rdb_Expire :: "string \<Rightarrow> int \<Rightarrow> (world, unit) go" where
  "rdb_Expire k secs = redis_call (\<lambda>now ks. (Inr (), r_EXPIRE k secs now ks))"

definition rdb_SMembers :: "string \<Rightarrow> (world, string set) go" where
  "rdb_SMembers k = redis_call (\<lambda>now ks. (r_SMEMBERS k ks, ks))"

lemmas rdb_defs = rdb_Get_def rdb_Set_def rdb_SetNX_def rdb_SetKeepTTL_def rdb_Del_def
  rdb_SAdd_def rdb_Expire_def rdb_SMembers_def

lemmas r_defs = r_GET_def r_SET_def r_SETNX_def r_SET_KEEPTTL_def r_DEL_def r_SADD_def
  r_EXPIRE_def r_SMEMBERS_def

section \<open>Deduplication and the daily ride sets\<close>

definition IsDuplicate :: "RedisConfig \<Rightarrow> string \<Rightarrow> (world, bool) go" where
  "IsDuplicate cfg traceID =
     check (rdb_SetNX (dedupKey traceID) (Text ''1'') (rc_DedupTTLSec cfg))
       (wrapf ''redis setnx dedup: '') (\<lambda>ok. returns (\<not> ok))"

definition ClearDedup :: "string \<Rightarrow> (world, unit) go" where
  "ClearDedup traceID = check (rdb_Del (dedupKey traceID)) (wrapf ''clear dedup: '') returns"

definition AddRideToUserSet ::
    "RedisConfig \<Rightarrow> string \<Rightarrow> string \<Rightarrow> string \<Rightarrow> (world, unit) go" where
  "AddRideToUserSet cfg userID rideID date =
     check (rdb_SAdd (rideSetKey userID date) rideID) (wrapf ''sadd ride set: '')
       (\<lambda>_. rdb_Expire (rideSetKey userID date) (rc_AggTTLSec cfg))"

definition GetUserRides :: "string \<Rightarrow> string \<Rightarrow> (world, string set) go" where
  "GetUserRides userID date = rdb_SMembers (rideSetKey userID date)"

section \<open>The ticket grace window, one-time QR codes and the wristband grace window\<close>

definition SetGraceWindow :: "RedisConfig \<Rightarrow> string \<Rightarrow> payload \<Rightarrow> (world, unit) go" where
  "SetGraceWindow cfg ticketID result = rdb_Set (graceKey ticketID) result (rc_GraceWindowSec cfg)"

definition GetGraceWindow :: "string \<Rightarrow> (world, payload) go" where
  "GetGraceWindow ticketID =
     on_err (rdb_Get (graceKey ticketID))
       (\<lambda>err. if err = RedisNil then returns (Text '''') else fails err) returns"

definition MarkQRUsed :: "RedisConfig \<Rightarrow> string \<Rightarrow> (world, bool) go" where
  "MarkQRUsed cfg uuid =
     check (rdb_SetNX (qrKey uuid) (Text ''1'') (rc_GraceWindowSec cfg + 30))
       (wrapf ''mark qr used: '') returns"

definition SetWristbandGrace :: "RedisConfig \<Rightarrow> string \<Rightarrow> payload \<Rightarrow> (world, unit) go" where
  "SetWristbandGrace cfg uid decision =
     rdb_Set (wristbandGraceKey uid) decision (rc_GraceWindowSec cfg)"

definition GetWristbandGrace :: "string \<Rightarrow> (world, payload) go" where
  "GetWristbandGrace uid =
     on_err (rdb_Get (wristbandGraceKey uid))
       (\<lambda>err. if err = RedisNil then returns (Text '''') else fails err) returns"

definition ClearWristbandGrace :: "string \<Rightarrow> (world, unit) go" where
  "ClearWristbandGrace uid = rdb_Del (wristbandGraceKey uid)"

definition FlushDB :: "(world, unit) go" where
  "FlushDB = check (redis_call (\<lambda>now ks. (Inr (), Map.empty))) (wrapf ''flushdb: '') returns"

section \<open>The wristband binding\<close>

text \<open>
  \<^verbatim>\<open>bindingExpiry()\<close>: midnight at the start of day+2 in the local zone, less one
  nanosecond; its Unix time in whole seconds.
\<close>

definition bindingExpiry_Unix :: "int \<Rightarrow> int \<Rightarrow> int" where
  "bindingExpiry_Unix off ms =
     (let midnight = (day_of off ms + 2) * 86400 - off;
          end_ns = midnight * 1000000000 - 1
      in end_ns div 1000000000)"

definition bindScript :: "string \<Rightarrow> string \<Rightarrow> payload \<Rightarrow> int \<Rightarrow> string \<Rightarrow> keyspace \<Rightarrow>
    (goerr + unit) \<times> keyspace" where
  "bindScript key1 key2 argv1 argv2 argv3 ks =
     (if ks key2 \<noteq> None then (Inl (Msg ''ticket already bound''), ks)
      else case r_SETNX key1 argv1 (Some (argv2 * 1000)) ks of
          (False, _) \<Rightarrow> (Inl (Msg ''wristband already bound''), ks)
        | (True, ks1) \<Rightarrow> (Inr (), r_SET key2 (Text argv3) (Some (argv2 * 1000)) ks1))"

text \<open>
  The Lua script reads the binding, deletes the forward key, then decodes what it read;
  decoding text that is not JSON, indexing a value that has no fields, or joining a value
  that is neither string nor number, raises an error after the forward key is gone.
  (Indexing a Lua string or an array finds no field. A number is joined as Lua prints it,
  which is its decimal form below \<^verbatim>\<open>10^14\<close>.)
\<close>

definition deleteBindingScript :: "string \<Rightarrow> keyspace \<Rightarrow> (goerr + unit) \<times> keyspace" where
  "deleteBindingScript key1 ks = (case r_GET key1 ks of
       Inl err \<Rightarrow> if err = RedisNil then (Inr (), r_DEL key1 ks) else (Inl err, ks)
     | Inr tid \<Rightarrow> (let ks1 = r_DEL key1 ks in case tid of
           Json (JObj fs) \<Rightarrow> (case map_of (rev fs) ''ticket_id'' of
               None \<Rightarrow> (Inr (), ks1)
             | Some (JStr t) \<Rightarrow> (Inr (), r_DEL (''bind:ticket:'' @ t) ks1)
             | Some (JNum n) \<Rightarrow> (Inr (), r_DEL (''bind:ticket:'' @ show_int n) ks1)
             | Some (JBool False) \<Rightarrow> (Inr (), ks1)
             | Some _ \<Rightarrow> (Inl (Msg ''ERR attempt to concatenate''), ks1))
         | Json (JArr _) \<Rightarrow> (Inr (), ks1)
         | Json (JStr _) \<Rightarrow> (Inr (), ks1)
         | Json (JBool False) \<Rightarrow> (Inr (), ks1)
         | Json _ \<Rightarrow> (Inl (Msg ''ERR attempt to index a value''), ks1)
         | Text _ \<Rightarrow> (Inl (Msg ''ERR Expected value but found invalid token''), ks1)))"

definition BindWristband :: "string \<Rightarrow> string \<Rightarrow> string \<Rightarrow> (world, unit) go" where
  "BindWristband uid ticketID userEmail = do {
     now \<leftarrow> gets clock;
     off \<leftarrow> gets (env_zone \<circ> env);
     let b = \<lparr>wb_WristbandUID = uid, wb_TicketID = ticketID, wb_UserEmail = userEmail,
              wb_Status = BindingStatusBinding, wb_BoundAt = Unix now\<rparr>;
     let val = marshal_WristbandBinding b;
     let expir = bindingExpiry_Unix off now;
     on_err (redis_call (\<lambda>_. bindScript (bindingKey uid) (ticketKey ticketID) val expir uid))
       (\<lambda>err. if contains (Error err) ''ticket already bound'' then fails ErrTicketAlreadyBound
              else if contains (Error err) ''wristband already bound''
              then fails ErrWristbandAlreadyBound
              else fails (wrapf ''bind wristband: '' err))
       (\<lambda>_. returns ())
   }"

definition GetBinding :: "string \<Rightarrow> (world, WristbandBinding option) go" where
  "GetBinding uid =
     on_err (rdb_Get (bindingKey uid))
       (\<lambda>err. if err = RedisNil then returns None else fails (wrapf ''get binding: '' err))
       (\<lambda>val. case unmarshal_WristbandBinding val of
          Inl err \<Rightarrow> fails (wrapf ''unmarshal binding: '' err)
        | Inr b \<Rightarrow> returns (Some b))"

text \<open>The reverse index holds plain text: the wristband uid.\<close>

definition payload_text :: "payload \<Rightarrow> string" where
  "payload_text p = (case p of Text s \<Rightarrow> s | Json _ \<Rightarrow> [])"

definition GetBindingByTicket :: "string \<Rightarrow> (world, WristbandBinding option) go" where
  "GetBindingByTicket ticketID =
     on_err (rdb_Get (ticketKey ticketID))
       (\<lambda>err. if err = RedisNil then returns None
              else fails (wrapf ''get binding by ticket: '' err))
       (\<lambda>uid. GetBinding (payload_text uid))"

definition SetBindingStatus :: "string \<Rightarrow> BindingStatus \<Rightarrow> (world, unit) go" where
  "SetBindingStatus uid status =
     check (GetBinding uid) id (\<lambda>r. case r of
         None \<Rightarrow> fails ErrBindingNotFound
       | Some b \<Rightarrow>
           check (rdb_SetKeepTTL (bindingKey uid) (marshal_WristbandBinding (b\<lparr>wb_Status := status\<rparr>)))
             (wrapf ''set binding status: '') returns)"

definition DeleteBinding :: "string \<Rightarrow> (world, unit) go" where
  "DeleteBinding uid =
     check (redis_call (\<lambda>_. deleteBindingScript (bindingKey uid))) (wrapf ''delete binding: '')
       returns"

end
