(* ===== verification/Binding_Index.thy ===== *)
theory Binding_Index
  imports Redis_Client
begin

text \<open>
  The two-way index between wristbands and tickets that \<^verbatim>\<open>internal/redis/client.go\<close>
  keeps in Redis: its invariant, the abstract store it implements (a partial injection from
  wristbands to bindings), the refinement of the abstract operations by the Lua scripts, and
  the interface the gate relies on.
\<close>

section \<open>The invariant\<close>

definition valid_binding :: "string \<Rightarrow> WristbandBinding \<Rightarrow> bool" where
  "valid_binding uid b \<longleftrightarrow> wb_WristbandUID b = uid \<and> in_int64 (wb_BoundAt b) \<and>
     (wb_Status b = BindingStatusBinding \<or> wb_Status b = BindingStatusBound)"

definition forward_ok :: "keyspace \<Rightarrow> bool" where
  "forward_ok ks \<longleftrightarrow> (\<forall>uid v e. ks (bindingKey uid) = Some (v, e) \<longrightarrow>
     (\<exists>b x. v = RStr (marshal_WristbandBinding b) \<and> e = Some x \<and> valid_binding uid b \<and>
            ks (ticketKey (wb_TicketID b)) = Some (RStr (Text uid), Some x)))"

definition reverse_ok :: "keyspace \<Rightarrow> bool" where
  "reverse_ok ks \<longleftrightarrow> (\<forall>t v e. ks (ticketKey t) = Some (v, e) \<longrightarrow>
     (\<exists>uid b. v = RStr (Text uid) \<and> wb_TicketID b = t \<and> in_int64 (wb_BoundAt b) \<and>
              ks (bindingKey uid) = Some (RStr (marshal_WristbandBinding b), e)))"

definition index_ok :: "keyspace \<Rightarrow> bool" where
  "index_ok ks \<longleftrightarrow> forward_ok ks \<and> reverse_ok ks"

lemma marshal_binding_inject:
  assumes "in_int64 (wb_BoundAt b)" and "in_int64 (wb_BoundAt b')"
  shows "marshal_WristbandBinding b = marshal_WristbandBinding b' \<longleftrightarrow> b = b'"
  using assms WristbandBinding_roundtrip by (metis sum.inject(2))

lemma forwardD:
  assumes "index_ok ks" and "ks (bindingKey uid) = Some (v, e)"
  obtains b x where "v = RStr (marshal_WristbandBinding b)" "e = Some x" "valid_binding uid b"
    "ks (ticketKey (wb_TicketID b)) = Some (RStr (Text uid), Some x)"
  using assms unfolding index_ok_def forward_ok_def by meson

lemma reverseD:
  assumes "index_ok ks" and "ks (ticketKey t) = Some (v, e)"
  obtains uid b where "v = RStr (Text uid)" "wb_TicketID b = t" "in_int64 (wb_BoundAt b)"
    "ks (bindingKey uid) = Some (RStr (marshal_WristbandBinding b), e)"
  using assms unfolding index_ok_def reverse_ok_def by meson

lemma index_ok_empty [simp]: "index_ok Map.empty"
  by (simp add: index_ok_def forward_ok_def reverse_ok_def)

text \<open>Only the keys of the two families matter.\<close>

lemma index_ok_frame:
  assumes "\<And>uid. k \<noteq> bindingKey uid" and "\<And>t. k \<noteq> ticketKey t"
  shows "index_ok (ks(k := y)) = index_ok ks"
proof -
  have "bindingKey u \<noteq> k" "ticketKey t \<noteq> k" for u t
    using assms by (metis)+
  then show ?thesis by (simp add: index_ok_def forward_ok_def reverse_ok_def)
qed

text \<open>Time: the two keys of a binding expire at the same moment.\<close>

lemma index_ok_purge:
  assumes "index_ok ks"
  shows "index_ok (purge now ks)"
  unfolding index_ok_def
proof
  show "forward_ok (purge now ks)"
    unfolding forward_ok_def
  proof (intro allI impI)
    fix uid v e
    assume "purge now ks (bindingKey uid) = Some (v, e)"
    then have k: "ks (bindingKey uid) = Some (v, e)" and t: "\<forall>t. e = Some t \<longrightarrow> now < t"
      by (auto simp: purge_Some)
    from assms k obtain b x where "v = RStr (marshal_WristbandBinding b)" "e = Some x"
      "valid_binding uid b" "ks (ticketKey (wb_TicketID b)) = Some (RStr (Text uid), Some x)"
      by (rule forwardD)
    with t show "\<exists>b x. v = RStr (marshal_WristbandBinding b) \<and> e = Some x \<and>
        valid_binding uid b \<and>
        purge now ks (ticketKey (wb_TicketID b)) = Some (RStr (Text uid), Some x)"
      by (auto simp: purge_Some)
  qed
  show "reverse_ok (purge now ks)"
    unfolding reverse_ok_def
  proof (intro allI impI)
    fix t v e
    assume "purge now ks (ticketKey t) = Some (v, e)"
    then have k: "ks (ticketKey t) = Some (v, e)" and x: "\<forall>t. e = Some t \<longrightarrow> now < t"
      by (auto simp: purge_Some)
    from assms k obtain uid b where "v = RStr (Text uid)" "wb_TicketID b = t"
      "in_int64 (wb_BoundAt b)" "ks (bindingKey uid) = Some (RStr (marshal_WristbandBinding b), e)"
      by (rule reverseD)
    with x show "\<exists>uid b. v = RStr (Text uid) \<and> wb_TicketID b = t \<and> in_int64 (wb_BoundAt b) \<and>
        purge now ks (bindingKey uid) = Some (RStr (marshal_WristbandBinding b), e)"
      by (auto simp: purge_Some)
  qed
qed

lemma timeless_index_ok: "timeless (\<lambda>w. index_ok (redis w))"
  by (simp add: timeless_def index_ok_purge)

section \<open>The abstract store\<close>

type_synonym binding_view = "string \<rightharpoonup> (WristbandBinding \<times> int)"

definition view :: "keyspace \<Rightarrow> binding_view" where
  "view ks uid = (case ks (bindingKey uid) of
       Some (RStr p, Some x) \<Rightarrow>
         (case unmarshal_WristbandBinding p of Inl _ \<Rightarrow> None | Inr b \<Rightarrow> Some (b, x))
     | _ \<Rightarrow> None)"

definition ticket_bound :: "binding_view \<Rightarrow> string \<Rightarrow> bool" where
  "ticket_bound m t \<longleftrightarrow> (\<exists>uid b x. m uid = Some (b, x) \<and> wb_TicketID b = t)"

definition abs_bind :: "string \<Rightarrow> WristbandBinding \<Rightarrow> int \<Rightarrow> binding_view \<Rightarrow> binding_view option" where
  "abs_bind uid b x m =
     (if ticket_bound m (wb_TicketID b) \<or> m uid \<noteq> None then None else Some (m(uid \<mapsto> (b, x))))"

definition abs_promote :: "string \<Rightarrow> BindingStatus \<Rightarrow> binding_view \<Rightarrow> binding_view" where
  "abs_promote uid st m = (case m uid of None \<Rightarrow> m
     | Some (b, x) \<Rightarrow> m(uid \<mapsto> (b\<lparr>wb_Status := st\<rparr>, x)))"

definition abs_unbind :: "string \<Rightarrow> binding_view \<Rightarrow> binding_view" where
  "abs_unbind uid m = m(uid := None)"

lemma view_Some:
  assumes "index_ok ks"
  shows "view ks uid = Some (b, x) \<longleftrightarrow> in_int64 (wb_BoundAt b) \<and>
           ks (bindingKey uid) = Some (RStr (marshal_WristbandBinding b), Some x)"
proof
  assume v: "view ks uid = Some (b, x)"
  then obtain y e where k: "ks (bindingKey uid) = Some (y, e)"
    by (auto simp: view_def split: option.splits)
  from assms k obtain b' x' where "y = RStr (marshal_WristbandBinding b')" "e = Some x'"
    "valid_binding uid b'" by (rule forwardD)
  with k v show "in_int64 (wb_BoundAt b) \<and>
      ks (bindingKey uid) = Some (RStr (marshal_WristbandBinding b), Some x)"
    by (auto simp: view_def valid_binding_def)
next
  assume "in_int64 (wb_BoundAt b) \<and>
    ks (bindingKey uid) = Some (RStr (marshal_WristbandBinding b), Some x)"
  then show "view ks uid = Some (b, x)" by (simp add: view_def)
qed

lemma view_None: "index_ok ks \<Longrightarrow> view ks uid = None \<longleftrightarrow> ks (bindingKey uid) = None"
  by (auto simp: view_def valid_binding_def elim!: forwardD split: option.splits)

lemma view_valid: "index_ok ks \<Longrightarrow> view ks uid = Some (b, x) \<Longrightarrow> valid_binding uid b"
  by (auto simp: view_Some valid_binding_def marshal_binding_inject elim!: forwardD)

lemma view_reverse:
  assumes "index_ok ks" and "view ks uid = Some (b, x)"
  shows "ks (ticketKey (wb_TicketID b)) = Some (RStr (Text uid), Some x)"
proof -
  from assms have k: "ks (bindingKey uid) = Some (RStr (marshal_WristbandBinding b), Some x)"
    and i: "in_int64 (wb_BoundAt b)" by (auto simp: view_Some)
  from assms(1) k obtain b' x' where "RStr (marshal_WristbandBinding b) =
      RStr (marshal_WristbandBinding b')" "Some x = Some x'" "valid_binding uid b'"
      "ks (ticketKey (wb_TicketID b')) = Some (RStr (Text uid), Some x')" by (rule forwardD)
  with i show ?thesis by (auto simp: valid_binding_def marshal_binding_inject)
qed

lemma ticket_bound_iff:
  assumes "index_ok ks"
  shows "ticket_bound (view ks) t \<longleftrightarrow> ks (ticketKey t) \<noteq> None"
proof
  assume "ticket_bound (view ks) t"
  with assms show "ks (ticketKey t) \<noteq> None"
    by (auto simp: ticket_bound_def dest: view_reverse)
next
  assume "ks (ticketKey t) \<noteq> None"
  then obtain v e where t: "ks (ticketKey t) = Some (v, e)" by auto
  from assms t obtain uid b where u: "wb_TicketID b = t" "in_int64 (wb_BoundAt b)"
    "ks (bindingKey uid) = Some (RStr (marshal_WristbandBinding b), e)" by (rule reverseD)
  from assms u(3) obtain x where "e = Some x" by (rule forwardD)
  with u assms have "view ks uid = Some (b, x)" by (simp add: view_Some)
  with u(1) show "ticket_bound (view ks) t" unfolding ticket_bound_def by blast
qed

lemma view_injective:
  assumes "index_ok ks" and "view ks u = Some (b, x)" and "view ks u' = Some (b', x')"
    and "wb_TicketID b = wb_TicketID b'"
  shows "u = u'"
  using view_reverse [OF assms(1,2)] view_reverse [OF assms(1,3)] assms(4) by simp

section \<open>The scripts refine the abstract operations\<close>

lemma bindScript_refines:
  fixes e :: int
  assumes "index_ok ks" and "valid_binding uid b"
  defines "r \<equiv> bindScript (bindingKey uid) (ticketKey (wb_TicketID b))
                 (marshal_WristbandBinding b) e uid ks"
  shows "index_ok (snd r)"
    and "case abs_bind uid b (e * 1000) (view ks) of
           None \<Rightarrow> (\<exists>err. fst r = Inl err) \<and> snd r = ks
         | Some m \<Rightarrow> fst r = Inr () \<and> view (snd r) = m"
proof -
  let ?t = "ticketKey (wb_TicketID b)" and ?k = "bindingKey uid"
  have both: "index_ok (snd r) \<and> (case abs_bind uid b (e * 1000) (view ks) of
           None \<Rightarrow> (\<exists>err. fst r = Inl err) \<and> snd r = ks
         | Some m \<Rightarrow> fst r = Inr () \<and> view (snd r) = m)"
  proof (cases "ks ?t = None \<and> ks ?k = None")
    case False
    then have "snd r = ks" and "\<exists>err. fst r = Inl err"
      by (auto simp: r_def bindScript_def r_SETNX_def)
    moreover from False assms(1) have "abs_bind uid b (e * 1000) (view ks) = None"
      by (auto simp: abs_bind_def ticket_bound_iff view_None)
    ultimately show ?thesis using assms(1) by simp
  next
    case True
    define ks' where "ks' = ks(?k \<mapsto> (RStr (marshal_WristbandBinding b), Some (e * 1000)),
                               ?t \<mapsto> (RStr (Text uid), Some (e * 1000)))"
    from True have r: "r = (Inr (), ks')"
      by (simp add: r_def bindScript_def r_SETNX_def r_SET_def ks'_def)
    have noRev: "ks (ticketKey t) = Some (RStr (Text uid), y) \<Longrightarrow> False" for t y
      using assms(1) True by (auto elim!: reverseD)
    have noFwd: "ks (bindingKey u) = Some (RStr (marshal_WristbandBinding b'), y) \<Longrightarrow>
        wb_TicketID b' = wb_TicketID b \<Longrightarrow> in_int64 (wb_BoundAt b') \<Longrightarrow> False" for u b' y
      using assms(1) True by (auto elim!: forwardD simp: marshal_binding_inject valid_binding_def)
    have ok: "index_ok ks'"
      unfolding index_ok_def forward_ok_def reverse_ok_def
    proof (intro conjI allI impI)
      fix u v y
      assume a: "ks' (bindingKey u) = Some (v, y)"
      show "\<exists>b x. v = RStr (marshal_WristbandBinding b) \<and> y = Some x \<and> valid_binding u b \<and>
              ks' (ticketKey (wb_TicketID b)) = Some (RStr (Text u), Some x)"
      proof (cases "u = uid")
        case True
        with a assms(2) show ?thesis by (auto simp: ks'_def)
      next
        case False
        with a have "ks (bindingKey u) = Some (v, y)" by (simp add: ks'_def)
        with assms(1) obtain b' x' where b': "v = RStr (marshal_WristbandBinding b')"
          "y = Some x'" "valid_binding u b'"
          "ks (ticketKey (wb_TicketID b')) = Some (RStr (Text u), Some x')" by (rule forwardD)
        with True have "wb_TicketID b' \<noteq> wb_TicketID b" by auto
        with b' show ?thesis by (auto simp: ks'_def)
      qed
    next
      fix t v y
      assume a: "ks' (ticketKey t) = Some (v, y)"
      show "\<exists>u b. v = RStr (Text u) \<and> wb_TicketID b = t \<and> in_int64 (wb_BoundAt b) \<and>
              ks' (bindingKey u) = Some (RStr (marshal_WristbandBinding b), y)"
      proof (cases "t = wb_TicketID b")
        case True
        with a assms(2) show ?thesis by (auto simp: ks'_def valid_binding_def)
      next
        case False
        with a have "ks (ticketKey t) = Some (v, y)" by (simp add: ks'_def)
        with assms(1) obtain u b' where b': "v = RStr (Text u)" "wb_TicketID b' = t"
          "in_int64 (wb_BoundAt b')"
          "ks (bindingKey u) = Some (RStr (marshal_WristbandBinding b'), y)" by (rule reverseD)
        with True have "u \<noteq> uid" by auto
        with b' show ?thesis by (auto simp: ks'_def)
      qed
    qed
    have "view ks' u = ((view ks)(uid \<mapsto> (b, e * 1000))) u" for u
      using assms(2) by (simp add: view_def ks'_def valid_binding_def)
    then have "view ks' = (view ks)(uid \<mapsto> (b, e * 1000))" ..
    moreover from True assms(1) have
      "abs_bind uid b (e * 1000) (view ks) = Some ((view ks)(uid \<mapsto> (b, e * 1000)))"
      by (simp add: abs_bind_def ticket_bound_iff view_None)
    ultimately show ?thesis using ok r by simp
  qed
  then show "index_ok (snd r)" and "case abs_bind uid b (e * 1000) (view ks) of
           None \<Rightarrow> (\<exists>err. fst r = Inl err) \<and> snd r = ks
         | Some m \<Rightarrow> fst r = Inr () \<and> view (snd r) = m" by blast+
qed

text \<open>The two commands of \<^verbatim>\<open>SetBindingStatus\<close> with nothing between them.\<close>

definition promote_now :: "string \<Rightarrow> BindingStatus \<Rightarrow> keyspace \<Rightarrow> keyspace" where
  "promote_now uid status ks = (case view ks uid of
       None \<Rightarrow> ks
     | Some (b, _) \<Rightarrow>
         r_SET_KEEPTTL (bindingKey uid) (marshal_WristbandBinding (b\<lparr>wb_Status := status\<rparr>)) ks)"

text \<open>
  Replacing the forward value by a binding of the same ticket and keeping its expiry keeps
  the index. The premise that the key still exists is what separates an atomic promotion
  from \<^verbatim>\<open>SetBindingStatus\<close>, which reads first and writes later.
\<close>

lemma keepttl_refines:
  assumes ok: "index_ok ks" and v: "view ks uid = Some (b, x)"
    and st: "st = BindingStatusBinding \<or> st = BindingStatusBound"
  defines "ks' \<equiv> r_SET_KEEPTTL (bindingKey uid) (marshal_WristbandBinding (b\<lparr>wb_Status := st\<rparr>)) ks"
  shows "index_ok ks'" and "view ks' = abs_promote uid st (view ks)"
proof -
  let ?b = "b\<lparr>wb_Status := st\<rparr>"
  from ok v have i: "in_int64 (wb_BoundAt b)"
    and k: "ks (bindingKey uid) = Some (RStr (marshal_WristbandBinding b), Some x)"
    by (auto simp: view_Some)
  from k have ks': "ks' = ks(bindingKey uid \<mapsto> (RStr (marshal_WristbandBinding ?b), Some x))"
    by (simp add: ks'_def r_SET_KEEPTTL_def r_SET_def)
  have val: "valid_binding uid ?b"
    using view_valid [OF ok v] st by (simp add: valid_binding_def)
  show "index_ok ks'"
    unfolding index_ok_def forward_ok_def reverse_ok_def
  proof (intro conjI allI impI)
    fix u y e
    assume a: "ks' (bindingKey u) = Some (y, e)"
    show "\<exists>b x. y = RStr (marshal_WristbandBinding b) \<and> e = Some x \<and> valid_binding u b \<and>
            ks' (ticketKey (wb_TicketID b)) = Some (RStr (Text u), Some x)"
    proof (cases "u = uid")
      case True
      with a val view_reverse [OF ok v] show ?thesis
        by (intro exI [of _ ?b] exI [of _ x]) (auto simp: ks')
    next
      case False
      with a have "ks (bindingKey u) = Some (y, e)" by (simp add: ks')
      with ok show ?thesis by (auto simp: ks' elim!: forwardD)
    qed
  next
    fix t y e
    assume "ks' (ticketKey t) = Some (y, e)"
    then have t: "ks (ticketKey t) = Some (y, e)" by (simp add: ks')
    with ok obtain u b' where b': "y = RStr (Text u)" "wb_TicketID b' = t"
      "in_int64 (wb_BoundAt b')"
      "ks (bindingKey u) = Some (RStr (marshal_WristbandBinding b'), e)" by (rule reverseD)
    show "\<exists>u b. y = RStr (Text u) \<and> wb_TicketID b = t \<and> in_int64 (wb_BoundAt b) \<and>
            ks' (bindingKey u) = Some (RStr (marshal_WristbandBinding b), e)"
    proof (cases "u = uid")
      case True
      with b' k i have "b' = b" "e = Some x" by (auto simp: marshal_binding_inject)
      with True b' i show ?thesis by (intro exI [of _ u] exI [of _ ?b]) (auto simp: ks')
    next
      case False
      with b' show ?thesis by (intro exI [of _ u] exI [of _ b']) (auto simp: ks')
    qed
  qed
  have "view ks' u = abs_promote uid st (view ks) u" for u
    using v i by (auto simp: view_def ks' abs_promote_def)
  then show "view ks' = abs_promote uid st (view ks)" ..
qed

lemma promote_now_refines:
  assumes "index_ok ks" and "st = BindingStatusBinding \<or> st = BindingStatusBound"
  shows "index_ok (promote_now uid st ks)"
    and "view (promote_now uid st ks) = abs_promote uid st (view ks)"
  using keepttl_refines [OF assms(1) _ assms(2)] assms(1)
  by (auto simp: promote_now_def abs_promote_def split: option.split)

lemma ticket_id_of_marshal:
  "marshal_WristbandBinding b = Json (JObj fs) \<Longrightarrow> map_of (rev fs) ''ticket_id'' = Some (JStr (wb_TicketID b))"
  by (auto simp: marshal_WristbandBinding_def)

lemma run_deleteBindingScript:
  assumes "ks (bindingKey uid) = Some (RStr (marshal_WristbandBinding b), e)"
  shows "deleteBindingScript (bindingKey uid) ks =
           (Inr (), ks(bindingKey uid := None, ticketKey (wb_TicketID b) := None))"
  using assms
  by (simp add: deleteBindingScript_def r_GET_def r_DEL_def marshal_WristbandBinding_def
      ticketKey_def)

lemma deleteBindingScript_refines:
  fixes uid :: string
  assumes ok: "index_ok ks"
  defines "r \<equiv> deleteBindingScript (bindingKey uid) ks"
  shows "index_ok (snd r)" and "fst r = Inr ()" and "view (snd r) = abs_unbind uid (view ks)"
proof -
  have "index_ok (snd r) \<and> fst r = Inr () \<and> view (snd r) = abs_unbind uid (view ks)"
  proof (cases "ks (bindingKey uid)")
    case None
    then have "r = (Inr (), ks)"
      by (auto simp: r_def deleteBindingScript_def r_GET_def r_DEL_def)
    moreover have "view ks = abs_unbind uid (view ks)"
      using None by (auto simp: abs_unbind_def view_def)
    ultimately show ?thesis using ok by simp
  next
    case (Some y)
    then obtain v e where "ks (bindingKey uid) = Some (v, e)" by (cases y) auto
    with ok obtain b x where k: "ks (bindingKey uid) = Some (RStr (marshal_WristbandBinding b), Some x)"
      and val: "valid_binding uid b"
      and t: "ks (ticketKey (wb_TicketID b)) = Some (RStr (Text uid), Some x)"
      by (metis forwardD)
    define ks' where "ks' = ks(bindingKey uid := None, ticketKey (wb_TicketID b) := None)"
    have r: "r = (Inr (), ks')"
      unfolding r_def ks'_def by (rule run_deleteBindingScript [where ks = ks and uid = uid and b = b and e = "Some x", OF k])
    have "index_ok ks'"
      unfolding index_ok_def forward_ok_def reverse_ok_def
    proof (intro conjI allI impI)
      fix u y e
      assume a: "ks' (bindingKey u) = Some (y, e)"
      then have u: "u \<noteq> uid" "ks (bindingKey u) = Some (y, e)"
        by (auto simp: ks'_def split: if_splits)
      from ok u(2) obtain b' x' where b': "y = RStr (marshal_WristbandBinding b')" "e = Some x'"
        "valid_binding u b'" "ks (ticketKey (wb_TicketID b')) = Some (RStr (Text u), Some x')"
        by (rule forwardD)
      with t u(1) have "wb_TicketID b' \<noteq> wb_TicketID b" by auto
      with b' show "\<exists>b x. y = RStr (marshal_WristbandBinding b) \<and> e = Some x \<and>
          valid_binding u b \<and> ks' (ticketKey (wb_TicketID b)) = Some (RStr (Text u), Some x)"
        by (auto simp: ks'_def)
    next
      fix t' y e
      assume "ks' (ticketKey t') = Some (y, e)"
      then have t': "t' \<noteq> wb_TicketID b" "ks (ticketKey t') = Some (y, e)"
        by (auto simp: ks'_def split: if_splits)
      from ok t'(2) obtain u b' where b': "y = RStr (Text u)" "wb_TicketID b' = t'"
        "in_int64 (wb_BoundAt b')"
        "ks (bindingKey u) = Some (RStr (marshal_WristbandBinding b'), e)" by (rule reverseD)
      with k t'(1) val have "u \<noteq> uid" by (auto simp: marshal_binding_inject valid_binding_def)
      with b' show "\<exists>u b. y = RStr (Text u) \<and> wb_TicketID b = t' \<and>
          in_int64 (wb_BoundAt b) \<and>
          ks' (bindingKey u) = Some (RStr (marshal_WristbandBinding b), e)"
        by (auto simp: ks'_def)
    qed
    moreover have "view ks' u = abs_unbind uid (view ks) u" for u
      by (simp add: view_def ks'_def abs_unbind_def)
    then have "view ks' = abs_unbind uid (view ks)" ..
    ultimately show ?thesis using r by simp
  qed
  then show "index_ok (snd r)" and "fst r = Inr ()" and "view (snd r) = abs_unbind uid (view ks)"
    by blast+
qed

section \<open>The interface of the gate to the binding store\<close>

locale binding_store =
  fixes inv :: "'s \<Rightarrow> bool"
    and abs :: "'s \<Rightarrow> binding_view"
    and bind :: "WristbandBinding \<Rightarrow> int \<Rightarrow> 's \<Rightarrow> bool \<times> 's"
    and promote :: "string \<Rightarrow> 's \<Rightarrow> 's"
    and unbind :: "string \<Rightarrow> 's \<Rightarrow> 's"
  assumes injective: "inv s \<Longrightarrow> abs s u = Some (b, x) \<Longrightarrow> abs s u' = Some (b', x') \<Longrightarrow>
        wb_TicketID b = wb_TicketID b' \<Longrightarrow> u = u'"
    and bind_law: "inv s \<Longrightarrow> valid_binding (wb_WristbandUID b) b \<Longrightarrow>
        bind b x s = (ok, s') \<Longrightarrow>
        inv s' \<and> (case abs_bind (wb_WristbandUID b) b x (abs s) of
            None \<Rightarrow> \<not> ok \<and> s' = s | Some m \<Rightarrow> ok \<and> abs s' = m)"
    and promote_law: "inv s \<Longrightarrow>
        inv (promote u s) \<and> abs (promote u s) = abs_promote u BindingStatusBound (abs s)"
    and unbind_law: "inv s \<Longrightarrow> inv (unbind u s) \<and> abs (unbind u s) = abs_unbind u (abs s)"

context binding_store
begin

lemma bind_succeeds_iff:
  assumes "inv s" and "valid_binding (wb_WristbandUID b) b"
  shows "fst (bind b x s) \<longleftrightarrow>
    abs s (wb_WristbandUID b) = None \<and> \<not> ticket_bound (abs s) (wb_TicketID b)"
  using bind_law [OF assms, of x "fst (bind b x s)" "snd (bind b x s)"]
  by (cases "abs s (wb_WristbandUID b)") (auto simp: abs_bind_def split: if_splits)

text \<open>A binding excludes every later one of the same wristband or the same ticket.\<close>

lemma bind_excludes:
  assumes "inv s" and v: "valid_binding (wb_WristbandUID b) b" "valid_binding (wb_WristbandUID c) c"
    and "bind b x s = (True, s')"
    and same: "wb_WristbandUID c = wb_WristbandUID b \<or> wb_TicketID c = wb_TicketID b"
  shows "bind c y s' = (False, s')"
proof -
  obtain ok s2 where c: "bind c y s' = (ok, s2)" by fastforce
  from bind_law [OF assms(1) v(1) assms(4)] have s': "inv s'"
    and m: "abs s' = (abs s)(wb_WristbandUID b \<mapsto> (b, x))"
    by (auto simp: abs_bind_def split: if_splits)
  have "ticket_bound (abs s') (wb_TicketID b)"
    unfolding ticket_bound_def m by (intro exI [of _ "wb_WristbandUID b"]) simp
  with same m have "abs_bind (wb_WristbandUID c) c y (abs s') = None"
    by (auto simp: abs_bind_def)
  with bind_law [OF s' v(2) c] c show ?thesis by simp
qed

text \<open>Unbinding frees the wristband and its ticket, and nothing else.\<close>

lemma rebind_after_unbind:
  assumes "inv s" and "abs s u = Some (b, x)"
    and c: "valid_binding (wb_WristbandUID c) c" "wb_TicketID c = wb_TicketID b"
    and free: "wb_WristbandUID c = u \<or> abs s (wb_WristbandUID c) = None"
  shows "fst (bind c y (unbind u s))"
proof -
  from unbind_law [OF assms(1)] have i: "inv (unbind u s)"
    and m: "abs (unbind u s) = (abs s)(u := None)" by (auto simp: abs_unbind_def)
  have "\<not> ticket_bound (abs (unbind u s)) (wb_TicketID c)"
    using injective [OF assms(1,2)] c(2) by (auto simp: ticket_bound_def m split: if_splits)
  with free m show ?thesis by (subst bind_succeeds_iff [OF i c(1)]) auto
qed

lemma unbind_other: "inv s \<Longrightarrow> u' \<noteq> u \<Longrightarrow> abs (unbind u s) u' = abs s u'"
  using unbind_law by (simp add: abs_unbind_def)

lemma promote_bound:
  "inv s \<Longrightarrow> abs s u = Some (b, x) \<Longrightarrow>
     abs (promote u s) u = Some (b\<lparr>wb_Status := BindingStatusBound\<rparr>, x)"
  using promote_law by (simp add: abs_promote_def)

end

definition bind_now :: "WristbandBinding \<Rightarrow> int \<Rightarrow> keyspace \<Rightarrow> bool \<times> keyspace" where
  "bind_now b e ks = (case bindScript (bindingKey (wb_WristbandUID b)) (ticketKey (wb_TicketID b))
       (marshal_WristbandBinding b) e (wb_WristbandUID b) ks of
     (Inl _, ks') \<Rightarrow> (False, ks') | (Inr _, ks') \<Rightarrow> (True, ks'))"

definition seconds_view :: "keyspace \<Rightarrow> binding_view" where
  "seconds_view ks = (\<lambda>u. map_option (\<lambda>(b, x). (b, x div 1000)) (view ks u))"

lemma ticket_bound_seconds [simp]: "ticket_bound (seconds_view ks) t = ticket_bound (view ks) t"
  by (force simp: ticket_bound_def seconds_view_def)

lemma seconds_view_None [simp]: "seconds_view ks u = None \<longleftrightarrow> view ks u = None"
  by (simp add: seconds_view_def)

interpretation redis_index: binding_store index_ok seconds_view bind_now
    "\<lambda>u. promote_now u BindingStatusBound"
    "\<lambda>u ks. snd (deleteBindingScript (bindingKey u) ks)"
proof (unfold_locales, goal_cases)
  case (1 s u b x u' b' x')
  then show ?case by (auto simp: seconds_view_def dest: view_injective)
next
  case (2 s b x ok s')
  let ?r = "bindScript (bindingKey (wb_WristbandUID b)) (ticketKey (wb_TicketID b))
      (marshal_WristbandBinding b) x (wb_WristbandUID b) s"
  note ref = bindScript_refines [OF 2(1,2), of x]
  have s': "s' = snd ?r" and ok: "ok = (\<exists>y. fst ?r = Inr y)"
    using 2(3) by (auto simp: bind_now_def split: prod.splits sum.splits)
  show ?case
  proof (cases "abs_bind (wb_WristbandUID b) b (x * 1000) (view s)")
    case None
    then have "abs_bind (wb_WristbandUID b) b x (seconds_view s) = None"
      by (auto simp: abs_bind_def split: if_splits)
    with None ref s' ok show ?thesis by auto
  next
    case (Some m)
    then have "abs_bind (wb_WristbandUID b) b x (seconds_view s) =
        Some ((seconds_view s)(wb_WristbandUID b \<mapsto> (b, x)))"
      and m: "m = (view s)(wb_WristbandUID b \<mapsto> (b, x * 1000))"
      by (auto simp: abs_bind_def split: if_splits)
    moreover from Some ref s' have "view s' = m" by simp
    then have "seconds_view s' = (seconds_view s)(wb_WristbandUID b \<mapsto> (b, x))"
      by (auto simp: seconds_view_def m)
    ultimately show ?thesis using Some ref s' ok by simp
  qed
next
  case (3 s u)
  then show ?case
    using promote_now_refines [OF 3, of BindingStatusBound u]
    by (auto simp: seconds_view_def abs_promote_def split: option.split)
next
  case (4 s u)
  then show ?case
    using deleteBindingScript_refines [OF 4, of u]
    by (auto simp: seconds_view_def abs_unbind_def)
qed

end
