(* ===== verification/Binding_Machine.thy ===== *)
theory Binding_Machine
  imports Binding_Index
begin

text \<open>
  Gate processes working on one Redis at the same time. Redis runs one command or script at
  a time, so a run of the system is a sequence of steps: a bind script, an unbind script,
  the two halves of \<^verbatim>\<open>SetBindingStatus\<close> (which is not a script: it reads the
  binding and writes it back later), a command on another key, or the passing of time. The
  flag says whether a half-finished promotion is ever disturbed: when it is \<open>True\<close>, the
  binding a promotion has read is still there when it is written back.
\<close>

record store =
  st_now :: int
  st_keys :: keyspace
  st_read :: "(string \<times> WristbandBinding) list"

definition new_binding :: "string \<Rightarrow> string \<Rightarrow> string \<Rightarrow> int \<Rightarrow> WristbandBinding" where
  "new_binding uid t email ms = \<lparr>wb_WristbandUID = uid, wb_TicketID = t, wb_UserEmail = email,
     wb_Status = BindingStatusBinding, wb_BoundAt = Unix ms\<rparr>"

lemma valid_new_binding [simp]: "valid_binding uid (new_binding uid t email ms)"
  by (simp add: valid_binding_def new_binding_def)

lemma new_binding_sel [simp]:
  "wb_TicketID (new_binding uid t email ms) = t"
  "wb_WristbandUID (new_binding uid t email ms) = uid"
  "wb_UserEmail (new_binding uid t email ms) = email"
  "wb_Status (new_binding uid t email ms) = BindingStatusBinding"
  "wb_BoundAt (new_binding uid t email ms) = Unix ms"
  by (simp_all add: new_binding_def)

definition family_key :: "string \<Rightarrow> bool" where
  "family_key k \<longleftrightarrow> (\<exists>u. k = bindingKey u) \<or> (\<exists>t. k = ticketKey t)"

inductive store_step :: "bool \<Rightarrow> store \<Rightarrow> store \<Rightarrow> bool" for undisturbed where
  Tick: "store_step undisturbed s
           (s\<lparr>st_now := st_now s + int d, st_keys := purge (st_now s + int d) (st_keys s)\<rparr>)"
| Bind: "bindScript (bindingKey uid) (ticketKey t)
           (marshal_WristbandBinding (new_binding uid t email ms)) (bindingExpiry_Unix off ms) uid
           (st_keys s) = (r, ks) \<Longrightarrow> store_step undisturbed s (s\<lparr>st_keys := ks\<rparr>)"
| Unbind: "deleteBindingScript (bindingKey uid) (st_keys s) = (r, ks) \<Longrightarrow>
           store_step undisturbed s (s\<lparr>st_keys := ks\<rparr>)"
| Read: "view (st_keys s) uid = Some (b, x) \<Longrightarrow>
           store_step undisturbed s (s\<lparr>st_read := (uid, b) # st_read s\<rparr>)"
| Write: "(uid, b) \<in> set (st_read s) \<Longrightarrow>
           (undisturbed \<Longrightarrow> \<exists>x. view (st_keys s) uid = Some (b, x)) \<Longrightarrow>
           store_step undisturbed s (s\<lparr>st_keys := r_SET_KEEPTTL (bindingKey uid)
               (marshal_WristbandBinding (b\<lparr>wb_Status := BindingStatusBound\<rparr>)) (st_keys s),
               st_read := remove1 (uid, b) (st_read s)\<rparr>)"
| Other: "\<not> family_key k \<Longrightarrow> store_step undisturbed s (s\<lparr>st_keys := (st_keys s)(k := y)\<rparr>)"

inductive_cases store_stepE: "store_step undisturbed s s'"

inductive reachable :: "bool \<Rightarrow> store \<Rightarrow> bool" for undisturbed where
  Start: "reachable undisturbed \<lparr>st_now = n, st_keys = Map.empty, st_read = []\<rparr>"
| Step: "reachable undisturbed s \<Longrightarrow> store_step undisturbed s s' \<Longrightarrow> reachable undisturbed s'"

lemma store_step_index_ok:
  assumes "store_step True s s'" and ok: "index_ok (st_keys s)"
  shows "index_ok (st_keys s')"
  using assms(1)
proof cases
  case (Bind uid t email ms off r ks)
  then show ?thesis
    using bindScript_refines(1) [OF ok valid_new_binding [of uid t email ms],
        of "bindingExpiry_Unix off ms"] by simp
next
  case (Unbind uid r ks)
  then show ?thesis using deleteBindingScript_refines(1) [OF ok, of uid] by simp
next
  case (Write uid b)
  then obtain x where "view (st_keys s) uid = Some (b, x)" by auto
  then show ?thesis using Write(1) keepttl_refines(1) [OF ok] by simp
next
  case (Other k y)
  then show ?thesis using ok by (auto simp: family_key_def index_ok_frame)
qed (simp_all add: ok index_ok_purge)

lemma reachable_index_ok: "reachable True s \<Longrightarrow> index_ok (st_keys s)"
  by (induction rule: reachable.induct) (auto simp: store_step_index_ok)

text \<open>
  C1: in every state the gates can reach, whatever the interleaving of their scripts and
  however much time passes between them, a ticket is bound to one wristband at most, and
  the reverse key of the ticket names that wristband with the same expiry.
\<close>

theorem one_wristband_per_ticket:
  assumes "reachable True s" and "view (st_keys s) u = Some (b, x)"
  shows "st_keys s (ticketKey (wb_TicketID b)) = Some (RStr (Text u), Some x) \<and>
    (\<forall>u' b' x'. view (st_keys s) u' = Some (b', x') \<longrightarrow> wb_TicketID b' = wb_TicketID b \<longrightarrow> u' = u)"
  using view_reverse [OF reachable_index_ok assms(2)] view_injective [OF reachable_index_ok] assms
  by metis

section \<open>Two runs\<close>

text \<open>A run with one bind, and the run in which a reset comes between the two halves of a promotion.\<close>

definition demo_binding :: "string \<Rightarrow> WristbandBinding" where
  "demo_binding uid = new_binding uid ''T1'' ''a@x'' 0"

definition demo_keys :: "string \<Rightarrow> keyspace" where
  "demo_keys uid = [bindingKey uid \<mapsto> (RStr (marshal_WristbandBinding (demo_binding uid)), Some 172799000),
                    ticketKey ''T1'' \<mapsto> (RStr (Text uid), Some 172799000)]"

definition stale_keys :: keyspace where
  "stale_keys = [bindingKey ''U1'' \<mapsto>
     (RStr (marshal_WristbandBinding ((demo_binding ''U1'')\<lparr>wb_Status := BindingStatusBound\<rparr>)), None)]"

lemma demo_bind:
  assumes "ks (ticketKey ''T1'') = None" and "ks (bindingKey uid) = None"
  shows "store_step f \<lparr>st_now = 0, st_keys = ks, st_read = rd\<rparr>
           \<lparr>st_now = 0, st_keys = ks ++ demo_keys uid, st_read = rd\<rparr>"
proof -
  have "bindScript (bindingKey uid) (ticketKey ''T1'')
      (marshal_WristbandBinding (new_binding uid ''T1'' ''a@x'' 0)) (bindingExpiry_Unix 0 0) uid ks =
      (Inr (), ks ++ demo_keys uid)"
    using assms
    by (simp add: bindScript_def r_SETNX_def r_SET_def demo_keys_def demo_binding_def
        bindingExpiry_Unix_def day_of_def fun_upd_twist)
  then show ?thesis
    using store_step.Bind [where s = "\<lparr>st_now = 0, st_keys = ks, st_read = rd\<rparr>"] by fastforce
qed

lemma view_demo: "view (demo_keys uid) uid = Some (demo_binding uid, 172799000)"
  by (simp add: view_def demo_keys_def demo_binding_def)

lemma reachable_demo: "reachable f \<lparr>st_now = 0, st_keys = demo_keys ''U1'', st_read = []\<rparr>"
  using reachable.Step [OF reachable.Start demo_bind [of Map.empty]] by simp

theorem one_wristband_per_ticket_witness:
  "demo_keys ''U1'' (ticketKey ''T1'') = Some (RStr (Text ''U1''), Some 172799000)"
  using one_wristband_per_ticket [OF reachable_demo, of "''U1''" "demo_binding ''U1''" 172799000]
  by (simp add: view_demo) (simp add: demo_binding_def)


end
