(* ===== verification/Sha256.thy ===== *)
theory Sha256
  imports "HOL-Library.Word" Go_Runtime
begin

text \<open>
  \<^verbatim>\<open>crypto/sha256\<close>, \<^verbatim>\<open>crypto/hmac\<close> and \<^verbatim>\<open>encoding/hex\<close>, as far as the
  gate and the voucher service use them: the SHA-256 compression function of FIPS 180-4 on
  32-bit words, HMAC with 64-byte blocks, and lower-case hexadecimal text. The definitions
  compute; the lemmas the rest needs are the length of a digest and of its text.
\<close>

unbundle bit_operations_syntax

type_synonym u32 = "32 word"
type_synonym u8 = "8 word"
type_synonym hash_state = "u32 list"

text \<open>
  The round constants are the first 32 bits of the fractional parts of the cube roots of the
  first 64 primes.
\<close>

definition first_primes :: "int list" where
  "first_primes = [
    2, 3, 5, 7, 11, 13, 17, 19, 23, 29, 31, 37, 41, 43, 47, 53,
    59, 61, 67, 71, 73, 79, 83, 89, 97, 101, 103, 107, 109, 113, 127, 131,
    137, 139, 149, 151, 157, 163, 167, 173, 179, 181, 191, 193, 197, 199, 211, 223,
    227, 229, 233, 239, 241, 251, 257, 263, 269, 271, 277, 281, 283, 293, 307, 311]"

definition keep_if_below :: "int \<Rightarrow> int \<Rightarrow> int \<Rightarrow> int" where
  "keep_if_below n r r' = (if r' * r' * r' \<le> n then r' else r)"

fun cube_root_bits :: "nat \<Rightarrow> int \<Rightarrow> int \<Rightarrow> int" where
  "cube_root_bits 0 n r = r"
| "cube_root_bits (Suc k) n r = cube_root_bits k n (keep_if_below n r (r + 2 ^ k))"

definition round_constant :: "int \<Rightarrow> u32" where
  "round_constant p = word_of_int (cube_root_bits 35 (p * 2 ^ 96) 0)"

definition round_constants :: "u32 list" where
  "round_constants = map round_constant first_primes"

definition initial_state :: hash_state where
  "initial_state = [0x6a09e667, 0xbb67ae85, 0x3c6ef372, 0xa54ff53a,
                    0x510e527f, 0x9b05688c, 0x1f83d9ab, 0x5be0cd19]"

definition small_sigma0 :: "u32 \<Rightarrow> u32" where
  "small_sigma0 x = word_rotr 7 x XOR word_rotr 18 x XOR drop_bit 3 x"

definition small_sigma1 :: "u32 \<Rightarrow> u32" where
  "small_sigma1 x = word_rotr 17 x XOR word_rotr 19 x XOR drop_bit 10 x"

definition big_sigma0 :: "u32 \<Rightarrow> u32" where
  "big_sigma0 x = word_rotr 2 x XOR word_rotr 13 x XOR word_rotr 22 x"

definition big_sigma1 :: "u32 \<Rightarrow> u32" where
  "big_sigma1 x = word_rotr 6 x XOR word_rotr 11 x XOR word_rotr 25 x"

definition ch :: "u32 \<Rightarrow> u32 \<Rightarrow> u32 \<Rightarrow> u32" where
  "ch x y z = (x AND y) XOR (NOT x AND z)"

definition maj :: "u32 \<Rightarrow> u32 \<Rightarrow> u32 \<Rightarrow> u32" where
  "maj x y z = (x AND y) XOR (x AND z) XOR (y AND z)"

text \<open>One round with its constant and schedule word; the schedule window shifts along.\<close>

definition sha_round :: "u32 \<Rightarrow> u32 \<Rightarrow> hash_state \<Rightarrow> hash_state" where
  "sha_round k w st = (case st of
       [a, b, c, d, e, f, g, h] \<Rightarrow>
         (let t1 = h + big_sigma1 e + ch e f g + k + w;
              t2 = big_sigma0 a + maj a b c
          in [t1 + t2, a, b, c, d + t1, e, f, g])
     | _ \<Rightarrow> st)"

definition next_word :: "u32 list \<Rightarrow> u32" where
  "next_word win = small_sigma1 (win ! 14) + win ! 9 + small_sigma0 (win ! 1) + win ! 0"

fun sha_rounds :: "u32 list \<Rightarrow> u32 list \<Rightarrow> hash_state \<Rightarrow> hash_state" where
  "sha_rounds [] win st = st"
| "sha_rounds (k # ks) win st = sha_rounds ks (tl win @ [next_word win]) (sha_round k (hd win) st)"

definition word_of_bytes :: "u8 list \<Rightarrow> u32" where
  "word_of_bytes bs = foldl (\<lambda>a b. push_bit 8 a OR ucast b) 0 bs"

fun chunks :: "nat \<Rightarrow> 'a list \<Rightarrow> 'a list list" where
  "chunks n xs = (if n = 0 \<or> xs = [] then [] else take n xs # chunks n (drop n xs))"

declare chunks.simps [simp del]

definition compress :: "hash_state \<Rightarrow> u8 list \<Rightarrow> hash_state" where
  "compress st block =
     map2 (+) st (sha_rounds round_constants (map word_of_bytes (chunks 4 block)) st)"

definition bytes_of_u32 :: "u32 \<Rightarrow> u8 list" where
  "bytes_of_u32 w = [ucast (drop_bit 24 w), ucast (drop_bit 16 w), ucast (drop_bit 8 w), ucast w]"

definition bytes_of_u64 :: "64 word \<Rightarrow> u8 list" where
  "bytes_of_u64 w = bytes_of_u32 (ucast (drop_bit 32 w)) @ bytes_of_u32 (ucast w)"

definition sha_pad :: "u8 list \<Rightarrow> u8 list" where
  "sha_pad m = m @ [128] @ replicate ((119 - length m mod 64) mod 64) 0
     @ bytes_of_u64 (8 * of_nat (length m))"

definition sha256 :: "u8 list \<Rightarrow> u8 list" where
  "sha256 m = concat (map bytes_of_u32 (foldl compress initial_state (chunks 64 (sha_pad m))))"

definition bytes :: "string \<Rightarrow> u8 list" where
  "bytes s = map of_char s"

definition xor_pad :: "u8 \<Rightarrow> u8 list \<Rightarrow> u8 list" where
  "xor_pad p key = map (\<lambda>b. b XOR p) (key @ replicate (64 - length key) 0)"

definition hmac_sha256 :: "u8 list \<Rightarrow> u8 list \<Rightarrow> u8 list" where
  "hmac_sha256 key msg =
     (let k = (if length key > 64 then sha256 key else key)
      in sha256 (xor_pad 0x5c k @ sha256 (xor_pad 0x36 k @ msg)))"

definition hex_digits :: string where
  "hex_digits = ''0123456789abcdef''"

definition hex :: "u8 list \<Rightarrow> string" where
  "hex bs = concat (map (\<lambda>b. [hex_digits ! unat (drop_bit 4 b), hex_digits ! unat (b AND 15)]) bs)"

lemma length_hex [simp]: "length (hex bs) = 2 * length bs"
  by (induction bs) (simp_all add: hex_def)

lemma length_sha_rounds: "length st = 8 \<Longrightarrow> length (sha_rounds ks win st) = 8"
proof (induction ks arbitrary: win st)
  case (Cons k ks)
  from Cons.prems have "length (sha_round k (hd win) st) = 8"
    by (auto simp: sha_round_def Let_def split: list.split)
  with Cons.IH show ?case by simp
qed simp

lemma length_compress: "length st = 8 \<Longrightarrow> length (compress st block) = 8"
  by (simp add: compress_def length_sha_rounds)

lemma length_bytes_of_u32 [simp]: "length (bytes_of_u32 w) = 4"
  by (simp add: bytes_of_u32_def)

lemma length_foldl_compress: "length st = 8 \<Longrightarrow> length (foldl compress st blocks) = 8"
  by (induction blocks arbitrary: st) (simp_all add: length_compress)

lemma length_concat_bytes: "length (concat (map bytes_of_u32 ws)) = 4 * length ws"
  by (induction ws) simp_all

lemma length_sha256 [simp]: "length (sha256 m) = 32"
  by (simp add: sha256_def length_concat_bytes length_foldl_compress initial_state_def)

lemma length_hmac_sha256 [simp]: "length (hmac_sha256 key msg) = 32"
  by (simp add: hmac_sha256_def Let_def)

text \<open>A test vector of FIPS 180-4.\<close>

lemma sha256_abc:
  "hex (sha256 (bytes ''abc'')) = ''ba7816bf8f01cfea414140de5dae2223b00361a396177a9cb410ff61f20015ad''"
  by code_simp

end
