(* ===== verification/Gate_QR.thy ===== *)
theory Gate_QR
  imports Services Config Sha256
begin

text \<open>
  \<^verbatim>\<open>internal/gate/qr.go\<close>: the rotating account QR code, an HMAC over ticket, nonce
  and time. The theorems say exactly which tokens the gate accepts, that a token it issued is
  accepted for as long as the rotation allows, and what the signed text does and does not
  determine.
\<close>

record QRToken =
  q_TicketID :: string
  q_UUID :: string
  q_Timestamp :: int
  q_Signature :: string

definition hmacSHA256 :: "string \<Rightarrow> string \<Rightarrow> string" where
  "hmacSHA256 key data = hex (hmac_sha256 (bytes key) (bytes data))"

definition qr_payload :: "string \<Rightarrow> string \<Rightarrow> int \<Rightarrow> string" where
  "qr_payload ticketID uuid ts = ticketID @ ''|'' @ uuid @ ''|'' @ show_int ts"

text \<open>\<^verbatim>\<open>uuid.New()\<close>: the next fresh UUID of the environment.\<close>

definition new_uuid :: "(world, string) state" where
  "new_uuid = do {
     w \<leftarrow> gets id;
     modify (\<lambda>w. w\<lparr>uuid_next := uuid_next w + 1\<rparr>);
     State_Monad.return (env_uuid (env w) (uuid_next w))
   }"

definition GenerateQROTP :: "GateConfig \<Rightarrow> string \<Rightarrow> (world, QRToken) state" where
  "GenerateQROTP cfg ticketID = do {
     now \<leftarrow> gets clock;
     let ts = Unix now;
     uid \<leftarrow> new_uuid;
     let payload = qr_payload ticketID uid ts;
     let sig = hmacSHA256 (gc_HMACSecret cfg) payload;
     State_Monad.return \<lparr>q_TicketID = ticketID, q_UUID = uid, q_Timestamp = ts, q_Signature = sig\<rparr>
   }"

definition qr_age :: "int \<Rightarrow> int \<Rightarrow> int" where
  "qr_age now ts = (let age = int64 (Unix now - ts) in if age < 0 then int64 (- age) else age)"

definition VerifyQROTP :: "GateConfig \<Rightarrow> QRToken \<Rightarrow> (world, bool) go" where
  "VerifyQROTP cfg token = do {
     let payload = qr_payload (q_TicketID token) (q_UUID token) (q_Timestamp token);
     let expected = hmacSHA256 (gc_HMACSecret cfg) payload;
     if expected \<noteq> q_Signature token then fails (Msg ''invalid HMAC signature'')
     else do {
       now \<leftarrow> gets clock;
       let age = qr_age now (q_Timestamp token);
       if age > gc_QRRotationSeconds cfg
       then fails (Msg (''QR code expired ('' @ show_int age @ ''s old, max ''
              @ show_int (gc_QRRotationSeconds cfg) @ ''s)''))
       else returns True
     }
   }"

lemma run_new_uuid [simp]:
  "run_state new_uuid w = (env_uuid (env w) (uuid_next w), w\<lparr>uuid_next := uuid_next w + 1\<rparr>)"
  by (simp add: new_uuid_def)

definition signed_by :: "GateConfig \<Rightarrow> QRToken \<Rightarrow> bool" where
  "signed_by cfg t \<longleftrightarrow>
     q_Signature t = hmacSHA256 (gc_HMACSecret cfg) (qr_payload (q_TicketID t) (q_UUID t) (q_Timestamp t))"

lemma run_VerifyQROTP: "run_state (VerifyQROTP cfg t) w =
   (if \<not> signed_by cfg t then Inl (Msg ''invalid HMAC signature'')
    else if qr_age (clock w) (q_Timestamp t) > gc_QRRotationSeconds cfg
    then Inl (Msg (''QR code expired ('' @ show_int (qr_age (clock w) (q_Timestamp t)) @ ''s old, max ''
              @ show_int (gc_QRRotationSeconds cfg) @ ''s)''))
    else Inr True, w)"
  by (auto simp: VerifyQROTP_def signed_by_def Let_def)

lemma qr_age_le_iff:
  assumes "0 \<le> m"
  shows "qr_age now ts \<le> m \<longleftrightarrow>
    \<bar>int64 (Unix now - ts)\<bar> \<le> m \<or> int64 (Unix now - ts) = - (2 ^ 63)"
proof -
  let ?a = "int64 (Unix now - ts)"
  have r: "- (2 ^ 63) \<le> ?a" "?a < 2 ^ 63" using in_int64_int64 unfolding in_int64_def by blast+
  show ?thesis
  proof (cases "?a = - (2 ^ 63)")
    case True
    then have "qr_age now ts = - (2 ^ 63)" by (simp add: qr_age_def int64_def)
    with True assms show ?thesis by simp
  next
    case False
    with r have "int64 (- ?a) = - ?a" by (intro int64_id) (auto simp: in_int64_def)
    with False show ?thesis by (auto simp: qr_age_def Let_def abs_if)
  qed
qed

text \<open>
  C28: the gate accepts a token exactly when its signature is the HMAC of its ticket, nonce
  and time under the gate's secret, and its time is within the rotation of the gate's clock,
  before or after; the one exception is the 64-bit age whose negation overflows, which passes
  the check. Every other token is an error, and verification changes nothing.
\<close>

theorem VerifyQROTP_accepts_iff:
  assumes "0 \<le> gc_QRRotationSeconds cfg"
  shows "snd (run_state (VerifyQROTP cfg t) w) = w \<and>
    (fst (run_state (VerifyQROTP cfg t) w) = Inr True \<longleftrightarrow>
       q_Signature t = hmacSHA256 (gc_HMACSecret cfg)
         (qr_payload (q_TicketID t) (q_UUID t) (q_Timestamp t)) \<and>
       (\<bar>int64 (Unix (clock w) - q_Timestamp t)\<bar> \<le> gc_QRRotationSeconds cfg \<or>
        int64 (Unix (clock w) - q_Timestamp t) = - (2 ^ 63))) \<and>
    (fst (run_state (VerifyQROTP cfg t) w) = Inr True \<or>
       (\<exists>err. fst (run_state (VerifyQROTP cfg t) w) = Inl err))"
  using qr_age_le_iff [OF assms, of "clock w" "q_Timestamp t"]
  by (auto simp: run_VerifyQROTP signed_by_def)

text \<open>The clock of a gate whose times are within the years the 64-bit seconds can count.\<close>

definition sane_clock :: "int \<Rightarrow> bool" where
  "sane_clock ms \<longleftrightarrow> 0 \<le> ms \<and> ms < 2 ^ 62"

lemma Unix_sane: "sane_clock ms \<Longrightarrow> Unix ms = ms div 1000"
  unfolding Unix_def sane_clock_def by (intro int64_id) (auto simp: in_int64_def)

lemma qr_age_sane:
  assumes "sane_clock now" and "sane_clock issued"
  shows "qr_age now (Unix issued) = \<bar>now div 1000 - issued div 1000\<bar>"
proof -
  let ?a = "now div 1000 - issued div 1000"
  have r: "in_int64 ?a" "in_int64 (- ?a)"
    using assms by (auto simp: sane_clock_def in_int64_def)
  then show ?thesis using assms
    by (simp add: qr_age_def Unix_sane int64_id Let_def abs_if)
qed

text \<open>
  C27: a token generated for a ticket is accepted by every gate with the same secret whose
  clock is within the rotation of the generator's, and by no gate further away.
\<close>

theorem QR_roundtrip:
  assumes "run_state (GenerateQROTP cfg ticketID) w = (tok, w1)"
    and "sane_clock (clock w)" and "sane_clock (clock w')"
  shows "q_TicketID tok = ticketID \<and>
    (fst (run_state (VerifyQROTP cfg tok) w') = Inr True \<longleftrightarrow>
       \<bar>clock w' div 1000 - clock w div 1000\<bar> \<le> gc_QRRotationSeconds cfg)"
proof -
  from assms(1) have "tok = \<lparr>q_TicketID = ticketID, q_UUID = env_uuid (env w) (uuid_next w),
      q_Timestamp = Unix (clock w), q_Signature = hmacSHA256 (gc_HMACSecret cfg)
        (qr_payload ticketID (env_uuid (env w) (uuid_next w)) (Unix (clock w)))\<rparr>"
    by (auto simp: GenerateQROTP_def Let_def)
  with qr_age_sane [OF assms(3,2)] show ?thesis
    by (auto simp: run_VerifyQROTP signed_by_def)
qed

text \<open>The text that is signed, and what it determines.\<close>

lemma bar_split:
  assumes "CHR ''|'' \<notin> set a" and "CHR ''|'' \<notin> set a'"
    and "a @ CHR ''|'' # s = a' @ CHR ''|'' # s'"
  shows "a = a' \<and> s = s'"
  using assms
proof (induction a arbitrary: a')
  case Nil
  then show ?case by (cases a') auto
next
  case (Cons c a)
  then show ?case by (cases a') auto
qed

text \<open>
  Among identifiers without a bar the signed text determines the ticket, the nonce and
  the time, so a signature for one of them is a signature for that one only.
\<close>

theorem qr_payload_determines_token:
  assumes "CHR ''|'' \<notin> set t" and "CHR ''|'' \<notin> set t'"
    and "CHR ''|'' \<notin> set u" and "CHR ''|'' \<notin> set u'"
    and "qr_payload t u ts = qr_payload t' u' ts'"
  shows "t = t' \<and> u = u' \<and> ts = ts'"
proof -
  from assms have "t = t' \<and> u @ CHR ''|'' # show_int ts = u' @ CHR ''|'' # show_int ts'"
    by (intro bar_split) (simp_all add: qr_payload_def)
  with assms show ?thesis using bar_split [of u u' "show_int ts" "show_int ts'"] by simp
qed

theorem qr_payload_determines_token_witness:
  "qr_payload ''T1'' ''u-1'' 7 = qr_payload ''T1'' ''u-1'' 7 \<and> ''T1'' = ''T1'' \<and> (7::int) = 7"
  using qr_payload_determines_token [of "''T1''" "''T1''" "''u-1''" "''u-1''" 7 7] by simp

text \<open>
  With a bar in a ticket's identifier it does not. A token issued for the ticket
  \<open>a|b\<close> is, with the same signature and the nonce extended, a token for the ticket
  \<open>a\<close>: every gate gives the same answer to both, at every time.
\<close>

theorem qr_token_retargets:
  fixes cfg :: GateConfig and w w' :: world
  defines "tok \<equiv> fst (run_state (GenerateQROTP cfg (''A'' @ ''|'' @ ''B'')) w)"
  shows "q_TicketID tok = ''A|B'' \<and>
    run_state (VerifyQROTP cfg (tok\<lparr>q_TicketID := ''A'', q_UUID := ''B|'' @ q_UUID tok\<rparr>)) w' =
      run_state (VerifyQROTP cfg tok) w'"
  by (simp add: tok_def GenerateQROTP_def Let_def run_VerifyQROTP signed_by_def qr_payload_def)

section \<open>Concrete tokens\<close>

definition demo_gate :: GateConfig where
  "demo_gate = default_GateConfig ''secret''"

definition demo_token :: QRToken where
  "demo_token = fst (run_state (GenerateQROTP demo_gate ''T1'') (start_world plain_environment 5000 []))"

lemma demo_gate_rotation [simp]: "gc_QRRotationSeconds demo_gate = 30"
  by (simp add: demo_gate_def default_GateConfig_def)

lemma demo_token_sel [simp]: "q_Timestamp demo_token = 5"
  by (simp add: demo_token_def GenerateQROTP_def Let_def Unix_def int64_def)

theorem VerifyQROTP_accepts_iff_witness:
  "fst (run_state (VerifyQROTP demo_gate (demo_token\<lparr>q_Timestamp := 9\<rparr>))
     (start_world plain_environment 60000 [])) \<noteq> Inr True"
  using VerifyQROTP_accepts_iff [of demo_gate "demo_token\<lparr>q_Timestamp := 9\<rparr>"
      "start_world plain_environment 60000 []"]
  by (simp add: Unix_def int64_def)

theorem QR_roundtrip_witness:
  "fst (run_state (VerifyQROTP demo_gate demo_token) (start_world plain_environment 35000 [])) = Inr True"
proof -
  obtain tok w1 where g: "run_state (GenerateQROTP demo_gate ''T1'')
      (start_world plain_environment 5000 []) = (tok, w1)" by fastforce
  then have "tok = demo_token" by (simp add: demo_token_def)
  with QR_roundtrip [OF g, of "start_world plain_environment 35000 []"] show ?thesis
    by (simp add: sane_clock_def)
qed

end
