(* ===== verification/Gate_Binding.thy ===== *)
theory Gate_Binding
  imports Binding_Machine Gate_QR
begin

text \<open>
  \<^verbatim>\<open>internal/gate/binding.go\<close> and \<^verbatim>\<open>internal/auth/txn_check.go\<close>: the two staff
  scans and the admin reset. The handlers are the source's, call by call: what fails, what
  is ignored ("best effort"), and in which order Redis and Postgres change.
\<close>

section \<open>Requests, responses, errors\<close>

record BindRequest =
  br_TicketID :: string
  br_QRUUID :: string
  br_QRTimestamp :: int
  br_QRSignature :: string
  br_WristbandUID :: string

record NFCCheckRequest =
  nr_WristbandUID :: string

record ResetRequest =
  zr_WristbandUID :: string

record WristbandResponse =
  wr_WristbandUID :: string
  wr_TicketID :: string
  wr_Status :: string
  wr_UserEmail :: string
  wr_Allowed :: "bool option"
  wr_Reason :: string
  wr_Source :: string

record nfcDecision =
  nd_Allowed :: bool
  nd_Reason :: string

definition marshal_nfcDecision :: "nfcDecision \<Rightarrow> payload" where
  [codec_defs]: "marshal_nfcDecision d = Json (JObj
     [(''allowed'', JBool (nd_Allowed d)), (''reason'', JStr (nd_Reason d))])"

definition field_nfcDecision :: "string \<Rightarrow> json \<Rightarrow> nfcDecision \<times> bool \<Rightarrow> nfcDecision \<times> bool" where
  [codec_defs]: "field_nfcDecision k v =
     (if key_is ''allowed'' k then set_bool (\<lambda>b r. r\<lparr>nd_Allowed := b\<rparr>) v
      else if key_is ''reason'' k then set_string (\<lambda>s r. r\<lparr>nd_Reason := s\<rparr>) v
      else (\<lambda>acc. acc))"

definition unmarshal_nfcDecision :: "payload \<Rightarrow> goerr + nfcDecision" where
  "unmarshal_nfcDecision = unmarshal field_nfcDecision \<lparr>nd_Allowed = False, nd_Reason = []\<rparr>"

lemma nfcDecision_roundtrip [simp]: "unmarshal_nfcDecision (marshal_nfcDecision d) = Inr d"
  by (cases d) (simp add: codec_defs unmarshal_nfcDecision_def unmarshal_def key_is_def lower_def
      set_string_def set_bool_def)

lemma marshal_nfcDecision_not_empty [simp]: "marshal_nfcDecision d \<noteq> Text s"
  by (simp add: marshal_nfcDecision_def)

definition ErrQRInvalid :: goerr where
  [sentinel_defs]: "ErrQRInvalid = Sentinel ''gate.ErrQRInvalid'' ''invalid or expired QR code''"

definition ErrQRReplay :: goerr where
  [sentinel_defs]: "ErrQRReplay = Sentinel ''gate.ErrQRReplay'' ''QR code already used''"

definition ErrTicketInvalid :: goerr where
  [sentinel_defs]: "ErrTicketInvalid =
     Sentinel ''gate.ErrTicketInvalid'' ''ticket not found or not bindable''"

definition ErrNoBinding :: goerr where
  [sentinel_defs]: "ErrNoBinding = Sentinel ''gate.ErrNoBinding'' ''wristband not bound''"

definition ErrNotBound :: goerr where
  [sentinel_defs]: "ErrNotBound = Sentinel ''gate.ErrNotBound'' ''wristband not BOUND (active)''"

definition ErrAlreadyBound :: goerr where
  [sentinel_defs]: "ErrAlreadyBound =
     Sentinel ''gate.ErrAlreadyBound'' ''wristband or ticket already bound''"

section \<open>The transaction check\<close>

definition ErrTxnCheckFailed :: goerr where
  [sentinel_defs]: "ErrTxnCheckFailed =
     Sentinel ''auth.ErrTxnCheckFailed'' ''transaction check failed''"

text \<open>\<^verbatim>\<open>ctx.Err()\<close>: an entry of the schedule says whether the request was cancelled.\<close>

definition ctx_Err :: "(world, unit) go" where
  "ctx_Err = call (\<lambda>w. (Inr (), w))"

definition MockTxnCheck :: "string \<Rightarrow> string \<Rightarrow> (world, unit) go" where
  "MockTxnCheck FailWhen accountRef =
     on_err ctx_Err (\<lambda>err. fails err)
       (\<lambda>_. if FailWhen \<noteq> [] \<and> FailWhen = accountRef then fails ErrTxnCheckFailed else returns ())"

section \<open>The Postgres side\<close>

definition owner_emails :: "string \<Rightarrow> database \<Rightarrow> string list" where
  "owner_emails ticketID d =
     concat (map (\<lambda>t. map u_Email (filter (\<lambda>u. t_UserID t = Some (u_ID u)) (users d)))
       (filter (\<lambda>t. t_TicketID t = ticketID \<and> t_Status t \<noteq> StatusUsed \<and> t_Status t \<noteq> StatusExpired)
         (tickets d)))"

definition ticketOwnerEmail :: "string \<Rightarrow> (world, string) go" where
  "ticketOwnerEmail ticketID =
     on_err (sql (\<lambda>_ _ d. (case owner_emails ticketID d of [] \<Rightarrow> Inl ErrNoRows | e # _ \<Rightarrow> Inr e, d)))
       (\<lambda>err. if errors_Is err ErrNoRows then fails ErrTicketInvalid
              else fails (wrapf ''resolve ticket owner: '' err))
       returns"

definition with_ticket_status :: "string \<Rightarrow> TicketStatus \<Rightarrow> database \<Rightarrow> database" where
  "with_ticket_status ticketID status d =
     d\<lparr>tickets := update_where (\<lambda>t. t_TicketID t = ticketID) (\<lambda>t. t\<lparr>t_Status := status\<rparr>) (tickets d)\<rparr>"

definition setTicketStatus :: "string \<Rightarrow> TicketStatus \<Rightarrow> (world, unit) go" where
  "setTicketStatus ticketID status = sql (\<lambda>_ _ d. (Inr (), with_ticket_status ticketID status d))"

section \<open>The handlers\<close>

definition Bind :: "GateConfig \<Rightarrow> RedisConfig \<Rightarrow> BindRequest \<Rightarrow> (world, WristbandResponse) go" where
  "Bind cfg rcfg req = do {
     let token = \<lparr>q_TicketID = br_TicketID req, q_UUID = br_QRUUID req,
                  q_Timestamp = br_QRTimestamp req, q_Signature = br_QRSignature req\<rparr>;
     on_err (VerifyQROTP cfg token) (\<lambda>_. fails ErrQRInvalid) (\<lambda>ok.
       if \<not> ok then fails ErrQRInvalid else
       check (ticketOwnerEmail (br_TicketID req)) id (\<lambda>userEmail.
       check (MarkQRUsed rcfg (br_QRUUID req)) (wrapf ''mark qr used: '') (\<lambda>first.
       if \<not> first then fails ErrQRReplay else
       on_err (BindWristband (br_WristbandUID req) (br_TicketID req) userEmail)
         (\<lambda>err. if errors_Is err ErrWristbandAlreadyBound \<or> errors_Is err ErrTicketAlreadyBound
                then fails ErrAlreadyBound else fails (wrapf ''bind wristband: '' err))
         (\<lambda>_. do {
            _ \<leftarrow> setTicketStatus (br_TicketID req) StatusPendingEntry;
            returns \<lparr>wr_WristbandUID = br_WristbandUID req, wr_TicketID = br_TicketID req,
              wr_Status = BindingStatusBinding, wr_UserEmail = userEmail, wr_Allowed = None,
              wr_Reason = [], wr_Source = []\<rparr>
          }))))
   }"

text \<open>
  The second scan. \<open>nfc_evaluate\<close> is the part of \<^verbatim>\<open>NFCCheck\<close> after the lookup in the
  grace window.
\<close>

definition nfc_finish :: "RedisConfig \<Rightarrow> string \<Rightarrow> WristbandBinding \<Rightarrow> BindingStatus \<Rightarrow> bool \<Rightarrow>
    string \<Rightarrow> (world, WristbandResponse) go" where
  "nfc_finish rcfg uid b status allowed reason = do {
     _ \<leftarrow> SetWristbandGrace rcfg uid
           (marshal_nfcDecision \<lparr>nd_Allowed = allowed, nd_Reason = reason\<rparr>);
     returns \<lparr>wr_WristbandUID = wb_WristbandUID b, wr_TicketID = wb_TicketID b, wr_Status = status,
       wr_UserEmail = [], wr_Allowed = Some allowed, wr_Reason = reason, wr_Source = []\<rparr>
   }"

definition nfc_evaluate :: "RedisConfig \<Rightarrow> (string \<Rightarrow> (world, unit) go) \<Rightarrow> NFCCheckRequest \<Rightarrow>
    (world, WristbandResponse) go" where
  "nfc_evaluate rcfg CheckTxnCapability req =
     check (GetBinding (nr_WristbandUID req)) (wrapf ''get binding: '') (\<lambda>r. case r of
         None \<Rightarrow> fails ErrNoBinding
       | Some b \<Rightarrow>
           on_err (CheckTxnCapability (wb_UserEmail b))
             (\<lambda>err. nfc_finish rcfg (nr_WristbandUID req) b BindingStatusBinding False (Error err))
             (\<lambda>_. check (SetBindingStatus (wb_WristbandUID b) BindingStatusBound)
                 (wrapf ''promote binding: '') (\<lambda>_. do {
                   _ \<leftarrow> setTicketStatus (wb_TicketID b) StatusActive;
                   nfc_finish rcfg (nr_WristbandUID req) b BindingStatusBound True []
                 })))"

definition NFCCheck :: "RedisConfig \<Rightarrow> (string \<Rightarrow> (world, unit) go) \<Rightarrow> NFCCheckRequest \<Rightarrow>
    (world, WristbandResponse) go" where
  "NFCCheck rcfg CheckTxnCapability req =
     check (GetWristbandGrace (nr_WristbandUID req)) (wrapf ''grace lookup: '') (\<lambda>cached.
       if cached \<noteq> Text '''' then
         (case unmarshal_nfcDecision cached of
            Inr d \<Rightarrow> returns \<lparr>wr_WristbandUID = nr_WristbandUID req, wr_TicketID = [], wr_Status = [],
              wr_UserEmail = [], wr_Allowed = Some (nd_Allowed d), wr_Reason = nd_Reason d,
              wr_Source = ''grace_window''\<rparr>
          | Inl _ \<Rightarrow> nfc_evaluate rcfg CheckTxnCapability req)
       else nfc_evaluate rcfg CheckTxnCapability req)"

definition Reset :: "ResetRequest \<Rightarrow> (world, WristbandResponse) go" where
  "Reset req =
     check (GetBinding (zr_WristbandUID req)) (wrapf ''get binding: '') (\<lambda>r. case r of
         None \<Rightarrow> fails ErrNoBinding
       | Some b \<Rightarrow>
           check (DeleteBinding (zr_WristbandUID req)) (wrapf ''delete binding: '') (\<lambda>_. do {
             _ \<leftarrow> ClearWristbandGrace (zr_WristbandUID req);
             _ \<leftarrow> setTicketStatus (wb_TicketID b) StatusClaimed;
             returns \<lparr>wr_WristbandUID = wb_WristbandUID b, wr_TicketID = wb_TicketID b,
               wr_Status = TicketStatus_text StatusClaimed, wr_UserEmail = [], wr_Allowed = None,
               wr_Reason = [], wr_Source = []\<rparr>
           }))"

end
