(* ===== verification/Kafka_Producer.thy ===== *)
theory Kafka_Producer
  imports Services Config
begin

text \<open>
  \<^verbatim>\<open>internal/kafka/producer.go\<close>: scan events become Kafka messages, keyed and traced by
  their trace id. The writer is kafka-go's: each message is tried \<^verbatim>\<open>MaxAttempts\<close> times,
  a message whose acknowledgement was lost is written again, and an asynchronous writer
  reports nothing.
\<close>

datatype topic = RideScans | DLQ

definition append_topic :: "topic \<Rightarrow> kmessage \<Rightarrow> world \<Rightarrow> world" where
  "append_topic t m w = (case t of
       RideScans \<Rightarrow> w\<lparr>ride_scans := ride_scans w @ [m\<lparr>k_Offset := int (length (ride_scans w))\<rparr>]\<rparr>
     | DLQ \<Rightarrow> w\<lparr>dlq := dlq w @ [m\<lparr>k_Offset := int (length (dlq w))\<rparr>]\<rparr>)"

fun write_attempts :: "nat \<Rightarrow> topic \<Rightarrow> kmessage \<Rightarrow> (world, unit) go" where
  "write_attempts 0 t m = fails (Msg ''no attempts left'')"
| "write_attempts (Suc n) t m =
     on_err (call (\<lambda>w. (Inr (), append_topic t m w)))
       (\<lambda>err. if n = 0 then fails err else write_attempts n t m) returns"

fun WriteMessages :: "nat \<Rightarrow> topic \<Rightarrow> kmessage list \<Rightarrow> (world, unit) go" where
  "WriteMessages attempts t [] = returns ()"
| "WriteMessages attempts t (m # ms) = do {
     r \<leftarrow> write_attempts attempts t m;
     rs \<leftarrow> WriteMessages attempts t ms;
     State_Monad.return (case r of Inl err \<Rightarrow> Inl err | Inr _ \<Rightarrow> rs)
   }"

record producer =
  pd_MaxAttempts :: nat
  pd_Async :: bool

definition NewProducer :: "bool \<Rightarrow> producer" where
  "NewProducer async = \<lparr>pd_MaxAttempts = 3, pd_Async = async\<rparr>"

definition writer_write :: "producer \<Rightarrow> kmessage list \<Rightarrow> (world, unit) go" where
  "writer_write p msgs = do {
     r \<leftarrow> WriteMessages (pd_MaxAttempts p) RideScans msgs;
     State_Monad.return (if pd_Async p then Inr () else r)
   }"

definition buildMessage :: "ScanEvent \<Rightarrow> kmessage" where
  "buildMessage event = \<lparr>k_Key = ev_TraceID event, k_Value = marshal_ScanEvent event,
     k_Headers = [(''traceparent'', ev_TraceID event)], k_Offset = 0\<rparr>"

definition buildMessages :: "ScanEvent list \<Rightarrow> kmessage list" where
  "buildMessages events = map buildMessage events"

definition PublishScanEvent :: "producer \<Rightarrow> ScanEvent \<Rightarrow> (world, unit) go" where
  "PublishScanEvent p event =
     check (writer_write p (buildMessages [event])) (wrapf ''write messages: '') returns"

definition PublishBatch :: "producer \<Rightarrow> ScanEvent list \<Rightarrow> (world, unit) go" where
  "PublishBatch p events =
     check (writer_write p (buildMessages events)) (wrapf ''write batch: '') returns"

section \<open>What is written\<close>

definition written :: "kmessage list \<Rightarrow> payload list" where
  "written ms = map k_Value ms"

lemma append_topic_sel [simp]:
  "redis (append_topic t m w) = redis w" "db (append_topic t m w) = db w"
  "clock (append_topic t m w) = clock w" "env (append_topic t m w) = env w"
  "schedule (append_topic t m w) = schedule w" "commits (append_topic t m w) = commits w"
  "quiet (append_topic t m w) = quiet w"
  by (simp_all add: append_topic_def quiet_def split: topic.split)

lemma keeps_write_attempts:
  assumes "stable I" and "\<And>w. I w \<Longrightarrow> I (append_topic t m w)"
  shows "keeps I (write_attempts n t m)"
  using assms by (induction n) (auto intro!: keeps_intros keeps_call)

lemma keeps_WriteMessages:
  assumes "stable I" and "\<And>m w. m \<in> set ms \<Longrightarrow> I w \<Longrightarrow> I (append_topic t m w)"
  shows "keeps I (WriteMessages n t ms)"
  using assms by (induction ms) (auto intro!: keeps_intros keeps_write_attempts)

text \<open>An acknowledged message is in its topic.\<close>

lemma write_attempts_delivers:
  assumes "run_state (write_attempts n t m) w = (Inr (), w')"
  shows "k_Value m \<in> set (written (case t of RideScans \<Rightarrow> ride_scans w' | DLQ \<Rightarrow> dlq w'))"
  using assms
proof (induction n arbitrary: w)
  case (Suc n)
  obtain r w1 where c: "run_state (call (\<lambda>w. (Inr (), append_topic t m w))) w = (r, w1)" by fastforce
  show ?case
  proof (cases r)
    case (Inl err)
    with Suc c show ?thesis by (auto split: if_splits)
  next
    case (Inr u)
    with Suc.prems c have "w1 = w'" by simp
    with c Inr obtain w0 where "w' = append_topic t m w0"
      by (auto elim!: run_call_cases)
    then show ?thesis by (cases t) (simp_all add: append_topic_def written_def)
  qed
qed simp

text \<open>A write only appends, and what it acknowledges is in what it appended.\<close>

lemma write_attempts_appends:
  assumes "run_state (write_attempts n RideScans m) w = (Inr (), w')"
  shows "\<exists>ms. ride_scans w' = ride_scans w @ ms \<and> k_Value m \<in> set (written ms)"
  using assms
proof (induction n arbitrary: w)
  case (Suc n)
  obtain r w1 where c: "run_state (call (\<lambda>w. (Inr (), append_topic RideScans m w))) w = (r, w1)" by fastforce
  have ev: "ride_scans w2 = ride_scans w" if "next_event w = (f, w2)" for f w2
    using that by (auto simp: next_event_def split: list.splits)
  from c have "\<exists>ms. ride_scans w1 = ride_scans w @ ms \<and> (r = Inr () \<longrightarrow> k_Value m \<in> set (written ms))"
    by (cases rule: run_call_cases) (auto dest!: ev simp: append_topic_def written_def)
  then obtain ms where ms: "ride_scans w1 = ride_scans w @ ms" "r = Inr () \<Longrightarrow> k_Value m \<in> set (written ms)"
    by blast
  show ?case
  proof (cases r)
    case (Inl err)
    with Suc.prems c have "run_state (write_attempts n RideScans m) w1 = (Inr (), w')" by (simp split: if_splits)
    from Suc.IH [OF this] ms(1) show ?thesis by (fastforce simp: written_def)
  next
    case (Inr u)
    with Suc.prems c ms show ?thesis by auto
  qed
qed simp

end
