(* ===== verification/Gate_Ride_Scan.thy ===== *)
theory Gate_Ride_Scan
  imports Gate_Binding Kafka_Producer
begin

text \<open>
  \<^verbatim>\<open>internal/gate/ride_scan.go\<close>: an NFC scan at a ride. The publisher is the interface
  \<^verbatim>\<open>ScanEventPublisher\<close>, an argument of the handler.
\<close>

record RideScanRequest =
  rq_WristbandUID :: string
  rq_RideID :: string

record RideScanResponse =
  rr_TraceID :: string
  rr_RideID :: string
  rr_Status :: string

definition mark_ticket_used :: "string \<Rightarrow> database \<Rightarrow> database" where
  "mark_ticket_used ticketID d =
     d\<lparr>tickets := update_where (\<lambda>t. t_TicketID t = ticketID \<and> t_Status t = StatusActive)
        (\<lambda>t. t\<lparr>t_Status := StatusUsed\<rparr>) (tickets d)\<rparr>"

definition markTicketUsed :: "bool \<Rightarrow> string \<Rightarrow> (world, unit) go" where
  "markTicketUsed has_db ticketID =
     (if \<not> has_db then returns ()
      else check (sql (\<lambda>_ _ d. (Inr (), mark_ticket_used ticketID d))) (wrapf ''mark ticket used: '')
        returns)"

definition Scan :: "bool \<Rightarrow> (ScanEvent \<Rightarrow> (world, unit) go) \<Rightarrow> RideScanRequest \<Rightarrow>
    (world, RideScanResponse) go" where
  "Scan has_db publish req =
     check (GetBinding (rq_WristbandUID req)) (wrapf ''get binding: '') (\<lambda>r. case r of
         None \<Rightarrow> fails ErrNoBinding
       | Some b \<Rightarrow>
           if wb_Status b \<noteq> BindingStatusBound then fails ErrNotBound
           else do {
             now \<leftarrow> gets clock;
             trace \<leftarrow> new_uuid;
             let event = \<lparr>ev_UserID = wb_UserEmail b, ev_RideID = rq_RideID req,
                  ev_Timestamp = UnixMilli now, ev_TraceID = trace, ev_TicketID = wb_TicketID b\<rparr>;
             check (publish event) (wrapf ''publish ride scan: '') (\<lambda>_. do {
               _ \<leftarrow> markTicketUsed has_db (wb_TicketID b);
               returns \<lparr>rr_TraceID = trace, rr_RideID = rq_RideID req, rr_Status = ''recorded''\<rparr>
             })
           })"

end
