(* ===== verification/Gate_Invariants.thy ===== *)
theory Gate_Invariants
  imports Gate_Ride_Scan
begin

text \<open>
  The gate as a whole: what its collaborators promise (the transaction check and the event
  publisher, as interfaces), which invariants its four handlers keep under every schedule of
  delays and failures, and sequences of requests.
\<close>

section \<open>The collaborators\<close>

text \<open>A transaction check answers from outside: it changes nothing the program owns.\<close>

locale txn_check =
  fixes check_txn :: "string \<Rightarrow> (world, unit) go"
  assumes check_pure: "stable I \<Longrightarrow> keeps I (check_txn ref)"

text \<open>A publisher only appends to the topics, and a published event is in the topic.\<close>

locale publisher =
  fixes publish :: "ScanEvent \<Rightarrow> (world, unit) go"
  assumes publish_frame: "stable I \<Longrightarrow>
        (\<And>w. I w \<Longrightarrow> I (append_topic RideScans (buildMessage e) w)) \<Longrightarrow> keeps I (publish e)"
    and publish_delivers: "run_state (publish e) w = (Inr (), w') \<Longrightarrow>
        marshal_ScanEvent e \<in> set (written (ride_scans w'))"

lemma keeps_ctx_Err: "stable I \<Longrightarrow> keeps I ctx_Err"
  unfolding ctx_Err_def by (rule keeps_call) auto

interpretation mock: txn_check "MockTxnCheck f" for f
proof (unfold_locales, goal_cases)
  case (1 I ref)
  then show ?case unfolding MockTxnCheck_def by (intro keeps_intros keeps_ctx_Err)
qed

lemma keeps_PublishScanEvent:
  assumes "stable I" and "\<And>w. I w \<Longrightarrow> I (append_topic RideScans (buildMessage e) w)"
  shows "keeps I (PublishScanEvent p e)"
proof -
  have "keeps I (WriteMessages n RideScans [buildMessage e])" for n
    by (rule keeps_WriteMessages) (use assms in auto)
  then show ?thesis
    unfolding PublishScanEvent_def writer_write_def buildMessages_def list.map
    by (intro keeps_intros)
qed

interpretation sync: publisher "PublishScanEvent (NewProducer False)"
proof (unfold_locales, goal_cases)
  case (1 I e)
  then show ?case by (rule keeps_PublishScanEvent)
next
  case (2 e w w')
  then obtain u where "run_state (write_attempts 3 RideScans (buildMessage e)) w = (Inr u, w')"
    by (auto simp: PublishScanEvent_def writer_write_def buildMessages_def NewProducer_def
        split: prod.splits sum.splits)
  then show ?case using write_attempts_delivers [of 3 RideScans "buildMessage e" w w']
    by (simp add: buildMessage_def)
qed

section \<open>Invariants of the Redis client's methods\<close>

lemma keeps_rdb_Get: "stable I \<Longrightarrow> keeps I (rdb_Get k)"
  unfolding rdb_Get_def by (rule keeps_redis_call) auto

lemma keeps_GetBinding: "stable I \<Longrightarrow> keeps I (GetBinding uid)"
  unfolding GetBinding_def by (intro keeps_intros keeps_rdb_Get)

lemma keeps_GetWristbandGrace: "stable I \<Longrightarrow> keeps I (GetWristbandGrace uid)"
  unfolding GetWristbandGrace_def by (intro keeps_intros keeps_rdb_Get)

lemma keeps_new_uuid: "(\<And>w n. I (w\<lparr>uuid_next := n\<rparr>) = I w) \<Longrightarrow> keeps I new_uuid"
  unfolding new_uuid_def by (intro keeps_intros) (simp add: keeps_def)

lemma keeps_VerifyQROTP: "keeps I (VerifyQROTP cfg t)"
  unfolding VerifyQROTP_def Let_def by (intro keeps_intros)

text \<open>
  An invariant of the gate, and the steps it has to survive: time, a fresh QR marker, the
  grace keys, the two scripts, the promotion, and every change outside Redis.
\<close>

locale gate_invariant = txn_check check_txn + publisher publish
  for check_txn and publish +
  fixes I :: "world \<Rightarrow> bool"
  assumes I_timeless: "timeless I"
    and I_db: "I (w\<lparr>db := d\<rparr>) = I w"
    and I_uuid: "I (w\<lparr>uuid_next := n\<rparr>) = I w"
    and I_topic: "I (append_topic RideScans m w) = I w"
    and I_qr: "I w \<Longrightarrow> redis w (qrKey q) = None \<Longrightarrow> I (w\<lparr>redis := (redis w)(qrKey q := y)\<rparr>)"
    and I_grace: "I w \<Longrightarrow> I (w\<lparr>redis := (redis w)(wristbandGraceKey u := y)\<rparr>)"
    and I_bind: "I w \<Longrightarrow> bindScript (bindingKey u) (ticketKey t)
          (marshal_WristbandBinding (new_binding u t email ms)) e u (redis w) = (r, ks) \<Longrightarrow>
        I (w\<lparr>redis := ks\<rparr>)"
    and I_unbind: "I w \<Longrightarrow> deleteBindingScript (bindingKey u) (redis w) = (r, ks) \<Longrightarrow>
        I (w\<lparr>redis := ks\<rparr>)"

context gate_invariant
begin

lemma I_time: "stable I"
  by (rule timeless_stable [OF I_timeless])

lemma keeps_MarkQRUsed: "keeps I (MarkQRUsed rcfg q)"
  unfolding MarkQRUsed_def rdb_SetNX_def
  by (intro keeps_intros keeps_redis_call I_time)
    (auto simp: r_SETNX_def r_SET_def intro: I_qr split: if_splits prod.splits)

lemma keeps_BindWristband: "keeps I (BindWristband uid t email)"
  unfolding BindWristband_def Let_def
  by (intro keeps_intros keeps_redis_call I_time I_bind [unfolded new_binding_def]) auto

lemma keeps_sql_any: "keeps I (sql stmt)"
  by (intro keeps_sql_frame I_time I_db)

lemma keeps_ticket: "keeps I (setTicketStatus t st)" "keeps I (ticketOwnerEmail t)"
    "keeps I (markTicketUsed b t)"
  unfolding setTicketStatus_def ticketOwnerEmail_def markTicketUsed_def
  by (intro keeps_intros keeps_sql_any)+

lemma keeps_Bind: "keeps I (Bind cfg rcfg req)"
  unfolding Bind_def Let_def
  by (intro keeps_intros keeps_VerifyQROTP keeps_ticket keeps_MarkQRUsed keeps_BindWristband)

lemma keeps_SetWristbandGrace: "keeps I (SetWristbandGrace rcfg u d)"
  unfolding SetWristbandGrace_def rdb_Set_def
  by (intro keeps_redis_call I_time) (auto simp: r_SET_def intro: I_grace)

lemma keeps_ClearWristbandGrace: "keeps I (ClearWristbandGrace u)"
  unfolding ClearWristbandGrace_def rdb_Del_def
  by (intro keeps_redis_call I_time) (auto simp: r_DEL_def intro: I_grace)

lemma keeps_DeleteBinding: "keeps I (DeleteBinding u)"
  unfolding DeleteBinding_def by (intro keeps_intros keeps_redis_call I_time I_unbind)

lemma keeps_Reset: "keeps I (Reset req)"
  unfolding Reset_def
  by (intro keeps_intros keeps_GetBinding I_time keeps_DeleteBinding keeps_ClearWristbandGrace
      keeps_ticket)

lemma keeps_Scan: "keeps I (Scan has_db publish req)"
  unfolding Scan_def Let_def
  by (intro keeps_intros keeps_GetBinding I_time keeps_new_uuid I_uuid publish_frame keeps_ticket)
    (simp add: I_topic)

lemma keeps_nfc_finish: "keeps I (nfc_finish rcfg u b st a reason)"
  unfolding nfc_finish_def by (intro keeps_intros keeps_SetWristbandGrace)

lemma keeps_nfc_evaluate:
  assumes "\<And>uid st. keeps I (SetBindingStatus uid st)"
  shows "keeps I (nfc_evaluate rcfg check_txn req)"
  unfolding nfc_evaluate_def
  by (intro keeps_intros keeps_GetBinding I_time check_pure keeps_nfc_finish assms keeps_ticket)

lemma keeps_NFCCheck:
  assumes "keeps I (nfc_evaluate rcfg check_txn req)"
  shows "keeps I (NFCCheck rcfg check_txn req)"
  unfolding NFCCheck_def by (intro keeps_intros keeps_GetWristbandGrace I_time assms)

end

section \<open>Sequences of requests\<close>

datatype gate_request =
    ReqBind BindRequest
  | ReqNFC NFCCheckRequest
  | ReqReset ResetRequest
  | ReqScan RideScanRequest
  | Idle nat

record gate =
  g_cfg :: GateConfig
  g_redis :: RedisConfig
  g_check :: "string \<Rightarrow> (world, unit) go"
  g_publish :: "ScanEvent \<Rightarrow> (world, unit) go"

fun serve :: "gate \<Rightarrow> gate_request \<Rightarrow> (world, unit) state" where
  "serve g (ReqBind r) = Bind (g_cfg g) (g_redis g) r \<bind> (\<lambda>_. State_Monad.return ())"
| "serve g (ReqNFC r) = NFCCheck (g_redis g) (g_check g) r \<bind> (\<lambda>_. State_Monad.return ())"
| "serve g (ReqReset r) = Reset r \<bind> (\<lambda>_. State_Monad.return ())"
| "serve g (ReqScan r) = Scan True (g_publish g) r \<bind> (\<lambda>_. State_Monad.return ())"
| "serve g (Idle d) = modify (elapse d)"

fun serve_all :: "gate \<Rightarrow> gate_request list \<Rightarrow> (world, unit) state" where
  "serve_all g [] = State_Monad.return ()"
| "serve_all g (r # rs) = serve g r \<bind> (\<lambda>_. serve_all g rs)"

definition gate_with :: "GateConfig \<Rightarrow> RedisConfig \<Rightarrow> gate" where
  "gate_with cfg rcfg = \<lparr>g_cfg = cfg, g_redis = rcfg,
     g_check = MockTxnCheck (gc_TxnCheckFailWhen cfg),
     g_publish = PublishScanEvent (NewProducer False)\<rparr>"

lemma keeps_elapse: "timeless I \<Longrightarrow> keeps I (modify (elapse d))"
  by (simp add: keeps_def timeless_elapse)

lemma keeps_serve_all: "(\<And>r. keeps I (serve g r)) \<Longrightarrow> keeps I (serve_all g rs)"
  by (induction rs) (simp_all add: keeps_intros)

context gate_invariant
begin

lemma keeps_requests:
  assumes "g_check g = check_txn" and "g_publish g = publish"
    and "\<And>rcfg req. keeps I (nfc_evaluate rcfg check_txn req)"
  shows "keeps I (serve_all g rs)"
proof (rule keeps_serve_all)
  fix r
  show "keeps I (serve g r)"
  proof (cases r)
    case (ReqNFC q)
    then show ?thesis
      by (simp add: assms(1)) (intro keeps_intros keeps_NFCCheck assms(3))
  next
    case (ReqScan q)
    then show ?thesis by (simp add: assms(2)) (intro keeps_intros keeps_Scan)
  next
    case (Idle d)
    then show ?thesis by (simp add: keeps_elapse I_timeless)
  qed (auto intro!: keeps_intros keeps_Bind keeps_Reset)
qed

end

end
