(* ===== verification/Gate_Safety.thy ===== *)
theory Gate_Safety
  imports Gate_Invariants
begin

text \<open>
  Safety of the gate over whole runs: sequences of requests of any kind, in any order, under
  any schedule of delays and failures.
\<close>

section \<open>Frames of the scripts\<close>

lemma bindScript_other:
  assumes "bindScript (bindingKey u) (ticketKey t) p e v ks = (r, ks')" and "\<not> family_key k"
  shows "ks' k = ks k"
  using assms
  by (auto simp: bindScript_def r_SETNX_def r_SET_def family_key_def split: if_splits)

lemma deleteBindingScript_cases:
  assumes "deleteBindingScript (bindingKey u) ks = (r, ks')"
  shows "ks' = ks \<or> ks' = ks(bindingKey u := None) \<or>
    (\<exists>t. ks' = ks(bindingKey u := None, ticketKey t := None))"
  using assms
  by (auto simp: deleteBindingScript_def r_DEL_def ticketKey_def Let_def
      split: sum.splits payload.splits json.splits option.splits if_splits bool.splits)

lemma deleteBindingScript_other:
  assumes "deleteBindingScript (bindingKey u) ks = (r, ks')" and "\<not> family_key k"
  shows "ks' k = ks k"
  using deleteBindingScript_cases [OF assms(1)] assms(2) by (auto simp: family_key_def)

lemma not_family [simp]: "\<not> family_key (qrKey q)" "\<not> family_key (wristbandGraceKey u)"
  by (auto simp: family_key_def)

lemma run_GetBinding_Some:
  assumes "run_state (GetBinding uid) w = (Inr (Some b), w')"
  obtains p x where "redis w' (bindingKey uid) = Some (RStr p, x)"
    "unmarshal_WristbandBinding p = Inr b"
  using assms
  by (auto simp: GetBinding_def rdb_Get_def redis_call_def r_GET_def elim!: run_call_cases
      split: prod.splits sum.splits if_splits option.splits rvalue.splits)

lemma keeps_SetBindingStatus:
  assumes "stable I" and "\<And>w p. I w \<Longrightarrow> I (w\<lparr>redis := r_SET_KEEPTTL (bindingKey u) p (redis w)\<rparr>)"
  shows "keeps I (SetBindingStatus u st)"
  unfolding SetBindingStatus_def rdb_SetKeepTTL_def
  using assms by (intro keeps_intros keeps_GetBinding keeps_redis_call) auto

section \<open>One-time use of a QR code\<close>

definition qr_spent :: "string \<Rightarrow> int \<Rightarrow> world \<Rightarrow> bool" where
  "qr_spent q x w \<longleftrightarrow> (clock w < x \<longrightarrow> (\<exists>v. redis w (qrKey q) = Some (v, Some x)))"

lemma timeless_qr_spent: "timeless (qr_spent q x)"
  by (auto simp: timeless_def qr_spent_def purge_Some)

lemma qr_spent_keys:
  "qr_spent q x w \<Longrightarrow> ks (qrKey q) = redis w (qrKey q) \<Longrightarrow> qr_spent q x (w\<lparr>redis := ks\<rparr>)"
  by (simp add: qr_spent_def)

interpretation spent: gate_invariant "MockTxnCheck f" "PublishScanEvent (NewProducer False)"
    "qr_spent q x" for f q x
proof (unfold_locales, goal_cases)
  case 1
  show ?case by (rule timeless_qr_spent)
next
  case (5 w p y)
  then show ?case by (cases "p = q") (auto simp: qr_spent_def)
next
  case (7 w u t email ms e r ks)
  then show ?case using bindScript_other [OF 7(2), of "qrKey q"] by (intro qr_spent_keys) auto
next
  case (8 w u r ks)
  then show ?case using deleteBindingScript_other [OF 8(2), of "qrKey q"] by (intro qr_spent_keys) auto
qed (simp_all add: qr_spent_def)

lemma qr_spent_requests: "keeps (qr_spent q x) (serve_all (gate_with cfg rcfg) rs)"
proof (rule spent.keeps_requests [of _ "gc_TxnCheckFailWhen cfg"])
  fix rcfg req
  have "keeps (qr_spent q x) (SetBindingStatus uid st)" for uid st
    by (rule keeps_SetBindingStatus [OF timeless_stable [OF timeless_qr_spent]])
      (auto simp: r_SET_KEEPTTL_def r_SET_def intro: qr_spent_keys)
  then show "keeps (qr_spent q x) (nfc_evaluate rcfg (MockTxnCheck (gc_TxnCheckFailWhen cfg)) req)"
    by (rule spent.keeps_nfc_evaluate)
qed (simp_all add: gate_with_def)

text \<open>A used marker makes every later attempt fail, for as long as it lives.\<close>

lemma MarkQRUsed_spends:
  assumes "run_state (MarkQRUsed rcfg q) w = (Inr True, w')"
    and "0 < rc_GraceWindowSec rcfg + 30"
  shows "qr_spent q (clock w' + (rc_GraceWindowSec rcfg + 30) * 1000) w'"
  using assms
  by (auto simp: MarkQRUsed_def rdb_SetNX_def redis_call_def qr_spent_def r_SETNX_def r_SET_def
      ttl_def elim!: run_call_cases split: prod.splits sum.splits if_splits)

lemma MarkQRUsed_blocked:
  assumes "run_state (MarkQRUsed rcfg q) w = (Inr True, w')" and "qr_spent q x w"
  shows "x \<le> clock w'"
proof (rule ccontr)
  assume late: "\<not> x \<le> clock w'"
  obtain w1 where "next_event w = (Up, w1)" "redis w1 (qrKey q) = None" "clock w' = clock w1"
    using assms(1)
    by (auto simp: MarkQRUsed_def rdb_SetNX_def redis_call_def r_SETNX_def
        elim!: run_call_cases split: prod.splits sum.splits if_splits)
  moreover from this(1) have "qr_spent q x w1"
    using stable_next [OF timeless_stable [OF timeless_qr_spent] assms(2)] by blast
  ultimately show False using late by (simp add: qr_spent_def)
qed

text \<open>Time only moves forward.\<close>

definition since :: "int \<Rightarrow> world \<Rightarrow> bool" where
  "since c w \<longleftrightarrow> c \<le> clock w"

lemma timeless_since: "timeless (since c)"
  by (simp add: timeless_def since_def)

interpretation since: gate_invariant "MockTxnCheck f" "PublishScanEvent (NewProducer False)"
    "since c" for f c
proof (unfold_locales, goal_cases)
  case 1
  show ?case by (rule timeless_since)
qed (simp_all add: since_def)

lemma since_requests: "keeps (since c) (serve_all (gate_with cfg rcfg) rs)"
proof (rule since.keeps_requests [of _ "gc_TxnCheckFailWhen cfg"])
  fix rcfg req
  have "keeps (since c) (SetBindingStatus uid st)" for uid st
    by (rule keeps_SetBindingStatus [OF timeless_stable [OF timeless_since]]) (simp add: since_def)
  then show "keeps (since c) (nfc_evaluate rcfg (MockTxnCheck (gc_TxnCheckFailWhen cfg)) req)"
    by (rule since.keeps_nfc_evaluate)
qed (simp_all add: gate_with_def)

lemma Bind_Inr:
  assumes "run_state (Bind cfg rcfg req) w = (Inr resp, w')"
  obtains email wa wm wb st where
    "signed_by cfg \<lparr>q_TicketID = br_TicketID req, q_UUID = br_QRUUID req,
        q_Timestamp = br_QRTimestamp req, q_Signature = br_QRSignature req\<rparr>"
    "qr_age (clock w) (br_QRTimestamp req) \<le> gc_QRRotationSeconds cfg"
    "run_state (ticketOwnerEmail (br_TicketID req)) w = (Inr email, wa)"
    "run_state (MarkQRUsed rcfg (br_QRUUID req)) wa = (Inr True, wm)"
    "run_state (BindWristband (br_WristbandUID req) (br_TicketID req) email) wm = (Inr (), wb)"
    "run_state (setTicketStatus (br_TicketID req) StatusPendingEntry) wb = (st, w')"
    "resp = \<lparr>wr_WristbandUID = br_WristbandUID req, wr_TicketID = br_TicketID req,
        wr_Status = BindingStatusBinding, wr_UserEmail = email, wr_Allowed = None,
        wr_Reason = [], wr_Source = []\<rparr>"
  using assms
  by (auto simp: Bind_def Let_def run_VerifyQROTP
      split: prod.splits sum.splits if_splits)

lemma keeps_run:
  "keeps I m \<Longrightarrow> run_state m s = (r, s') \<Longrightarrow> I s \<Longrightarrow> I s'"
  by (rule keepsD)

lemma seconds_bound: "a div 1000 - t \<le> m \<Longrightarrow> a < (t + m + 1) * 1000" for a t m :: int
  using pos_mod_bound [of 1000 a] div_mult_mod_eq [of a 1000] by (simp add: distrib_right)

text \<open>
  C2: a QR code binds once. After a successful bind, and after any requests and delays, a bind
  with the same code (same nonce and time, for any wristband and any ticket) is refused,
  provided the code was not issued in the future, and the rotation plus the time the second
  bind takes stays below the lifetime of the marker (the grace window plus 30 seconds).
\<close>

theorem qr_one_time_use:
  assumes "run_state (Bind cfg rcfg req) w0 = (Inr resp, w1)"
    and "run_state (serve_all (gate_with cfg rcfg) requests) w1 = (u, w2)"
    and "run_state (Bind cfg rcfg req') w2 = (r, w3)"
    and "br_QRUUID req' = br_QRUUID req" and "br_QRTimestamp req' = br_QRTimestamp req"
    and "0 \<le> br_QRTimestamp req" and "br_QRTimestamp req * 1000 \<le> clock w0"
    and "sane_clock (clock w2)" and "0 \<le> gc_QRRotationSeconds cfg"
    and "(gc_QRRotationSeconds cfg + 1) * 1000 + (clock w3 - clock w2) \<le>
           (rc_GraceWindowSec rcfg + 30) * 1000"
  shows "\<exists>err. r = Inl err"
proof (rule ccontr)
  let ?q = "br_QRUUID req" and ?ts = "br_QRTimestamp req"
  let ?life = "(rc_GraceWindowSec rcfg + 30) * 1000"
  assume "\<nexists>err. r = Inl err"
  then obtain resp' where r: "r = Inr resp'" by (cases r) auto
  note spent_steps = spent.keeps_BindWristband spent.keeps_ticket(1)
  note since_steps = since.keeps_BindWristband since.keeps_ticket since.keeps_MarkQRUsed
  from assms(1) obtain email wa wm wb st where b1:
    "run_state (ticketOwnerEmail (br_TicketID req)) w0 = (Inr email, wa)"
    "run_state (MarkQRUsed rcfg ?q) wa = (Inr True, wm)"
    "run_state (BindWristband (br_WristbandUID req) (br_TicketID req) email) wm = (Inr (), wb)"
    "run_state (setTicketStatus (br_TicketID req) StatusPendingEntry) wb = (st, w1)"
    by (rule Bind_Inr)
  from assms(3) r have "run_state (Bind cfg rcfg req') w2 = (Inr resp', w3)" by simp
  then obtain email' wa' wm' wb' st' where b2':
    "qr_age (clock w2) (br_QRTimestamp req') \<le> gc_QRRotationSeconds cfg"
    "run_state (ticketOwnerEmail (br_TicketID req')) w2 = (Inr email', wa')"
    "run_state (MarkQRUsed rcfg (br_QRUUID req')) wa' = (Inr True, wm')"
    "run_state (BindWristband (br_WristbandUID req') (br_TicketID req') email') wm' = (Inr (), wb')"
    "run_state (setTicketStatus (br_TicketID req') StatusPendingEntry) wb' = (st', w3)"
    by (rule Bind_Inr)
  note b2 = b2' [unfolded assms(4,5)]
  have c0: "clock w0 \<le> clock wm"
    using keeps_run [OF since.keeps_ticket(2) b1(1), of "clock w0"]
      keeps_run [OF since.keeps_MarkQRUsed b1(2), of "clock w0"] by (simp add: since_def)
  have c2: "clock w2 \<le> clock wm'"
    using keeps_run [OF since.keeps_ticket(2) b2(2), of "clock w2"]
      keeps_run [OF since.keeps_MarkQRUsed b2(3), of "clock w2"] by (simp add: since_def)
  have c3: "clock wm' \<le> clock w3"
    using keeps_run [OF since.keeps_BindWristband b2(4), of "clock wm'"]
      keeps_run [OF since.keeps_ticket(1) b2(5), of "clock wm'"] by (simp add: since_def)
  have "1000 \<le> (gc_QRRotationSeconds cfg + 1) * 1000" using assms(9) by simp
  with assms(10) c2 c3 have "0 < (rc_GraceWindowSec rcfg + 30) * 1000" by linarith
  then have "0 < rc_GraceWindowSec rcfg + 30" by simp
  then have "qr_spent ?q (clock wm + ?life) wm" by (rule MarkQRUsed_spends [OF b1(2)])
  then have "qr_spent ?q (clock wm + ?life) wa'"
    by (metis b1(3,4) b2(2) assms(2) keeps_run spent.keeps_BindWristband spent.keeps_ticket(1,2)
        qr_spent_requests)
  then have late: "clock wm + ?life \<le> clock wm'" by (rule MarkQRUsed_blocked [OF b2(3)])
  from assms(6,7) c0 have "?ts * 1000 \<le> clock wm" by linarith
  have ts: "in_int64 (Unix (clock w2) - ?ts)" and u: "Unix (clock w2) = clock w2 div 1000"
  proof -
    show u: "Unix (clock w2) = clock w2 div 1000" by (rule Unix_sane [OF assms(8)])
    have "clock w0 \<le> clock w2"
      using keeps_run [OF since.keeps_Bind assms(1), of "clock w0"]
        keeps_run [OF since_requests assms(2), of "clock w0"] by (simp add: since_def)
    then have "?ts * 1000 \<le> clock w2" using assms(7) by linarith
    then show "in_int64 (Unix (clock w2) - ?ts)"
      using assms(6,8) u by (auto simp: in_int64_def sane_clock_def)
  qed
  have "clock w2 div 1000 - ?ts \<le> gc_QRRotationSeconds cfg"
    using b2(1) ts u assms(9) by (auto simp: qr_age_def int64_id Let_def split: if_splits)
  then have "clock w2 < (?ts + gc_QRRotationSeconds cfg + 1) * 1000"
    by (rule seconds_bound)
  with late assms(10) c3 \<open>?ts * 1000 \<le> clock wm\<close> show False by (simp add: algebra_simps)
qed

end
