(* ===== verification/Gate_Behaviour.thy ===== *)
theory Gate_Behaviour
  imports Gate_Safety
begin

text \<open>
  The functional behaviour of the gate's handlers, branch by branch, when every call is
  answered at once; and what each of them keeps of the binding index under any schedule.
\<close>

section \<open>The index\<close>

lemma index_ok_qr: "index_ok (ks(qrKey q := y)) = index_ok ks"
  by (rule index_ok_frame) auto

lemma index_ok_grace: "index_ok (ks(wristbandGraceKey u := y)) = index_ok ks"
  by (rule index_ok_frame) auto

interpretation index: gate_invariant "MockTxnCheck f" "PublishScanEvent (NewProducer False)"
    "\<lambda>w. index_ok (redis w)" for f
proof (unfold_locales, goal_cases)
  case 1
  show ?case by (rule timeless_index_ok)
next
  case (7 w u t email ms e r ks)
  then show ?case
    using bindScript_refines(1) [OF 7(1) valid_new_binding [of u t email ms], of e] by simp
next
  case (8 w u r ks)
  then show ?case using deleteBindingScript_refines(1) [OF 8(1), of u] by simp
qed (simp_all add: index_ok_qr index_ok_grace)

text \<open>
  C16: binding, resetting and scanning keep the index of wristbands and tickets consistent
  under every schedule of delays, refused calls and lost answers, on success and on every
  error: forward and reverse keys match one to one and expire together.
\<close>

theorem gate_keeps_index:
  assumes "index_ok (redis w)"
  shows "index_ok (redis (snd (run_state (Bind cfg rcfg breq) w))) \<and>
    index_ok (redis (snd (run_state (Reset zreq) w))) \<and>
    index_ok (redis (snd (run_state (Scan has_db (PublishScanEvent (NewProducer False)) sreq) w)))"
  using index.keeps_Bind [of cfg rcfg breq] index.keeps_Reset [of zreq]
    index.keeps_Scan [of has_db sreq] assms
  by (simp add: keeps_def)

section \<open>Runs without failures\<close>

lemma run_MarkQRUsed:
  assumes "quiet w" and "0 < rc_GraceWindowSec rcfg + 30"
  shows "run_state (MarkQRUsed rcfg q) w =
    (if redis w (qrKey q) = None
     then (Inr True, w\<lparr>redis := (redis w)(qrKey q \<mapsto>
             (RStr (Text ''1''), Some (clock w + (rc_GraceWindowSec rcfg + 30) * 1000)))\<rparr>)
     else (Inr False, w))"
  using assms by (simp add: MarkQRUsed_def rdb_SetNX_def r_SETNX_def r_SET_def ttl_def)

lemma run_ticketOwnerEmail:
  assumes "quiet w"
  shows "run_state (ticketOwnerEmail t) w =
    (case owner_emails t (db w) of [] \<Rightarrow> Inl ErrTicketInvalid | e # _ \<Rightarrow> Inr e, w)"
  using assms by (simp add: ticketOwnerEmail_def split: list.split)

lemma run_setTicketStatus:
  "quiet w \<Longrightarrow> run_state (setTicketStatus t st) w = (Inr (), w\<lparr>db := with_ticket_status t st (db w)\<rparr>)"
  by (simp add: setTicketStatus_def)

lemma bindScript_outcome:
  "bindScript (bindingKey u) (ticketKey t) p e v ks =
     (if ks (ticketKey t) \<noteq> None then (Inl (Msg ''ticket already bound''), ks)
      else if ks (bindingKey u) \<noteq> None then (Inl (Msg ''wristband already bound''), ks)
      else (Inr (), ks(bindingKey u \<mapsto> (RStr p, Some (e * 1000)),
                       ticketKey t \<mapsto> (RStr (Text v), Some (e * 1000)))))"
  by (cases "ks (bindingKey u)") (simp_all add: bindScript_def r_SETNX_def r_SET_def)

lemma sentinels_distinct [simp]:
  "ErrWristbandAlreadyBound \<noteq> ErrTicketAlreadyBound"
  "errors_Is ErrWristbandAlreadyBound ErrWristbandAlreadyBound"
  "errors_Is ErrTicketAlreadyBound ErrTicketAlreadyBound"
  by (simp_all add: sentinel_defs)

lemma run_BindWristband:
  assumes "quiet w"
  shows "run_state (BindWristband u t email) w =
    (if redis w (ticketKey t) \<noteq> None then (Inl ErrTicketAlreadyBound, w)
     else if redis w (bindingKey u) \<noteq> None then (Inl ErrWristbandAlreadyBound, w)
     else (Inr (), w\<lparr>redis := snd (bindScript (bindingKey u) (ticketKey t)
        (marshal_WristbandBinding (new_binding u t email (clock w)))
        (bindingExpiry_Unix (env_zone (env w)) (clock w)) u (redis w))\<rparr>))"
  using assms
  by (simp add: BindWristband_def Let_def bindScript_outcome new_binding_def)

definition qr_of :: "BindRequest \<Rightarrow> QRToken" where
  "qr_of req = \<lparr>q_TicketID = br_TicketID req, q_UUID = br_QRUUID req,
     q_Timestamp = br_QRTimestamp req, q_Signature = br_QRSignature req\<rparr>"

definition mark_qr :: "RedisConfig \<Rightarrow> string \<Rightarrow> world \<Rightarrow> world" where
  "mark_qr rcfg q w = w\<lparr>redis := (redis w)(qrKey q \<mapsto>
     (RStr (Text ''1''), Some (clock w + (rc_GraceWindowSec rcfg + 30) * 1000)))\<rparr>"

definition bind_effect :: "BindRequest \<Rightarrow> string \<Rightarrow> world \<Rightarrow> world" where
  "bind_effect req email w = w\<lparr>redis := snd (bindScript (bindingKey (br_WristbandUID req))
       (ticketKey (br_TicketID req))
       (marshal_WristbandBinding (new_binding (br_WristbandUID req) (br_TicketID req) email (clock w)))
       (bindingExpiry_Unix (env_zone (env w)) (clock w)) (br_WristbandUID req) (redis w)),
     db := with_ticket_status (br_TicketID req) StatusPendingEntry (db w)\<rparr>"

definition bind_response :: "BindRequest \<Rightarrow> string \<Rightarrow> WristbandResponse" where
  "bind_response req email = \<lparr>wr_WristbandUID = br_WristbandUID req,
     wr_TicketID = br_TicketID req, wr_Status = BindingStatusBinding, wr_UserEmail = email,
     wr_Allowed = None, wr_Reason = [], wr_Source = []\<rparr>"

lemma run_Bind:
  assumes "quiet w" and "0 < rc_GraceWindowSec rcfg + 30"
  shows "run_state (Bind cfg rcfg req) w =
    (if \<not> signed_by cfg (qr_of req) \<or>
        gc_QRRotationSeconds cfg < qr_age (clock w) (br_QRTimestamp req)
     then (Inl ErrQRInvalid, w)
     else case owner_emails (br_TicketID req) (db w) of
       [] \<Rightarrow> (Inl ErrTicketInvalid, w)
     | email # _ \<Rightarrow>
         if redis w (qrKey (br_QRUUID req)) \<noteq> None then (Inl ErrQRReplay, w)
         else let w1 = mark_qr rcfg (br_QRUUID req) w in
           if redis w (ticketKey (br_TicketID req)) \<noteq> None \<or>
              redis w (bindingKey (br_WristbandUID req)) \<noteq> None
           then (Inl ErrAlreadyBound, w1)
           else (Inr (bind_response req email), bind_effect req email w1))"
  using assms
  by (simp add: Bind_def Let_def run_VerifyQROTP run_ticketOwnerEmail run_MarkQRUsed
      run_BindWristband run_setTicketStatus qr_of_def mark_qr_def bind_effect_def
      bind_response_def split: list.split)

lemma view_frame: "(\<And>u. k \<noteq> bindingKey u) \<Longrightarrow> view (ks(k := y)) = view ks"
  by (intro ext) (auto simp: view_def)

lemma view_qr [simp]: "view (ks(qrKey q := y)) = view ks"
  by (rule view_frame) simp

lemma view_grace [simp]: "view (ks(wristbandGraceKey u := y)) = view ks"
  by (rule view_frame) simp

lemma mark_qr_sel [simp]:
  "quiet (mark_qr rcfg q w) = quiet w" "db (mark_qr rcfg q w) = db w"
  "clock (mark_qr rcfg q w) = clock w" "env (mark_qr rcfg q w) = env w"
  "view (redis (mark_qr rcfg q w)) = view (redis w)"
  "index_ok (redis (mark_qr rcfg q w)) = index_ok (redis w)"
  "redis (mark_qr rcfg q w) (bindingKey u) = redis w (bindingKey u)"
  "redis (mark_qr rcfg q w) (ticketKey t) = redis w (ticketKey t)"
  by (simp_all add: mark_qr_def index_ok_qr)

definition expiry_of :: "world \<Rightarrow> int" where
  "expiry_of w = bindingExpiry_Unix (env_zone (env w)) (clock w) * 1000"

lemma bind_effect_index:
  assumes "index_ok (redis w)" and "redis w (ticketKey (br_TicketID req)) = None"
    and "redis w (bindingKey (br_WristbandUID req)) = None"
  shows "index_ok (redis (bind_effect req email w))"
    and "view (redis (bind_effect req email w)) = (view (redis w))(br_WristbandUID req \<mapsto>
      (new_binding (br_WristbandUID req) (br_TicketID req) email (clock w), expiry_of w))"
proof -
  let ?b = "new_binding (br_WristbandUID req) (br_TicketID req) email (clock w)"
  note ref = bindScript_refines [OF assms(1) valid_new_binding [of "br_WristbandUID req"
        "br_TicketID req" email "clock w"], of "bindingExpiry_Unix (env_zone (env w)) (clock w)"]
  show "index_ok (redis (bind_effect req email w))"
    using ref(1) by (simp add: bind_effect_def)
  have "abs_bind (br_WristbandUID req) ?b (expiry_of w) (view (redis w)) =
      Some ((view (redis w))(br_WristbandUID req \<mapsto> (?b, expiry_of w)))"
    using assms by (simp add: abs_bind_def ticket_bound_iff view_None)
  then show "view (redis (bind_effect req email w)) = (view (redis w))(br_WristbandUID req \<mapsto>
      (?b, expiry_of w))"
    using ref(2) by (simp add: bind_effect_def expiry_of_def)
qed


lemma bind_effect_keys:
  assumes "redis w (ticketKey (br_TicketID req)) = None"
    and "redis w (bindingKey (br_WristbandUID req)) = None"
  shows "redis (bind_effect req email w) (bindingKey (br_WristbandUID req)) =
      Some (RStr (marshal_WristbandBinding (new_binding (br_WristbandUID req) (br_TicketID req)
        email (clock w))), Some (expiry_of w))"
    and "redis (bind_effect req email w) (ticketKey (br_TicketID req)) =
      Some (RStr (Text (br_WristbandUID req)), Some (expiry_of w))"
  using assms by (simp_all add: bind_effect_def bindScript_outcome expiry_of_def)

lemma run_Bind_Inr:
  assumes "quiet w" and "0 < rc_GraceWindowSec rcfg + 30"
    and "run_state (Bind cfg rcfg req) w = (Inr resp, w')"
  obtains email rest where "owner_emails (br_TicketID req) (db w) = email # rest"
    "resp = bind_response req email" "w' = bind_effect req email (mark_qr rcfg (br_QRUUID req) w)"
    "redis w (ticketKey (br_TicketID req)) = None"
    "redis w (bindingKey (br_WristbandUID req)) = None"
  using assms(3) unfolding run_Bind [OF assms(1,2)] Let_def
  by (auto simp del: not_None_eq not_Some_eq split: if_splits list.splits)

lemma run_Bind_taken:
  assumes "quiet w" and "0 < rc_GraceWindowSec rcfg + 30"
    and "redis w (ticketKey (br_TicketID req)) \<noteq> None \<or> redis w (bindingKey (br_WristbandUID req)) \<noteq> None"
    and "run_state (Bind cfg rcfg req) w = (r, w')"
  shows "(\<exists>err. r = Inl err) \<and> view (redis w') = view (redis w)"
  using assms(3,4) unfolding run_Bind [OF assms(1,2)] Let_def
  by (auto simp del: not_None_eq not_Some_eq split: if_splits list.splits)

text \<open>
  While a binding lasts, its wristband and its ticket cannot be bound again: whatever code
  is shown, and however much time has passed before the expiry, the second bind is refused and
  leaves every binding in place.
\<close>

theorem second_bind_refused:
  assumes "quiet w" and "0 < rc_GraceWindowSec rcfg + 30"
    and "run_state (Bind cfg rcfg req) w = (Inr resp, w1)"
    and "br_WristbandUID req' = br_WristbandUID req \<or> br_TicketID req' = br_TicketID req"
    and "clock w + int d < expiry_of w"
    and "run_state (Bind cfg rcfg req') (elapse d w1) = (r, w2)"
  shows "(\<exists>err. r = Inl err) \<and> view (redis w2) = view (redis (elapse d w1))"
proof -
  let ?m = "mark_qr rcfg (br_QRUUID req) w"
  from run_Bind_Inr [OF assms(1-3)] obtain email where w1: "w1 = bind_effect req email ?m"
    and free: "redis w (ticketKey (br_TicketID req)) = None"
      "redis w (bindingKey (br_WristbandUID req)) = None" by metis
  have q: "quiet (elapse d w1)" and c: "clock w1 = clock w" and "expiry_of ?m = expiry_of w"
    using assms(1) by (simp_all add: w1 bind_effect_def expiry_of_def)
  with free bind_effect_keys [of ?m req email] assms(5)
  have "redis (elapse d w1) (ticketKey (br_TicketID req)) \<noteq> None \<and>
      redis (elapse d w1) (bindingKey (br_WristbandUID req)) \<noteq> None"
    by (auto simp: w1 purge_None)
  with assms(4) show ?thesis by (intro run_Bind_taken [OF q assms(2) _ assms(6)]) auto
qed

section \<open>The NFC check\<close>

lemma run_GetBinding_view:
  assumes "quiet w" and "index_ok (redis w)"
  shows "run_state (GetBinding u) w = (Inr (map_option fst (view (redis w) u)), w)"
proof (cases "redis w (bindingKey u)")
  case None
  then show ?thesis using assms(1) by (simp add: GetBinding_def rdb_Get_def r_GET_def view_def)
next
  case (Some y)
  then obtain v e where "redis w (bindingKey u) = Some (v, e)" by (cases y) auto
  with assms(2) obtain b x where "redis w (bindingKey u) = Some (RStr (marshal_WristbandBinding b), Some x)"
    "valid_binding u b" by (metis forwardD)
  then show ?thesis using assms(1)
    by (simp add: GetBinding_def rdb_Get_def r_GET_def view_def valid_binding_def RedisNil_def)
qed

lemma run_SetBindingStatus:
  assumes "quiet w" and "index_ok (redis w)"
  shows "run_state (SetBindingStatus u st) w = (case view (redis w) u of
      None \<Rightarrow> (Inl ErrBindingNotFound, w)
    | Some _ \<Rightarrow> (Inr (), w\<lparr>redis := promote_now u st (redis w)\<rparr>))"
  using assms
  by (simp add: SetBindingStatus_def run_GetBinding_view rdb_SetKeepTTL_def promote_now_def
      split: option.split)

lemma run_MockTxnCheck:
  "quiet w \<Longrightarrow> run_state (MockTxnCheck f ref) w =
     (if f \<noteq> [] \<and> f = ref then Inl ErrTxnCheckFailed else Inr (), w)"
  by (simp add: MockTxnCheck_def ctx_Err_def)

definition cache_decision :: "RedisConfig \<Rightarrow> string \<Rightarrow> bool \<Rightarrow> string \<Rightarrow> world \<Rightarrow> world" where
  "cache_decision rcfg u allowed reason w = w\<lparr>redis := (redis w)(wristbandGraceKey u \<mapsto>
     (RStr (marshal_nfcDecision \<lparr>nd_Allowed = allowed, nd_Reason = reason\<rparr>),
      ttl (clock w) (rc_GraceWindowSec rcfg)))\<rparr>"

lemma run_nfc_finish:
  "quiet w \<Longrightarrow> run_state (nfc_finish rcfg u b st a reason) w =
     (Inr \<lparr>wr_WristbandUID = wb_WristbandUID b, wr_TicketID = wb_TicketID b, wr_Status = st,
       wr_UserEmail = [], wr_Allowed = Some a, wr_Reason = reason, wr_Source = []\<rparr>,
      cache_decision rcfg u a reason w)"
  by (simp add: nfc_finish_def SetWristbandGrace_def rdb_Set_def r_SET_def cache_decision_def)

lemma run_nfc_evaluate:
  assumes "quiet w" and "index_ok (redis w)" and "view (redis w) (nr_WristbandUID req) = Some (b, x)"
  shows "run_state (nfc_evaluate rcfg (MockTxnCheck f) req) w =
    (if f \<noteq> [] \<and> f = wb_UserEmail b
     then run_state (nfc_finish rcfg (nr_WristbandUID req) b BindingStatusBinding False
            ''transaction check failed'') w
     else run_state (nfc_finish rcfg (nr_WristbandUID req) b BindingStatusBound True [])
            (w\<lparr>redis := promote_now (nr_WristbandUID req) BindingStatusBound (redis w),
              db := with_ticket_status (wb_TicketID b) StatusActive (db w)\<rparr>))"
proof -
  from view_valid [OF assms(2,3)] have "wb_WristbandUID b = nr_WristbandUID req"
    by (simp add: valid_binding_def)
  then show ?thesis
    using assms
    by (simp add: nfc_evaluate_def run_GetBinding_view run_MockTxnCheck run_SetBindingStatus
        run_setTicketStatus ErrTxnCheckFailed_def)
qed

lemma run_GetWristbandGrace:
  assumes "quiet w"
  shows "run_state (GetWristbandGrace u) w = (case redis w (wristbandGraceKey u) of
      None \<Rightarrow> Inr (Text []) | Some (RStr p, _) \<Rightarrow> Inr p | Some (RSet _, _) \<Rightarrow> Inl wrongtype, w)"
  using assms
  by (auto simp: GetWristbandGrace_def rdb_Get_def r_GET_def RedisNil_def wrongtype_def
      split: option.split rvalue.split)


text \<open>
  A repeated scan inside the grace window replays the cached decision faithfully: the same
  verdict and reason, marked as a replay, and it changes nothing. In particular a denial is
  never replayed as a pass.
\<close>

theorem NFC_grace_replay:
  assumes "quiet w" and "index_ok (redis w)"
    and "redis w (wristbandGraceKey (nr_WristbandUID req)) = None"
    and "run_state (NFCCheck rcfg (MockTxnCheck f) req) w = (Inr r, w')"
    and "int d < rc_GraceWindowSec rcfg * 1000"
  shows "run_state (NFCCheck rcfg (MockTxnCheck f') req) (elapse d w') =
    (Inr \<lparr>wr_WristbandUID = nr_WristbandUID req, wr_TicketID = [], wr_Status = [],
       wr_UserEmail = [], wr_Allowed = wr_Allowed r, wr_Reason = wr_Reason r,
       wr_Source = ''grace_window''\<rparr>, elapse d w')"
proof -
  let ?u = "nr_WristbandUID req"
  have ev: "run_state (NFCCheck rcfg (MockTxnCheck f) req) w =
      run_state (nfc_evaluate rcfg (MockTxnCheck f) req) w"
    using assms(1,3) by (simp add: NFCCheck_def run_GetWristbandGrace)
  from assms(4) obtain b x where v: "view (redis w) ?u = Some (b, x)"
    unfolding ev by (cases "view (redis w) ?u")
      (auto simp: nfc_evaluate_def run_GetBinding_view assms(1,2))
  from assms(5) have "0 < rc_GraceWindowSec rcfg" by linarith
  then have "\<exists>a reason. wr_Allowed r = Some a \<and> wr_Reason r = reason \<and> quiet w' \<and>
      clock w' = clock w \<and> redis w' (wristbandGraceKey ?u) =
        Some (RStr (marshal_nfcDecision \<lparr>nd_Allowed = a, nd_Reason = reason\<rparr>),
          Some (clock w + rc_GraceWindowSec rcfg * 1000))"
    using assms(1,4) unfolding ev run_nfc_evaluate [OF assms(1,2) v]
    by (auto simp: run_nfc_finish cache_decision_def ttl_def split: if_splits)
  then obtain a where a: "wr_Allowed r = Some a" "quiet w'" "clock w' = clock w"
    "redis w' (wristbandGraceKey ?u) =
        Some (RStr (marshal_nfcDecision \<lparr>nd_Allowed = a, nd_Reason = wr_Reason r\<rparr>),
          Some (clock w + rc_GraceWindowSec rcfg * 1000))" by blast
  with assms(5) have "redis (elapse d w') (wristbandGraceKey ?u) = redis w' (wristbandGraceKey ?u)"
    by (simp add: purge_def)
  with a show ?thesis by (simp add: NFCCheck_def run_GetWristbandGrace)
qed

section \<open>The reset\<close>

lemma run_Reset:
  assumes "quiet w" and "index_ok (redis w)"
  shows "run_state (Reset req) w = (case view (redis w) (zr_WristbandUID req) of
      None \<Rightarrow> (Inl ErrNoBinding, w)
    | Some (b, _) \<Rightarrow> (Inr \<lparr>wr_WristbandUID = zr_WristbandUID req, wr_TicketID = wb_TicketID b,
          wr_Status = ''CLAIMED'', wr_UserEmail = [], wr_Allowed = None, wr_Reason = [], wr_Source = []\<rparr>,
        w\<lparr>redis := (snd (deleteBindingScript (bindingKey (zr_WristbandUID req)) (redis w)))
              (wristbandGraceKey (zr_WristbandUID req) := None),
          db := with_ticket_status (wb_TicketID b) StatusClaimed (db w)\<rparr>))"
proof -
  have del: "run_state (DeleteBinding (zr_WristbandUID req)) w =
      (Inr (), w\<lparr>redis := snd (deleteBindingScript (bindingKey (zr_WristbandUID req)) (redis w))\<rparr>)"
    using assms(1) deleteBindingScript_refines(2) [OF assms(2), of "zr_WristbandUID req"]
    by (auto simp: DeleteBinding_def split: prod.split)
  show ?thesis
    using assms(1) view_valid [OF assms(2), of "zr_WristbandUID req"] del
    by (auto simp: Reset_def run_GetBinding_view [OF assms] ClearWristbandGrace_def rdb_Del_def
        r_DEL_def run_setTicketStatus valid_binding_def split: option.split)
qed

text \<open>
  C29: a reset removes the binding of its wristband and no other, drops the cached decision,
  puts the ticket back to CLAIMED, and makes the ticket bindable again: to the same wristband
  or to any other that is free.
\<close>

theorem Reset_frees_ticket:
  assumes "quiet w" and "index_ok (redis w)"
    and "view (redis w) (zr_WristbandUID req) = Some (b, x)"
    and "run_state (Reset req) w = (r, w')"
    and "u' = zr_WristbandUID req \<or> view (redis w) u' = None"
  shows "(\<exists>resp. r = Inr resp) \<and>
    view (redis w') = abs_unbind (zr_WristbandUID req) (view (redis w)) \<and>
    redis w' (wristbandGraceKey (zr_WristbandUID req)) = None \<and>
    db w' = with_ticket_status (wb_TicketID b) StatusClaimed (db w) \<and>
    (\<exists>w2. run_state (BindWristband u' (wb_TicketID b) email) w' = (Inr (), w2) \<and>
       (\<exists>c y. view (redis w2) u' = Some (c, y) \<and> wb_TicketID c = wb_TicketID b))"
proof -
  let ?u = "zr_WristbandUID req"
  let ?ks = "snd (deleteBindingScript (bindingKey ?u) (redis w))"
  let ?c = "new_binding u' (wb_TicketID b) email (clock w)"
  let ?e = "bindingExpiry_Unix (env_zone (env w)) (clock w)"
  note ref = deleteBindingScript_refines [OF assms(2), of ?u]
  from run_Reset [OF assms(1,2), of req] assms(3,4)
  have w': "w' = w\<lparr>redis := ?ks(wristbandGraceKey ?u := None),
      db := with_ticket_status (wb_TicketID b) StatusClaimed (db w)\<rparr>" and r: "\<exists>resp. r = Inr resp"
    by auto
  have "seconds_view (redis w) ?u = Some (b, x div 1000)"
    using assms(3) by (simp add: seconds_view_def)
  from redis_index.rebind_after_unbind [OF assms(2) this, of ?c] assms(5)
  have "fst (bind_now ?c ?e ?ks)" by simp
  then have free: "?ks (ticketKey (wb_TicketID b)) = None" "?ks (bindingKey u') = None"
    by (auto simp: bind_now_def bindScript_outcome simp del: not_None_eq split: if_splits)
  have "bindScript (bindingKey u') (ticketKey (wb_TicketID b)) (marshal_WristbandBinding ?c) ?e u'
      (redis w') = (Inr (), (redis w')(bindingKey u' \<mapsto> (RStr (marshal_WristbandBinding ?c), Some (?e * 1000)),
        ticketKey (wb_TicketID b) \<mapsto> (RStr (Text u'), Some (?e * 1000))))"
    using free by (simp add: bindScript_outcome w')
  moreover have "quiet w'" "clock w' = clock w" "env w' = env w" using assms(1) by (simp_all add: w')
  moreover have "redis w' (ticketKey (wb_TicketID b)) = None" "redis w' (bindingKey u') = None"
    using free by (simp_all add: w')
  ultimately have "\<exists>w2. run_state (BindWristband u' (wb_TicketID b) email) w' = (Inr (), w2) \<and>
      view (redis w2) u' = Some (?c, ?e * 1000)"
    by (simp add: run_BindWristband view_def)
  then have "\<exists>w2. run_state (BindWristband u' (wb_TicketID b) email) w' = (Inr (), w2) \<and>
       (\<exists>c y. view (redis w2) u' = Some (c, y) \<and> wb_TicketID c = wb_TicketID b)"
    by (metis new_binding_sel(1))
  with r ref(3) show ?thesis by (simp add: w')
qed

text \<open>
  A reset does not look at the ticket: one that a ride has already redeemed (USED) is
  CLAIMED afterwards, and the gate accepts it for another visit. The status filter of
  \<^verbatim>\<open>ticketOwnerEmail\<close> is passed again.
\<close>

theorem Reset_reopens_used_ticket:
  assumes "quiet w" and "index_ok (redis w)"
    and "view (redis w) (zr_WristbandUID req) = Some (b, x)"
    and "tickets (db w) = [t]" and "t_TicketID t = wb_TicketID b" and "t_Status t = StatusUsed"
    and "t_UserID t = Some (u_ID o1)" and "users (db w) = [o1]"
    and "run_state (Reset req) w = (r, w')"
  shows "fst (run_state (ticketOwnerEmail (wb_TicketID b)) w) = Inl ErrTicketInvalid \<and>
    fst (run_state (ticketOwnerEmail (wb_TicketID b)) w') = Inr (u_Email o1)"
proof -
  from run_Reset [OF assms(1,2), of req] assms(3,9)
  have "quiet w' \<and> db w' = with_ticket_status (wb_TicketID b) StatusClaimed (db w)"
    using assms(1) by auto
  then show ?thesis
    using assms by (simp add: run_ticketOwnerEmail owner_emails_def with_ticket_status_def update_where_def)
qed

section \<open>Ride scans\<close>

lemma GetBinding_time:
  assumes "run_state (GetBinding u) w = (r, w')"
  shows "w' = snd (next_event w)"
  using assms
  by (auto simp: GetBinding_def rdb_Get_def redis_call_def call_def
      split: prod.splits sum.splits outcome.splits if_splits)

definition only_time :: "keyspace \<Rightarrow> world \<Rightarrow> bool" where
  "only_time ks w \<longleftrightarrow> (\<forall>k. redis w k = ks k \<or> redis w k = None)"

lemma timeless_only_time: "timeless (only_time ks)"
  unfolding timeless_def only_time_def
proof (intro allI impI)
  fix w :: world and d rest k
  assume "\<forall>k. redis w k = ks k \<or> redis w k = None"
  then have "redis w k = ks k \<or> redis w k = None" ..
  then show "redis (elapse d (w\<lparr>schedule := rest\<rparr>)) k = ks k \<or>
      redis (elapse d (w\<lparr>schedule := rest\<rparr>)) k = None"
    using purge_cases [of "clock w + int d" "redis w" k] by auto
qed

text \<open>The event of a scan, and the steps of one that was recorded.\<close>

definition scan_event :: "world \<Rightarrow> WristbandBinding \<Rightarrow> RideScanRequest \<Rightarrow> ScanEvent" where
  "scan_event w b req = \<lparr>ev_UserID = wb_UserEmail b, ev_RideID = rq_RideID req, ev_Timestamp = UnixMilli (clock w),
     ev_TraceID = env_uuid (env w) (uuid_next w), ev_TicketID = wb_TicketID b\<rparr>"

lemma Scan_recorded:
  assumes "run_state (Scan has_db publish req) w = (Inr resp, w')"
  obtains b w1 w2 st where "run_state (GetBinding (rq_WristbandUID req)) w = (Inr (Some b), w1)"
    "wb_Status b = BindingStatusBound"
    "run_state (publish (scan_event w1 b req)) (w1\<lparr>uuid_next := uuid_next w1 + 1\<rparr>) = (Inr (), w2)"
    "run_state (markTicketUsed has_db (wb_TicketID b)) w2 = (st, w')"
    "resp = \<lparr>rr_TraceID = ev_TraceID (scan_event w1 b req), rr_RideID = rq_RideID req, rr_Status = ''recorded''\<rparr>"
proof -
  from assms obtain b w1 where g: "run_state (GetBinding (rq_WristbandUID req)) w = (Inr (Some b), w1)"
    "wb_Status b = BindingStatusBound"
    by (auto simp: Scan_def split: prod.splits sum.splits option.splits if_splits)
  with assms obtain w2 st where
    "run_state (publish (scan_event w1 b req)) (w1\<lparr>uuid_next := uuid_next w1 + 1\<rparr>) = (Inr (), w2)"
    "run_state (markTicketUsed has_db (wb_TicketID b)) w2 = (st, w')"
    "resp = \<lparr>rr_TraceID = ev_TraceID (scan_event w1 b req), rr_RideID = rq_RideID req, rr_Status = ''recorded''\<rparr>"
    by (auto simp: Scan_def scan_event_def Let_def split: prod.splits sum.splits)
  with g show thesis by (rule that)
qed

text \<open>
  C30: a ride scan is recorded only for a wristband that is BOUND, under every schedule of
  delays and failures. When it is, the event is in the topic and carries the account and the
  ticket of the binding; and whatever happens, no Redis key is written: keys only expire.
\<close>

theorem Scan_only_bound:
  assumes "run_state (Scan has_db (PublishScanEvent (NewProducer False)) req) w = (r, w')"
  shows "only_time (redis w) w' \<and>
    (case r of
       Inl _ \<Rightarrow> True
     | Inr resp \<Rightarrow> (\<exists>b p x. redis w (bindingKey (rq_WristbandUID req)) = Some (RStr p, x) \<and>
         unmarshal_WristbandBinding p = Inr b \<and> wb_Status b = BindingStatusBound \<and>
         rr_RideID resp = rq_RideID req \<and> rr_Status resp = ''recorded'' \<and>
         (\<exists>e. marshal_ScanEvent e \<in> set (written (ride_scans w')) \<and> ev_UserID e = wb_UserEmail b \<and>
            ev_TicketID e = wb_TicketID b \<and> ev_RideID e = rq_RideID req \<and>
            ev_TraceID e = rr_TraceID resp)))"
proof -
  let ?pub = "PublishScanEvent (NewProducer False)"
  have frame: "only_time (redis w) w'"
  proof -
    have st: "stable (only_time (redis w))" by (rule timeless_stable [OF timeless_only_time])
    have "keeps (only_time (redis w)) (Scan has_db ?pub req)"
      unfolding Scan_def Let_def markTicketUsed_def
      by (intro keeps_intros keeps_GetBinding st keeps_new_uuid sync.publish_frame keeps_sql_frame)
        (simp_all add: only_time_def)
    then show ?thesis by (rule keepsD [OF _ _ assms]) (simp add: only_time_def)
  qed
  show ?thesis
  proof (cases r)
    case (Inl err)
    with frame show ?thesis by simp
  next
    case (Inr resp)
    obtain b w1 w2 st where g: "run_state (GetBinding (rq_WristbandUID req)) w = (Inr (Some b), w1)"
      and bound: "wb_Status b = BindingStatusBound"
      and pub: "run_state (?pub (scan_event w1 b req)) (w1\<lparr>uuid_next := uuid_next w1 + 1\<rparr>) = (Inr (), w2)"
      and m: "run_state (markTicketUsed has_db (wb_TicketID b)) w2 = (st, w')"
      and resp: "resp = \<lparr>rr_TraceID = ev_TraceID (scan_event w1 b req), rr_RideID = rq_RideID req, rr_Status = ''recorded''\<rparr>"
      by (rule Scan_recorded [OF assms [unfolded Inr]])
    define e where "e = scan_event w1 b req"
    note pub = pub [folded e_def] and resp = resp [folded e_def]
    have "keeps (\<lambda>w. marshal_ScanEvent e \<in> set (written (ride_scans w)))
        (markTicketUsed has_db (wb_TicketID b))"
      unfolding markTicketUsed_def
      by (intro keeps_intros keeps_sql_frame) (simp_all add: timeless_stable timeless_def)
    from keepsD [OF this sync.publish_delivers [OF pub] m]
    have sent: "marshal_ScanEvent e \<in> set (written (ride_scans w'))" .
    from g obtain p x where k1: "redis w1 (bindingKey (rq_WristbandUID req)) = Some (RStr p, x)"
      and b: "unmarshal_WristbandBinding p = Inr b" by (rule run_GetBinding_Some)
    have "only_time (redis w) w1"
      by (rule keepsD [OF keeps_GetBinding [OF timeless_stable [OF timeless_only_time]] _ g]) (simp add: only_time_def)
    with k1 have "redis w (bindingKey (rq_WristbandUID req)) = Some (RStr p, x)"
      unfolding only_time_def by (metis option.distinct(1))
    with frame Inr resp sent b bound show ?thesis by (auto simp: e_def scan_event_def)
  qed
qed

end
