(* ===== verification/Gate_Denied.thy ===== *)
theory Gate_Denied
  imports Gate_Safety
begin

text \<open>
  An account that the transaction check refuses: over every run of the gate, none of its
  wristbands becomes BOUND, so none of its scans is recorded.
\<close>

definition refused :: "string \<Rightarrow> world \<Rightarrow> bool" where
  "refused email w \<longleftrightarrow> (\<forall>u v x. redis w (bindingKey u) = Some (v, x) \<longrightarrow>
     (\<exists>b. v = RStr (marshal_WristbandBinding b) \<and> in_int64 (wb_BoundAt b) \<and>
          wb_WristbandUID b = u \<and> (wb_UserEmail b = email \<longrightarrow> wb_Status b \<noteq> BindingStatusBound)))"

lemma refusedD:
  assumes "refused email w" and "redis w (bindingKey u) = Some (v, x)"
  obtains b where "v = RStr (marshal_WristbandBinding b)" "in_int64 (wb_BoundAt b)"
    "wb_WristbandUID b = u" "wb_UserEmail b = email \<longrightarrow> wb_Status b \<noteq> BindingStatusBound"
  using assms unfolding refused_def by meson

lemma refused_keys:
  assumes "refused email w" and "\<And>u. ks (bindingKey u) = redis w (bindingKey u) \<or> ks (bindingKey u) = None"
  shows "refused email (w\<lparr>redis := ks\<rparr>)"
  unfolding refused_def
proof (intro allI impI)
  fix u v x
  assume "redis (w\<lparr>redis := ks\<rparr>) (bindingKey u) = Some (v, x)"
  with assms(2) [of u] have "redis w (bindingKey u) = Some (v, x)" by auto
  with assms(1) show "\<exists>b. v = RStr (marshal_WristbandBinding b) \<and> in_int64 (wb_BoundAt b) \<and>
          wb_WristbandUID b = u \<and> (wb_UserEmail b = email \<longrightarrow> wb_Status b \<noteq> BindingStatusBound)"
    unfolding refused_def by blast
qed

lemma refused_put:
  assumes "refused email w" and "in_int64 (wb_BoundAt b)"
    and "wb_UserEmail b = email \<Longrightarrow> wb_Status b \<noteq> BindingStatusBound"
    and "\<And>u. u \<noteq> wb_WristbandUID b \<Longrightarrow> ks (bindingKey u) = redis w (bindingKey u)"
    and "ks (bindingKey (wb_WristbandUID b)) = Some (RStr (marshal_WristbandBinding b), y)"
  shows "refused email (w\<lparr>redis := ks\<rparr>)"
  unfolding refused_def
proof (intro allI impI)
  fix u v x
  assume k: "redis (w\<lparr>redis := ks\<rparr>) (bindingKey u) = Some (v, x)"
  show "\<exists>b. v = RStr (marshal_WristbandBinding b) \<and> in_int64 (wb_BoundAt b) \<and>
          wb_WristbandUID b = u \<and> (wb_UserEmail b = email \<longrightarrow> wb_Status b \<noteq> BindingStatusBound)"
  proof (cases "u = wb_WristbandUID b")
    case True
    with k assms(2,3,5) show ?thesis by (intro exI [of _ b]) auto
  next
    case False
    with k assms(4) have "redis w (bindingKey u) = Some (v, x)" by simp
    with assms(1) show ?thesis unfolding refused_def by blast
  qed
qed

lemma timeless_refused: "timeless (refused email)"
  unfolding timeless_def
proof (intro allI impI)
  fix w :: world and d rest
  assume "refused email w"
  then have "refused email (w\<lparr>redis := purge (clock w + int d) (redis w)\<rparr>)"
    using purge_cases by (intro refused_keys) auto
  then show "refused email (elapse d (w\<lparr>schedule := rest\<rparr>))"
    by (simp add: refused_def)
qed

interpretation refused: gate_invariant "MockTxnCheck f" "PublishScanEvent (NewProducer False)"
    "refused email" for f email
proof (unfold_locales, goal_cases)
  case 1
  show ?case by (rule timeless_refused)
next
  case (7 w u t email' ms e r ks)
  show ?case
  proof (cases "ks = redis w")
    case False
    from 7(2) False have "ks = (redis w)(bindingKey u \<mapsto>
        (RStr (marshal_WristbandBinding (new_binding u t email' ms)), Some (e * 1000)),
        ticketKey t \<mapsto> (RStr (Text u), Some (e * 1000)))"
      by (auto simp: bindScript_def r_SETNX_def r_SET_def split: if_splits)
    then show ?thesis
      by (intro refused_put [OF 7(1), of "new_binding u t email' ms"])
        (auto simp: BindingStatusBound_def BindingStatusBinding_def)
  qed (use 7(1) in simp)
next
  case (8 w u r ks)
  then show ?case
    using deleteBindingScript_cases [OF 8(2)] by (intro refused_keys) (auto split: if_splits)
qed (simp_all add: refused_def)

text \<open>What a scan has read stays in Redis until it expires.\<close>

definition holds_binding :: "string \<Rightarrow> WristbandBinding \<Rightarrow> world \<Rightarrow> bool" where
  "holds_binding u b w \<longleftrightarrow> redis w (bindingKey u) = None \<or>
     (\<exists>x. redis w (bindingKey u) = Some (RStr (marshal_WristbandBinding b), x))"

lemma timeless_holds: "timeless (holds_binding u b)"
  unfolding timeless_def
proof (intro allI impI)
  fix w :: world and d rest
  assume "holds_binding u b w"
  then show "holds_binding u b (elapse d (w\<lparr>schedule := rest\<rparr>))"
    using purge_cases [of "clock w + int d" "redis w" "bindingKey u"]
    by (auto simp: holds_binding_def)
qed

lemma refused_read:
  assumes "refused email w" and "run_state (GetBinding u) w = (Inr (Some b), w')"
  shows "refused email w' \<and> holds_binding u b w' \<and> in_int64 (wb_BoundAt b) \<and> wb_WristbandUID b = u"
proof -
  have r: "refused email w'"
    by (rule keepsD [OF keeps_GetBinding [OF timeless_stable [OF timeless_refused]] assms])
  from assms(2) obtain p x where k: "redis w' (bindingKey u) = Some (RStr p, x)"
    and p: "unmarshal_WristbandBinding p = Inr b" by (rule run_GetBinding_Some)
  from r k obtain b' where b': "RStr p = RStr (marshal_WristbandBinding b')" "in_int64 (wb_BoundAt b')"
    "wb_WristbandUID b' = u" by (rule refusedD)
  with p have "b' = b" by simp
  with b' k r show ?thesis by (auto simp: holds_binding_def)
qed

lemma SetBindingStatus_refused:
  assumes "refused email w" and "holds_binding u b w" and "in_int64 (wb_BoundAt b)"
    and "wb_WristbandUID b = u" and "wb_UserEmail b \<noteq> email"
  shows "refused email (snd (run_state (SetBindingStatus u st) w))"
proof -
  let ?J = "\<lambda>w. refused email w \<and> holds_binding u b w"
  have st: "stable ?J"
    using timeless_refused timeless_holds by (intro timeless_stable) (simp add: timeless_def)
  obtain g w1 where g: "run_state (GetBinding u) w = (g, w1)" by fastforce
  have J1: "?J w1" by (rule keepsD [OF keeps_GetBinding [OF st] _ g]) (use assms in blast)
  show ?thesis
  proof (cases "\<exists>b'. g = Inr (Some b')")
    case False
    with g J1 show ?thesis
      by (auto simp: SetBindingStatus_def split: sum.splits option.splits)
  next
    case True
    then obtain b' where b': "g = Inr (Some b')" by blast
    from b' g have "run_state (GetBinding u) w = (Inr (Some b'), w1)" by simp
    then obtain p x where "redis w1 (bindingKey u) = Some (RStr p, x)"
      "unmarshal_WristbandBinding p = Inr b'" by (rule run_GetBinding_Some)
    with J1 assms(3) have eq: "b' = b" by (auto simp: holds_binding_def)
    let ?set = "rdb_SetKeepTTL (bindingKey u) (marshal_WristbandBinding (b\<lparr>wb_Status := st\<rparr>))"
    have "keeps (refused email) ?set"
      unfolding rdb_SetKeepTTL_def
    proof (rule keeps_redis_call [OF timeless_stable [OF timeless_refused]])
      fix w r ks
      assume "refused email w" and "(Inr (), r_SET_KEEPTTL (bindingKey u)
          (marshal_WristbandBinding (b\<lparr>wb_Status := st\<rparr>)) (redis w)) = (r, ks)"
      then show "refused email (w\<lparr>redis := ks\<rparr>)"
        using assms(3-5)
        by (intro refused_put [of _ _ "b\<lparr>wb_Status := st\<rparr>"])
          (auto simp: r_SET_KEEPTTL_def r_SET_def)
    qed
    with J1 have "refused email (snd (run_state ?set w1))" by (simp add: keeps_def)
    with g b' eq show ?thesis
      by (auto simp: SetBindingStatus_def split: prod.split sum.split)
  qed
qed

lemma MockTxnCheck_refuses:
  "run_state (MockTxnCheck email email) w = (Inr (), w') \<Longrightarrow> email = []"
  by (auto simp: MockTxnCheck_def split: prod.splits sum.splits if_splits)

lemma refused_evaluate:
  assumes "email \<noteq> []"
  shows "keeps (refused email) (nfc_evaluate rcfg (MockTxnCheck email) req)"
proof (rule keepsI)
  fix w
  let ?u = "nr_WristbandUID req"
  assume w: "refused email w"
  obtain g w1 where g: "run_state (GetBinding ?u) w = (g, w1)" by fastforce
  have w1: "refused email w1" by (rule keepsD [OF keeps_GetBinding [OF timeless_stable [OF timeless_refused]] w g])
  show "refused email (snd (run_state (nfc_evaluate rcfg (MockTxnCheck email) req) w))"
  proof (cases "\<exists>b. g = Inr (Some b)")
    case False
    with g w1 show ?thesis by (auto simp: nfc_evaluate_def split: sum.splits option.splits)
  next
    case True
    then obtain b where b: "g = Inr (Some b)" by blast
    with w g have rd: "holds_binding ?u b w1" "in_int64 (wb_BoundAt b)" "wb_WristbandUID b = ?u"
      using refused_read by blast+
    obtain c w2 where c: "run_state (MockTxnCheck email (wb_UserEmail b)) w1 = (c, w2)" by fastforce
    have w2: "refused email w2" "holds_binding ?u b w2"
      using keepsD [OF mock.check_pure [OF timeless_stable [OF timeless_refused]] w1 c]
        keepsD [OF mock.check_pure [OF timeless_stable [OF timeless_holds]] rd(1) c] by blast+
    note fin = refused.keeps_nfc_finish [of email rcfg ?u b, unfolded keeps_def, rule_format]
    show ?thesis
    proof (cases c)
      case (Inl err)
      with g b c w2 fin show ?thesis by (simp add: nfc_evaluate_def)
    next
      case (Inr u)
      with c MockTxnCheck_refuses assms have "wb_UserEmail b \<noteq> email" by fastforce
      with w2 rd have s: "refused email (snd (run_state (SetBindingStatus ?u BindingStatusBound) w2))"
        by (intro SetBindingStatus_refused) auto
      note tick = refused.keeps_ticket(1) [of email "wb_TicketID b" StatusActive, unfolded keeps_def, rule_format]
      show ?thesis
        using g b c Inr s rd(3) fin tick
        by (auto simp: nfc_evaluate_def split: prod.split sum.split)
          (metis snd_conv)+
    qed
  qed
qed

text \<open>
  C9: while the transaction check refuses an account, no request sequence makes one of its
  wristbands BOUND: whatever is bound, checked, reset and scanned, in any order and under every
  schedule of delays and failures, a stored binding of the account keeps a status other than
  BOUND, and a ride scan of its wristband is not recorded.
\<close>

theorem refused_account_never_bound:
  assumes "gc_TxnCheckFailWhen cfg = email" and "email \<noteq> []"
    and "redis w0 = Map.empty"
    and "run_state (serve_all (gate_with cfg rcfg) requests) w0 = (u, w)"
    and "redis w (bindingKey uid) = Some (RStr p, x)"
    and "unmarshal_WristbandBinding p = Inr b" and "wb_UserEmail b = email"
  shows "wb_Status b \<noteq> BindingStatusBound \<and>
    (\<exists>err. fst (run_state (Scan has_db publish \<lparr>rq_WristbandUID = uid, rq_RideID = ride\<rparr>) w) = Inl err)"
proof -
  have "keeps (refused email) (serve_all (gate_with cfg rcfg) requests)"
  proof (rule refused.keeps_requests [of _ "gc_TxnCheckFailWhen cfg"])
    fix rcfg req
    show "keeps (refused email) (nfc_evaluate rcfg (MockTxnCheck (gc_TxnCheckFailWhen cfg)) req)"
      unfolding assms(1) by (rule refused_evaluate [OF assms(2)])
  qed (simp_all add: gate_with_def)
  moreover have "refused email w0" by (simp add: refused_def assms(3))
  ultimately have r: "refused email w" by (rule keepsD [OF _ _ assms(4)])
  then obtain b' where b': "RStr p = RStr (marshal_WristbandBinding b')" "in_int64 (wb_BoundAt b')"
    "wb_WristbandUID b' = uid" "wb_UserEmail b' = email \<longrightarrow> wb_Status b' \<noteq> BindingStatusBound"
    using assms(5) by (rule refusedD)
  from b'(1,2,4) assms(6,7) have nb: "wb_Status b \<noteq> BindingStatusBound" by auto
  obtain g w1 where g: "run_state (GetBinding uid) w = (g, w1)" by fastforce
  have "\<exists>err. fst (run_state (Scan has_db publish \<lparr>rq_WristbandUID = uid, rq_RideID = ride\<rparr>) w) = Inl err"
  proof (cases "\<exists>c. g = Inr (Some c)")
    case False
    with g show ?thesis by (auto simp: Scan_def split: sum.split option.split)
  next
    case True
    then obtain c where c: "g = Inr (Some c)" by blast
    with g have "run_state (GetBinding uid) w = (Inr (Some c), w1)" by simp
    then obtain p' x' where k: "redis w1 (bindingKey uid) = Some (RStr p', x')"
      "unmarshal_WristbandBinding p' = Inr c" by (rule run_GetBinding_Some)
    have "holds_binding uid b' w1" if "p = marshal_WristbandBinding b'" for b'
      by (rule keepsD [OF keeps_GetBinding [OF timeless_stable [OF timeless_holds]] _ g])
        (simp add: holds_binding_def assms(5) that)
    then have "p' = p"
      using k(1) b'(1) by (auto simp: holds_binding_def)
    with k assms(6) have "c = b" by simp
    with g c nb show ?thesis by (simp add: Scan_def)
  qed
  with nb show ?thesis by blast
qed

end
