(* ===== verification/Gate_Witnesses.thy ===== *)
theory Gate_Witnesses
  imports Gate_Behaviour Gate_Denied
begin

text \<open>
  The statements about the gate at a concrete visit: one visitor, one ticket, the wristbands
  \<^verbatim>\<open>U1\<close> and \<^verbatim>\<open>U2\<close>, the default configuration.
\<close>

definition visitor :: User where
  "visitor = \<lparr>u_ID = 1, u_Email = ''a@x'', u_SuiAddress = None, u_EphemeralKey = None,
     u_ZkloginProof = None\<rparr>"

definition ticket_with :: "TicketStatus \<Rightarrow> Ticket" where
  "ticket_with st = \<lparr>t_ID = 1, t_TicketID = ''T1'', t_UserID = Some 1, t_Status = st, t_PurchasedBy = None\<rparr>"

definition visit_db :: "TicketStatus \<Rightarrow> database" where
  "visit_db st = empty_database\<lparr>users := [visitor], tickets := [ticket_with st]\<rparr>"

definition visit :: world where
  "visit = (start_world plain_environment 5000 [])\<lparr>db := visit_db StatusClaimed\<rparr>"

definition visit_bind :: "string \<Rightarrow> BindRequest" where
  "visit_bind uid = \<lparr>br_TicketID = ''T1'', br_QRUUID = ''uuid-0'', br_QRTimestamp = 5,
     br_QRSignature = q_Signature demo_token, br_WristbandUID = uid\<rparr>"

lemma visit_sel [simp]:
  "quiet visit" "clock visit = 5000" "redis visit = Map.empty" "db visit = visit_db StatusClaimed"
  "env visit = plain_environment"
  by (simp_all add: visit_def)

lemma visit_emails: "owner_emails ''T1'' (visit_db StatusClaimed) = [''a@x'']"
  by (simp add: owner_emails_def visit_db_def empty_database_def visitor_def ticket_with_def)

lemma show_nat_0: "show_nat 0 = ''0''"
  by code_simp

lemma visit_signed: "signed_by demo_gate (qr_of (visit_bind uid))"
  by (simp add: signed_by_def qr_of_def visit_bind_def demo_token_def GenerateQROTP_def Let_def
      plain_environment_def show_nat_0 Unix_def int64_def start_world_def)

lemma default_redis_sel [simp]:
  "rc_GraceWindowSec default_RedisConfig = 5"
  by (simp add: default_RedisConfig_def)

definition visit_bound :: world where
  "visit_bound = bind_effect (visit_bind ''U1'') ''a@x'' (mark_qr default_RedisConfig ''uuid-0'' visit)"

lemma run_visit_bind:
  "run_state (Bind demo_gate default_RedisConfig (visit_bind ''U1'')) visit =
     (Inr (bind_response (visit_bind ''U1'') ''a@x''), visit_bound)"
proof -
  have "qr_age 5000 5 = 0" by (simp add: qr_age_def Unix_def int64_def)
  then show ?thesis
    using visit_signed [of "''U1''"]
    by (simp add: run_Bind visit_bound_def) (simp add: visit_bind_def visit_emails)
qed

lemma visit_bound_sel [simp]:
  "quiet visit_bound" "clock visit_bound = 5000" "env visit_bound = plain_environment"
  "db visit_bound = visit_db StatusPendingEntry"
  by (simp_all add: visit_bound_def bind_effect_def with_ticket_status_def visit_db_def
      ticket_with_def visit_bind_def update_where_def empty_database_def)

lemma expiry_visit: "expiry_of visit = 172799000"
  by (simp add: expiry_of_def plain_environment_def bindingExpiry_Unix_def day_of_def Let_def)

lemma visit_bound_index: "index_ok (redis visit_bound)"
    "view (redis visit_bound) ''U1'' = Some (new_binding ''U1'' ''T1'' ''a@x'' 5000, 172799000)"
proof -
  have "expiry_of (mark_qr default_RedisConfig ''uuid-0'' visit) = 172799000"
    using expiry_visit by (simp add: expiry_of_def)
  then show "index_ok (redis visit_bound)"
    "view (redis visit_bound) ''U1'' = Some (new_binding ''U1'' ''T1'' ''a@x'' 5000, 172799000)"
    using bind_effect_index [of "mark_qr default_RedisConfig ''uuid-0'' visit" "visit_bind ''U1''" "''a@x''"]
    by (simp_all add: visit_bound_def) (simp_all add: visit_bind_def)
qed

lemma visit_bound_grace: "redis visit_bound (wristbandGraceKey u) = None"
  by (simp add: visit_bound_def bind_effect_def bindScript_outcome mark_qr_def)

theorem gate_keeps_index_witness:
  "index_ok (redis (snd (run_state (Bind demo_gate default_RedisConfig (visit_bind ''U1'')) visit)))"
  using gate_keeps_index [of visit] by simp


theorem second_bind_refused_witness:
  "\<exists>err. fst (run_state (Bind demo_gate default_RedisConfig (visit_bind ''U2''))
     (elapse 1000 visit_bound)) = Inl err"
proof -
  obtain r w2 where r: "run_state (Bind demo_gate default_RedisConfig (visit_bind ''U2''))
      (elapse 1000 visit_bound) = (r, w2)" by fastforce
  from second_bind_refused [OF _ _ run_visit_bind _ _ r] show ?thesis
    using r by (simp add: visit_bind_def expiry_visit)
qed

theorem qr_one_time_use_witness:
  "\<exists>err. fst (run_state (Bind demo_gate default_RedisConfig (visit_bind ''U2''))
     (elapse 2000 visit_bound)) = Inl err"
proof -
  obtain r w2 where r: "run_state (Bind demo_gate default_RedisConfig (visit_bind ''U2''))
      (elapse 2000 visit_bound) = (r, w2)" by fastforce
  have idle: "run_state (serve_all (gate_with demo_gate default_RedisConfig) [Idle 2000]) visit_bound =
      ((), elapse 2000 visit_bound)" by simp
  have "clock w2 = clock (elapse 2000 visit_bound)"
    using r by (auto simp: run_Bind mark_qr_def bind_effect_def Let_def split: if_splits list.splits)
  then show ?thesis
    using qr_one_time_use [OF run_visit_bind idle r] r
    by (simp add: visit_bind_def sane_clock_def)
qed


theorem NFC_grace_replay_witness:
  "\<exists>r w'. run_state (NFCCheck default_RedisConfig (MockTxnCheck ''a@x'') \<lparr>nr_WristbandUID = ''U1''\<rparr>)
     visit_bound = (Inr r, w') \<and>
   fst (run_state (NFCCheck default_RedisConfig (MockTxnCheck ''b@x'') \<lparr>nr_WristbandUID = ''U1''\<rparr>)
     (elapse 4000 w')) = Inr \<lparr>wr_WristbandUID = ''U1'', wr_TicketID = [], wr_Status = [],
       wr_UserEmail = [], wr_Allowed = Some False, wr_Reason = ''transaction check failed'',
       wr_Source = ''grace_window''\<rparr>"
proof -
  have "\<exists>r w'. run_state (NFCCheck default_RedisConfig (MockTxnCheck ''a@x'')
      \<lparr>nr_WristbandUID = ''U1''\<rparr>) visit_bound = (Inr r, w') \<and> wr_Allowed r = Some False \<and>
      wr_Reason r = ''transaction check failed''"
    using visit_bound_index visit_bound_grace
    by (simp add: NFCCheck_def run_GetWristbandGrace run_nfc_evaluate run_nfc_finish)
  then obtain r w' where r: "run_state (NFCCheck default_RedisConfig (MockTxnCheck ''a@x'')
      \<lparr>nr_WristbandUID = ''U1''\<rparr>) visit_bound = (Inr r, w')" "wr_Allowed r = Some False"
      "wr_Reason r = ''transaction check failed''" by blast
  then show ?thesis
    using NFC_grace_replay [OF _ visit_bound_index(1) _ r(1), of 4000 "''b@x''"] visit_bound_grace
    by simp
qed

theorem Reset_frees_ticket_witness:
  "\<exists>r w'. run_state (Reset \<lparr>zr_WristbandUID = ''U1''\<rparr>) visit_bound = (r, w') \<and>
     view (redis w') ''U1'' = None"
proof -
  obtain r w' where r: "run_state (Reset \<lparr>zr_WristbandUID = ''U1''\<rparr>) visit_bound = (r, w')" by fastforce
  then show ?thesis
    using Reset_frees_ticket [OF _ visit_bound_index(1) _ r, of _ _ "''U1''"] visit_bound_index(2)
    by (simp add: abs_unbind_def)
qed

theorem Reset_reopens_used_ticket_witness:
  "\<exists>r w'. run_state (Reset \<lparr>zr_WristbandUID = ''U1''\<rparr>) (visit_bound\<lparr>db := visit_db StatusUsed\<rparr>) = (r, w') \<and>
     fst (run_state (ticketOwnerEmail ''T1'') w') = Inr ''a@x''"
proof -
  let ?w = "visit_bound\<lparr>db := visit_db StatusUsed\<rparr>"
  obtain r w' where r: "run_state (Reset \<lparr>zr_WristbandUID = ''U1''\<rparr>) ?w = (r, w')" by fastforce
  then show ?thesis
    using Reset_reopens_used_ticket [of ?w "\<lparr>zr_WristbandUID = ''U1''\<rparr>"
        "new_binding ''U1'' ''T1'' ''a@x'' 5000" 172799000 "ticket_with StatusUsed" visitor r w']
      visit_bound_index
    by (simp add: visit_db_def empty_database_def ticket_with_def visitor_def)
qed

theorem Scan_only_bound_witness:
  "\<exists>r w'. run_state (Scan True (PublishScanEvent (NewProducer False))
     \<lparr>rq_WristbandUID = ''U1'', rq_RideID = ''coaster''\<rparr>) visit = (r, w') \<and> only_time Map.empty w'"
proof -
  obtain r w' where r: "run_state (Scan True (PublishScanEvent (NewProducer False))
     \<lparr>rq_WristbandUID = ''U1'', rq_RideID = ''coaster''\<rparr>) visit = (r, w')" by fastforce
  then show ?thesis using Scan_only_bound [OF r] by simp
qed

definition refusing_gate :: GateConfig where
  "refusing_gate = demo_gate\<lparr>gc_TxnCheckFailWhen := ''a@x''\<rparr>"

lemma run_refusing_bind:
  "run_state (Bind refusing_gate default_RedisConfig (visit_bind ''U1'')) visit =
     (Inr (bind_response (visit_bind ''U1'') ''a@x''), visit_bound)"
  using run_visit_bind by (simp add: run_Bind refusing_gate_def signed_by_def)

theorem refused_account_never_bound_witness:
  "wb_Status (new_binding ''U1'' ''T1'' ''a@x'' 5000) \<noteq> BindingStatusBound"
proof -
  have run: "run_state (serve_all (gate_with refusing_gate default_RedisConfig)
      [ReqBind (visit_bind ''U1'')]) visit = ((), visit_bound)"
    by (simp add: gate_with_def run_refusing_bind)
  have "redis visit_bound (bindingKey ''U1'') =
      Some (RStr (marshal_WristbandBinding (new_binding ''U1'' ''T1'' ''a@x'' 5000)), Some 172799000)"
    using visit_bound_index by (simp add: view_Some)
  from refused_account_never_bound [where email = "''a@x''" and
      b = "new_binding ''U1'' ''T1'' ''a@x'' 5000", OF _ _ _ run this] show ?thesis
    by (simp add: refusing_gate_def)
qed

end
