(* ===== verification/Postgres_Repository.thy ===== *)
theory Postgres_Repository
  imports Services
begin

text \<open>
  \<^verbatim>\<open>internal/postgres/repository.go\<close> over the tables of \<^verbatim>\<open>migrations/\<close>. Each
  \<open>q_\<close> function is one SQL statement of the source on the tables, with the unique, foreign
  key and length constraints of the schema; each method is the statement as a call, with the
  method's error handling. Text is valid UTF-8 without NUL. An insert that a constraint refuses
  has taken its number from the sequence; a value that is too long is refused before that.
\<close>

section \<open>Users and tickets\<close>

definition q_create_user :: "string \<Rightarrow> database \<Rightarrow> (goerr + User) \<times> database" where
  "q_create_user email d =
     (if \<not> varchar 255 email then (Inl too_long, d)
      else case find (\<lambda>u. u_Email u = email) (users d) of
          Some u \<Rightarrow> (Inr u, d\<lparr>users_seq := users_seq d + 1\<rparr>)
        | None \<Rightarrow>
            (let u = \<lparr>u_ID = users_seq d + 1, u_Email = email, u_SuiAddress = None,
                      u_EphemeralKey = None, u_ZkloginProof = None\<rparr>
             in (Inr u, d\<lparr>users := users d @ [u], users_seq := users_seq d + 1\<rparr>)))"

definition CreateUser :: "string \<Rightarrow> (world, User) go" where
  "CreateUser email = check (sql (\<lambda>_ _. q_create_user email)) (wrapf ''create user: '') returns"

definition GetUserByEmail :: "string \<Rightarrow> (world, User) go" where
  "GetUserByEmail email =
     sql (\<lambda>_ _ d. (case find (\<lambda>u. u_Email u = email) (users d) of
            None \<Rightarrow> Inl ErrNoRows | Some u \<Rightarrow> Inr u, d))"

definition q_update_sui :: "int \<Rightarrow> string \<Rightarrow> string \<Rightarrow> string \<Rightarrow> database \<Rightarrow> (goerr + unit) \<times> database" where
  "q_update_sui userID suiAddress encKey encProof d =
     (if \<not> varchar 128 suiAddress then (Inl too_long, d)
      else (Inr (), d\<lparr>users := update_where (\<lambda>u. u_ID u = userID)
        (\<lambda>u. u\<lparr>u_SuiAddress := Some suiAddress, u_EphemeralKey := Some encKey,
              u_ZkloginProof := Some encProof\<rparr>) (users d)\<rparr>))"

definition UpdateSuiAccount :: "int \<Rightarrow> string \<Rightarrow> string \<Rightarrow> string \<Rightarrow> (world, unit) go" where
  "UpdateSuiAccount userID suiAddress encKey encProof =
     sql (\<lambda>_ _. q_update_sui userID suiAddress encKey encProof)"

definition fk_user :: "database \<Rightarrow> int option \<Rightarrow> bool" where
  "fk_user d i = (case i of None \<Rightarrow> True | Some k \<Rightarrow> list_ex (\<lambda>u. u_ID u = k) (users d))"

definition fk_participant :: "database \<Rightarrow> int option \<Rightarrow> bool" where
  "fk_participant d i = (case i of None \<Rightarrow> True | Some k \<Rightarrow> list_ex (\<lambda>p. p_ID p = k) (participants d))"

definition q_create_ticket :: "string \<Rightarrow> int option \<Rightarrow> int option \<Rightarrow> database \<Rightarrow> (goerr + unit) \<times> database" where
  "q_create_ticket ticketID userID purchaserID d =
     (if \<not> varchar 64 ticketID then (Inl too_long, d)
      else if list_ex (\<lambda>t. t_TicketID t = ticketID) (tickets d)
      then (Inl (unique_violation ''tickets_ticket_id_key''), d\<lparr>tickets_seq := tickets_seq d + 1\<rparr>)
      else if \<not> fk_user d userID
      then (Inl (fk_violation ''tickets_user_id_fkey''), d\<lparr>tickets_seq := tickets_seq d + 1\<rparr>)
      else if \<not> fk_user d purchaserID
      then (Inl (fk_violation ''tickets_purchased_by_fkey''), d\<lparr>tickets_seq := tickets_seq d + 1\<rparr>)
      else (Inr (), d\<lparr>tickets := tickets d @ [\<lparr>t_ID = tickets_seq d + 1, t_TicketID = ticketID,
              t_UserID = userID, t_Status = StatusActive, t_PurchasedBy = purchaserID\<rparr>],
            tickets_seq := tickets_seq d + 1\<rparr>))"

definition CreateTicket :: "string \<Rightarrow> int option \<Rightarrow> int option \<Rightarrow> (world, unit) go" where
  "CreateTicket ticketID userID purchaserID = sql (\<lambda>_ _. q_create_ticket ticketID userID purchaserID)"

section \<open>Vouchers\<close>

definition voucher_id :: "int \<Rightarrow> int \<Rightarrow> string" where
  "voucher_id purchaserID i = ''voucher-'' @ show_int purchaserID @ ''-'' @ show_int i"

definition q_insert_voucher :: "string \<Rightarrow> int \<Rightarrow> database \<Rightarrow> (goerr + unit) \<times> database" where
  "q_insert_voucher vid purchaserID d =
     (if \<not> varchar 64 vid then (Inl too_long, d)
      else if list_ex (\<lambda>v. v_VoucherID v = vid) (ticket_vouchers d)
      then (Inl (unique_violation ''ticket_vouchers_voucher_id_key''), d\<lparr>vouchers_seq := vouchers_seq d + 1\<rparr>)
      else if \<not> fk_user d (Some purchaserID)
      then (Inl (fk_violation ''ticket_vouchers_purchaser_id_fkey''), d\<lparr>vouchers_seq := vouchers_seq d + 1\<rparr>)
      else (Inr (), d\<lparr>ticket_vouchers := ticket_vouchers d @ [\<lparr>v_ID = vouchers_seq d + 1,
              v_VoucherID = vid, v_PurchaserID = purchaserID, v_OwnerID = None,
              v_ParticipantID = None, v_Status = StatusUnclaimed\<rparr>],
            vouchers_seq := vouchers_seq d + 1\<rparr>))"

text \<open>
  The loop of \<^verbatim>\<open>CreateVouchers\<close>: the ids created so far come back with an error too.
\<close>

fun create_vouchers :: "nat \<Rightarrow> int \<Rightarrow> int \<Rightarrow> string list \<Rightarrow> (world, string list \<times> goerr option) state" where
  "create_vouchers 0 purchaserID i ids = State_Monad.return (ids, None)"
| "create_vouchers (Suc n) purchaserID i ids =
     on_err (sql (\<lambda>_ _. q_insert_voucher (voucher_id purchaserID i) purchaserID))
       (\<lambda>err. State_Monad.return
          (ids, Some (wrapf (''create voucher '' @ voucher_id purchaserID i @ '': '') err)))
       (\<lambda>_. create_vouchers n purchaserID (i + 1) (ids @ [voucher_id purchaserID i]))"

definition CreateVouchers :: "int \<Rightarrow> int \<Rightarrow> (world, string list \<times> goerr option) state" where
  "CreateVouchers purchaserID quantity =
     (if quantity < 0 then State_Monad.return ([], Some (Msg ''panic: makeslice: cap out of range''))
      else create_vouchers (nat quantity) purchaserID 0 [])"

definition claimable :: "string \<Rightarrow> TicketVoucher \<Rightarrow> bool" where
  "claimable vid v \<longleftrightarrow> v_VoucherID v = vid \<and> v_Status v = StatusUnclaimed"

definition rows_affected :: "('r \<Rightarrow> bool) \<Rightarrow> 'r list \<Rightarrow> nat" where
  "rows_affected p rows = length (filter p rows)"

definition q_claim_voucher :: "string \<Rightarrow> int \<Rightarrow> database \<Rightarrow> (goerr + nat) \<times> database" where
  "q_claim_voucher voucherID ownerID d =
     (if rows_affected (claimable voucherID) (ticket_vouchers d) > 0 \<and> \<not> fk_user d (Some ownerID)
      then (Inl (fk_violation ''ticket_vouchers_owner_id_fkey''), d)
      else (Inr (rows_affected (claimable voucherID) (ticket_vouchers d)),
            d\<lparr>ticket_vouchers := update_where (claimable voucherID)
               (\<lambda>v. v\<lparr>v_OwnerID := Some ownerID, v_Status := StatusClaimed\<rparr>) (ticket_vouchers d)\<rparr>))"

definition ClaimVoucher :: "string \<Rightarrow> int \<Rightarrow> (world, unit) go" where
  "ClaimVoucher voucherID ownerID =
     check (sql (\<lambda>_ _. q_claim_voucher voucherID ownerID)) id (\<lambda>n.
       if n = 0 then fails (Msg (''voucher '' @ voucherID @ '' not found or already claimed''))
       else returns ())"

definition delegable :: "string \<Rightarrow> TicketVoucher \<Rightarrow> bool" where
  "delegable vid v \<longleftrightarrow> v_VoucherID v = vid \<and> v_Status v = StatusUnclaimed \<and> v_ParticipantID v = None"

definition q_delegate_voucher :: "string \<Rightarrow> int \<Rightarrow> database \<Rightarrow> (goerr + nat) \<times> database" where
  "q_delegate_voucher voucherID participantID d =
     (if rows_affected (delegable voucherID) (ticket_vouchers d) > 0 \<and> \<not> fk_participant d (Some participantID)
      then (Inl (fk_violation ''ticket_vouchers_participant_id_fkey''), d)
      else (Inr (rows_affected (delegable voucherID) (ticket_vouchers d)),
            d\<lparr>ticket_vouchers := update_where (delegable voucherID)
               (\<lambda>v. v\<lparr>v_ParticipantID := Some participantID\<rparr>) (ticket_vouchers d)\<rparr>))"

definition DelegateVoucher :: "string \<Rightarrow> int \<Rightarrow> (world, unit) go" where
  "DelegateVoucher voucherID participantID =
     check (sql (\<lambda>_ _. q_delegate_voucher voucherID participantID)) (wrapf ''delegate voucher: '') (\<lambda>n.
       if n = 0 then fails (wrapf (''voucher '' @ voucherID @ '': '') ErrAlreadyAllocated)
       else returns ())"

section \<open>Participants\<close>

definition q_create_participant ::
    "string \<Rightarrow> string option \<Rightarrow> int option \<Rightarrow> database \<Rightarrow> (goerr + Participant) \<times> database" where
  "q_create_participant name accountEmail guardianID d =
     (if \<not> varchar 255 name \<or> (case accountEmail of None \<Rightarrow> False | Some e \<Rightarrow> \<not> varchar 255 e) then (Inl too_long, d)
      else if accountEmail \<noteq> None \<and> list_ex (\<lambda>p. p_AccountEmail p = accountEmail) (participants d)
      then (Inl (unique_violation ''idx_participants_account_email''), d\<lparr>participants_seq := participants_seq d + 1\<rparr>)
      else if \<not> fk_participant d guardianID \<and> guardianID \<noteq> Some (participants_seq d + 1)
      then (Inl (fk_violation ''participants_guardian_id_fkey''), d\<lparr>participants_seq := participants_seq d + 1\<rparr>)
      else (let p = \<lparr>p_ID = participants_seq d + 1, p_Name = name, p_AccountEmail = accountEmail,
                     p_GuardianID = guardianID, p_WalletState = ParticipantWalletNone,
                     p_CustodialWalletAddress = None, p_KeysEnc = None\<rparr>
            in (Inr p, d\<lparr>participants := participants d @ [p],
                         participants_seq := participants_seq d + 1\<rparr>)))"

definition CreateParticipant :: "string \<Rightarrow> string option \<Rightarrow> int option \<Rightarrow> (world, Participant) go" where
  "CreateParticipant name accountEmail guardianID =
     check (sql (\<lambda>_ _. q_create_participant name accountEmail guardianID))
       (wrapf ''create participant: '') returns"

definition found :: "'r option \<Rightarrow> goerr + 'r" where
  "found r = (case r of None \<Rightarrow> Inl ErrNoRows | Some x \<Rightarrow> Inr x)"

definition GetParticipant :: "int \<Rightarrow> (world, Participant option) go" where
  "GetParticipant i =
     on_err (sql (\<lambda>_ _ d. (found (find (\<lambda>p. p_ID p = i) (participants d)), d)))
       (\<lambda>err. if errors_Is err ErrNoRows then returns None else fails (wrapf ''get participant: '' err))
       (\<lambda>p. returns (Some p))"

definition GetParticipantByEmail :: "string \<Rightarrow> (world, Participant option) go" where
  "GetParticipantByEmail email =
     on_err (sql (\<lambda>_ _ d. (found (find (\<lambda>p. p_AccountEmail p = Some email) (participants d)), d)))
       (\<lambda>err. if errors_Is err ErrNoRows then returns None
              else fails (wrapf ''get participant by email: '' err))
       (\<lambda>p. returns (Some p))"

definition ListParticipants :: "(world, Participant list) go" where
  "ListParticipants =
     check (sql (\<lambda>_ _ d. (Inr (sort_key p_ID (participants d)), d))) (wrapf ''list participants: '')
       returns"

definition q_set_wallet :: "int \<Rightarrow> ParticipantWalletState \<Rightarrow> string \<Rightarrow> database \<Rightarrow> (goerr + unit) \<times> database" where
  "q_set_wallet i st addr d =
     (if \<not> varchar 128 addr then (Inl too_long, d)
      else (Inr (), d\<lparr>participants := update_where (\<lambda>p. p_ID p = i)
        (\<lambda>p. p\<lparr>p_WalletState := st, p_CustodialWalletAddress := Some addr\<rparr>) (participants d)\<rparr>))"

definition SetParticipantWallet :: "int \<Rightarrow> ParticipantWalletState \<Rightarrow> string \<Rightarrow> (world, unit) go" where
  "SetParticipantWallet i st addr =
     check (sql (\<lambda>_ _. q_set_wallet i st addr)) (wrapf ''set participant wallet: '') returns"

text \<open>
  The recursive query: a participant, its guardian, the guardian's guardian, and so on. The
  fuel bounds the recursion; a row has one guardian, so as many steps as there are rows are
  enough whenever the query ends at all.
\<close>

fun chain :: "nat \<Rightarrow> Participant list \<Rightarrow> int \<Rightarrow> Participant list" where
  "chain 0 ps i = []"
| "chain (Suc n) ps i = (case find (\<lambda>p. p_ID p = i) ps of
       None \<Rightarrow> []
     | Some p \<Rightarrow> p # (case p_GuardianID p of None \<Rightarrow> [] | Some g \<Rightarrow> chain n ps g))"

definition owner_rows :: "int \<Rightarrow> database \<Rightarrow> int list" where
  "owner_rows participantID d =
     concat (map (\<lambda>p. map u_ID (filter (\<lambda>u. p_AccountEmail p = Some (u_Email u)) (users d)))
       (chain (length (participants d)) (participants d) participantID))"

definition q_owner :: "int \<Rightarrow> environment \<Rightarrow> database \<Rightarrow> (goerr + int) \<times> database" where
  "q_owner participantID e d =
     (if owner_rows participantID d = [] then Inl ErrNoRows
      else Inr (env_pick e (owner_rows participantID d)), d)"

definition OwnerUserIDForParticipant :: "int \<Rightarrow> (world, int) go" where
  "OwnerUserIDForParticipant participantID =
     on_err (sql (\<lambda>e _. q_owner participantID e))
       (\<lambda>err. if errors_Is err ErrNoRows then returns 0
              else fails (wrapf (''resolve owner user for participant '' @ show_int participantID @ '': '') err))
       returns"

section \<open>Mint log\<close>

definition mint_key :: "MintLog \<Rightarrow> int \<times> string \<times> int" where
  "mint_key m = (m_UserID m, m_RideID m, m_MintDate m)"

definition q_record_mint :: "int \<Rightarrow> int option \<Rightarrow> string \<Rightarrow> string \<Rightarrow> string \<Rightarrow> int \<Rightarrow> environment \<Rightarrow>
    database \<Rightarrow> (goerr + unit) \<times> database" where
  "q_record_mint userID participantID rideID date txDigest gasUsed e d =
     (case env_date_in e date of
        None \<Rightarrow> (Inl bad_date, d)
      | Some day \<Rightarrow>
          if \<not> varchar 64 rideID \<or> \<not> varchar 128 txDigest then (Inl too_long, d)
          else if list_ex (\<lambda>m. mint_key m = (userID, rideID, day)) (mint_logs d)
          then (Inr (), d\<lparr>mint_logs := update_where (\<lambda>m. mint_key m = (userID, rideID, day))
                 (\<lambda>m. m\<lparr>m_TxDigest := Some txDigest, m_Status := MintConfirmed,
                       m_GasUsed := Some gasUsed\<rparr>) (mint_logs d),
                 mint_seq := mint_seq d + 1\<rparr>)
          else if \<not> fk_user d (Some userID)
          then (Inl (fk_violation ''mint_logs_user_id_fkey''), d\<lparr>mint_seq := mint_seq d + 1\<rparr>)
          else if \<not> fk_participant d participantID
          then (Inl (fk_violation ''mint_logs_participant_id_fkey''), d\<lparr>mint_seq := mint_seq d + 1\<rparr>)
          else (Inr (), d\<lparr>mint_logs := mint_logs d @ [\<lparr>m_ID = mint_seq d + 1, m_UserID = userID,
                 m_ParticipantID = participantID, m_RideID = rideID, m_MintDate = day,
                 m_TxDigest = Some txDigest, m_Status = MintConfirmed, m_GasUsed = Some gasUsed\<rparr>],
               mint_seq := mint_seq d + 1\<rparr>))"

definition RecordMint :: "int \<Rightarrow> int option \<Rightarrow> string \<Rightarrow> string \<Rightarrow> string \<Rightarrow> int \<Rightarrow> (world, unit) go" where
  "RecordMint userID participantID rideID date txDigest gasUsed =
     sql (\<lambda>e _. q_record_mint userID participantID rideID date txDigest gasUsed e)"

definition RecordMintForParticipant :: "int \<Rightarrow> string \<Rightarrow> string \<Rightarrow> string \<Rightarrow> (world, unit) go" where
  "RecordMintForParticipant participantID rideID date txDigest =
     check (OwnerUserIDForParticipant participantID) id (\<lambda>ownerID.
       if ownerID = 0
       then fails (Msg (''record mint: no owning account user for participant '' @ show_int participantID))
       else RecordMint ownerID (Some participantID) rideID date txDigest 0)"

section \<open>Pending mints\<close>

definition pending_key :: "pending_row \<Rightarrow> int \<times> int" where
  "pending_key r = (pr_ParticipantID r, pr_MintDate r)"

text \<open>\<^verbatim>\<open>time.Time\<close> has a JSON form only in the years 0 to 9999.\<close>

definition json_time_ok :: "int \<Rightarrow> int \<Rightarrow> bool" where
  "json_time_ok off ms =
     (let y = fst (civil_from_days (day_of off ms)) in 0 \<le> y \<and> y \<le> 9999)"

definition q_upsert_pending :: "PendingMint \<Rightarrow> environment \<Rightarrow> database \<Rightarrow> (goerr + unit) \<times> database" where
  "q_upsert_pending pm e d =
     (case env_date_in e (pm_MintDate pm) of
        None \<Rightarrow> (Inl bad_date, d)
      | Some day \<Rightarrow>
          if list_ex (\<lambda>r. pending_key r = (pm_ParticipantID pm, day)) (pending_mints d)
          then (Inr (), d\<lparr>pending_mints := update_where
                 (\<lambda>r. pending_key r = (pm_ParticipantID pm, day))
                 (\<lambda>r. r\<lparr>pr_RideIDs := pm_RideIDs pm, pr_ScannedAts := pm_ScannedAts pm,
                       pr_WalletState := pm_WalletState pm\<rparr>) (pending_mints d),
                 pending_seq := pending_seq d + 1\<rparr>)
          else if \<not> fk_participant d (Some (pm_ParticipantID pm))
          then (Inl (fk_violation ''pending_mints_participant_id_fkey''), d\<lparr>pending_seq := pending_seq d + 1\<rparr>)
          else (Inr (), d\<lparr>pending_mints := pending_mints d @ [\<lparr>pr_ID = pending_seq d + 1,
                 pr_ParticipantID = pm_ParticipantID pm, pr_RideIDs = pm_RideIDs pm,
                 pr_ScannedAts = pm_ScannedAts pm, pr_MintDate = day, pr_WalletState = pm_WalletState pm\<rparr>],
               pending_seq := pending_seq d + 1\<rparr>))"

definition UpsertPendingMint :: "PendingMint \<Rightarrow> (world, unit) go" where
  "UpsertPendingMint pm = do {
     off \<leftarrow> gets (env_zone \<circ> env);
     if \<not> list_all (json_time_ok off) (pm_ScannedAts pm)
     then fails (wrapf ''marshal scanned_ats: '' (Msg ''Time.MarshalJSON: year outside of range [0,9999]''))
     else check (sql (\<lambda>e _. q_upsert_pending pm e)) (wrapf ''upsert pending mint: '') returns
   }"

definition q_get_pending :: "int \<Rightarrow> string \<Rightarrow> environment \<Rightarrow> database \<Rightarrow> (goerr + PendingMint) \<times> database" where
  "q_get_pending participantID mintDate e d =
     (case env_date_in e mintDate of
        None \<Rightarrow> Inl bad_date
      | Some day \<Rightarrow> found (map_option
          (\<lambda>r. \<lparr>pm_ID = pr_ID r, pm_ParticipantID = participantID, pm_RideIDs = pr_RideIDs r,
               pm_ScannedAts = pr_ScannedAts r, pm_MintDate = env_date_out e (pr_MintDate r),
               pm_WalletState = pr_WalletState r\<rparr>)
          (find (\<lambda>r. pending_key r = (participantID, day)) (pending_mints d))), d)"

definition GetPendingMint :: "int \<Rightarrow> string \<Rightarrow> (world, PendingMint option) go" where
  "GetPendingMint participantID mintDate =
     on_err (sql (\<lambda>e _. q_get_pending participantID mintDate e))
       (\<lambda>err. if errors_Is err ErrNoRows then returns None else fails (wrapf ''get pending mint: '' err))
       (\<lambda>pm. returns (Some pm))"

section \<open>The outbox\<close>

definition q_insert_outbox :: "string \<Rightarrow> string \<Rightarrow> string \<Rightarrow> int \<Rightarrow> int \<Rightarrow> database \<Rightarrow>
    (goerr + unit) \<times> database" where
  "q_insert_outbox traceID userEmail rideID scannedAt now d =
     (if \<not> varchar 64 traceID \<or> \<not> varchar 255 userEmail \<or> \<not> varchar 64 rideID
      then (Inl too_long, d)
      else if list_ex (\<lambda>o1. o_TraceID o1 = traceID) (outbox d)
      then (Inr (), d\<lparr>outbox_seq := outbox_seq d + 1\<rparr>)
      else (Inr (), d\<lparr>outbox := outbox d @ [\<lparr>o_ID = outbox_seq d + 1, o_TraceID = traceID,
              o_UserEmail = userEmail, o_RideID = rideID, o_ScannedAt = scannedAt,
              o_Status = ''PENDING'', o_Attempts = 0, o_CreatedAt = now\<rparr>],
            outbox_seq := outbox_seq d + 1\<rparr>))"

definition InsertOutbox :: "string \<Rightarrow> string \<Rightarrow> string \<Rightarrow> int \<Rightarrow> (world, unit) go" where
  "InsertOutbox traceID userEmail rideID scannedAt =
     check (sql (\<lambda>_ now. q_insert_outbox traceID userEmail rideID scannedAt now))
       (wrapf ''insert outbox: '') returns"

definition q_list_outbox :: "int \<Rightarrow> database \<Rightarrow> (goerr + OutboxRow list) \<times> database" where
  "q_list_outbox limit d =
     (if limit < 0 then Inl (Msg ''LIMIT must not be negative'')
      else Inr (take (nat limit)
        (sort_key o_CreatedAt (filter (\<lambda>o1. o_Status o1 = ''PENDING'') (outbox d)))), d)"

definition ListPendingOutbox :: "int \<Rightarrow> (world, OutboxRow list) go" where
  "ListPendingOutbox limit =
     check (sql (\<lambda>_ _. q_list_outbox limit)) (wrapf ''list pending outbox: '') returns"

definition q_bump_outbox :: "string \<Rightarrow> database \<Rightarrow> database" where
  "q_bump_outbox traceID d =
     d\<lparr>outbox := update_where (\<lambda>o1. o_TraceID o1 = traceID)
        (\<lambda>o1. o1\<lparr>o_Attempts := o_Attempts o1 + 1\<rparr>) (outbox d)\<rparr>"

definition BumpOutboxAttempts :: "string \<Rightarrow> (world, unit) go" where
  "BumpOutboxAttempts traceID =
     check (sql (\<lambda>_ _ d. if list_ex (\<lambda>o1. o_TraceID o1 = traceID \<and> o_Attempts o1 = 2 ^ 31 - 1) (outbox d)
                 then (Inl (Msg ''integer out of range''), d) else (Inr (), q_bump_outbox traceID d)))
       (wrapf ''bump outbox attempts: '') returns"

definition q_delete_outbox :: "string \<Rightarrow> database \<Rightarrow> database" where
  "q_delete_outbox traceID d = d\<lparr>outbox := filter (\<lambda>o1. o_TraceID o1 \<noteq> traceID) (outbox d)\<rparr>"

definition DeleteOutbox :: "string \<Rightarrow> (world, unit) go" where
  "DeleteOutbox traceID =
     check (sql (\<lambda>_ _ d. (Inr (), q_delete_outbox traceID d))) (wrapf ''delete outbox: '') returns"

end
