(* ===== verification/Pipeline_Handler.thy ===== *)
theory Pipeline_Handler
  imports Redis_Client Postgres_Repository
begin

text \<open>
  \<^verbatim>\<open>internal/pipeline/handler.go\<close>: the handler of a scan event (deduplicate, persist,
  aggregate, park) and the drain of the outbox. The interfaces of the source are records of
  functions; what the handler needs of them is stated as locales and discharged for the Redis
  client and the repository.
\<close>

section \<open>The collaborators\<close>

record scanRedis =
  sr_IsDuplicate :: "string \<Rightarrow> (world, bool) go"
  sr_ClearDedup :: "string \<Rightarrow> (world, unit) go"
  sr_AddRideToUserSet :: "string \<Rightarrow> string \<Rightarrow> string \<Rightarrow> (world, unit) go"

record OutboxStore =
  os_ListPendingOutbox :: "int \<Rightarrow> (world, OutboxRow list) go"
  os_BumpOutboxAttempts :: "string \<Rightarrow> (world, unit) go"
  os_DeleteOutbox :: "string \<Rightarrow> (world, unit) go"

type_synonym OutboxWriter = "string \<Rightarrow> string \<Rightarrow> string \<Rightarrow> int \<Rightarrow> (world, unit) go"

record ScanHandler =
  h_redis :: scanRedis
  h_outbox :: "OutboxWriter option"

definition NewScanHandler :: "scanRedis \<Rightarrow> ScanHandler" where
  "NewScanHandler r = \<lparr>h_redis = r, h_outbox = None\<rparr>"

definition WithOutbox :: "ScanHandler \<Rightarrow> OutboxWriter \<Rightarrow> ScanHandler" where
  "WithOutbox h o1 = h\<lparr>h_outbox := Some o1\<rparr>"

definition redis_scan :: "RedisConfig \<Rightarrow> scanRedis" where
  "redis_scan rcfg = \<lparr>sr_IsDuplicate = IsDuplicate rcfg, sr_ClearDedup = ClearDedup,
     sr_AddRideToUserSet = AddRideToUserSet rcfg\<rparr>"

definition repo_outbox :: OutboxStore where
  "repo_outbox = \<lparr>os_ListPendingOutbox = ListPendingOutbox,
     os_BumpOutboxAttempts = BumpOutboxAttempts, os_DeleteOutbox = DeleteOutbox\<rparr>"

definition production_handler :: "RedisConfig \<Rightarrow> ScanHandler" where
  "production_handler rcfg = WithOutbox (NewScanHandler (redis_scan rcfg)) InsertOutbox"

lemma production_sel [simp]:
  "h_redis (production_handler rcfg) = redis_scan rcfg"
  "h_outbox (production_handler rcfg) = Some InsertOutbox"
  by (simp_all add: production_handler_def WithOutbox_def NewScanHandler_def)

section \<open>Handling an event\<close>

text \<open>The time stamps a \<^verbatim>\<open>timestamptz\<close> can hold, in milliseconds.\<close>

definition pg_timestamp :: "int \<Rightarrow> bool" where
  "pg_timestamp ms \<longleftrightarrow> - 210866803200000 \<le> ms \<and> ms < 9224318016000000"

definition q_insert_scan :: "ScanEvent \<Rightarrow> database \<Rightarrow> (goerr + unit) \<times> database" where
  "q_insert_scan ev d =
     (if \<not> varchar 64 (ev_TraceID ev) \<or> \<not> varchar 64 (ev_TicketID ev) \<or> \<not> varchar 64 (ev_RideID ev)
      then (Inl too_long, d)
      else if \<not> pg_timestamp (ev_Timestamp ev) then (Inl (Msg ''timestamp out of range''), d)
      else if list_ex (\<lambda>s. s_TraceID s = ev_TraceID ev) (scan_events d)
      then (Inr (), d\<lparr>scan_seq := scan_seq d + 1\<rparr>)
      else (Inr (), d\<lparr>scan_events := scan_events d @ [\<lparr>s_ID = scan_seq d + 1,
              s_TraceID = ev_TraceID ev,
              s_UserID = map_option u_ID (find (\<lambda>u. u_Email u = ev_UserID ev) (users d)),
              s_TicketID = Some (ev_TicketID ev), s_RideID = ev_RideID ev,
              s_ScannedAt = ev_Timestamp ev\<rparr>],
            scan_seq := scan_seq d + 1\<rparr>))"

definition persist :: "ScanEvent \<Rightarrow> (world, unit) go" where
  "persist event = check (sql (\<lambda>_ _. q_insert_scan event)) (wrapf ''pg insert: '') returns"

definition aggregate :: "ScanHandler \<Rightarrow> ScanEvent \<Rightarrow> (world, unit) go" where
  "aggregate h event = do {
     off \<leftarrow> gets (env_zone \<circ> env);
     let date = format_date off (ev_Timestamp event);
     on_err (sr_AddRideToUserSet (h_redis h) (ev_UserID event) (ev_RideID event) date)
       (\<lambda>err. case h_outbox h of
            None \<Rightarrow> fails (wrapf ''redis aggregate: '' err)
          | Some insert_outbox \<Rightarrow>
              on_err (insert_outbox (ev_TraceID event) (ev_UserID event) (ev_RideID event)
                  (ev_Timestamp event))
                (\<lambda>werr. fails (Wrap ''redis aggregate + outbox: '' werr
                   ('' (redis err: '' @ Error err @ '')'')))
                returns)
       returns
   }"

definition Handle :: "ScanHandler \<Rightarrow> ScanEvent \<Rightarrow> (world, unit) go" where
  "Handle h event =
     check (sr_IsDuplicate (h_redis h) (ev_TraceID event)) id (\<lambda>isDup.
       if isDup then returns ()
       else on_err (check (persist event) id (\<lambda>_. aggregate h event))
              (\<lambda>err. do { _ \<leftarrow> sr_ClearDedup (h_redis h) (ev_TraceID event); fails err })
              returns)"

section \<open>Draining the outbox\<close>

fun drain_rows :: "ScanHandler \<Rightarrow> OutboxStore \<Rightarrow> OutboxRow list \<Rightarrow> int \<Rightarrow>
    (world, int \<times> goerr option) state" where
  "drain_rows h store [] drained = State_Monad.return (drained, None)"
| "drain_rows h store (row # rows) drained = do {
     off \<leftarrow> gets (env_zone \<circ> env);
     let date = format_date off (o_ScannedAt row);
     on_err (sr_AddRideToUserSet (h_redis h) (o_UserEmail row) (o_RideID row) date)
       (\<lambda>_. do {
          _ \<leftarrow> os_BumpOutboxAttempts store (o_TraceID row);
          drain_rows h store rows drained
        })
       (\<lambda>_. on_err (os_DeleteOutbox store (o_TraceID row))
          (\<lambda>err. State_Monad.return (drained, Some err))
          (\<lambda>_. drain_rows h store rows (drained + 1)))
   }"

definition DrainOutbox :: "ScanHandler \<Rightarrow> OutboxStore \<Rightarrow> int \<Rightarrow> (world, int \<times> goerr option) state" where
  "DrainOutbox h store batch =
     on_err (os_ListPendingOutbox store batch)
       (\<lambda>err. State_Monad.return (0, Some err))
       (\<lambda>rows. drain_rows h store rows 0)"

section \<open>What the collaborators promise\<close>

text \<open>The Redis side: a fresh marker is not a duplicate, and no table is touched.\<close>

locale scan_redis =
  fixes r :: scanRedis
  assumes redis_frame: "stable I \<Longrightarrow> (\<And>w ks. I (w\<lparr>redis := ks\<rparr>) = I w) \<Longrightarrow>
        keeps I (sr_IsDuplicate r t) \<and> keeps I (sr_ClearDedup r t) \<and>
        keeps I (sr_AddRideToUserSet r u ride date)"
    and added: "run_state (sr_AddRideToUserSet r u ride date) w = (Inr (), w') \<Longrightarrow>
        redis w' (rideSetKey u date) = None \<or>
        (\<exists>s x. redis w' (rideSetKey u date) = Some (RSet s, x) \<and> ride \<in> s)"
    and unmarked: "run_state (sr_IsDuplicate r t) w = (Inr False, w') \<Longrightarrow>
        \<exists>w1. next_event w = (Up, w1) \<and> redis w1 (dedupKey t) = None"

text \<open>The outbox writer: it parks the event or fails, and touches nothing but the outbox.\<close>

definition parked :: "string \<Rightarrow> database \<Rightarrow> bool" where
  "parked trace d \<longleftrightarrow> list_ex (\<lambda>o1. o_TraceID o1 = trace) (outbox d)"

locale outbox_writer =
  fixes insert_outbox :: OutboxWriter
  assumes parks: "run_state (insert_outbox trace email ride at1) w = (Inr (), w') \<Longrightarrow>
        parked trace (db w')"
    and writer_frame: "stable I \<Longrightarrow> (\<And>w rows n. I (w\<lparr>db := (db w)\<lparr>outbox := rows, outbox_seq := n\<rparr>\<rparr>) = I w) \<Longrightarrow>
        keeps I (insert_outbox trace email ride at1)"

lemma keeps_redis_any:
  assumes "stable I" and "\<And>w ks. I (w\<lparr>redis := ks\<rparr>) = I w"
  shows "keeps I (redis_call cmd)"
  by (rule keeps_redis_frame) (use assms in auto)

interpretation redis_scan: scan_redis "redis_scan rcfg" for rcfg
proof (unfold_locales, goal_cases)
  case (1 I t u ride date)
  note [keeps_intros] = keeps_redis_any [OF 1]
  show ?case
    unfolding redis_scan_def IsDuplicate_def ClearDedup_def AddRideToUserSet_def rdb_SetNX_def
      rdb_Del_def rdb_SAdd_def rdb_Expire_def
    by (simp add: keeps_intros)
next
  case (2 u ride date w w')
  then obtain w1 where add: "run_state (rdb_SAdd (rideSetKey u date) ride) w = (Inr (), w1)"
    and ex: "run_state (rdb_Expire (rideSetKey u date) (rc_AggTTLSec rcfg)) w1 = (Inr (), w')"
    by (auto simp: redis_scan_def AddRideToUserSet_def split: prod.splits sum.splits)
  from add have 1: "\<exists>s x. redis w1 (rideSetKey u date) = Some (RSet s, x) \<and> ride \<in> s"
    by (auto simp: rdb_SAdd_def redis_call_def r_SADD_def elim!: run_call_cases
        split: prod.splits option.splits rvalue.splits)
  from ex obtain w2 where ev: "next_event w1 = (Up, w2)"
    and w': "w' = w2\<lparr>redis := r_EXPIRE (rideSetKey u date) (rc_AggTTLSec rcfg) (clock w2) (redis w2)\<rparr>"
    by (auto simp: rdb_Expire_def redis_call_def elim!: run_call_cases)
  from ev 1 have "redis w2 (rideSetKey u date) = None \<or>
      (\<exists>s x. redis w2 (rideSetKey u date) = Some (RSet s, x) \<and> ride \<in> s)"
    using purge_cases [of _ "redis w1" "rideSetKey u date"]
    by (auto simp: next_event_def elapse_def split: list.splits) (metis option.distinct(1))
  then show ?case
    by (auto simp: w' r_EXPIRE_def r_DEL_def split: option.split)
next
  case (3 t w w')
  then show ?case
    by (auto simp: redis_scan_def IsDuplicate_def rdb_SetNX_def redis_call_def r_SETNX_def
        elim!: run_call_cases split: prod.splits sum.splits if_splits)
qed

interpretation repo_outbox: outbox_writer InsertOutbox
proof (unfold_locales, goal_cases)
  case (1 trace email ride at1 w w')
  then show ?case
    by (auto simp: InsertOutbox_def sql_def q_insert_outbox_def parked_def elim!: run_call_cases
        split: prod.splits sum.splits if_splits)
next
  case (2 I trace email ride at1)
  show ?case
    unfolding InsertOutbox_def
  proof (intro keeps_intros keeps_sql 2(1))
    fix w r d
    assume "I w" and "q_insert_outbox trace email ride at1 (clock w) (db w) = (r, d)"
    then have "\<exists>rows n. d = (db w)\<lparr>outbox := rows, outbox_seq := n\<rparr>"
      by (auto simp: q_insert_outbox_def split: if_splits)
         (metis database.surjective database.update_convs(15,16))+
    then show "I (w\<lparr>db := d\<rparr>)" using \<open>I w\<close> 2(2) by auto
  qed
qed

end
