(* ===== verification/Pipeline_Safety.thy ===== *)
theory Pipeline_Safety
  imports Pipeline_Handler
begin

text \<open>
  What the scan pipeline guarantees over retries, redeliveries, delays, refused calls and lost
  answers: at most one row per trace id, a row for everything that was handled, and where the
  deduplication marker ends up.
\<close>

section \<open>Invariants of the handler\<close>

lemma keeps_persist:
  assumes "stable I" and "\<And>w r d. I w \<Longrightarrow> q_insert_scan ev (db w) = (r, d) \<Longrightarrow> I (w\<lparr>db := d\<rparr>)"
  shows "keeps I (persist ev)"
  unfolding persist_def using assms by (intro keeps_intros keeps_sql)

text \<open>An invariant that Redis and the outbox cannot disturb and an insert keeps.\<close>

definition scan_invariant :: "ScanEvent \<Rightarrow> (world \<Rightarrow> bool) \<Rightarrow> bool" where
  "scan_invariant ev I \<longleftrightarrow> stable I \<and> (\<forall>w ks. I (w\<lparr>redis := ks\<rparr>) = I w) \<and>
     (\<forall>w rows n. I (w\<lparr>db := (db w)\<lparr>outbox := rows, outbox_seq := n\<rparr>\<rparr>) = I w) \<and>
     (\<forall>w r d. I w \<longrightarrow> q_insert_scan ev (db w) = (r, d) \<longrightarrow> I (w\<lparr>db := d\<rparr>))"

lemma keeps_Handle:
  assumes "scan_invariant ev I"
  shows "keeps I (Handle (production_handler rcfg) ev)"
proof -
  have st: "stable I" and rd: "\<And>w ks. I (w\<lparr>redis := ks\<rparr>) = I w"
    and ob: "\<And>w rows n. I (w\<lparr>db := (db w)\<lparr>outbox := rows, outbox_seq := n\<rparr>\<rparr>) = I w"
    and ins: "\<And>w r d. I w \<Longrightarrow> q_insert_scan ev (db w) = (r, d) \<Longrightarrow> I (w\<lparr>db := d\<rparr>)"
    using assms unfolding scan_invariant_def by blast+
  note r = redis_scan.redis_frame [OF st rd]
  note [keeps_intros] = r [THEN conjunct1] r [THEN conjunct2, THEN conjunct1]
    r [THEN conjunct2, THEN conjunct2] keeps_persist [OF st ins] repo_outbox.writer_frame [OF st ob]
  show ?thesis
    unfolding Handle_def aggregate_def Let_def production_sel option.case
    by (intro keeps_intros)
qed

text \<open>A consumer hands events over, again and again if need be.\<close>

fun handle_all :: "ScanHandler \<Rightarrow> ScanEvent list \<Rightarrow> (world, unit) state" where
  "handle_all h [] = State_Monad.return ()"
| "handle_all h (ev # evs) = Handle h ev \<bind> (\<lambda>_. handle_all h evs)"

lemma keeps_handle_all:
  "(\<And>ev. ev \<in> set evs \<Longrightarrow> scan_invariant ev I) \<Longrightarrow> keeps I (handle_all (production_handler rcfg) evs)"
  by (induction evs) (auto intro!: keeps_intros keeps_Handle)

section \<open>At most once\<close>

definition row_of :: "ScanRecord \<Rightarrow> ScanEvent \<Rightarrow> bool" where
  "row_of s ev \<longleftrightarrow> s_TraceID s = ev_TraceID ev \<and> s_RideID s = ev_RideID ev \<and>
     s_ScannedAt s = ev_Timestamp ev \<and> s_TicketID s = Some (ev_TicketID ev)"

definition extends_rows :: "ScanRecord list \<Rightarrow> ScanEvent set \<Rightarrow> world \<Rightarrow> bool" where
  "extends_rows rows evs w \<longleftrightarrow> (\<exists>new. scan_events (db w) = rows @ new \<and>
     distinct (map s_TraceID (rows @ new)) \<and> (\<forall>s \<in> set new. \<exists>ev \<in> evs. row_of s ev))"

lemma scan_invariant_extends: "ev \<in> evs \<Longrightarrow> scan_invariant ev (extends_rows rows evs)"
  unfolding scan_invariant_def
proof (intro conjI allI impI)
  show "stable (extends_rows rows evs)" by (rule timeless_stable) (simp add: timeless_def extends_rows_def)
next
  fix w r d
  assume ev: "ev \<in> evs" and w: "extends_rows rows evs w" and q: "q_insert_scan ev (db w) = (r, d)"
  from w obtain new where new: "scan_events (db w) = rows @ new"
    "distinct (map s_TraceID (rows @ new))" "\<forall>s \<in> set new. \<exists>ev \<in> evs. row_of s ev"
    unfolding extends_rows_def by blast
  show "extends_rows rows evs (w\<lparr>db := d\<rparr>)"
  proof (cases "scan_events d = scan_events (db w)")
    case True
    with new show ?thesis unfolding extends_rows_def by (intro exI [of _ new]) simp
  next
    case False
    with q obtain s where s: "scan_events d = scan_events (db w) @ [s]" "row_of s ev"
      and fresh: "\<not> list_ex (\<lambda>s. s_TraceID s = ev_TraceID ev) (scan_events (db w))"
      by (auto simp: q_insert_scan_def row_of_def split: if_splits)
    from fresh s(2) new(1) have "s_TraceID s \<notin> set (map s_TraceID (rows @ new))"
      by (auto simp: list_ex_iff row_of_def)
    with new s ev show ?thesis
      unfolding extends_rows_def by (intro exI [of _ "new @ [s]"]) auto
  qed
qed (simp_all add: extends_rows_def)

text \<open>
  C5: effectively once. However often events are delivered and retried, in whatever order,
  under every schedule of delays, refused calls, lost answers and expired markers, the table
  of scans has at most one row per trace id, keeps every row it had, and each new row is one
  of the delivered events, unchanged.
\<close>

theorem scans_at_most_once:
  assumes "distinct (map s_TraceID (scan_events (db w)))"
    and "run_state (handle_all (production_handler rcfg) deliveries) w = (u, w')"
  shows "\<exists>new. scan_events (db w') = scan_events (db w) @ new \<and>
    distinct (map s_TraceID (scan_events (db w'))) \<and>
    (\<forall>s \<in> set new. \<exists>ev \<in> set deliveries. s_TraceID s = ev_TraceID ev \<and>
       s_RideID s = ev_RideID ev \<and> s_ScannedAt s = ev_Timestamp ev \<and>
       s_TicketID s = Some (ev_TicketID ev))"
proof -
  let ?I = "extends_rows (scan_events (db w)) (set deliveries)"
  have "keeps ?I (handle_all (production_handler rcfg) deliveries)"
    by (rule keeps_handle_all) (rule scan_invariant_extends)
  moreover have "?I w" using assms(1) unfolding extends_rows_def by (intro exI [of _ "[]"]) simp
  ultimately have "?I w'" by (rule keepsD [OF _ _ assms(2)])
  then show ?thesis unfolding extends_rows_def row_of_def by auto
qed

section \<open>Handled means stored\<close>

lemma persist_stores:
  assumes "run_state (persist ev) w = (Inr (), w')"
  shows "\<exists>s \<in> set (scan_events (db w')). s_TraceID s = ev_TraceID ev"
  using assms
  by (auto simp: persist_def sql_def q_insert_scan_def list_ex_iff elim!: run_call_cases
      split: prod.splits sum.splits if_splits) blast+

definition has_row :: "string \<Rightarrow> world \<Rightarrow> bool" where
  "has_row t w \<longleftrightarrow> (\<exists>s \<in> set (scan_events (db w)). s_TraceID s = t)"

lemma keeps_has_row:
  "keeps (has_row t) (sr_AddRideToUserSet (redis_scan rcfg) u ride date)"
  "keeps (has_row t) (InsertOutbox trace email ride at1)"
proof -
  have st: "stable (has_row t)" by (rule timeless_stable) (simp add: timeless_def has_row_def)
  show "keeps (has_row t) (sr_AddRideToUserSet (redis_scan rcfg) u ride date)"
    using redis_scan.redis_frame [OF st] by (simp add: has_row_def)
  show "keeps (has_row t) (InsertOutbox trace email ride at1)"
    by (rule repo_outbox.writer_frame [OF st]) (simp add: has_row_def)
qed

lemma run_aggregate:
  "run_state (aggregate (production_handler rcfg) ev) w =
    (case run_state (sr_AddRideToUserSet (redis_scan rcfg) (ev_UserID ev) (ev_RideID ev)
        (format_date (env_zone (env w)) (ev_Timestamp ev))) w of
       (Inr _, w1) \<Rightarrow> (Inr (), w1)
     | (Inl err, w1) \<Rightarrow>
         (case run_state (InsertOutbox (ev_TraceID ev) (ev_UserID ev) (ev_RideID ev) (ev_Timestamp ev)) w1 of
            (Inr _, w2) \<Rightarrow> (Inr (), w2)
          | (Inl werr, w2) \<Rightarrow> (Inl (Wrap ''redis aggregate + outbox: '' werr
               ('' (redis err: '' @ Error err @ '')'')), w2)))"
  unfolding aggregate_def Let_def production_sel option.case
  by (simp only: State_Monad.run_state_bind run_gets run_on_err o_apply case_prod_conv
      State_Monad.run_state_return) (simp split: prod.split sum.split)


section \<open>Where the marker ends up\<close>

lemma ClearDedup_clears:
  "run_state (ClearDedup t) w = (Inr (), w') \<Longrightarrow> redis w' (dedupKey t) = None"
  by (auto simp: ClearDedup_def rdb_Del_def redis_call_def r_DEL_def elim!: run_call_cases
      split: prod.splits sum.splits)

text \<open>
  Compensation. When the handler reports an error, either its very first call to Redis
  failed, or the last thing it did was to ask Redis to drop the marker; if that was answered,
  the marker is gone and the retry processes the event again.
\<close>

theorem error_clears_marker:
  assumes "run_state (Handle (production_handler rcfg) ev) w = (Inl err, w')"
  shows "(\<exists>e. run_state (IsDuplicate rcfg (ev_TraceID ev)) w = (Inl e, w') \<and> err = e) \<or>
    (\<exists>w1 res. run_state (ClearDedup (ev_TraceID ev)) w1 = (res, w') \<and>
       (res = Inr () \<longrightarrow> redis w' (dedupKey (ev_TraceID ev)) = None))"
proof -
  obtain r w1 where d: "run_state (IsDuplicate rcfg (ev_TraceID ev)) w = (r, w1)" by fastforce
  show ?thesis
  proof (cases r)
    case (Inl e)
    with assms d show ?thesis by (auto simp: Handle_def redis_scan_def)
  next
    case (Inr dup)
    obtain r2 w2 where body: "run_state (check (persist ev) id
        (\<lambda>_. aggregate (production_handler rcfg) ev)) w1 = (r2, w2)" by fastforce
    obtain res w3 where c: "run_state (ClearDedup (ev_TraceID ev)) w2 = (res, w3)" by fastforce
    have sel: "sr_IsDuplicate (redis_scan rcfg) = IsDuplicate rcfg"
      "sr_ClearDedup (redis_scan rcfg) = ClearDedup" by (simp_all add: redis_scan_def)
    from assms d Inr body c have "w3 = w'"
      unfolding Handle_def production_sel sel by (cases dup; cases r2) auto
    with c ClearDedup_clears show ?thesis by blast
  qed
qed

text \<open>
  The marker can swallow an event. If the answer to the first \<^verbatim>\<open>SETNX\<close> is lost, the
  handler reports an error without clearing the marker it has set; the retry, before the marker
  expires, takes the event for a duplicate, reports success, and the event has no row.
\<close>

theorem lost_answer_drops_event:
  assumes "schedule w = [(LostAck t, 0)]"
    and "redis (elapse 0 w) (dedupKey (ev_TraceID ev)) = None"
    and "0 < rc_DedupTTLSec rcfg"
    and "\<forall>s \<in> set (scan_events (db w)). s_TraceID s \<noteq> ev_TraceID ev"
  shows "\<exists>err w1 w2. run_state (Handle (production_handler rcfg) ev) w = (Inl err, w1) \<and>
    run_state (Handle (production_handler rcfg) ev) w1 = (Inr (), w2) \<and>
    (\<forall>s \<in> set (scan_events (db w2)). s_TraceID s \<noteq> ev_TraceID ev) \<and> outbox (db w2) = outbox (db w)"
proof -
  let ?k = "dedupKey (ev_TraceID ev)"
  define w1 where "w1 = (elapse 0 (w\<lparr>schedule := []\<rparr>))\<lparr>redis := (redis (elapse 0 w))(?k \<mapsto>
      (RStr (Text ''1''), Some (clock w + rc_DedupTTLSec rcfg * 1000)))\<rparr>"
  have first: "run_state (Handle (production_handler rcfg) ev) w =
      (Inl (wrapf ''redis setnx dedup: '' (Msg t)), w1)"
    using assms(1-3)
    by (simp add: Handle_def redis_scan_def IsDuplicate_def rdb_SetNX_def redis_call_def call_def
        next_event_def r_SETNX_def r_SET_def ttl_def w1_def elapse_def)
  have q: "quiet w1" and k: "\<exists>y. redis w1 ?k = Some y" by (simp_all add: w1_def quiet_def)
  then have "run_state (Handle (production_handler rcfg) ev) w1 = (Inr (), w1)"
    using assms(3)
    by (auto simp: Handle_def redis_scan_def IsDuplicate_def rdb_SetNX_def r_SETNX_def)
  with first assms(4) show ?thesis by (intro exI [of _ w1] exI) (auto simp: w1_def elapse_def)
qed

section \<open>Draining the outbox\<close>

text \<open>No key of a ride set holds anything but a set.\<close>

definition sets_ok :: "keyspace \<Rightarrow> bool" where
  "sets_ok ks \<longleftrightarrow> (\<forall>u d p e. ks (rideSetKey u d) \<noteq> Some (RStr p, e))"

definition add_ride :: "RedisConfig \<Rightarrow> int \<Rightarrow> string \<Rightarrow> string \<Rightarrow> keyspace \<Rightarrow> keyspace" where
  "add_ride rcfg now k ride ks =
     ks(k \<mapsto> (RSet (insert ride (case ks k of Some (RSet s, _) \<Rightarrow> s | _ \<Rightarrow> {})),
              Some (now + rc_AggTTLSec rcfg * 1000)))"

lemma run_AddRide:
  assumes "quiet w" and "sets_ok (redis w)" and "0 < rc_AggTTLSec rcfg"
  shows "run_state (AddRideToUserSet rcfg u ride date) w =
    (Inr (), w\<lparr>redis := add_ride rcfg (clock w) (rideSetKey u date) ride (redis w)\<rparr>)"
proof -
  have "redis w (rideSetKey u date) \<noteq> Some (RStr p, e)" for p e
    using assms(2) by (simp add: sets_ok_def)
  with assms(1,3) show ?thesis
    by (auto simp: AddRideToUserSet_def rdb_SAdd_def rdb_Expire_def r_SADD_def r_EXPIRE_def
        add_ride_def split: option.split rvalue.split)
qed

lemma sets_ok_add_ride [simp]: "sets_ok ks \<Longrightarrow> sets_ok (add_ride rcfg now k ride ks)"
  by (auto simp: sets_ok_def add_ride_def)

definition in_ride_set :: "keyspace \<Rightarrow> string \<Rightarrow> string \<Rightarrow> bool" where
  "in_ride_set ks k ride \<longleftrightarrow> (\<exists>s e. ks k = Some (RSet s, e) \<and> ride \<in> s)"

lemma in_ride_set_add: "in_ride_set (add_ride rcfg now k ride ks) k ride"
  by (simp add: in_ride_set_def add_ride_def)

lemma in_ride_set_mono: "in_ride_set ks k ride \<Longrightarrow> in_ride_set (add_ride rcfg now k' ride' ks) k ride"
  by (auto simp: in_ride_set_def add_ride_def)

definition row_key :: "environment \<Rightarrow> OutboxRow \<Rightarrow> string" where
  "row_key e row = rideSetKey (o_UserEmail row) (format_date (env_zone e) (o_ScannedAt row))"

lemma run_drain_rows:
  assumes "quiet w" and "sets_ok (redis w)" and "0 < rc_AggTTLSec rcfg"
  shows "\<exists>w'. run_state (drain_rows (production_handler rcfg) repo_outbox rows n) w =
      ((n + int (length rows), None), w') \<and>
    outbox (db w') = filter (\<lambda>o1. o_TraceID o1 \<notin> o_TraceID ` set rows) (outbox (db w)) \<and>
    scan_events (db w') = scan_events (db w) \<and>
    (\<forall>row \<in> set rows. in_ride_set (redis w') (row_key (env w) row) (o_RideID row)) \<and>
    (\<forall>k ride. in_ride_set (redis w) k ride \<longrightarrow> in_ride_set (redis w') k ride)"
  using assms(1,2)
proof (induction rows arbitrary: w n)
  case Nil
  then show ?case by simp
next
  case (Cons row rows)
  define w1 where "w1 = w\<lparr>redis := add_ride rcfg (clock w) (row_key (env w) row) (o_RideID row) (redis w),
      db := q_delete_outbox (o_TraceID row) (db w)\<rparr>"
  have step: "run_state (drain_rows (production_handler rcfg) repo_outbox (row # rows) n) w =
      run_state (drain_rows (production_handler rcfg) repo_outbox rows (n + 1)) w1"
    using Cons.prems assms(3)
    by (simp add: redis_scan_def run_AddRide repo_outbox_def DeleteOutbox_def w1_def row_key_def Let_def)
  have "quiet w1" "sets_ok (redis w1)" "env w1 = env w" using Cons.prems by (simp_all add: w1_def)
  with Cons.IH [of w1 "n + 1"] obtain w' where
    run: "run_state (drain_rows (production_handler rcfg) repo_outbox rows (n + 1)) w1 =
      ((n + 1 + int (length rows), None), w')" and
    out: "outbox (db w') = filter (\<lambda>o1. o_TraceID o1 \<notin> o_TraceID ` set rows) (outbox (db w1))" and
    sc: "scan_events (db w') = scan_events (db w1)" and
    ins: "\<forall>row \<in> set rows. in_ride_set (redis w') (row_key (env w) row) (o_RideID row)" and
    mono: "\<forall>k ride. in_ride_set (redis w1) k ride \<longrightarrow> in_ride_set (redis w') k ride" by auto
  have "in_ride_set (redis w1) (row_key (env w) row) (o_RideID row)"
    by (simp add: w1_def in_ride_set_add)
  moreover have "in_ride_set (redis w) k ride \<Longrightarrow> in_ride_set (redis w1) k ride" for k ride
    by (simp add: w1_def in_ride_set_mono)
  ultimately show ?case
    unfolding step using run out sc ins mono
    by (auto simp: w1_def q_delete_outbox_def intro!: filter_cong)
qed

text \<open>
  C32: once Redis answers again, a drain pass empties the outbox, oldest rows first, up to its
  batch size: it reports how many rows it drained, exactly those rows are gone, every one of
  their rides is in its visitor's set of that day, no ride leaves a set, and the scans are
  untouched.
\<close>

theorem DrainOutbox_drains:
  assumes "quiet w" and "sets_ok (redis w)" and "0 < rc_AggTTLSec rcfg" and "0 \<le> batch"
    and "rows = take (nat batch) (sort_key o_CreatedAt
           (filter (\<lambda>o1. o_Status o1 = ''PENDING'') (outbox (db w))))"
  shows "\<exists>w'. run_state (DrainOutbox (production_handler rcfg) repo_outbox batch) w =
      ((int (length rows), None), w') \<and>
    outbox (db w') = filter (\<lambda>o1. o_TraceID o1 \<notin> o_TraceID ` set rows) (outbox (db w)) \<and>
    scan_events (db w') = scan_events (db w) \<and>
    (\<forall>row \<in> set rows. in_ride_set (redis w') (row_key (env w) row) (o_RideID row)) \<and>
    (\<forall>k ride. in_ride_set (redis w) k ride \<longrightarrow> in_ride_set (redis w') k ride)"
proof -
  have "run_state (DrainOutbox (production_handler rcfg) repo_outbox batch) w =
      run_state (drain_rows (production_handler rcfg) repo_outbox rows 0) w"
    using assms(1,4,5)
    by (simp add: DrainOutbox_def repo_outbox_def ListPendingOutbox_def q_list_outbox_def)
  with run_drain_rows [OF assms(1-3), of rows 0] show ?thesis by simp
qed

end
