(* ===== verification/Kafka_Consumer.thy ===== *)
theory Kafka_Consumer
  imports Kafka_Producer
begin

text \<open>
  \<^verbatim>\<open>internal/kafka/consumer.go\<close>: the reliable-ingestion policy for one message (parse,
  handle with retries and exponential backoff, dead-letter, commit) and the worker that applies
  it to the messages of the topic.
\<close>

type_synonym MessageHandler = "ScanEvent \<Rightarrow> (world, unit) go"

record consumer =
  cs_handler :: MessageHandler
  cs_dlqTopic :: string
  cs_maxRetries :: int
  cs_backoff :: int

text \<open>Durations are 64-bit nanoseconds.\<close>

definition NewConsumer :: "KafkaConfig \<Rightarrow> MessageHandler \<Rightarrow> consumer" where
  "NewConsumer cfg handler =
     (let maxRetries = (if kc_ConsumerMaxRetries cfg \<le> 0 then 3 else kc_ConsumerMaxRetries cfg);
          backoffMS = (if kc_ConsumerBackoffMS cfg \<le> 0 then 500 else kc_ConsumerBackoffMS cfg)
      in \<lparr>cs_handler = handler, cs_dlqTopic = kc_TopicDLQ cfg, cs_maxRetries = maxRetries,
          cs_backoff = int64 (backoffMS * 1000000)\<rparr>)"

definition parseMessage :: "kmessage \<Rightarrow> goerr + ScanEvent" where
  "parseMessage msg =
     (case unmarshal_ScanEvent (k_Value msg) of
        Inl err \<Rightarrow> Inl (wrapf (''unmarshal event at offset '' @ show_int (k_Offset msg) @ '': '') err)
      | Inr event \<Rightarrow>
          if ev_TraceID event = []
          then Inl (Msg (''missing trace_id at offset '' @ show_int (k_Offset msg)))
          else Inr event)"

fun backoff_loop :: "nat \<Rightarrow> int \<Rightarrow> int" where
  "backoff_loop 0 d = d"
| "backoff_loop (Suc n) d = backoff_loop n (int64 (d * 2))"

definition backoffFor :: "consumer \<Rightarrow> int \<Rightarrow> int" where
  "backoffFor c attempt = backoff_loop (nat attempt) (cs_backoff c)"

definition writeDLQ :: "consumer \<Rightarrow> kmessage \<Rightarrow> goerr \<Rightarrow> (world, unit) go" where
  "writeDLQ c msg cause = do {
     now \<leftarrow> gets clock;
     let m = \<lparr>k_Key = k_Key msg, k_Value = k_Value msg,
              k_Headers = k_Headers msg @ [(''dlq.reason'', Error cause), (''dlq.time'', format_rfc3339 now)],
              k_Offset = 0\<rparr>;
     check (WriteMessages 3 DLQ [m]) (wrapf (''dlq write to '' @ cs_dlqTopic c @ '': '')) returns
   }"

definition commit_offset :: "kmessage \<Rightarrow> (world, unit) go" where
  "commit_offset msg =
     check (call (\<lambda>w. (Inr (), w\<lparr>commits := commits w @ [msg]\<rparr>))) (wrapf ''commit offset: '') returns"

text \<open>
  \<^verbatim>\<open>select\<close> between the end of the process and the timer: the schedule says which
  comes first; the wait itself takes the backoff.
\<close>

definition wait_backoff :: "int \<Rightarrow> (world, unit) go" where
  "wait_backoff d = call (\<lambda>w. (Inr (), elapse (nat (d div 1000000)) w))"

function handle_from :: "consumer \<Rightarrow> kmessage \<Rightarrow> ScanEvent \<Rightarrow> int \<Rightarrow> (world, unit) go" where
  "handle_from c msg event attempt =
     on_err (cs_handler c event)
       (\<lambda>herr.
          if attempt < cs_maxRetries c
          then on_err (wait_backoff (backoffFor c attempt)) (\<lambda>err. fails err)
                 (\<lambda>_. handle_from c msg event (attempt + 1))
          else check (writeDLQ c msg herr) id (\<lambda>_. commit_offset msg))
       (\<lambda>_. commit_offset msg)"
  by pat_completeness auto

termination
  by (relation "measure (\<lambda>(c, msg, event, attempt). nat (cs_maxRetries c - attempt))") auto

declare handle_from.simps [simp del]

definition processAndCommit :: "consumer \<Rightarrow> kmessage \<Rightarrow> (world, unit) go" where
  "processAndCommit c msg = (case parseMessage msg of
       Inl err \<Rightarrow> check (writeDLQ c msg err) id (\<lambda>_. commit_offset msg)
     | Inr event \<Rightarrow> handle_from c msg event 0)"

text \<open>One worker, taking the messages in order; an error is logged and the next one is taken.\<close>

fun worker :: "consumer \<Rightarrow> kmessage list \<Rightarrow> (world, unit) state" where
  "worker c [] = State_Monad.return ()"
| "worker c (msg # msgs) = processAndCommit c msg \<bind> (\<lambda>_. worker c msgs)"

section \<open>Backoff\<close>

lemma backoff_loop_pow:
  assumes "0 \<le> d" and "d * 2 ^ n < 2 ^ 63"
  shows "backoff_loop n d = d * 2 ^ n"
  using assms
proof (induction n arbitrary: d)
  case (Suc n)
  have "d * 2 \<le> d * 2 * 2 ^ n" using Suc.prems(1) mult_left_mono [of 1 "2 ^ n" "d * 2"] by simp
  with Suc.prems have "d * 2 < 2 ^ 63" by (simp add: mult.assoc)
  with Suc.prems(1) have "int64 (d * 2) = d * 2" by (intro int64_id) (simp add: in_int64_def)
  with Suc.IH [of "d * 2"] Suc.prems show ?case by (simp add: mult.assoc)
qed simp

lemma int64_mult: "int64 (int64 a * b) = int64 (a * b)"
proof -
  have "(int64 a * b + 2 ^ 63) mod 2 ^ 64 = (a * b + 2 ^ 63) mod 2 ^ 64"
  proof -
    have "int64 a mod 2 ^ 64 = a mod 2 ^ 64"
      by (simp add: int64_def mod_diff_left_eq)
    then have "int64 a * b mod 2 ^ 64 = a * b mod 2 ^ 64" by (metis mod_mult_left_eq)
    then show ?thesis by (metis mod_add_left_eq)
  qed
  then show ?thesis by (simp add: int64_def)
qed

lemma backoff_loop_int64: "in_int64 d \<Longrightarrow> backoff_loop n d = int64 (d * 2 ^ n)"
proof (induction n arbitrary: d)
  case (Suc n)
  then show ?case by (simp add: int64_mult mult.assoc)
qed (simp add: int64_id)

text \<open>
  The wait after attempt \<open>n\<close> is the base times \<open>2\<^sup>n\<close>, modulo the wrap-around of
  64-bit nanoseconds: exact while it fits, and zero from attempt 64 on.
\<close>

theorem backoffFor_doubles:
  assumes "in_int64 (cs_backoff c)" and "0 \<le> attempt"
  shows "backoffFor c attempt = int64 (cs_backoff c * 2 ^ nat attempt) \<and>
    (0 \<le> cs_backoff c \<and> cs_backoff c * 2 ^ nat attempt < 2 ^ 63 \<longrightarrow>
       backoffFor c attempt = cs_backoff c * 2 ^ nat attempt) \<and>
    (64 \<le> attempt \<longrightarrow> backoffFor c attempt = 0)"
proof (intro conjI impI)
  show "backoffFor c attempt = int64 (cs_backoff c * 2 ^ nat attempt)"
    by (simp add: backoffFor_def backoff_loop_int64 [OF assms(1)])
next
  assume "0 \<le> cs_backoff c \<and> cs_backoff c * 2 ^ nat attempt < 2 ^ 63"
  then show "backoffFor c attempt = cs_backoff c * 2 ^ nat attempt"
    by (simp add: backoffFor_def backoff_loop_pow)
next
  assume "64 \<le> attempt"
  then have "nat attempt = 64 + (nat attempt - 64)" by simp
  then have "(2::int) ^ nat attempt = 2 ^ 64 * 2 ^ (nat attempt - 64)" by (metis power_add)
  then have "cs_backoff c * 2 ^ nat attempt mod 2 ^ 64 = 0" by simp
  then have "int64 (cs_backoff c * 2 ^ nat attempt) = 0"
    unfolding int64_def
    using mod_add_left_eq [of "cs_backoff c * 2 ^ nat attempt" "2 ^ 64" "2 ^ 63"] by simp
  then show "backoffFor c attempt = 0" by (simp add: backoffFor_def backoff_loop_int64 [OF assms(1)])
qed

section \<open>The interface to the message handler\<close>

text \<open>
  What the consumer needs of a handler: a precondition that its calls keep, and a fact about
  the event that success establishes and that nothing later undoes.
\<close>

locale message_handler =
  fixes handle :: MessageHandler and pre :: "world \<Rightarrow> bool" and finished :: "ScanEvent \<Rightarrow> world \<Rightarrow> bool"
  assumes pre_time: "pre w \<Longrightarrow> next_event w = (f, w1) \<Longrightarrow> pre w1"
    and pre_wait: "pre w \<Longrightarrow> pre (elapse d w)"
    and pre_commit: "pre (w\<lparr>commits := cs\<rparr>) = pre w"
    and pre_dlq: "pre (append_topic DLQ m w) = pre w"
    and pre_handle: "pre w \<Longrightarrow> run_state (handle ev) w = (r, w') \<Longrightarrow> pre w'"
    and handled: "pre w \<Longrightarrow> run_state (handle ev) w = (Inr (), w') \<Longrightarrow> finished ev w'"
    and finished_time: "finished ev w \<Longrightarrow> next_event w = (f, w1) \<Longrightarrow> finished ev w1"
    and finished_wait: "finished ev w \<Longrightarrow> finished ev (elapse d w)"
    and finished_commit: "finished ev (w\<lparr>commits := cs\<rparr>) = finished ev w"
    and finished_dlq: "finished ev (append_topic DLQ m w) = finished ev w"
    and finished_handle: "pre w \<Longrightarrow> finished ev w \<Longrightarrow> run_state (handle ev') w = (r, w') \<Longrightarrow> finished ev w'"
    and dlq_handle: "run_state (handle ev) w = (r, w') \<Longrightarrow> dlq w' = dlq w"
    and commits_handle: "run_state (handle ev) w = (r, w') \<Longrightarrow> commits w' = commits w"

text \<open>A message is finalised when it is in the dead-letter topic or its event is finished.\<close>

definition dead_lettered :: "kmessage \<Rightarrow> world \<Rightarrow> bool" where
  "dead_lettered msg w \<longleftrightarrow> k_Value msg \<in> set (written (dlq w))"

definition finalised :: "(ScanEvent \<Rightarrow> world \<Rightarrow> bool) \<Rightarrow> kmessage \<Rightarrow> world \<Rightarrow> bool" where
  "finalised done msg w \<longleftrightarrow> dead_lettered msg w \<or>
     (\<exists>ev. parseMessage msg = Inr ev \<and> done ev w)"

lemma next_event_topics:
  "next_event w = (f, w1) \<Longrightarrow> dlq w1 = dlq w \<and> commits w1 = commits w"
  by (auto simp: next_event_def elapse_def split: list.splits)

lemma dead_lettered_append: "dead_lettered msg w \<Longrightarrow> dead_lettered msg (append_topic DLQ m w)"
  by (simp add: dead_lettered_def append_topic_def written_def)

context message_handler
begin

text \<open>
  \<open>good\<close> collects what every step of the consumer keeps: the precondition, everything that
  is finalised, and that what has been committed so far is finalised.
\<close>

definition good :: "kmessage set \<Rightarrow> kmessage set \<Rightarrow> world \<Rightarrow> bool" where
  "good old ms w \<longleftrightarrow> pre w \<and> (\<forall>m \<in> ms. finalised finished m w) \<and>
     (\<forall>m \<in> set (commits w). m \<in> old \<or> finalised finished m w)"

lemma finalised_time: "finalised finished m w \<Longrightarrow> next_event w = (f, w1) \<Longrightarrow> finalised finished m w1"
  using finished_time next_event_topics unfolding finalised_def dead_lettered_def by metis

lemma finalised_append: "finalised finished m w \<Longrightarrow> finalised finished m (append_topic DLQ m' w)"
  using finished_dlq dead_lettered_append unfolding finalised_def by blast

lemma good_time: "good old ms w \<Longrightarrow> next_event w = (f, w1) \<Longrightarrow> good old ms w1"
  unfolding good_def using pre_time finalised_time next_event_topics by metis

lemma good_append: "good old ms w \<Longrightarrow> good old ms (append_topic DLQ m w)"
  unfolding good_def using pre_dlq finalised_append by auto

lemma good_wait: "good old ms w \<Longrightarrow> good old ms (elapse d w)"
  unfolding good_def finalised_def dead_lettered_def
  using pre_wait finished_wait by (simp add: elapse_def) blast

lemma finalised_commits: "finalised finished m (w\<lparr>commits := cs\<rparr>) = finalised finished m w"
  by (simp add: finalised_def dead_lettered_def finished_commit)

lemma finalised_handle:
  "pre w \<Longrightarrow> finalised finished m w \<Longrightarrow> run_state (handle ev) w = (r, w') \<Longrightarrow> finalised finished m w'"
  unfolding finalised_def dead_lettered_def using finished_handle dlq_handle by metis

lemma good_handle: "good old ms w \<Longrightarrow> run_state (handle ev) w = (r, w') \<Longrightarrow> good old ms w'"
  unfolding good_def using pre_handle finalised_handle commits_handle by metis

lemma write_good:
  assumes "good old ms w" and "run_state (write_attempts n DLQ m) w = (r, w')"
  shows "good old ms w'"
  using assms
proof (induction n arbitrary: w)
  case (Suc n)
  obtain r1 w1 where c: "run_state (call (\<lambda>w. (Inr (), append_topic DLQ m w))) w = (r1, w1)" by fastforce
  then have "good old ms w1"
    using Suc.prems(1) good_time good_append by (auto elim!: run_call_cases)
  with Suc c show ?case by (cases r1) (auto split: if_splits)
qed simp

lemma writeDLQ_good:
  assumes "good old ms w" and "run_state (writeDLQ c msg err) w = (r, w')"
  shows "good old ms w'" and "r = Inr () \<Longrightarrow> dead_lettered msg w'"
proof -
  define m where "m = \<lparr>k_Key = k_Key msg, k_Value = k_Value msg,
      k_Headers = k_Headers msg @ [(''dlq.reason'', Error err), (''dlq.time'', format_rfc3339 (clock w))],
      k_Offset = 0\<rparr>"
  obtain r1 w1 where wr: "run_state (write_attempts 3 DLQ m) w = (r1, w1)" by fastforce
  with assms(2) have "w1 = w'" and r: "r = Inr () \<Longrightarrow> r1 = Inr ()"
    by (auto simp: writeDLQ_def m_def Let_def split: sum.splits)
  with write_good [OF assms(1) wr] show "good old ms w'" by simp
  assume "r = Inr ()"
  with r wr \<open>w1 = w'\<close> write_attempts_delivers [of 3 DLQ m w w'] show "dead_lettered msg w'"
    by (simp add: dead_lettered_def m_def)
qed

lemma commit_good:
  assumes "good old ms w" and "finalised finished msg w"
    and "run_state (commit_offset msg) w = (r, w')"
  shows "good old ms w'" and "finalised finished msg w'" and "r = Inr () \<Longrightarrow> msg \<in> set (commits w')"
proof -
  obtain r1 where c: "run_state (call (\<lambda>w. (Inr (), w\<lparr>commits := commits w @ [msg]\<rparr>))) w = (r1, w')"
    and r: "r = Inr () \<Longrightarrow> r1 = Inr ()"
    using assms(3) by (auto simp: commit_offset_def split: prod.splits sum.splits)
  from c obtain f w1 where ev: "next_event w = (f, w1)"
    and w': "w' = w1 \<or> w' = w1\<lparr>commits := commits w1 @ [msg]\<rparr>"
    and up: "r1 = Inr () \<Longrightarrow> w' = w1\<lparr>commits := commits w1 @ [msg]\<rparr>"
    by (auto elim!: run_call_cases)
  from good_time [OF assms(1) ev] finalised_time [OF assms(2) ev]
  have w1: "good old ms w1" "finalised finished msg w1" .
  with w' show "good old ms w'" "finalised finished msg w'"
    by (auto simp: good_def pre_commit finalised_commits)
  show "r = Inr () \<Longrightarrow> msg \<in> set (commits w')" using up r by simp
qed

lemma handle_from_good:
  assumes "cs_handler c = handle" and "good old ms w" and "parseMessage msg = Inr event"
    and "run_state (handle_from c msg event attempt) w = (r, w')"
  shows "good old ms w' \<and> (r = Inr () \<longrightarrow> finalised finished msg w' \<and> msg \<in> set (commits w'))"
  using assms
proof (induction c msg event attempt arbitrary: w rule: handle_from.induct)
  case (1 c msg event attempt)
  obtain r1 w1 where h: "run_state (handle event) w = (r1, w1)" by fastforce
  have g1: "good old ms w1" by (rule good_handle [OF "1.prems"(2) h])
  show ?case
  proof (cases r1)
    case (Inr u)
    then have "finalised finished msg w1"
      using handled [of w event w1] h "1.prems"(2,3) by (auto simp: finalised_def good_def)
    moreover have "run_state (commit_offset msg) w1 = (r, w')"
      using "1.prems"(1,4) h Inr by (simp add: handle_from.simps [of c msg])
    ultimately show ?thesis using commit_good [OF g1] by blast
  next
    case (Inl herr)
    show ?thesis
    proof (cases "attempt < cs_maxRetries c")
      case True
      obtain r2 w2 where wait: "run_state (wait_backoff (backoffFor c attempt)) w1 = (r2, w2)" by fastforce
      then have g2: "good old ms w2"
        using g1 good_time good_wait unfolding wait_backoff_def by (auto elim!: run_call_cases)
      show ?thesis
      proof (cases r2)
        case (Inl e)
        with "1.prems"(1,4) h \<open>r1 = Inl herr\<close> True wait have "r = Inl e \<and> w' = w2"
          by (simp add: handle_from.simps [of c msg])
        with g2 show ?thesis by simp
      next
        case (Inr u)
        with "1.prems"(1,4) h \<open>r1 = Inl herr\<close> True wait
        have "run_state (handle_from c msg event (attempt + 1)) w2 = (r, w')"
          by (simp add: handle_from.simps [of c msg event attempt])
        with "1.IH" [OF True "1.prems"(1) g2 "1.prems"(3)] show ?thesis by simp
      qed
    next
      case False
      obtain r2 w2 where d: "run_state (writeDLQ c msg herr) w1 = (r2, w2)" by fastforce
      note dl = writeDLQ_good [OF g1 d]
      show ?thesis
      proof (cases r2)
        case (Inl e)
        with "1.prems"(1,4) h \<open>r1 = Inl herr\<close> False d have "r = Inl e \<and> w' = w2"
          by (simp add: handle_from.simps [of c msg])
        with dl(1) show ?thesis by simp
      next
        case (Inr u)
        with dl(2) have "finalised finished msg w2" by (simp add: finalised_def)
        moreover have "run_state (commit_offset msg) w2 = (r, w')"
          using "1.prems"(1,4) h \<open>r1 = Inl herr\<close> False d Inr
          by (simp add: handle_from.simps [of c msg])
        ultimately show ?thesis using commit_good [OF dl(1)] by blast
      qed
    qed
  qed
qed

lemma process_good:
  assumes "cs_handler c = handle" and "good old ms w"
    and "run_state (processAndCommit c msg) w = (r, w')"
  shows "good old ms w' \<and> (r = Inr () \<longrightarrow> finalised finished msg w' \<and> msg \<in> set (commits w'))"
proof (cases "parseMessage msg")
  case (Inl err)
  obtain r2 w2 where d: "run_state (writeDLQ c msg err) w = (r2, w2)" by fastforce
  note dl = writeDLQ_good [OF assms(2) d]
  show ?thesis
  proof (cases r2)
    case (Inl e)
    with assms(3) \<open>parseMessage msg = Inl err\<close> d have "r = Inl e \<and> w' = w2"
      by (simp add: processAndCommit_def)
    with dl(1) show ?thesis by simp
  next
    case (Inr u)
    with dl(2) have "finalised finished msg w2" by (simp add: finalised_def)
    moreover have "run_state (commit_offset msg) w2 = (r, w')"
      using assms(3) \<open>parseMessage msg = Inl err\<close> d Inr by (simp add: processAndCommit_def)
    ultimately show ?thesis using commit_good [OF dl(1)] by blast
  qed
next
  case (Inr ev)
  with assms(3) have "run_state (handle_from c msg ev 0) w = (r, w')"
    by (simp add: processAndCommit_def)
  then show ?thesis by (rule handle_from_good [OF assms(1,2) Inr])
qed

lemma worker_good:
  assumes "cs_handler c = handle" and "good old ms w" and "run_state (worker c msgs) w = (u, w')"
  shows "good old ms w'"
  using assms
proof (induction msgs arbitrary: w)
  case (Cons msg msgs)
  obtain r w1 where p: "run_state (processAndCommit c msg) w = (r, w1)" by fastforce
  with Cons.prems process_good have "good old ms w1" by blast
  with Cons.IH Cons.prems p show ?case by simp
qed simp

lemma commits_are_final:
  assumes "cs_handler c = handle" and "pre w" and "run_state (worker c msgs) w = (u, w')"
    and "m \<in> set (commits w')" and "m \<notin> set (commits w)"
  shows "finalised finished m w'"
proof -
  have "good (set (commits w)) {} w" using assms(2) by (simp add: good_def)
  from worker_good [OF assms(1) this assms(3)] assms(4,5) show ?thesis by (auto simp: good_def)
qed

end

section \<open>Invariants of a worker\<close>

definition worker_invariant :: "(world \<Rightarrow> bool) \<Rightarrow> bool" where
  "worker_invariant I \<longleftrightarrow> stable I \<and> (\<forall>w d. I w \<longrightarrow> I (elapse d w)) \<and>
     (\<forall>w m. I w \<longrightarrow> I (append_topic DLQ m w)) \<and>
     (\<forall>w m. I w \<longrightarrow> I (w\<lparr>commits := commits w @ [m]\<rparr>))"

lemma keeps_writeDLQ: "worker_invariant I \<Longrightarrow> keeps I (writeDLQ c msg err)"
  unfolding writeDLQ_def Let_def
  by (intro keeps_intros keeps_WriteMessages) (simp_all add: worker_invariant_def)

lemma keeps_commit: "worker_invariant I \<Longrightarrow> keeps I (commit_offset msg)"
  unfolding commit_offset_def by (intro keeps_intros keeps_call) (simp_all add: worker_invariant_def)

lemma keeps_wait: "worker_invariant I \<Longrightarrow> keeps I (wait_backoff d)"
  unfolding wait_backoff_def by (intro keeps_call) (simp_all add: worker_invariant_def)

lemma keeps_handle_from:
  assumes "worker_invariant I" and "keeps I (cs_handler c event)"
  shows "keeps I (handle_from c msg event attempt)"
  using assms
proof (induction c msg event attempt rule: handle_from.induct)
  case (1 c msg event attempt)
  then show ?case
    by (subst handle_from.simps) (intro keeps_intros keeps_wait keeps_writeDLQ keeps_commit, auto)
qed

lemma keeps_process:
  assumes "worker_invariant I" and "\<And>ev. parseMessage msg = Inr ev \<Longrightarrow> keeps I (cs_handler c ev)"
  shows "keeps I (processAndCommit c msg)"
  unfolding processAndCommit_def using assms
  by (auto intro!: keeps_intros keeps_writeDLQ keeps_commit keeps_handle_from split: sum.split)

end
