(* ===== verification/Scan_Pipeline.thy ===== *)
theory Scan_Pipeline
  imports Pipeline_Safety Kafka_Consumer
begin

text \<open>
  The consumer with the production handler: from the topic to the table of scans. The
  interface of the consumer is interpreted on the handler, for services that answer (however
  late), and the runs in which they do not are examined separately.
\<close>

section \<open>Services that answer\<close>

definition all_up :: "world \<Rightarrow> bool" where
  "all_up w \<longleftrightarrow> (\<forall>(f, d) \<in> set (schedule w). f = Up)"

definition marked :: "string \<Rightarrow> world \<Rightarrow> bool" where
  "marked t w \<longleftrightarrow> redis w (dedupKey t) \<noteq> None"

text \<open>A marker stands for a row.\<close>

definition markers_ok :: "world \<Rightarrow> bool" where
  "markers_ok w \<longleftrightarrow> (\<forall>t. marked t w \<longrightarrow> has_row t w)"

definition markers_ok_but :: "string \<Rightarrow> world \<Rightarrow> bool" where
  "markers_ok_but t0 w \<longleftrightarrow> (\<forall>t. t \<noteq> t0 \<longrightarrow> marked t w \<longrightarrow> has_row t w)"

definition serving :: "world \<Rightarrow> bool" where
  "serving w \<longleftrightarrow> all_up w \<and> markers_ok w"

lemma all_up_next: "all_up w \<Longrightarrow> next_event w = (f, w1) \<Longrightarrow> f = Up \<and> all_up w1"
  by (auto simp: all_up_def next_event_def elapse_def split: list.splits)

lemma stable_all_up: "stable all_up"
  unfolding stable_def using all_up_next by blast

lemma marked_elapse: "marked t (elapse d w) \<Longrightarrow> marked t w"
  using purge_cases [of "clock w + int d" "redis w" "dedupKey t"] by (auto simp: marked_def)

lemma has_row_elapse [simp]: "has_row t (elapse d w) = has_row t w"
  by (simp add: has_row_def)

lemma timeless_markers: "timeless markers_ok" "timeless (markers_ok_but t)"
proof -
  have m: "marked t (elapse d (w\<lparr>schedule := rest\<rparr>)) \<Longrightarrow> marked t w"
    and h: "has_row t (elapse d (w\<lparr>schedule := rest\<rparr>)) = has_row t w" for t d rest and w :: world
    using marked_elapse [of t d "w\<lparr>schedule := rest\<rparr>"] by (simp_all add: marked_def has_row_def)
  show "timeless markers_ok" unfolding timeless_def markers_ok_def using m h by blast
  show "timeless (markers_ok_but t)" unfolding timeless_def markers_ok_but_def using m h by blast
qed

lemma scan_invariant_all_up: "scan_invariant ev all_up"
  unfolding scan_invariant_def by (simp add: stable_all_up) (simp add: all_up_def)

lemma scan_invariant_topics: "scan_invariant ev (\<lambda>v. dlq v = q \<and> commits v = cs)"
  unfolding scan_invariant_def by (auto intro!: timeless_stable simp: timeless_def)

lemma q_insert_scan_rows:
  "q_insert_scan ev d = (r, d') \<Longrightarrow> set (scan_events d) \<subseteq> set (scan_events d')"
  by (auto simp: q_insert_scan_def split: if_splits)

lemma scan_invariant_has_row: "scan_invariant ev (has_row t)"
  unfolding scan_invariant_def has_row_def
  using q_insert_scan_rows by (fastforce intro!: timeless_stable simp: timeless_def)

section \<open>The handler, step by step\<close>

lemma Handle_steps:
  assumes "run_state (Handle (production_handler rcfg) ev) w = (r, w')"
  obtains (unknown) e where "run_state (IsDuplicate rcfg (ev_TraceID ev)) w = (Inl e, w')" "r = Inl e"
  | (duplicate) "run_state (IsDuplicate rcfg (ev_TraceID ev)) w = (Inr True, w')" "r = Inr ()"
  | (failed) w1 e w2 res where "run_state (IsDuplicate rcfg (ev_TraceID ev)) w = (Inr False, w1)"
      "run_state (check (persist ev) id (\<lambda>_. aggregate (production_handler rcfg) ev)) w1 = (Inl e, w2)"
      "run_state (ClearDedup (ev_TraceID ev)) w2 = (res, w')" "r = Inl e"
  | (stored) w1 where "run_state (IsDuplicate rcfg (ev_TraceID ev)) w = (Inr False, w1)"
      "run_state (check (persist ev) id (\<lambda>_. aggregate (production_handler rcfg) ev)) w1 = (Inr (), w')"
      "r = Inr ()"
proof -
  have sel: "sr_IsDuplicate (redis_scan rcfg) = IsDuplicate rcfg"
    "sr_ClearDedup (redis_scan rcfg) = ClearDedup" by (simp_all add: redis_scan_def)
  obtain d w1 where d: "run_state (IsDuplicate rcfg (ev_TraceID ev)) w = (d, w1)" by fastforce
  obtain b w2 where b: "run_state (check (persist ev) id
      (\<lambda>_. aggregate (production_handler rcfg) ev)) w1 = (b, w2)" by fastforce
  obtain res w3 where c: "run_state (ClearDedup (ev_TraceID ev)) w2 = (res, w3)" by fastforce
  note run = assms [unfolded Handle_def production_sel sel run_check [of "IsDuplicate _ _"] d prod.case]
  show thesis
  proof (cases d)
    case (Inl e)
    with run d unknown show ?thesis by simp
  next
    case (Inr dup)
    show ?thesis
    proof (cases dup)
      case True
      with run d Inr duplicate show ?thesis by simp
    next
      case False
      note body = run [unfolded Inr sum.case if_not_P [OF False] run_on_err b prod.case]
      show ?thesis
      proof (cases b)
        case (Inl e)
        with body c have "r = Inl e" "w3 = w'" by simp_all
        with failed d b c Inr False Inl show ?thesis by simp
      next
        case (Inr u)
        with body have "r = Inr ()" "w2 = w'" by simp_all
        with stored d b \<open>d = Inr dup\<close> False Inr show ?thesis by simp
      qed
    qed
  qed
qed

text \<open>The body touches no marker.\<close>

definition same_markers :: "keyspace \<Rightarrow> keyspace \<Rightarrow> bool" where
  "same_markers ks ks' \<longleftrightarrow> (\<forall>t. ks (dedupKey t) = ks' (dedupKey t))"

lemma markers_but_keys:
  "markers_ok_but t w \<Longrightarrow> same_markers ks (redis w) \<Longrightarrow> markers_ok_but t (w\<lparr>redis := ks\<rparr>)"
  by (simp add: markers_ok_but_def marked_def has_row_def same_markers_def)

lemma keeps_add_markers:
  "keeps (markers_ok_but t) (sr_AddRideToUserSet (redis_scan rcfg) u ride date)"
proof -
  have st: "stable (markers_ok_but t)" by (rule timeless_stable [OF timeless_markers(2)])
  show ?thesis
    unfolding redis_scan_def AddRideToUserSet_def rdb_SAdd_def rdb_Expire_def
  proof (simp, intro keeps_intros keeps_redis_call st)
    fix w r ks
    assume w: "markers_ok_but t w"
    show "r_SADD (rideSetKey u date) ride (redis w) = (r, ks) \<Longrightarrow> markers_ok_but t (w\<lparr>redis := ks\<rparr>)"
      by (rule markers_but_keys [OF w])
        (auto simp: r_SADD_def same_markers_def split: option.splits rvalue.splits prod.splits)
    show "(Inr (), r_EXPIRE (rideSetKey u date) (rc_AggTTLSec rcfg) (clock w) (redis w)) = (r, ks) \<Longrightarrow>
        markers_ok_but t (w\<lparr>redis := ks\<rparr>)"
      by (rule markers_but_keys [OF w])
        (auto simp: r_EXPIRE_def r_DEL_def same_markers_def split: option.splits prod.splits if_splits)
  qed
qed

lemma keeps_body_markers:
  "keeps (markers_ok_but t) (check (persist ev) id (\<lambda>_. aggregate (production_handler rcfg) ev))"
proof -
  have st: "stable (markers_ok_but t)" by (rule timeless_stable [OF timeless_markers(2)])
  have ins: "keeps (markers_ok_but t) (persist ev)"
  proof (rule keeps_persist [OF st])
    fix w r d
    assume "markers_ok_but t w" and "q_insert_scan ev (db w) = (r, d)"
    then show "markers_ok_but t (w\<lparr>db := d\<rparr>)"
      using q_insert_scan_rows [of ev "db w" r d]
      by (auto simp: markers_ok_but_def marked_def has_row_def)
  qed
  have out: "keeps (markers_ok_but t) (InsertOutbox trace email ride at1)" for trace email ride at1
    by (rule repo_outbox.writer_frame [OF st]) (simp add: markers_ok_but_def marked_def has_row_def)
  show ?thesis
    unfolding aggregate_def Let_def production_sel option.case
    by (intro keeps_intros ins out keeps_add_markers)
qed

lemma body_has_row:
  assumes "run_state (check (persist ev) id (\<lambda>_. aggregate (production_handler rcfg) ev)) w = (Inr (), w')"
  shows "has_row (ev_TraceID ev) w'"
proof -
  from assms obtain w1 where p: "run_state (persist ev) w = (Inr (), w1)"
    and a: "run_state (aggregate (production_handler rcfg) ev) w1 = (Inr (), w')"
    by (auto split: prod.splits sum.splits)
  have "keeps (has_row (ev_TraceID ev)) (aggregate (production_handler rcfg) ev)"
    unfolding aggregate_def Let_def production_sel option.case
    by (intro keeps_intros keeps_has_row)
  from keepsD [OF this _ a] persist_stores [OF p] show ?thesis by (simp add: has_row_def)
qed

lemma IsDuplicate_result:
  assumes "run_state (IsDuplicate rcfg t) w = (r, w')" and "all_up w"
  obtains w1 where "next_event w = (Up, w1)"
    "(case r of Inl _ \<Rightarrow> w' = w1
      | Inr True \<Rightarrow> w' = w1 \<and> marked t w1
      | Inr False \<Rightarrow> (\<exists>v. w' = w1\<lparr>redis := (redis w1)(dedupKey t \<mapsto> v)\<rparr>))"
proof -
  obtain f w1 where ev: "next_event w = (f, w1)" by fastforce
  with assms(2) all_up_next have "f = Up" by blast
  with assms(1) ev have "case r of Inl _ \<Rightarrow> w' = w1
      | Inr True \<Rightarrow> w' = w1 \<and> marked t w1
      | Inr False \<Rightarrow> (\<exists>v. w' = w1\<lparr>redis := (redis w1)(dedupKey t \<mapsto> v)\<rparr>)"
    by (auto simp: IsDuplicate_def rdb_SetNX_def redis_call_def call_def r_SETNX_def r_SET_def
        marked_def split: prod.splits sum.splits if_splits bool.splits)
  with that ev \<open>f = Up\<close> show thesis by blast
qed

lemma ClearDedup_up:
  assumes "run_state (ClearDedup t) w = (res, w')" and "all_up w"
  shows "\<exists>w1. next_event w = (Up, w1) \<and> w' = w1\<lparr>redis := (redis w1)(dedupKey t := None)\<rparr>"
proof -
  obtain f w1 where ev: "next_event w = (f, w1)" by fastforce
  with assms(2) all_up_next have "f = Up" by blast
  with assms(1) ev show ?thesis
    by (auto simp: ClearDedup_def rdb_Del_def redis_call_def call_def r_DEL_def)
qed

lemma markers_to_but: "markers_ok w \<Longrightarrow> markers_ok_but t (w\<lparr>redis := (redis w)(dedupKey t := v)\<rparr>)"
  by (auto simp: markers_ok_def markers_ok_but_def marked_def has_row_def)

lemma Handle_markers:
  assumes "serving w" and "run_state (Handle (production_handler rcfg) ev) w = (r, w')"
  shows "markers_ok w' \<and> (r = Inr () \<longrightarrow> has_row (ev_TraceID ev) w')"
  using assms(2)
proof (cases rule: Handle_steps)
  case (unknown e)
  with assms(1) show ?thesis
    by (elim IsDuplicate_result)
      (auto simp: serving_def dest: stable_next [OF timeless_stable [OF timeless_markers(1)]])
next
  case duplicate
  with assms(1) obtain w1 where "next_event w = (Up, w1)" "w' = w1" "marked (ev_TraceID ev) w1"
    by (auto simp: serving_def elim!: IsDuplicate_result)
  moreover from this assms(1) have "markers_ok w1"
    using stable_next [OF timeless_stable [OF timeless_markers(1)]] by (auto simp: serving_def)
  ultimately show ?thesis by (auto simp: markers_ok_def)
next
  case (failed w1 e w2 res)
  have up: "all_up w1" "all_up w2"
  proof -
    have "keeps all_up (IsDuplicate rcfg (ev_TraceID ev))"
      using redis_scan.redis_frame [OF stable_all_up, where t = "ev_TraceID ev" and rcfg = rcfg]
      by (simp add: redis_scan_def all_up_def)
    from keepsD [OF this _ failed(1)] assms(1) show u1: "all_up w1" by (simp add: serving_def)
    have "keeps all_up (check (persist ev) id (\<lambda>_. aggregate (production_handler rcfg) ev))"
      unfolding aggregate_def Let_def production_sel option.case
      by (intro keeps_intros keeps_persist stable_all_up repo_outbox.writer_frame
          redis_scan.redis_frame [OF stable_all_up, THEN conjunct2, THEN conjunct2])
        (simp_all add: all_up_def)
    from keepsD [OF this u1 failed(2)] show "all_up w2" .
  qed
  from assms(1) failed(1) obtain w0 v where "next_event w = (Up, w0)"
    "w1 = w0\<lparr>redis := (redis w0)(dedupKey (ev_TraceID ev) \<mapsto> v)\<rparr>"
    by (auto simp: serving_def elim!: IsDuplicate_result)
  then have "markers_ok_but (ev_TraceID ev) w1"
    using assms(1) markers_to_but stable_next [OF timeless_stable [OF timeless_markers(1)]]
    by (auto simp: serving_def)
  from keepsD [OF keeps_body_markers this failed(2)] have "markers_ok_but (ev_TraceID ev) w2" .
  moreover from ClearDedup_up [OF failed(3) up(2)] obtain w3 where ev3: "next_event w2 = (Up, w3)"
    and w': "w' = w3\<lparr>redis := (redis w3)(dedupKey (ev_TraceID ev) := None)\<rparr>" by blast
  ultimately have "markers_ok_but (ev_TraceID ev) w3"
    using stable_next [OF timeless_stable [OF timeless_markers(2)]] by blast
  then have "markers_ok w'"
    by (auto simp: w' markers_ok_def markers_ok_but_def marked_def has_row_def split: if_splits)
  with failed(4) show ?thesis by simp
next
  case (stored w1)
  from assms(1) stored(1) obtain w0 v where "next_event w = (Up, w0)"
    "w1 = w0\<lparr>redis := (redis w0)(dedupKey (ev_TraceID ev) \<mapsto> v)\<rparr>"
    by (auto simp: serving_def elim!: IsDuplicate_result)
  then have "markers_ok_but (ev_TraceID ev) w1"
    using assms(1) markers_to_but stable_next [OF timeless_stable [OF timeless_markers(1)]]
    by (auto simp: serving_def)
  from keepsD [OF keeps_body_markers this stored(2)] body_has_row [OF stored(2)] stored(3)
  show ?thesis unfolding markers_ok_def markers_ok_but_def by metis
qed

section \<open>The consumer on the production handler\<close>

interpretation production: message_handler "Handle (production_handler rcfg)" serving
    "\<lambda>ev. has_row (ev_TraceID ev)" for rcfg
proof (unfold_locales, goal_cases)
  case (1 w f w1)
  then show ?case
    using all_up_next stable_next [OF timeless_stable [OF timeless_markers(1)]]
    by (auto simp: serving_def)
next
  case (2 w d)
  then show ?case
    using timeless_elapse [OF timeless_markers(1)] by (simp add: serving_def all_up_def)
next
  case (3 w cs)
  show ?case by (simp add: serving_def all_up_def markers_ok_def marked_def has_row_def)
next
  case (4 m w)
  show ?case by (simp add: serving_def all_up_def markers_ok_def marked_def has_row_def)
next
  case (5 w ev r w')
  then show ?case
    using Handle_markers keepsD [OF keeps_Handle [OF scan_invariant_all_up]]
    unfolding serving_def by blast
next
  case (6 w ev w')
  then show ?case using Handle_markers by blast
next
  case (7 ev w f w1)
  then show ?case by (auto simp: has_row_def next_event_def split: list.splits)
next
  case (11 w ev ev' r w')
  then show ?case using keepsD [OF keeps_Handle [OF scan_invariant_has_row]] by blast
next
  case (12 ev w r w')
  then show ?case
    using keepsD [OF keeps_Handle [OF scan_invariant_topics [of ev "dlq w" "commits w"]]] by blast
next
  case (13 ev w r w')
  then show ?case
    using keepsD [OF keeps_Handle [OF scan_invariant_topics [of ev "dlq w" "commits w"]]] by blast
qed (simp_all add: has_row_def)

lemma call_up:
  assumes "all_up w" and "run_state (call (\<lambda>w. (Inr (), g w))) w = (r, w')"
  shows "r = Inr ()"
proof (cases rule: run_call_cases [OF assms(2)])
  case (1 w1)
  then show ?thesis by simp
next
  case (2 t)
  then show ?thesis using all_up_next [OF assms(1)] by blast
next
  case (3 t w1)
  then show ?thesis using all_up_next [OF assms(1)] by blast
qed

lemma writeDLQ_up:
  assumes "all_up w" and "run_state (writeDLQ c msg err) w = (r, w')"
  shows "r = Inr ()"
proof -
  define m where "m = \<lparr>k_Key = k_Key msg, k_Value = k_Value msg,
      k_Headers = k_Headers msg @ [(''dlq.reason'', Error err), (''dlq.time'', format_rfc3339 (clock w))],
      k_Offset = 0\<rparr>"
  obtain r1 w1 where wr: "run_state (write_attempts 3 DLQ m) w = (r1, w1)" by fastforce
  obtain r2 w2 where c: "run_state (call (\<lambda>w. (Inr (), append_topic DLQ m w))) w = (r2, w2)" by fastforce
  with call_up assms(1) have "r2 = Inr ()" by blast
  with c wr have "r1 = Inr ()" by (simp add: numeral_3_eq_3)
  with assms(2) wr show ?thesis by (simp add: writeDLQ_def m_def Let_def)
qed

lemma commit_up: "all_up w \<Longrightarrow> run_state (commit_offset msg) w = (r, w') \<Longrightarrow> r = Inr ()"
  by (auto simp: commit_offset_def dest: call_up split: prod.splits sum.splits)

lemma worker_all_up: "worker_invariant all_up"
  unfolding worker_invariant_def by (simp add: stable_all_up) (simp add: all_up_def)

lemma handle_from_up:
  assumes "\<And>ev. keeps all_up (cs_handler c ev)" and "all_up w"
    and "run_state (handle_from c msg event attempt) w = (r, w')"
  shows "r = Inr ()"
  using assms
proof (induction c msg event attempt arbitrary: w rule: handle_from.induct)
  case (1 c msg event attempt)
  obtain r1 w1 where h: "run_state (cs_handler c event) w = (r1, w1)" by fastforce
  from keepsD [OF "1.prems"(1,2) h] have u1: "all_up w1" .
  note run = "1.prems"(3) [unfolded handle_from.simps [of c msg event attempt] run_on_err h prod.case]
  show ?case
  proof (cases r1)
    case (Inr u)
    with run commit_up [OF u1] show ?thesis by simp
  next
    case (Inl herr)
    show ?thesis
    proof (cases "attempt < cs_maxRetries c")
      case True
      obtain r2 w2 where wait: "run_state (wait_backoff (backoffFor c attempt)) w1 = (r2, w2)" by fastforce
      from call_up [OF u1 wait [unfolded wait_backoff_def]] have "r2 = Inr ()" .
      with run Inl True wait have "run_state (handle_from c msg event (attempt + 1)) w2 = (r, w')"
        by simp
      with "1.IH" [OF True "1.prems"(1) keepsD [OF keeps_wait [OF worker_all_up] u1 wait]] show ?thesis by blast
    next
      case False
      obtain r2 w2 where d: "run_state (writeDLQ c msg herr) w1 = (r2, w2)" by fastforce
      with writeDLQ_up [OF u1 d] run Inl False
      have "run_state (commit_offset msg) w2 = (r, w')" by simp
      with commit_up keepsD [OF keeps_writeDLQ [OF worker_all_up] u1 d] show ?thesis by blast
    qed
  qed
qed

lemma process_up:
  assumes "\<And>ev. keeps all_up (cs_handler c ev)" and "all_up w"
    and "run_state (processAndCommit c msg) w = (r, w')"
  shows "r = Inr ()"
proof (cases "parseMessage msg")
  case (Inl err)
  obtain r2 w2 where d: "run_state (writeDLQ c msg err) w = (r2, w2)" by fastforce
  with writeDLQ_up [OF assms(2) d] assms(3) Inl have "run_state (commit_offset msg) w2 = (r, w')"
    by (simp add: processAndCommit_def)
  with commit_up keepsD [OF keeps_writeDLQ [OF worker_all_up] assms(2) d] show ?thesis by blast
next
  case (Inr ev)
  with assms(3) show ?thesis
    by (simp add: processAndCommit_def handle_from_up [OF assms(1,2)])
qed

lemma keeps_commits:
  "keeps (\<lambda>v. cs \<subseteq> set (commits v)) (processAndCommit (c\<lparr>cs_handler := Handle (production_handler rcfg)\<rparr>) msg)"
proof (rule keeps_process)
  show "worker_invariant (\<lambda>v. cs \<subseteq> set (commits v))"
    unfolding worker_invariant_def
    by (auto intro!: timeless_stable simp: timeless_def)
  show "keeps (\<lambda>v. cs \<subseteq> set (commits v)) (cs_handler (c\<lparr>cs_handler := Handle (production_handler rcfg)\<rparr>) ev)" for ev
    by (simp, rule keeps_Handle) (auto simp: scan_invariant_def timeless_def intro!: timeless_stable)
qed

lemma worker_commits_all:
  assumes "serving w" and "cs_handler c = Handle (production_handler rcfg)"
    and "run_state (worker c msgs) w = (u, w')"
  shows "set msgs \<subseteq> set (commits w') \<and> set (commits w) \<subseteq> set (commits w')"
  using assms(1,3)
proof (induction msgs arbitrary: w)
  case (Cons msg msgs)
  obtain r w1 where p: "run_state (processAndCommit c msg) w = (r, w1)" by fastforce
  have up: "keeps all_up (cs_handler c ev)" for ev
    unfolding assms(2) by (rule keeps_Handle [OF scan_invariant_all_up])
  from Cons.prems(1) have "all_up w" by (simp add: serving_def)
  with process_up [OF up _ p] have "r = Inr ()" .
  have g: "production.good (set (commits w)) {} w"
    using Cons.prems(1) by (simp add: production.good_def)
  with production.process_good [OF assms(2) g p] \<open>r = Inr ()\<close>
  have s1: "serving w1" and c1: "msg \<in> set (commits w1)" by (simp_all add: production.good_def)
  have "c\<lparr>cs_handler := Handle (production_handler rcfg)\<rparr> = c" by (simp flip: assms(2))
  then have k: "keeps (\<lambda>v. set (commits w) \<subseteq> set (commits v)) (processAndCommit c msg)"
    using keeps_commits [where cs = "set (commits w)" and rcfg = rcfg and c = c and msg = msg] by simp
  have "set (commits w) \<subseteq> set (commits w1)" by (rule keepsD [OF k _ p]) simp
  with Cons.IH [OF s1] Cons.prems(2) p c1 show ?case by auto
qed simp

text \<open>
  End to end, when the services answer (at whatever latency) and no marker stands without
  its row. Every message the worker
  takes is committed, and every message it has committed is either in the dead-letter topic or
  carries a scan event that has its row in Postgres: nothing is lost, nothing is stuck.
\<close>

theorem pipeline_no_loss:
  assumes "all_up w"
    and "\<forall>t. redis w (dedupKey t) \<noteq> None \<longrightarrow> (\<exists>s \<in> set (scan_events (db w)). s_TraceID s = t)"
    and "cs_handler c = Handle (production_handler rcfg)"
    and "run_state (worker c msgs) w = (u, w')"
  shows "set msgs \<subseteq> set (commits w') \<and>
    (\<forall>m \<in> set (commits w') - set (commits w). k_Value m \<in> set (written (dlq w')) \<or>
       (\<exists>ev. parseMessage m = Inr ev \<and>
          (\<exists>s \<in> set (scan_events (db w')). s_TraceID s = ev_TraceID ev)))"
proof -
  have s: "serving w"
    using assms(1,2) unfolding serving_def markers_ok_def marked_def has_row_def by blast
  from worker_commits_all [OF s assms(3,4)] production.commits_are_final [OF assms(3) s assms(4)]
  show ?thesis by (auto simp: finalised_def dead_lettered_def has_row_def)
qed

section \<open>Retries exhausted\<close>

definition waits :: "consumer \<Rightarrow> int \<Rightarrow> int" where
  "waits c attempt = (\<Sum>i \<in> {attempt..<cs_maxRetries c}. int (nat (backoffFor c i div 1000000)))"

lemma waits_step:
  "attempt < cs_maxRetries c \<Longrightarrow>
     waits c attempt = int (nat (backoffFor c attempt div 1000000)) + waits c (attempt + 1)"
proof -
  assume "attempt < cs_maxRetries c"
  then have "{attempt..<cs_maxRetries c} = insert attempt {attempt + 1..<cs_maxRetries c}" by auto
  then show ?thesis by (simp add: waits_def)
qed

lemma waits_done: "\<not> attempt < cs_maxRetries c \<Longrightarrow> waits c attempt = 0"
  by (simp add: waits_def)

lemma run_write_quiet:
  assumes "quiet w"
  shows "run_state (write_attempts (Suc n) t m) w = (Inr (), append_topic t m w)"
  using assms by simp

lemma run_writeDLQ:
  assumes "quiet w"
  shows "run_state (writeDLQ c msg err) w = (Inr (), append_topic DLQ
     \<lparr>k_Key = k_Key msg, k_Value = k_Value msg,
      k_Headers = k_Headers msg @ [(''dlq.reason'', Error err), (''dlq.time'', format_rfc3339 (clock w))],
      k_Offset = 0\<rparr> w)"
  using run_write_quiet [OF assms, of 2 DLQ]
  by (simp add: writeDLQ_def Let_def numeral_3_eq_3 numeral_2_eq_2)

lemma run_commit: "quiet w \<Longrightarrow> run_state (commit_offset msg) w = (Inr (), w\<lparr>commits := commits w @ [msg]\<rparr>)"
  by (simp add: commit_offset_def)

lemma run_exhausted:
  assumes "cs_handler c = (\<lambda>_. fails err)" and "quiet w"
  shows "\<exists>w'. run_state (handle_from c msg event attempt) w = (Inr (), w') \<and>
     commits w' = commits w @ [msg] \<and> clock w' = clock w + waits c attempt \<and>
     dlq w' = dlq w @ [\<lparr>k_Key = k_Key msg, k_Value = k_Value msg, k_Headers = k_Headers msg @
        [(''dlq.reason'', Error err), (''dlq.time'', format_rfc3339 (clock w'))],
        k_Offset = int (length (dlq w))\<rparr>] \<and>
     db w' = db w"
  using assms
proof (induction c msg event attempt arbitrary: w rule: handle_from.induct)
  case (1 c msg event attempt)
  show ?case
  proof (cases "attempt < cs_maxRetries c")
    case True
    let ?w = "elapse (nat (backoffFor c attempt div 1000000)) w"
    have "run_state (handle_from c msg event attempt) w =
        run_state (handle_from c msg event (attempt + 1)) ?w"
      using "1.prems" True by (subst handle_from.simps) (simp add: wait_backoff_def)
    with "1.IH" [OF True "1.prems"(1), of ?w] "1.prems"(2) waits_step [OF True]
    show ?thesis by (simp add: add.assoc del: int_nat_eq)
  next
    case False
    with "1.prems" show ?thesis
      by (subst handle_from.simps)
        (simp add: run_writeDLQ run_commit waits_done, simp add: append_topic_def)
  qed
qed


section \<open>A message that is left uncommitted\<close>

definition production_consumer :: consumer where
  "production_consumer =
     NewConsumer default_KafkaConfig (Handle (production_handler default_RedisConfig))"

definition ride_event :: ScanEvent where
  "ride_event = \<lparr>ev_UserID = ''a@x'', ev_RideID = ''coaster'', ev_Timestamp = 1000,
     ev_TraceID = ''t-0'', ev_TicketID = ''T1''\<rparr>"

definition ride_message :: kmessage where
  "ride_message = buildMessage ride_event"

definition poison_message :: kmessage where
  "poison_message = \<lparr>k_Key = ''k'', k_Value = Text ''x'', k_Headers = [], k_Offset = 1\<rparr>"

definition outage :: world where
  "outage = start_world plain_environment 0
     [(Down ''redis'', 0), (Up, 0), (Down ''redis'', 0), (Up, 0), (Down ''redis'', 0), (Up, 0),
      (Down ''redis'', 0), (Down ''kafka'', 0), (Down ''kafka'', 0), (Down ''kafka'', 0)]"

lemma parse_ride: "parseMessage ride_message = Inr ride_event"
  by (simp add: parseMessage_def ride_message_def buildMessage_def ride_event_def in_int64_def)

lemma parse_poison: "parseMessage poison_message =
    Inl (wrapf ''unmarshal event at offset 1: '' (Msg ''invalid character in JSON text''))"
proof -
  have "show_int 1 = ''1''" by code_simp
  then show ?thesis
    by (simp add: parseMessage_def poison_message_def unmarshal_ScanEvent_def unmarshal_def)
qed

lemma production_consumer_sel [simp]:
  "cs_handler production_consumer = Handle (production_handler default_RedisConfig)"
  "cs_maxRetries production_consumer = 3"
  by (simp_all add: production_consumer_def NewConsumer_def default_KafkaConfig_def Let_def)

lemma Handle_refused:
  assumes "schedule w = (Down t, d) # rest"
  shows "\<exists>err. run_state (Handle (production_handler rcfg) ev) w =
     (Inl err, elapse d (w\<lparr>schedule := rest\<rparr>))"
proof (cases "rc_DedupTTLSec rcfg < 0")
  case True
  with assms show ?thesis
    by (simp add: Handle_def redis_scan_def IsDuplicate_def rdb_SetNX_def redis_call_def call_def
        next_event_def)
next
  case False
  with assms show ?thesis
    by (simp add: Handle_def redis_scan_def IsDuplicate_def rdb_SetNX_def redis_call_def call_def
        next_event_def)
qed

lemma run_wait_up:
  "schedule w = (Up, d) # rest \<Longrightarrow> run_state (wait_backoff b) w =
     (Inr (), elapse (nat (b div 1000000)) (elapse d (w\<lparr>schedule := rest\<rparr>)))"
  by (simp add: wait_backoff_def call_def next_event_def)

lemma call_down:
  "schedule w = (Down t, d) # rest \<Longrightarrow>
     run_state (call f) w = (Inl (Msg t), elapse d (w\<lparr>schedule := rest\<rparr>))"
  by (simp add: call_def next_event_def)

lemma writeDLQ_refused:
  assumes "schedule w = (Down t1, d1) # (Down t2, d2) # (Down t3, d3) # rest"
  shows "\<exists>e w'. run_state (writeDLQ c msg err) w = (Inl e, w') \<and> schedule w' = rest \<and>
      db w' = db w \<and> dlq w' = dlq w \<and> commits w' = commits w"
  using assms by (simp add: writeDLQ_def Let_def numeral_3_eq_3 call_down)

lemma retry_refused:
  assumes "schedule w = (Down t, 0) # (Up, 0) # rest" and "attempt < cs_maxRetries c"
    and "cs_handler c = Handle (production_handler rcfg)"
  shows "\<exists>w'. run_state (handle_from c msg event attempt) w =
      run_state (handle_from c msg event (attempt + 1)) w' \<and> schedule w' = rest \<and>
      db w' = db w \<and> dlq w' = dlq w \<and> commits w' = commits w"
proof -
  from Handle_refused [OF assms(1)] obtain err where h: "run_state (cs_handler c event) w =
      (Inl err, elapse 0 (w\<lparr>schedule := (Up, 0) # rest\<rparr>))" unfolding assms(3) by blast
  then show ?thesis
    using assms(2) by (subst handle_from.simps)
      (simp add: run_wait_up, intro exI conjI, rule refl, simp_all)
qed

lemma last_refused:
  assumes "schedule w = (Down t, 0) # (Down t1, 0) # (Down t2, 0) # [(Down t3, 0)]"
    and "\<not> attempt < cs_maxRetries c" and "cs_handler c = Handle (production_handler rcfg)"
  shows "\<exists>e w'. run_state (handle_from c msg event attempt) w = (Inl e, w') \<and> schedule w' = [] \<and>
      db w' = db w \<and> dlq w' = dlq w \<and> commits w' = commits w"
proof -
  from Handle_refused [OF assms(1)] obtain err where h: "run_state (cs_handler c event) w =
      (Inl err, elapse 0 (w\<lparr>schedule := [(Down t1, 0), (Down t2, 0), (Down t3, 0)]\<rparr>))"
    unfolding assms(3) by blast
  let ?w = "elapse 0 (w\<lparr>schedule := [(Down t1, 0), (Down t2, 0), (Down t3, 0)]\<rparr>)"
  from writeDLQ_refused [of ?w t1 0 t2 0 t3 0 "[]" c msg err] obtain e w' where
    d: "run_state (writeDLQ c msg err) ?w = (Inl e, w')" "schedule w' = []" "db w' = db w"
      "dlq w' = dlq w" "commits w' = commits w" by auto
  from h d(1) assms(2) have "run_state (handle_from c msg event attempt) w = (Inl e, w')"
    by (subst handle_from.simps) simp
  with d(2-5) show ?thesis by blast
qed

text \<open>
  A message left uncommitted is not reprocessed. After an outage of Redis and of the
  dead-letter topic the consumer leaves a valid scan uncommitted, takes the next message and
  commits it; the group's position is then past the scan, which has no row and is in no topic.
\<close>

theorem uncommitted_is_skipped:
  "\<exists>w'. run_state (worker production_consumer [ride_message, poison_message]) outage = ((), w') \<and>
     parseMessage ride_message = Inr ride_event \<and> k_Offset ride_message < k_Offset poison_message \<and>
     commits w' = [poison_message] \<and> scan_events (db w') = [] \<and>
     k_Value ride_message \<notin> set (written (dlq w'))"
proof -
  let ?c = production_consumer and ?h = "handle_from production_consumer ride_message ride_event"
  have 0: "schedule outage = (Down ''redis'', 0) # (Up, 0) # (Down ''redis'', 0) # (Up, 0) #
      (Down ''redis'', 0) # (Up, 0) # [(Down ''redis'', 0), (Down ''kafka'', 0), (Down ''kafka'', 0), (Down ''kafka'', 0)]"
    by (simp add: outage_def)
  obtain w1 where 1: "run_state (?h 0) outage = run_state (?h 1) w1"
    "schedule w1 = (Down ''redis'', 0) # (Up, 0) # (Down ''redis'', 0) # (Up, 0) # [(Down ''redis'', 0),
      (Down ''kafka'', 0), (Down ''kafka'', 0), (Down ''kafka'', 0)]"
    "db w1 = empty_database" "dlq w1 = []" "commits w1 = []"
    using retry_refused [OF 0, of 0 ?c default_RedisConfig ride_message ride_event]
    by (auto simp: outage_def start_world_def)
  obtain w2 where 2: "run_state (?h 1) w1 = run_state (?h 2) w2"
    "schedule w2 = (Down ''redis'', 0) # (Up, 0) # [(Down ''redis'', 0), (Down ''kafka'', 0),
      (Down ''kafka'', 0), (Down ''kafka'', 0)]"
    "db w2 = empty_database" "dlq w2 = []" "commits w2 = []"
    using retry_refused [OF 1(2), of 1 ?c default_RedisConfig ride_message ride_event] 1(3-5) by auto
  obtain w3 where 3: "run_state (?h 2) w2 = run_state (?h 3) w3"
    "schedule w3 = (Down ''redis'', 0) # (Down ''kafka'', 0) # (Down ''kafka'', 0) # [(Down ''kafka'', 0)]"
    "db w3 = empty_database" "dlq w3 = []" "commits w3 = []"
    using retry_refused [OF 2(2), of 2 ?c default_RedisConfig ride_message ride_event] 2(3-5) by auto
  obtain e w4 where 4: "run_state (?h 3) w3 = (Inl e, w4)" "quiet w4"
    "db w4 = empty_database" "dlq w4 = []" "commits w4 = []"
    using last_refused [OF 3(2), of 3 ?c default_RedisConfig ride_message ride_event] 3(3-5)
    by (auto simp: quiet_def)
  from 1 2 3 4 have first: "run_state (processAndCommit ?c ride_message) outage = (Inl e, w4)"
    by (simp add: processAndCommit_def parse_ride)
  obtain w5 where second: "run_state (processAndCommit ?c poison_message) w4 = (Inr (), w5)"
    "commits w5 = [poison_message]" "db w5 = empty_database" "written (dlq w5) = [Text ''x'']"
    using 4(2-5)
    by (auto simp: processAndCommit_def parse_poison run_writeDLQ run_commit)
      (auto simp: append_topic_def written_def poison_message_def)
  have run: "run_state (worker ?c [ride_message, poison_message]) outage = ((), w5)"
    using first second(1) by simp
  have "k_Offset ride_message < k_Offset poison_message" "k_Value ride_message \<noteq> Text ''x''"
    by (simp_all add: ride_message_def poison_message_def buildMessage_def marshal_ScanEvent_def)
  with run second(2-4) parse_ride show ?thesis by (simp add: empty_database_def)
qed

end
