(* ===== verification/Pipeline_Witnesses.thy ===== *)
theory Pipeline_Witnesses
  imports Scan_Pipeline
begin

text \<open>
  The statements about the scan pipeline at concrete events: one visitor, one ride, the default
  configuration.
\<close>

definition consumer_world :: world where
  "consumer_world = start_world plain_environment 5000 []"

lemma consumer_world_sel [simp]:
  "quiet consumer_world" "schedule consumer_world = []" "clock consumer_world = 5000" "redis consumer_world = Map.empty"
  "db consumer_world = empty_database" "env consumer_world = plain_environment"
  "dlq consumer_world = []" "commits consumer_world = []"
  by (simp_all add: consumer_world_def start_world_def quiet_def)

lemma empty_rows [simp]: "scan_events empty_database = []" "outbox empty_database = []"
  by (simp_all add: empty_database_def)

theorem scans_at_most_once_witness:
  "distinct (map s_TraceID (scan_events (db (snd (run_state
     (handle_all (production_handler default_RedisConfig) [ride_event, ride_event]) consumer_world)))))"
proof -
  obtain u w' where r: "run_state (handle_all (production_handler default_RedisConfig)
      [ride_event, ride_event]) consumer_world = (u, w')" by (rule run_obtain)
  from scans_at_most_once [OF _ r] show ?thesis unfolding r by auto
qed

lemma default_dedup [simp]: "rc_DedupTTLSec default_RedisConfig = 300" "rc_AggTTLSec default_RedisConfig = 172800"
  by (simp_all add: default_RedisConfig_def)

lemma ride_event_fits: "varchar 64 (ev_TraceID ride_event)" "varchar 64 (ev_TicketID ride_event)"
    "varchar 64 (ev_RideID ride_event)" "pg_timestamp (ev_Timestamp ride_event)"
  by (simp_all add: ride_event_def varchar_def char_length_def pg_timestamp_def)

lemma run_ride_event:
  assumes "quiet w" and "redis w (dedupKey (ev_TraceID ride_event)) = None" and "sets_ok (redis w)"
    and "scan_events (db w) = []"
  shows "\<exists>w'. run_state (Handle (production_handler default_RedisConfig) ride_event) w = (Inr (), w')"
proof -
  have a: "run_state (aggregate (production_handler default_RedisConfig) ride_event) w =
      (Inr (), w\<lparr>redis := add_ride default_RedisConfig (clock w) (rideSetKey (ev_UserID ride_event)
        (format_date (env_zone (env w)) (ev_Timestamp ride_event))) (ev_RideID ride_event) (redis w)\<rparr>)"
    if "quiet w" "sets_ok (redis w)" for w
    using that by (simp add: run_aggregate redis_scan_def run_AddRide)
  show ?thesis using assms
    by (auto simp: Handle_def redis_scan_def IsDuplicate_def rdb_SetNX_def r_SETNX_def r_SET_def
        persist_def q_insert_scan_def ride_event_fits a sets_ok_def)
qed

lemma run_ride: "\<exists>w'. run_state (Handle (production_handler default_RedisConfig) ride_event) consumer_world = (Inr (), w')"
  by (rule run_ride_event) (simp_all add: sets_ok_def)


definition refusing_world :: world where
  "refusing_world = start_world plain_environment 5000 [(Down ''redis'', 7)]"

theorem error_clears_marker_witness:
  "\<exists>err w'. run_state (Handle (production_handler default_RedisConfig) ride_event) refusing_world = (Inl err, w') \<and>
     ((\<exists>e. run_state (IsDuplicate default_RedisConfig ''t-0'') refusing_world = (Inl e, w') \<and> err = e) \<or>
      (\<exists>w1 res. run_state (ClearDedup ''t-0'') w1 = (res, w')))"
proof -
  from Handle_refused [of refusing_world "''redis''" 7 "[]" default_RedisConfig ride_event]
  obtain err w' where r: "run_state (Handle (production_handler default_RedisConfig) ride_event)
      refusing_world = (Inl err, w')" by (auto simp: refusing_world_def)
  from error_clears_marker [OF r] r show ?thesis by (auto simp: ride_event_def)
qed

definition lossy_world :: world where
  "lossy_world = start_world plain_environment 5000 [(LostAck ''i/o timeout'', 0)]"

theorem lost_answer_drops_event_witness:
  "\<exists>err w1 w2. run_state (Handle (production_handler default_RedisConfig) ride_event) lossy_world = (Inl err, w1) \<and>
     run_state (Handle (production_handler default_RedisConfig) ride_event) w1 = (Inr (), w2) \<and>
     outbox (db w2) = []"
  using lost_answer_drops_event [of lossy_world "''i/o timeout''" ride_event default_RedisConfig]
  by (auto simp: lossy_world_def elapse_def purge_def)

definition parked_row :: OutboxRow where
  "parked_row = \<lparr>o_ID = 1, o_TraceID = ''t-0'', o_UserEmail = ''a@x'', o_RideID = ''coaster'',
     o_ScannedAt = 1000, o_Status = ''PENDING'', o_Attempts = 0, o_CreatedAt = 2000\<rparr>"

definition parked_world :: world where
  "parked_world = consumer_world\<lparr>db := empty_database\<lparr>outbox := [parked_row]\<rparr>\<rparr>"

theorem DrainOutbox_drains_witness:
  "\<exists>w'. run_state (DrainOutbox (production_handler default_RedisConfig) repo_outbox 100) parked_world =
     ((1, None), w') \<and> outbox (db w') = [] \<and>
     in_ride_set (redis w') (row_key plain_environment parked_row) ''coaster''"
  using DrainOutbox_drains [of parked_world default_RedisConfig 100 "[parked_row]"]
  by (auto simp: parked_world_def parked_row_def sets_ok_def)

theorem backoffFor_doubles_witness:
  "backoffFor production_consumer 2 = 2000000000"
  using backoffFor_doubles [of production_consumer 2]
  by (simp add: production_consumer_def NewConsumer_def default_KafkaConfig_def Let_def int64_def in_int64_def)

theorem pipeline_no_loss_witness:
  "\<exists>w'. run_state (worker production_consumer [ride_message]) consumer_world = ((), w') \<and>
     ride_message \<in> set (commits w') \<and>
     (k_Value ride_message \<in> set (written (dlq w')) \<or>
       (\<exists>s \<in> set (scan_events (db w')). s_TraceID s = ''t-0''))"
proof -
  obtain u w' where r: "run_state (worker production_consumer [ride_message]) consumer_world = (u, w')"
    by (rule run_obtain)
  from pipeline_no_loss [OF _ _ production_consumer_sel(1) r] r parse_ride show ?thesis
    by (auto simp: all_up_def ride_event_def)
qed

definition failing_consumer :: consumer where
  "failing_consumer = NewConsumer default_KafkaConfig (\<lambda>_. fails (Msg ''boom''))"


end
