(* ===== verification/Sui_Client.thy ===== *)
theory Sui_Client
  imports Gate_QR
begin

text \<open>
  \<^verbatim>\<open>internal/sui\<close>: the client that mints and transfers attendance NFTs, the reader of
  the chain, and the derivation of wallets. The Sui SDK is the endpoint of \<open>sdk\<close> (its replies,
  and what its accessors report of them, are JSON objects), the cryptographic libraries are a
  record of functions. The semaphore is the counter \<open>inflight\<close>; a cancelled context is a refused
  call.
\<close>

section \<open>Wallets\<close>

record crypto_lib =
  cl_blake2b :: "u8 list \<Rightarrow> u8 list"
  cl_public_key :: "u8 list \<Rightarrow> u8 list"
  cl_mnemonic_seed :: "string \<Rightarrow> goerr + u8 list"
  cl_derive :: "string \<Rightarrow> u8 list \<Rightarrow> goerr + u8 list"

definition SUI_HARDENED_DERIVATION_PATH :: string where
  "SUI_HARDENED_DERIVATION_PATH =
     (let h = [CHR 0x27] in ''m/44'' @ h @ ''/784'' @ h @ ''/0'' @ h @ ''/0'' @ h @ ''/0'' @ h)"

text \<open>The address of a public key: the hash of the scheme flag and the key.\<close>

definition PubKeyToSuiAddress :: "crypto_lib \<Rightarrow> u8 list \<Rightarrow> string" where
  "PubKeyToSuiAddress lib pubKey = ''0x'' @ hex (cl_blake2b lib (0 # pubKey))"

text \<open>A private key is named by its seed.\<close>

definition SignerFromMnemonic :: "crypto_lib \<Rightarrow> string \<Rightarrow> goerr + u8 list \<times> string" where
  "SignerFromMnemonic lib mnemonic =
     (if mnemonic = [] then Inl (Msg (''SUI_GAS_POOL_MNEMONIC not set '' @ map char_of [226, 128, 148 :: nat] @
            '' cannot derive gas-pool signer''))
      else case cl_mnemonic_seed lib mnemonic of
          Inl err \<Rightarrow> Inl (wrapf ''invalid gas-pool mnemonic: '' err)
        | Inr seed \<Rightarrow> (case cl_derive lib SUI_HARDENED_DERIVATION_PATH seed of
            Inl err \<Rightarrow> Inl (wrapf ''derive gas-pool key: '' err)
          | Inr key \<Rightarrow> Inr (key, PubKeyToSuiAddress lib (cl_public_key lib key))))"

definition DeterministicWallet :: "crypto_lib \<Rightarrow> string \<Rightarrow> string \<Rightarrow> goerr + u8 list \<times> string" where
  "DeterministicWallet lib email issuerSecret =
     (if email = [] then Inl (Msg ''email required for deterministic wallet'')
      else let seed = hmac_sha256 (bytes issuerSecret) (bytes email)
        in Inr (seed, PubKeyToSuiAddress lib (cl_public_key lib seed)))"

definition WalletForGoogle :: "crypto_lib \<Rightarrow> string \<Rightarrow> string \<Rightarrow> goerr + u8 list \<times> string" where
  "WalletForGoogle lib email issuerSecret = DeterministicWallet lib email issuerSecret"

section \<open>The client\<close>

record Client =
  c_packageID :: string
  c_mintCapID :: string
  c_signerAddress :: string
  c_signerPriKey :: "u8 list"
  c_gasBudget :: string
  c_concurrency :: nat

definition NewClient :: "crypto_lib \<Rightarrow> SuiConfig \<Rightarrow> goerr + Client" where
  "NewClient lib cfg = (case SignerFromMnemonic lib (sc_GasPoolMnemonic cfg) of
       Inl err \<Rightarrow> Inl err
     | Inr (priKey, address) \<Rightarrow>
         (let n = (if sc_RPCMaxConcurrency cfg < 1 then 1 else sc_RPCMaxConcurrency cfg)
          in Inr \<lparr>c_packageID = sc_PackageID cfg, c_mintCapID = sc_MintCapID cfg,
                  c_signerAddress = address, c_signerPriKey = priKey, c_gasBudget = sc_GasBudget cfg,
                  c_concurrency = nat n\<rparr>))"

text \<open>When every slot is taken the caller waits; only the end of its context ends the wait.\<close>

definition acquire :: "Client \<Rightarrow> (world, unit) go" where
  "acquire c = State (\<lambda>w. if inflight w < c_concurrency c then (Inr (), w\<lparr>inflight := inflight w + 1\<rparr>)
     else (Inl (Msg ''context canceled''), w))"

definition release :: "(world, unit) state" where
  "release = modify (\<lambda>w. w\<lparr>inflight := inflight w - 1\<rparr>)"

definition Client_Ping :: "(world, unit) go" where
  "Client_Ping = check (sdk (Rpc ''sui_getChainIdentifier'' [])) (wrapf ''sui ping: '') (\<lambda>_. returns ())"

definition encodeBytesVec :: "string list \<Rightarrow> string list" where
  "encodeBytesVec ss = map (\<lambda>s. ''0x'' @ hex (bytes s)) ss"

definition strip_dash :: "string \<Rightarrow> string" where
  "strip_dash = filter (\<lambda>c. c \<noteq> CHR ''-'')"

definition scan_space :: "char \<Rightarrow> bool" where
  "scan_space c \<longleftrightarrow> (of_char c :: nat) \<in> {9, 11, 12, 13, 32}"

definition toDateU64 :: "string \<Rightarrow> 64 word" where
  "toDateU64 date0 =
     (let digits = takeWhile is_digit (dropWhile scan_space (strip_dash date0))
      in if digits = [] \<or> read_nat digits \<ge> 2 ^ 64 then 0 else word_of_nat (read_nat digits))"

definition toDateHex :: "string \<Rightarrow> string" where
  "toDateHex date = ''0x'' @ show_hex (unat (toDateU64 (strip_dash date)))"

definition isThrottled :: "goerr \<Rightarrow> bool" where
  "isThrottled err \<longleftrightarrow> contains (Error err) ''429'' \<or> contains (Error err) ''Too Many'' \<or>
     contains (Error err) ''rate limit''"

text \<open>\<^verbatim>\<open>backoff\<close>: \<open>2\<^sup>a\<close> seconds, unless the context ends first.\<close>

definition backoff :: "nat \<Rightarrow> (world, unit) go" where
  "backoff attempt = call (\<lambda>w. (Inr (), elapse (2 ^ attempt * 1000) w))"

section \<open>Replies\<close>

definition json_field :: "string \<Rightarrow> json \<Rightarrow> json" where
  "json_field k j = (case j of JObj fs \<Rightarrow> (case map_of fs k of Some v \<Rightarrow> v | None \<Rightarrow> JNull) | _ \<Rightarrow> JNull)"

definition json_string :: "json \<Rightarrow> string" where
  "json_string j = (case j of JStr s \<Rightarrow> s | _ \<Rightarrow> [])"

definition json_list :: "json \<Rightarrow> json list" where
  "json_list j = (case j of JArr js \<Rightarrow> js | _ \<Rightarrow> [])"

abbreviation string_field :: "string \<Rightarrow> json \<Rightarrow> string" where
  "string_field k j \<equiv> json_string (json_field k j)"

section \<open>Transactions\<close>

text \<open>A call that holds a slot of the semaphore.\<close>

definition with_slot :: "Client \<Rightarrow> (world, 'a) go \<Rightarrow> (goerr + 'a \<Rightarrow> (world, 'b) go) \<Rightarrow> (world, 'b) go" where
  "with_slot c m k = check (acquire c) id (\<lambda>_. do { r \<leftarrow> m; _ \<leftarrow> release; k r })"

definition sign_request :: "Client \<Rightarrow> json \<Rightarrow> (string \<times> json) list \<Rightarrow> rpc_request" where
  "sign_request c txnMeta options = Rpc ''SignAndExecuteTransactionBlock''
     [(''txnMetaData'', txnMeta), (''priKey'', JStr (hex (c_signerPriKey c))), (''options'', JObj options),
      (''requestType'', JStr ''WaitForLocalExecution'')]"

text \<open>
  The loop that mints and transfers share: build the transaction, sign and execute it, start
  over when the endpoint throttles. \<open>n\<close> attempts are left of five.
\<close>

fun submit :: "Client \<Rightarrow> rpc_request \<Rightarrow> (string \<times> json) list \<Rightarrow> string \<Rightarrow> string \<Rightarrow> string \<Rightarrow> nat \<Rightarrow>
    (world, string) go" where
  "submit c build options what exec final 0 = fails (Msg final)"
| "submit c build options what exec final (Suc n) =
     (let attempt = 4 - n;
          retry = (\<lambda>label err. if isThrottled err
            then check (backoff attempt) id (\<lambda>_. submit c build options what exec final n)
            else fails (wrapf (label @ '' failed (attempt '' @ show_int (int attempt + 1) @ ''): '') err))
      in with_slot c (sdk build) (\<lambda>r. case r of
           Inl err \<Rightarrow> retry what err
         | Inr txnMeta \<Rightarrow> with_slot c (sdk (sign_request c txnMeta options)) (\<lambda>r. case r of
             Inl err \<Rightarrow> retry exec err
           | Inr resp \<Rightarrow> returns (string_field ''digest'' resp))))"

definition mint_arguments :: "Client \<Rightarrow> string \<Rightarrow> string list \<Rightarrow> string \<Rightarrow> string list \<Rightarrow> string list \<Rightarrow> json list" where
  "mint_arguments c suiAddress rideIDs date names metadataURLs =
     [JStr (c_mintCapID c), JStr suiAddress, JArr (map JStr (encodeBytesVec rideIDs)),
      JStr (toDateHex date), JArr (map JStr (encodeBytesVec names)),
      JArr (map JStr (encodeBytesVec metadataURLs))]"

definition mint_request :: "Client \<Rightarrow> string \<Rightarrow> string list \<Rightarrow> string \<Rightarrow> string list \<Rightarrow> string list \<Rightarrow> rpc_request" where
  "mint_request c suiAddress rideIDs date names metadataURLs = Rpc ''MoveCall''
     [(''signer'', JStr (c_signerAddress c)), (''packageObjectId'', JStr (c_packageID c)),
      (''module'', JStr ''attendance''), (''function'', JStr ''mint_batch''), (''typeArguments'', JArr []),
      (''arguments'', JArr (mint_arguments c suiAddress rideIDs date names metadataURLs)),
      (''gasBudget'', JStr (c_gasBudget c))]"

definition MintBatchAttendance :: "Client \<Rightarrow> string \<Rightarrow> string list \<Rightarrow> string \<Rightarrow> string list \<Rightarrow> string list \<Rightarrow>
    (world, string) go" where
  "MintBatchAttendance c suiAddress rideIDs date names metadataURLs =
     (if c_packageID c = [] then fails (Msg ''SUI_PACKAGE_ID not configured'')
      else if c_mintCapID c = [] then fails (Msg ''SUI_MINTCAP_ID not configured'')
      else if rideIDs = [] then fails (Msg ''no ride_ids to mint'')
      else submit c (mint_request c suiAddress rideIDs date names metadataURLs)
        [(''showInput'', JBool True), (''showEffects'', JBool True), (''showEvents'', JBool True),
         (''showObjectChanges'', JBool True)]
        ''moveCall'' ''signAndExecute'' ''mint batch failed after 5 attempts'' 5)"

definition TransferNFT :: "Client \<Rightarrow> string \<Rightarrow> string \<Rightarrow> (world, string) go" where
  "TransferNFT c nftObjectID toAddress =
     (if nftObjectID = [] \<or> toAddress = []
      then fails (Msg ''nft_object_id and to_address required for custody transfer'')
      else submit c (Rpc ''TransferObject''
          [(''signer'', JStr (c_signerAddress c)), (''objectId'', JStr nftObjectID),
           (''recipient'', JStr toAddress), (''gasBudget'', JStr (c_gasBudget c))])
        [(''showEffects'', JBool True), (''showObjectChanges'', JBool True)]
        ''transferObject'' ''signAndExecute transfer'' ''custody transfer failed after 5 attempts'' 5)"

record Minter =
  mn_MintBatchAttendance :: "string \<Rightarrow> string list \<Rightarrow> string \<Rightarrow> string list \<Rightarrow> string list \<Rightarrow> (world, string) go"
  mn_TransferNFT :: "string \<Rightarrow> string \<Rightarrow> (world, string) go"
  mn_Ping :: "(world, unit) go"

definition client_minter :: "Client \<Rightarrow> Minter" where
  "client_minter c = \<lparr>mn_MintBatchAttendance = MintBatchAttendance c, mn_TransferNFT = TransferNFT c,
     mn_Ping = Client_Ping\<rparr>"

section \<open>What a transaction costs\<close>

text \<open>A computation that leaves the semaphore as it was and makes at most \<open>n\<close> requests.\<close>

definition costs :: "nat \<Rightarrow> (world, 'a) state \<Rightarrow> bool" where
  "costs n m \<longleftrightarrow> (\<forall>w. inflight (snd (run_state m w)) = inflight w \<and>
     (\<exists>reqs. rpc_log (snd (run_state m w)) = rpc_log w @ reqs \<and> length reqs \<le> n))"

lemma costsD: "costs n m \<Longrightarrow> run_state m w = (r, w') \<Longrightarrow>
    inflight w' = inflight w \<and> (\<exists>reqs. rpc_log w' = rpc_log w @ reqs \<and> length reqs \<le> n)"
  unfolding costs_def by (drule spec [of _ w]) simp

lemma costs_fails [simp]: "costs n (fails e)" and costs_returns [simp]: "costs n (returns x)"
  by (simp_all add: costs_def)

lemma costs_mono: "costs n m \<Longrightarrow> n \<le> k \<Longrightarrow> costs k m"
  unfolding costs_def by (meson le_trans)

lemma next_event_log: "next_event w = (f, w1) \<Longrightarrow> rpc_log w1 = rpc_log w \<and> inflight w1 = inflight w"
  by (auto simp: next_event_def split: list.splits)

lemma sdk_log:
  assumes "run_state (sdk req) w = (r, w')"
  shows "inflight w' = inflight w \<and> (\<exists>reqs. rpc_log w' = rpc_log w @ reqs \<and> length reqs \<le> 1)"
  using assms unfolding sdk_def by (auto elim!: run_call_cases dest!: next_event_log)

lemma costs_backoff: "costs n m \<Longrightarrow> costs n (check (backoff a) id (\<lambda>_. m))"
proof -
  assume m: "costs n m"
  have "inflight w1 = inflight w \<and> rpc_log w1 = rpc_log w" if "run_state (backoff a) w = (r, w1)" for w w1 r
    using that unfolding backoff_def by (auto elim!: run_call_cases dest!: next_event_log)
  with m show ?thesis
    unfolding costs_def by (auto split: prod.split sum.split) (metis snd_conv)+
qed

lemma costs_with_slot:
  assumes "\<And>r. costs n (k r)"
  shows "costs (n + 1) (with_slot c (sdk req) k)"
  unfolding costs_def
proof
  fix w
  show "inflight (snd (run_state (with_slot c (sdk req) k) w)) = inflight w \<and>
      (\<exists>reqs. rpc_log (snd (run_state (with_slot c (sdk req) k) w)) = rpc_log w @ reqs \<and> length reqs \<le> n + 1)"
  proof (cases "inflight w < c_concurrency c")
    case True
    let ?w0 = "w\<lparr>inflight := inflight w + 1\<rparr>"
    obtain r w1 where s: "run_state (sdk req) ?w0 = (r, w1)" by fastforce
    from sdk_log [OF s] obtain reqs where 1: "inflight w1 = inflight w + 1" "rpc_log w1 = rpc_log w @ reqs"
      "length reqs \<le> 1" by auto
    obtain x w2 where kr: "run_state (k r) (w1\<lparr>inflight := inflight w\<rparr>) = (x, w2)" by fastforce
    from costsD [OF assms kr] 1 obtain reqs2 where 2: "inflight w2 = inflight w"
      "rpc_log w2 = rpc_log w @ reqs @ reqs2" "length reqs2 \<le> n" by auto
    have "run_state (with_slot c (sdk req) k) w = (x, w2)"
      using True s 1 kr by (simp add: with_slot_def acquire_def release_def)
    with 2 1(3) show ?thesis by auto
  next
    case False
    then show ?thesis by (simp add: with_slot_def acquire_def)
  qed
qed

lemma costs_submit: "costs (2 * n) (submit c build options what exec final n)"
proof (induction n)
  case (Suc n)
  have retry: "costs (2 * n) (if isThrottled err
      then check (backoff a) id (\<lambda>_. submit c build options what exec final n) else fails e)" for err a e
    using costs_backoff [OF Suc] by simp
  have sign: "costs (2 * n + 1) (with_slot c (sdk req) (\<lambda>r. case r of
       Inl err \<Rightarrow> if isThrottled err then check (backoff a) id (\<lambda>_. submit c build options what exec final n)
         else fails (e err)
     | Inr resp \<Rightarrow> returns (f resp)))" for req a f and e :: "goerr \<Rightarrow> goerr"
    by (rule costs_with_slot) (simp only: retry costs_returns split: sum.split, simp add: retry)
  have "costs (2 * n + 1 + 1) (submit c build options what exec final (Suc n))"
    unfolding submit.simps Let_def
    by (rule costs_with_slot) (simp only: costs_mono [OF retry] sign le_add1 split: sum.split, simp)
  then show ?case by simp
qed simp

lemma run_with_slot:
  assumes "quiet w" and "inflight w < c_concurrency c" and "env_rpc (env w) (rpc_log w) req = r"
  shows "run_state (with_slot c (sdk req) k) w = run_state (k r) (w\<lparr>rpc_log := rpc_log w @ [req]\<rparr>)"
proof -
  have "w\<lparr>inflight := Suc (inflight w), rpc_log := l, inflight := inflight w\<rparr> = w\<lparr>rpc_log := l\<rparr>" for l by simp
  with assms show ?thesis by (simp add: with_slot_def acquire_def release_def)
qed

lemma submit_done:
  assumes "quiet w" and "inflight w < c_concurrency c"
    and "env_rpc (env w) (rpc_log w) build = Inr txnMeta"
    and "env_rpc (env w) (rpc_log w @ [build]) (sign_request c txnMeta options) = Inr resp"
  shows "run_state (submit c build options what exec final (Suc n)) w =
    (Inr (string_field ''digest'' resp), w\<lparr>rpc_log := rpc_log w @ [build, sign_request c txnMeta options]\<rparr>)"
proof -
  let ?w = "w\<lparr>rpc_log := rpc_log w @ [build]\<rparr>"
  have q: "quiet ?w" "inflight ?w < c_concurrency c"
    "env_rpc (env ?w) (rpc_log ?w) (sign_request c txnMeta options) = Inr resp"
    using assms by simp_all
  show ?thesis
    by (simp only: submit.simps Let_def run_with_slot [OF assms(1-3)] sum.case run_with_slot [OF q]) simp
qed

text \<open>
  C20: a mint asks the endpoint at most ten times, whatever it answers and whenever the context
  ends, and gives back every slot of the semaphore it took.
\<close>

theorem mint_bounds:
  "\<exists>r w' reqs. run_state (MintBatchAttendance c addr rideIDs date names urls) w = (r, w') \<and>
     rpc_log w' = rpc_log w @ reqs \<and> length reqs \<le> 10 \<and> inflight w' = inflight w"
proof -
  obtain r w' where r: "run_state (MintBatchAttendance c addr rideIDs date names urls) w = (r, w')" by fastforce
  have "costs 10 (MintBatchAttendance c addr rideIDs date names urls)"
    unfolding MintBatchAttendance_def using costs_submit [where n = 5] by simp
  from costsD [OF this r] r show ?thesis by blast
qed

text \<open>
  A mint is reported as done whatever the chain says of it: the digest is returned, and the
  caller records a confirmed mint, also when the effects of the transaction say that it failed.
\<close>

theorem failed_transaction_reported_minted:
  assumes "quiet w" and "inflight w < c_concurrency c" and "c_packageID c \<noteq> []" and "c_mintCapID c \<noteq> []"
    and "rideIDs \<noteq> []"
    and "env_rpc (env w) (rpc_log w) (mint_request c addr rideIDs date names urls) = Inr txnMeta"
    and "\<forall>log. env_rpc (env w) log (sign_request c txnMeta
       [(''showInput'', JBool True), (''showEffects'', JBool True), (''showEvents'', JBool True),
        (''showObjectChanges'', JBool True)]) =
       Inr (JObj [(''digest'', JStr digest), (''effects'', JObj [(''status'', JObj [(''status'', JStr ''failure''),
         (''error'', JStr reason)])])])"
  shows "\<exists>w'. run_state (MintBatchAttendance c addr rideIDs date names urls) w = (Inr digest, w')"
proof -
  have five: "submit c b opts l1 l2 l3 5 = submit c b opts l1 l2 l3 (Suc 4)" for b opts l1 l2 l3
    by (simp add: eval_nat_numeral)
  show ?thesis
    unfolding MintBatchAttendance_def five if_not_P [OF assms(3)] if_not_P [OF assms(4)] if_not_P [OF assms(5)]
      submit_done [OF assms(1,2,6) assms(7) [rule_format]]
    by (simp add: json_field_def json_string_def)
qed

definition demo_client :: Client where
  "demo_client = \<lparr>c_packageID = ''0xp'', c_mintCapID = ''0xc'', c_signerAddress = ''0xs'',
     c_signerPriKey = [], c_gasBudget = ''100000000'', c_concurrency = 5\<rparr>"

definition failing_chain :: environment where
  "failing_chain = plain_environment\<lparr>env_rpc := (\<lambda>log req. case req of
       Rpc m ps \<Rightarrow> if m = ''MoveCall'' then Inr (JObj [])
         else Inr (JObj [(''digest'', JStr ''Dg''), (''effects'', JObj [(''status'', JObj
           [(''status'', JStr ''failure''), (''error'', JStr ''abort'')])])])
     | _ \<Rightarrow> Inl (Msg ''not a Sui method''))\<rparr>"

theorem failed_transaction_reported_minted_witness:
  "\<exists>w'. run_state (MintBatchAttendance demo_client ''0xa'' [''ride-001''] ''2026-08-13'' [''Ride''] [''ipfs://m''])
     (start_world failing_chain 5000 []) = (Inr ''Dg'', w')"
proof -
  have "inflight (start_world failing_chain 5000 []) = 0" by (simp add: start_world_def)
  then show ?thesis
    by (intro failed_transaction_reported_minted [where txnMeta = "JObj []" and reason = "''abort''"])
      (simp_all add: demo_client_def failing_chain_def mint_request_def sign_request_def)
qed

end
