(* ===== verification/Sui_Reader.thy ===== *)
theory Sui_Reader
  imports Sui_Client
begin

text \<open>
  \<^verbatim>\<open>internal/sui/reader.go\<close>: the probe transfer and the queries of the chain. The pages
  of \<^verbatim>\<open>OwnedNFTs\<close> are counted by fuel: a chain that always announces a next page is
  queried for ever, and the answer is \<open>None\<close> however much fuel there is.
\<close>

record NFTInfo =
  ni_ObjectID :: string
  ni_Type :: string
  ni_Owner :: string
  ni_Version :: string

record TxStatus =
  tx_Digest :: string
  tx_Status :: string
  tx_Error :: string
  tx_CountNFTsCreated :: int
  tx_Recipients :: "string list"

definition attendanceNFTTypeSuffix :: string where
  "attendanceNFTTypeSuffix = ''::attendance::AttendanceNFT''"

definition nftStructType :: "Client \<Rightarrow> string" where
  "nftStructType c = c_packageID c @ attendanceNFTTypeSuffix"

section \<open>The probe\<close>

definition TransferSuiProbe :: "Client \<Rightarrow> string \<Rightarrow> string \<Rightarrow> (world, string) go" where
  "TransferSuiProbe c recipient amount =
     (if recipient = [] then fails (Msg ''recipient address required for probe transfer'')
      else let amountMist = (if amount = [] then ''1000000'' else amount)
      in check (sdk (Rpc ''SuiXGetCoins'' [(''owner'', JStr (c_signerAddress c)),
             (''coinType'', JStr ''0x2::sui::SUI''), (''limit'', JNum 1)]))
           (wrapf ''get gas-pool coin: '') (\<lambda>coins.
         case json_list (json_field ''data'' coins) of
           [] \<Rightarrow> fails (Msg ''gas pool has no SUI coin to transfer'')
         | coin # _ \<Rightarrow> submit c (Rpc ''TransferSui''
               [(''signer'', JStr (c_signerAddress c)), (''suiObjectId'', JStr (string_field ''coinObjectId'' coin)),
                (''gasBudget'', JStr (c_gasBudget c)), (''recipient'', JStr recipient), (''amount'', JStr amountMist)])
             [(''showEffects'', JBool True), (''showObjectChanges'', JBool True)]
             ''transferSui'' ''signAndExecute probe'' ''probe transfer failed after 5 attempts'' 5))"

section \<open>The status of a transaction\<close>

text \<open>\<^verbatim>\<open>addressOwner\<close> is what the SDK reports as the owner of a change.\<close>

definition count_change :: "Client \<Rightarrow> json \<Rightarrow> TxStatus \<Rightarrow> TxStatus" where
  "count_change c change ts =
     (if string_field ''type'' change \<noteq> ''created'' then ts
      else if string_field ''objectType'' change \<noteq> nftStructType c then ts
      else let ts1 = ts\<lparr>tx_CountNFTsCreated := tx_CountNFTsCreated ts + 1\<rparr>;
               owner = string_field ''addressOwner'' change
        in if owner = [] then ts1
           else if owner \<in> set (tx_Recipients ts1) then ts1
           else ts1\<lparr>tx_Recipients := tx_Recipients ts1 @ [owner]\<rparr>)"

definition tx_status :: "Client \<Rightarrow> string \<Rightarrow> json \<Rightarrow> TxStatus" where
  "tx_status c digest resp =
     (let status = json_field ''status'' (json_field ''effects'' resp)
      in fold (count_change c) (json_list (json_field ''objectChanges'' resp))
           \<lparr>tx_Digest = digest, tx_Status = string_field ''status'' status,
            tx_Error = string_field ''error'' status, tx_CountNFTsCreated = 0, tx_Recipients = []\<rparr>)"

definition TransactionStatus :: "Client \<Rightarrow> string \<Rightarrow> (world, TxStatus) go" where
  "TransactionStatus c digest =
     check (sdk (Rpc ''SuiGetTransactionBlock'' [(''digest'', JStr digest),
         (''options'', JObj [(''showEffects'', JBool True), (''showObjectChanges'', JBool True)])]))
       (wrapf (''get transaction block '' @ digest @ '': '')) (\<lambda>resp. returns (tx_status c digest resp))"

section \<open>The objects of an address\<close>

text \<open>
  The owner of an object, through its JSON form: the address, else the object that owns it; an
  owner that is not an object (a shared or immutable marker) is none.
\<close>

definition owner_text :: "json \<Rightarrow> string" where
  "owner_text owner = (if string_field ''AddressOwner'' owner = [] then string_field ''ObjectOwner'' owner
     else string_field ''AddressOwner'' owner)"

definition parseNFTs :: "Client \<Rightarrow> json list \<Rightarrow> NFTInfo list" where
  "parseNFTs c objects = concat (map (\<lambda>obj. let data = json_field ''data'' obj in
     if data = JNull then []
     else if string_field ''type'' data \<noteq> nftStructType c then []
     else [\<lparr>ni_ObjectID = string_field ''objectId'' data, ni_Type = string_field ''type'' data,
            ni_Owner = owner_text (json_field ''owner'' data), ni_Version = string_field ''version'' data\<rparr>]) objects)"

definition owned_request :: "Client \<Rightarrow> string \<Rightarrow> json \<Rightarrow> rpc_request" where
  "owned_request c address cursor = Rpc ''SuiXGetOwnedObjects''
     [(''address'', JStr address),
      (''query'', JObj [(''filter'', JObj [(''Package'', JStr (c_packageID c))]),
         (''options'', JObj [(''showType'', JBool True), (''showOwner'', JBool True)])]),
      (''cursor'', cursor), (''limit'', JNum 50)]"

fun owned_pages :: "nat \<Rightarrow> Client \<Rightarrow> string \<Rightarrow> json \<Rightarrow> NFTInfo list \<Rightarrow> (world, (goerr + NFTInfo list) option) state" where
  "owned_pages 0 c address cursor out = State_Monad.return None"
| "owned_pages (Suc n) c address cursor out =
     on_err (sdk (owned_request c address cursor))
       (\<lambda>err. State_Monad.return (Some (Inl (wrapf (''get owned objects for '' @ address @ '': '') err))))
       (\<lambda>resp. let out1 = out @ parseNFTs c (json_list (json_field ''data'' resp))
         in if json_field ''hasNextPage'' resp \<noteq> JBool True then State_Monad.return (Some (Inr out1))
            else owned_pages n c address (json_field ''nextCursor'' resp) out1)"

definition OwnedNFTs :: "nat \<Rightarrow> Client \<Rightarrow> string \<Rightarrow> (world, (goerr + NFTInfo list) option) state" where
  "OwnedNFTs fuel c address = owned_pages fuel c address JNull []"

definition BalanceMist :: "Client \<Rightarrow> (world, string) go" where
  "BalanceMist c =
     check (sdk (Rpc ''SuiXGetBalance'' [(''owner'', JStr (c_signerAddress c)),
         (''coinType'', JStr ''0x2::sui::SUI'')]))
       (wrapf ''get gas-pool balance: '') (\<lambda>resp. returns (string_field ''totalBalance'' resp))"

record Reader =
  rd_TransferSuiProbe :: "string \<Rightarrow> string \<Rightarrow> (world, string) go"
  rd_TransactionStatus :: "string \<Rightarrow> (world, TxStatus) go"
  rd_OwnedNFTs :: "string \<Rightarrow> (world, (goerr + NFTInfo list) option) state"
  rd_BalanceMist :: "(world, string) go"

definition client_reader :: "nat \<Rightarrow> Client \<Rightarrow> Reader" where
  "client_reader fuel c = \<lparr>rd_TransferSuiProbe = TransferSuiProbe c, rd_TransactionStatus = TransactionStatus c,
     rd_OwnedNFTs = OwnedNFTs fuel c, rd_BalanceMist = BalanceMist c\<rparr>"

section \<open>The recipients of a transaction\<close>

definition created :: "Client \<Rightarrow> json \<Rightarrow> bool" where
  "created c change \<longleftrightarrow> string_field ''type'' change = ''created'' \<and>
     string_field ''objectType'' change = nftStructType c"

lemma fold_count:
  "tx_CountNFTsCreated (fold (count_change c) changes ts) =
     tx_CountNFTsCreated ts + int (length (filter (created c) changes)) \<and>
   set (tx_Recipients (fold (count_change c) changes ts)) = set (tx_Recipients ts) \<union>
     (string_field ''addressOwner'' ` set (filter (created c) changes) - {[]}) \<and>
   (distinct (tx_Recipients ts) \<longrightarrow> distinct (tx_Recipients (fold (count_change c) changes ts))) \<and>
   tx_Status (fold (count_change c) changes ts) = tx_Status ts"
proof (induction changes arbitrary: ts)
  case (Cons change changes)
  have 1: "tx_CountNFTsCreated (count_change c change ts) =
      tx_CountNFTsCreated ts + (if created c change then 1 else 0)"
    "set (tx_Recipients (count_change c change ts)) = set (tx_Recipients ts) \<union>
      (if created c change then {string_field ''addressOwner'' change} - {[]} else {})"
    "distinct (tx_Recipients ts) \<Longrightarrow> distinct (tx_Recipients (count_change c change ts))"
    "tx_Status (count_change c change ts) = tx_Status ts"
    by (auto simp: count_change_def created_def Let_def)
  with Cons.IH [of "count_change c change ts"] show ?case by auto
qed simp

text \<open>
  The status of a mint counts exactly the attendance NFTs among the created objects, and
  lists each of their owners once.
\<close>

theorem TransactionStatus_counts:
  assumes "run_state (TransactionStatus c digest) w = (Inr ts, w')"
  shows "\<exists>resp. tx_CountNFTsCreated ts = int (length (filter (created c) (json_list (json_field ''objectChanges'' resp)))) \<and>
    distinct (tx_Recipients ts) \<and>
    set (tx_Recipients ts) = string_field ''addressOwner'' `
      set (filter (created c) (json_list (json_field ''objectChanges'' resp))) - {[]} \<and>
    (\<exists>log. env_rpc (env w) log (Rpc ''SuiGetTransactionBlock'' [(''digest'', JStr digest),
       (''options'', JObj [(''showEffects'', JBool True), (''showObjectChanges'', JBool True)])]) = Inr resp)"
proof -
  let ?req = "Rpc ''SuiGetTransactionBlock'' [(''digest'', JStr digest),
       (''options'', JObj [(''showEffects'', JBool True), (''showObjectChanges'', JBool True)])]"
  from assms obtain resp w1 where s: "run_state (sdk ?req) w = (Inr resp, w1)" and ts: "ts = tx_status c digest resp"
    by (auto simp: TransactionStatus_def split: prod.splits sum.splits)
  from s obtain w0 where "next_event w = (Up, w0)" "env_rpc (env w0) (rpc_log w0) ?req = Inr resp"
    unfolding sdk_def by (auto elim!: run_call_cases)
  moreover from this have "env w0 = env w" by (auto simp: next_event_def split: list.splits)
  ultimately have "\<exists>log. env_rpc (env w) log ?req = Inr resp" by auto
  with fold_count [of c "json_list (json_field ''objectChanges'' resp)"] show ?thesis
    by (intro exI [of _ resp]) (simp add: ts tx_status_def Let_def)
qed

section \<open>Paging\<close>

text \<open>More fuel does not change an answer.\<close>

lemma owned_pages_more:
  "run_state (owned_pages n c address cursor out) w = (Some r, w') \<Longrightarrow>
     run_state (owned_pages (n + k) c address cursor out) w = (Some r, w')"
proof (induction n arbitrary: cursor out w)
  case (Suc n)
  then show ?case by (auto simp: Let_def split: prod.splits sum.splits if_splits)
qed simp

text \<open>
  C21: reading the NFTs of an address needs as much fuel as there are pages, and no more: when
  the pages \<open>0..n\<close> are answered, the last without a successor, the result is the NFTs of all
  the pages in their order, with any fuel above \<open>n\<close>.
\<close>

fun pages_from :: "environment \<Rightarrow> Client \<Rightarrow> string \<Rightarrow> rpc_request list \<Rightarrow> json \<Rightarrow> json list \<Rightarrow> bool" where
  "pages_from e c address log cursor [] = False"
| "pages_from e c address log cursor (page # pages) =
     (env_rpc e log (owned_request c address cursor) = Inr page \<and>
      (if pages = [] then json_field ''hasNextPage'' page \<noteq> JBool True
       else json_field ''hasNextPage'' page = JBool True \<and>
         pages_from e c address (log @ [owned_request c address cursor]) (json_field ''nextCursor'' page) pages))"

lemma owned_pages_read:
  assumes "quiet w" and "pages_from (env w) c address (rpc_log w) cursor pages" and "length pages \<le> n"
  shows "\<exists>w'. run_state (owned_pages n c address cursor out) w =
    (Some (Inr (out @ concat (map (\<lambda>page. parseNFTs c (json_list (json_field ''data'' page))) pages))), w')"
  using assms
proof (induction pages arbitrary: w cursor out n)
  case (Cons page pages)
  then obtain m where n: "n = Suc m" by (cases n) auto
  let ?w = "w\<lparr>rpc_log := rpc_log w @ [owned_request c address cursor]\<rparr>"
  show ?case
  proof (cases "pages = []")
    case True
    with Cons.prems show ?thesis by (simp add: n Let_def)
  next
    case False
    with Cons.prems have "quiet ?w" "pages_from (env ?w) c address (rpc_log ?w) (json_field ''nextCursor'' page) pages"
      "length pages \<le> m" by (simp_all add: n)
    from Cons.IH [OF this, of "out @ parseNFTs c (json_list (json_field ''data'' page))"] Cons.prems False
    show ?thesis by (simp add: n Let_def)
  qed
qed simp

theorem OwnedNFTs_reads_all_pages:
  assumes "quiet w" and "pages_from (env w) c address (rpc_log w) JNull pages" and "length pages \<le> fuel"
  shows "\<exists>w'. run_state (OwnedNFTs fuel c address) w =
    (Some (Inr (concat (map (\<lambda>page. parseNFTs c (json_list (json_field ''data'' page))) pages))), w')"
  using owned_pages_read [OF assms, of "[]"] by (simp add: OwnedNFTs_def)

section \<open>The statements at a concrete chain\<close>

definition nft_page :: json where
  "nft_page = JObj [(''data'', JArr [JObj [(''data'', JObj [(''objectId'', JStr ''0x1''),
     (''type'', JStr ''0xp::attendance::AttendanceNFT''), (''version'', JStr ''7''),
     (''owner'', JObj [(''AddressOwner'', JStr ''0xa'')])])]]), (''hasNextPage'', JBool False)]"

definition nft_change :: json where
  "nft_change = JObj [(''type'', JStr ''created''), (''objectType'', JStr ''0xp::attendance::AttendanceNFT''),
     (''addressOwner'', JStr ''0xa'')]"

definition reading_chain :: environment where
  "reading_chain = plain_environment\<lparr>env_rpc := (\<lambda>log req. case req of
       Rpc m ps \<Rightarrow> if m = ''SuiXGetOwnedObjects'' then Inr nft_page
         else Inr (JObj [(''objectChanges'', JArr [nft_change, nft_change])])
     | _ \<Rightarrow> Inl (Msg ''not a Sui method''))\<rparr>"

theorem OwnedNFTs_reads_all_pages_witness:
  "\<exists>w'. run_state (OwnedNFTs 3 demo_client ''0xa'') (start_world reading_chain 5000 []) =
     (Some (Inr [\<lparr>ni_ObjectID = ''0x1'', ni_Type = ''0xp::attendance::AttendanceNFT'', ni_Owner = ''0xa'',
        ni_Version = ''7''\<rparr>]), w')"
proof -
  have "parseNFTs demo_client (json_list (json_field ''data'' nft_page)) =
      [\<lparr>ni_ObjectID = ''0x1'', ni_Type = ''0xp::attendance::AttendanceNFT'', ni_Owner = ''0xa'', ni_Version = ''7''\<rparr>]"
    by code_simp
  moreover have "pages_from reading_chain demo_client ''0xa'' [] JNull [nft_page]"
    by (simp add: reading_chain_def owned_request_def nft_page_def json_field_def)
  ultimately show ?thesis
    using OwnedNFTs_reads_all_pages [of "start_world reading_chain 5000 []" demo_client "''0xa''" "[nft_page]" 3]
    by simp
qed

theorem TransactionStatus_counts_witness:
  "\<exists>ts w'. run_state (TransactionStatus demo_client ''Dg'') (start_world reading_chain 5000 []) = (Inr ts, w') \<and>
     distinct (tx_Recipients ts)"
proof -
  obtain ts w' where r: "run_state (TransactionStatus demo_client ''Dg'') (start_world reading_chain 5000 []) = (Inr ts, w')"
    by (simp add: TransactionStatus_def reading_chain_def)
  from TransactionStatus_counts [OF r] r show ?thesis by blast
qed

end
