(* ===== verification/Http.thy ===== *)
theory Http
  imports Services
begin

text \<open>
  \<^verbatim>\<open>net/http\<close> as the handlers use it: a request is its method, its query parameters
  and the JSON value its body starts with (\<open>Text\<close> for a body that does not decode); a
  reply is a status and a body. Headers are left out.
\<close>

record http_request =
  hq_Method :: string
  hq_Query :: "string \<Rightarrow> string"
  hq_Body :: payload

record http_reply =
  hp_Status :: int
  hp_Body :: payload

type_synonym handler = "http_request \<Rightarrow> (world, http_reply) state"

definition json_reply :: "int \<Rightarrow> json \<Rightarrow> http_reply" where
  "json_reply code v = \<lparr>hp_Status = code, hp_Body = Json v\<rparr>"

text \<open>\<^verbatim>\<open>http.Error\<close>: the message on a line.\<close>

definition http_Error :: "string \<Rightarrow> int \<Rightarrow> http_reply" where
  "http_Error msg code = \<lparr>hp_Status = code, hp_Body = Text (msg @ [CHR 0x0A])\<rparr>"

text \<open>The multiplexer on exact patterns; every other path is not found.\<close>

definition http_serve :: "(string \<times> handler) list \<Rightarrow> string \<Rightarrow> handler" where
  "http_serve routes path req = (case map_of routes path of
       None \<Rightarrow> State_Monad.return (http_Error ''404 page not found'' 404)
     | Some h \<Rightarrow> h req)"

text \<open>\<^verbatim>\<open>if r.Method != m { reply 405; return }\<close> and \<^verbatim>\<open>Decode(&req)\<close>.\<close>

definition only :: "string \<Rightarrow> http_reply \<Rightarrow> handler \<Rightarrow> handler" where
  "only m refusal h req = (if hq_Method req \<noteq> m then State_Monad.return refusal else h req)"

definition decoding :: "(payload \<Rightarrow> goerr + 'r) \<Rightarrow> http_reply \<Rightarrow> ('r \<Rightarrow> (world, http_reply) state) \<Rightarrow> handler" where
  "decoding dec refusal h req = (case dec (hq_Body req) of
       Inl _ \<Rightarrow> State_Monad.return refusal
     | Inr r \<Rightarrow> h r)"

text \<open>Optional members of a JSON object (\<^verbatim>\<open>omitempty\<close>).\<close>

definition omit_empty :: "string \<Rightarrow> string \<Rightarrow> (string \<times> json) list" where
  "omit_empty k s = (if s = [] then [] else [(k, JStr s)])"

definition json_opt :: "('a \<Rightarrow> json) \<Rightarrow> 'a option \<Rightarrow> json" where
  "json_opt f x = (case x of None \<Rightarrow> JNull | Some v \<Rightarrow> f v)"

text \<open>Decoding an array of strings: \<^verbatim>\<open>null\<close> empties the field or keeps an element at its zero.\<close>

definition string_element :: "json \<Rightarrow> string \<times> bool" where
  "string_element j = (case j of JStr s \<Rightarrow> (s, True) | JNull \<Rightarrow> ([], True) | _ \<Rightarrow> ([], False))"

definition set_strings :: "(string list \<Rightarrow> 'r \<Rightarrow> 'r) \<Rightarrow> json \<Rightarrow> 'r \<times> bool \<Rightarrow> 'r \<times> bool" where
  "set_strings upd v acc = (case v of
       JArr js \<Rightarrow> (upd (map (fst \<circ> string_element) js) (fst acc), snd acc \<and> list_all (snd \<circ> string_element) js)
     | JNull \<Rightarrow> (upd [] (fst acc), snd acc)
     | _ \<Rightarrow> (fst acc, False))"

section \<open>What a handler can reply\<close>

text \<open>Every run of the computation (a handler, say) ends with a result that satisfies the predicate.\<close>

definition replies :: "('r \<Rightarrow> bool) \<Rightarrow> ('s, 'r) state \<Rightarrow> bool" where
  "replies P m \<longleftrightarrow> (\<forall>w. P (fst (run_state m w)))"

named_theorems replies_intros \<open>what a handler can reply\<close>

lemma replies_return [replies_intros]: "P r \<Longrightarrow> replies P (State_Monad.return r)"
  by (simp add: replies_def)

lemma replies_bind [replies_intros]: "(\<And>x. replies P (f x)) \<Longrightarrow> replies P (m \<bind> f)"
  by (simp add: replies_def split: prod.split)

lemma replies_then: "replies Q m \<Longrightarrow> (\<And>x. Q x \<Longrightarrow> replies P (f x)) \<Longrightarrow> replies P (m \<bind> f)"
  by (simp add: replies_def split: prod.split) (metis fst_conv)

lemma replies_weaken: "replies Q m \<Longrightarrow> (\<And>x. Q x \<Longrightarrow> P x) \<Longrightarrow> replies P m"
  by (simp add: replies_def)

lemma repliesD: "replies P m \<Longrightarrow> run_state m w = (r, w') \<Longrightarrow> P r"
  by (metis fst_conv replies_def)

lemma replies_on_err [replies_intros]:
  "(\<And>e. replies P (h e)) \<Longrightarrow> (\<And>x. replies P (f x)) \<Longrightarrow> replies P (on_err m h f)"
  unfolding on_err_def by (rule replies_bind) (simp split: sum.split)

lemma replies_if [replies_intros]:
  "(b \<Longrightarrow> replies P m) \<Longrightarrow> (\<not> b \<Longrightarrow> replies P n) \<Longrightarrow> replies P (if b then m else n)"
  by simp

lemma replies_option [replies_intros]:
  "(x = None \<Longrightarrow> replies P m) \<Longrightarrow> (\<And>y. x = Some y \<Longrightarrow> replies P (f y)) \<Longrightarrow>
     replies P (case x of None \<Rightarrow> m | Some y \<Rightarrow> f y)"
  by (cases x) auto

lemma replies_only [replies_intros]:
  "P refusal \<Longrightarrow> replies P (h req) \<Longrightarrow> replies P (only m refusal h req)"
  unfolding only_def by (intro replies_intros)

lemma replies_decoding [replies_intros]:
  "P refusal \<Longrightarrow> (\<And>r. replies P (h r)) \<Longrightarrow> replies P (decoding dec refusal h req)"
  by (simp add: decoding_def replies_return split: sum.split)

lemma replies_served:
  assumes "list_all (\<lambda>(path, h). \<forall>req. replies P (h req)) routes"
    and "path \<in> fst ` set routes"
  shows "replies P (http_serve routes path req)"
proof -
  obtain h where "map_of routes path = Some h"
    using assms(2) by (metis map_of_eq_None_iff not_Some_eq)
  moreover from map_of_SomeD [OF this] assms(1) have "replies P (h req)"
    by (auto simp: list_all_iff)
  ultimately show ?thesis by (simp add: http_serve_def)
qed

lemma reply_sel [simp]:
  "hp_Status (json_reply code v) = code" "hp_Body (json_reply code v) = Json v"
  "hp_Status (http_Error msg code) = code"
  by (simp_all add: json_reply_def http_Error_def)

end
