(* ===== verification/Health.thy ===== *)
theory Health
  imports Http
begin

text \<open>
  \<^verbatim>\<open>internal/health/health.go\<close>: the readiness checks of a service, the two probes, and
  the wait for the dependencies at startup. A check is a computation that may fail; the calls it
  makes take their time from the schedule.
\<close>

type_synonym Checker = "(world, unit) go"

record HealthChecker =
  hc_service :: string
  hc_checks :: "Checker list"
  hc_startTime :: int

definition NewHealthChecker :: "string \<Rightarrow> (world, HealthChecker) state" where
  "NewHealthChecker service = do {
     now \<leftarrow> gets clock;
     State_Monad.return \<lparr>hc_service = service, hc_checks = [], hc_startTime = now\<rparr>
   }"

definition AddCheck :: "Checker \<Rightarrow> HealthChecker \<Rightarrow> HealthChecker" where
  "AddCheck c h = h\<lparr>hc_checks := hc_checks h @ [c]\<rparr>"

definition marshal_Status :: "string \<Rightarrow> string \<Rightarrow> int \<Rightarrow> json" where
  "marshal_Status status service timestamp = JObj
     [(''status'', JStr status), (''service'', JStr service), (''timestamp'', JNum timestamp)]"

definition writeStatus :: "int \<Rightarrow> string \<Rightarrow> string \<Rightarrow> (world, http_reply) state" where
  "writeStatus code status service = do {
     now \<leftarrow> gets clock;
     State_Monad.return (json_reply code (marshal_Status status service (UnixMilli now)))
   }"

definition HealthzHandler :: "HealthChecker \<Rightarrow> handler" where
  "HealthzHandler h req = writeStatus 200 ''healthy'' (hc_service h)"

text \<open>The checks in order, up to the first that fails.\<close>

fun run_checks :: "Checker list \<Rightarrow> (world, unit) go" where
  "run_checks [] = returns ()"
| "run_checks (c # cs) = check c id (\<lambda>_. run_checks cs)"

definition ReadyzHandler :: "HealthChecker \<Rightarrow> handler" where
  "ReadyzHandler h req = on_err (run_checks (hc_checks h))
     (\<lambda>_. writeStatus 503 ''not_ready'' (hc_service h))
     (\<lambda>_. writeStatus 200 ''ready'' (hc_service h))"

section \<open>Reaching a service\<close>

text \<open>A call that does nothing: what the schedule says of it is the answer.\<close>

definition reachable :: Checker where
  "reachable = call (\<lambda>w. (Inr (), w))"

definition Redis_Ping :: Checker where
  "Redis_Ping = reachable"

definition Postgres_Ping :: Checker where
  "Postgres_Ping = reachable"

text \<open>\<^verbatim>\<open>Ping\<close> of the producer and of the consumer: every broker is dialled in order.\<close>

fun Kafka_Ping :: "string list \<Rightarrow> Checker" where
  "Kafka_Ping [] = returns ()"
| "Kafka_Ping (addr # addrs) =
     check reachable (wrapf (''kafka ping broker '' @ addr @ '': '')) (\<lambda>_. Kafka_Ping addrs)"

section \<open>Waiting for the dependencies\<close>

text \<open>A wait that the end of the context can cut short.\<close>

definition pause :: "nat \<Rightarrow> (world, unit) go" where
  "pause ms = call (\<lambda>w. (Inr (), elapse ms w))"

text \<open>\<^verbatim>\<open>%s\<close> of a duration of whole seconds, given in milliseconds.\<close>

definition duration_text :: "nat \<Rightarrow> string" where
  "duration_text ms =
     (let s = ms div 1000
      in (if s \<ge> 3600 then show_nat (s div 3600) @ ''h'' else []) @
         (if s \<ge> 60 then show_nat (s mod 3600 div 60) @ ''m'' else []) @ show_nat (s mod 60) @ ''s'')"

text \<open>
  The polling loop: \<open>None\<close> would be a loop that never ends.
\<close>

partial_function (option) poll :: "Checker list \<Rightarrow> int \<Rightarrow> nat \<Rightarrow> world \<Rightarrow> ((goerr + unit) \<times> world) option" where
  "poll checks deadline timeout w =
     (if clock w > deadline
      then Some (Inl (Msg (''readiness checks did not pass within '' @ duration_text timeout)), w)
      else (case run_state (run_checks checks) w of
          (Inr _, w1) \<Rightarrow> Some (Inr (), w1)
        | (Inl _, w1) \<Rightarrow> (case run_state (pause 2000) w1 of
            (Inl err, w2) \<Rightarrow> Some (Inl err, w2)
          | (Inr _, w2) \<Rightarrow> poll checks deadline timeout w2)))"

definition WaitForChecks :: "HealthChecker \<Rightarrow> nat \<Rightarrow> world \<Rightarrow> ((goerr + unit) \<times> world) option" where
  "WaitForChecks checker timeout w = poll (hc_checks checker) (clock w + int timeout) timeout w"

section \<open>Time does not run backwards\<close>

definition timely :: "(world, 'a) state \<Rightarrow> bool" where
  "timely m \<longleftrightarrow> (\<forall>w. clock w \<le> clock (snd (run_state m w)))"

lemma timelyD: "timely m \<Longrightarrow> run_state m w = (r, w') \<Longrightarrow> clock w \<le> clock w'"
  by (metis snd_conv timely_def)

lemma next_event_clock: "next_event w = (f, w') \<Longrightarrow> clock w \<le> clock w'"
  by (auto simp: next_event_def split: list.splits)

lemma timely_return: "timely (State_Monad.return x)"
  by (simp add: timely_def)

lemma timely_bind: "timely m \<Longrightarrow> (\<And>x. timely (f x)) \<Longrightarrow> timely (m \<bind> f)"
  unfolding timely_def by (auto split: prod.split) (metis order_trans snd_conv)

lemma timely_check: "timely m \<Longrightarrow> (\<And>x. timely (f x)) \<Longrightarrow> timely (check m wrap f)"
  unfolding check_def by (intro timely_bind) (auto intro: timely_return split: sum.split)

lemma timely_call:
  assumes "\<And>w. clock w \<le> clock (snd (f w))"
  shows "timely (call f)"
  unfolding timely_def
proof
  fix w
  obtain o1 w1 where ev: "next_event w = (o1, w1)" by fastforce
  then have "clock w \<le> clock w1" by (rule next_event_clock)
  with assms [of w1] ev show "clock w \<le> clock (snd (run_state (call f) w))"
    by (cases o1) (simp_all add: call_def)
qed

lemma timely_run_checks: "\<forall>c \<in> set cs. timely c \<Longrightarrow> timely (run_checks cs)"
  by (induction cs) (auto intro: timely_return timely_check)

lemma timely_pings [simp]: "timely reachable" "timely Redis_Ping" "timely Postgres_Ping" "timely (Kafka_Ping addrs)"
proof -
  show r: "timely reachable" unfolding reachable_def by (rule timely_call) simp
  then show "timely Redis_Ping" "timely Postgres_Ping" by (simp_all add: Redis_Ping_def Postgres_Ping_def)
  show "timely (Kafka_Ping addrs)" by (induction addrs) (auto intro: timely_return timely_check r)
qed

lemma pause_clock:
  "run_state (pause ms) w = (Inr u, w') \<Longrightarrow> clock w + int ms \<le> clock w'"
  unfolding pause_def by (auto elim!: run_call_cases dest!: next_event_clock)

text \<open>What a wait from \<open>v\<close> can end with.\<close>

definition waited :: "Checker list \<Rightarrow> int \<Rightarrow> goerr \<Rightarrow> world \<Rightarrow> goerr + unit \<Rightarrow> world \<Rightarrow> bool" where
  "waited cs deadline late v r w' \<longleftrightarrow> (case r of
       Inr _ \<Rightarrow> \<exists>w1. clock v \<le> clock w1 \<and> clock w1 \<le> deadline \<and> run_state (run_checks cs) w1 = (Inr (), w')
     | Inl err \<Rightarrow> (\<exists>w1. run_state (pause 2000) w1 = (Inl err, w')) \<or> clock w' > deadline \<and> err = late)"

lemma waited_earlier: "waited cs deadline late v r w' \<Longrightarrow> clock u \<le> clock v \<Longrightarrow> waited cs deadline late u r w'"
  by (cases r; clarsimp simp: waited_def) (meson order_trans)

lemma poll_ends:
  assumes "\<forall>c \<in> set cs. timely c"
  shows "\<exists>r w'. poll cs deadline timeout v = Some (r, w') \<and> waited cs deadline
    (Msg (''readiness checks did not pass within '' @ duration_text timeout)) v r w'"
proof (induction "nat (deadline - clock v + 1)" arbitrary: v rule: less_induct)
  case less
  show ?case
  proof (cases "clock v > deadline")
    case True
    then show ?thesis by (subst poll.simps) (simp add: waited_def)
  next
    case False
    obtain r1 v1 where c: "run_state (run_checks cs) v = (r1, v1)" by fastforce
    have t1: "clock v \<le> clock v1" using timelyD [OF timely_run_checks [OF assms] c] .
    obtain r2 v2 where p: "run_state (pause 2000) v1 = (r2, v2)" by fastforce
    consider "r1 = Inr ()" | e1 e2 where "r1 = Inl e1" "r2 = Inl e2" | e1 where "r1 = Inl e1" "r2 = Inr ()"
      by (cases r1; cases r2) auto
    then show ?thesis
    proof cases
      case 1
      with False c show ?thesis by (subst poll.simps) (auto simp: waited_def)
    next
      case 2
      with False c p show ?thesis by (subst poll.simps) (auto simp: waited_def)
    next
      case 3
      with p have t2: "clock v1 + 2000 \<le> clock v2" using pause_clock by fastforce
      then have "nat (deadline - clock v2 + 1) < nat (deadline - clock v + 1)" using t1 False by simp
      from less [OF this] waited_earlier [of _ _ _ v2 _ _ v] t1 t2 show ?thesis
        using False c p 3 by (subst poll.simps) fastforce
    qed
  qed
qed


definition demo_checker :: HealthChecker where
  "demo_checker = AddCheck (Kafka_Ping [''b'']) (AddCheck Redis_Ping (AddCheck Postgres_Ping
     \<lparr>hc_service = ''gate'', hc_checks = [], hc_startTime = 0\<rparr>))"


end
