(* ===== verification/Http_Gate.thy ===== *)
theory Http_Gate
  imports Gate_Behaviour Health
begin

text \<open>
  \<^verbatim>\<open>cmd/gate/main.go\<close>: the HTTP endpoints of the gate, from the method and the body of
  the request to the status and the body of the reply, and how the service is put together.
\<close>

section \<open>JSON of requests and replies\<close>

definition field_BindRequest :: "string \<Rightarrow> json \<Rightarrow> BindRequest \<times> bool \<Rightarrow> BindRequest \<times> bool" where
  [codec_defs]: "field_BindRequest k v =
     (if key_is ''ticket_id'' k then set_string (\<lambda>s r. r\<lparr>br_TicketID := s\<rparr>) v
      else if key_is ''qr_uuid'' k then set_string (\<lambda>s r. r\<lparr>br_QRUUID := s\<rparr>) v
      else if key_is ''qr_timestamp'' k then set_int64 (\<lambda>i r. r\<lparr>br_QRTimestamp := i\<rparr>) v
      else if key_is ''qr_signature'' k then set_string (\<lambda>s r. r\<lparr>br_QRSignature := s\<rparr>) v
      else if key_is ''wristband_uid'' k then set_string (\<lambda>s r. r\<lparr>br_WristbandUID := s\<rparr>) v
      else (\<lambda>acc. acc))"

definition unmarshal_BindRequest :: "payload \<Rightarrow> goerr + BindRequest" where
  "unmarshal_BindRequest = unmarshal field_BindRequest \<lparr>br_TicketID = [], br_QRUUID = [],
     br_QRTimestamp = 0, br_QRSignature = [], br_WristbandUID = []\<rparr>"

definition field_NFCCheckRequest :: "string \<Rightarrow> json \<Rightarrow> NFCCheckRequest \<times> bool \<Rightarrow> NFCCheckRequest \<times> bool" where
  [codec_defs]: "field_NFCCheckRequest k v =
     (if key_is ''wristband_uid'' k then set_string (\<lambda>s r. r\<lparr>nr_WristbandUID := s\<rparr>) v else (\<lambda>acc. acc))"

definition unmarshal_NFCCheckRequest :: "payload \<Rightarrow> goerr + NFCCheckRequest" where
  "unmarshal_NFCCheckRequest = unmarshal field_NFCCheckRequest \<lparr>nr_WristbandUID = []\<rparr>"

definition field_ResetRequest :: "string \<Rightarrow> json \<Rightarrow> ResetRequest \<times> bool \<Rightarrow> ResetRequest \<times> bool" where
  [codec_defs]: "field_ResetRequest k v =
     (if key_is ''wristband_uid'' k then set_string (\<lambda>s r. r\<lparr>zr_WristbandUID := s\<rparr>) v else (\<lambda>acc. acc))"

definition unmarshal_ResetRequest :: "payload \<Rightarrow> goerr + ResetRequest" where
  "unmarshal_ResetRequest = unmarshal field_ResetRequest \<lparr>zr_WristbandUID = []\<rparr>"

definition field_RideScanRequest :: "string \<Rightarrow> json \<Rightarrow> RideScanRequest \<times> bool \<Rightarrow> RideScanRequest \<times> bool" where
  [codec_defs]: "field_RideScanRequest k v =
     (if key_is ''wristband_uid'' k then set_string (\<lambda>s r. r\<lparr>rq_WristbandUID := s\<rparr>) v
      else if key_is ''ride_id'' k then set_string (\<lambda>s r. r\<lparr>rq_RideID := s\<rparr>) v
      else (\<lambda>acc. acc))"

definition unmarshal_RideScanRequest :: "payload \<Rightarrow> goerr + RideScanRequest" where
  "unmarshal_RideScanRequest = unmarshal field_RideScanRequest \<lparr>rq_WristbandUID = [], rq_RideID = []\<rparr>"

definition marshal_QRToken :: "QRToken \<Rightarrow> json" where
  "marshal_QRToken t = JObj
     [(''ticket_id'', JStr (q_TicketID t)), (''uuid'', JStr (q_UUID t)),
      (''timestamp'', JNum (q_Timestamp t)), (''signature'', JStr (q_Signature t))]"

definition marshal_WristbandResponse :: "WristbandResponse \<Rightarrow> json" where
  "marshal_WristbandResponse r = JObj
     ([(''wristband_uid'', JStr (wr_WristbandUID r)), (''ticket_id'', JStr (wr_TicketID r)),
       (''status'', JStr (wr_Status r))] @
      omit_empty ''user_email'' (wr_UserEmail r) @
      (case wr_Allowed r of None \<Rightarrow> [] | Some b \<Rightarrow> [(''allowed'', JBool b)]) @
      omit_empty ''reason'' (wr_Reason r) @ omit_empty ''source'' (wr_Source r))"

definition marshal_RideScanResponse :: "RideScanResponse \<Rightarrow> json" where
  "marshal_RideScanResponse r = JObj
     [(''trace_id'', JStr (rr_TraceID r)), (''ride_id'', JStr (rr_RideID r)), (''status'', JStr (rr_Status r))]"

section \<open>The handlers\<close>

definition writeJSON :: "int \<Rightarrow> json \<Rightarrow> http_reply" where
  "writeJSON code v = json_reply code v"

definition writeErr :: "int \<Rightarrow> string \<Rightarrow> http_reply" where
  "writeErr code msg = writeJSON code (JObj [(''error'', JStr msg)])"

definition handle_qr_token :: "GateConfig \<Rightarrow> handler" where
  "handle_qr_token cfg = only ''GET'' (writeErr 405 ''method not allowed'') (\<lambda>r.
     if hq_Query r ''ticket_id'' = []
     then State_Monad.return (writeErr 400 ''ticket_id query param required'')
     else do {
       token \<leftarrow> GenerateQROTP cfg (hq_Query r ''ticket_id'');
       State_Monad.return (writeJSON 200 (marshal_QRToken token))
     })"

definition bind_reply :: "goerr + WristbandResponse \<Rightarrow> http_reply" where
  "bind_reply res = (case res of
       Inl err \<Rightarrow>
         if errors_Is err ErrQRInvalid then writeErr 400 ''invalid or expired QR''
         else if errors_Is err ErrQRReplay then writeErr 409 ''QR already used (replay rejected)''
         else if errors_Is err ErrTicketInvalid then writeErr 404 ''ticket not found or not bindable''
         else if errors_Is err ErrAlreadyBound then writeErr 409 ''wristband or ticket already bound''
         else writeErr 500 ''internal error''
     | Inr resp \<Rightarrow> writeJSON 200 (marshal_WristbandResponse resp))"

definition handle_bind :: "GateConfig \<Rightarrow> RedisConfig \<Rightarrow> handler" where
  "handle_bind cfg rcfg = only ''POST'' (writeErr 405 ''method not allowed'')
     (decoding unmarshal_BindRequest (writeErr 400 ''invalid json'') (\<lambda>req. do {
        res \<leftarrow> Bind cfg rcfg req;
        State_Monad.return (bind_reply res)
      }))"

text \<open>The second scan and the reset reply alike.\<close>

definition wristband_reply :: "goerr + WristbandResponse \<Rightarrow> http_reply" where
  "wristband_reply res = (case res of
       Inl err \<Rightarrow>
         if errors_Is err ErrNoBinding then writeErr 404 ''wristband not bound''
         else writeErr 500 ''internal error''
     | Inr resp \<Rightarrow> writeJSON 200 (marshal_WristbandResponse resp))"

definition handle_nfc_check :: "RedisConfig \<Rightarrow> (string \<Rightarrow> (world, unit) go) \<Rightarrow> handler" where
  "handle_nfc_check rcfg CheckTxnCapability = only ''POST'' (writeErr 405 ''method not allowed'')
     (decoding unmarshal_NFCCheckRequest (writeErr 400 ''invalid json'') (\<lambda>req. do {
        res \<leftarrow> NFCCheck rcfg CheckTxnCapability req;
        State_Monad.return (wristband_reply res)
      }))"

definition handle_reset :: handler where
  "handle_reset = only ''POST'' (writeErr 405 ''method not allowed'')
     (decoding unmarshal_ResetRequest (writeErr 400 ''invalid json'') (\<lambda>req. do {
        res \<leftarrow> Reset req;
        State_Monad.return (wristband_reply res)
      }))"

definition scan_reply :: "goerr + RideScanResponse \<Rightarrow> http_reply" where
  "scan_reply res = (case res of
       Inl err \<Rightarrow>
         if errors_Is err ErrNoBinding then writeErr 404 ''wristband not bound''
         else if errors_Is err ErrNotBound then writeErr 403 ''wristband not BOUND (active)''
         else writeErr 500 ''internal error''
     | Inr resp \<Rightarrow> writeJSON 200 (marshal_RideScanResponse resp))"

definition handle_ride_scan :: "(ScanEvent \<Rightarrow> (world, unit) go) \<Rightarrow> handler" where
  "handle_ride_scan publish = only ''POST'' (writeErr 405 ''method not allowed'')
     (decoding unmarshal_RideScanRequest (writeErr 400 ''invalid json'') (\<lambda>req. do {
        res \<leftarrow> Scan True publish req;
        State_Monad.return (scan_reply res)
      }))"

section \<open>The service\<close>

definition gate_checker :: "string list \<Rightarrow> (world, HealthChecker) state" where
  "gate_checker brokers = do {
     h \<leftarrow> NewHealthChecker ''gate'';
     State_Monad.return (AddCheck (Kafka_Ping brokers) (AddCheck Redis_Ping (AddCheck Postgres_Ping h)))
   }"

definition gate_routes :: "GateConfig \<Rightarrow> RedisConfig \<Rightarrow> producer \<Rightarrow> HealthChecker \<Rightarrow> (string \<times> handler) list" where
  "gate_routes cfg rcfg producer checker =
     [(''/healthz'', HealthzHandler checker),
      (''/readyz'', ReadyzHandler checker),
      (''/api/wristband/scan-visitor-qr-token'', handle_qr_token cfg),
      (''/api/wristband/bind'', handle_bind cfg rcfg),
      (''/api/wristband/nfc-check'', handle_nfc_check rcfg (MockTxnCheck (gc_TxnCheckFailWhen cfg))),
      (''/api/wristband/reset'', handle_reset),
      (''/api/rides/scan'', handle_ride_scan (PublishScanEvent producer))]"

section \<open>What the endpoints reply\<close>

definition error_body :: "payload \<Rightarrow> bool" where
  "error_body b \<longleftrightarrow> (case b of Json (JObj [(k, JStr msg)]) \<Rightarrow> k = ''error'' | _ \<Rightarrow> False)"

definition gate_reply :: "http_reply \<Rightarrow> bool" where
  "gate_reply r \<longleftrightarrow> hp_Status r \<in> {200, 400, 403, 404, 405, 409, 500, 503} \<and>
     error_body (hp_Body r) = (hp_Status r \<notin> {200, 503})"

lemma gate_reply_writeErr [replies_intros]:
  "code \<in> {400, 403, 404, 405, 409, 500} \<Longrightarrow> gate_reply (writeErr code msg)"
  by (auto simp: gate_reply_def writeErr_def writeJSON_def error_body_def)

lemma gate_reply_results [replies_intros]:
  "gate_reply (bind_reply res)" "gate_reply (wristband_reply res')" "gate_reply (scan_reply res'')"
  by (auto simp: bind_reply_def wristband_reply_def scan_reply_def intro: gate_reply_writeErr split: sum.split)
    (auto simp: gate_reply_def writeJSON_def error_body_def marshal_WristbandResponse_def
      marshal_RideScanResponse_def)

lemma gate_reply_token [replies_intros]: "gate_reply (writeJSON 200 (marshal_QRToken t))"
  by (simp add: gate_reply_def writeJSON_def error_body_def marshal_QRToken_def)

lemma gate_reply_status [replies_intros]:
  "code = 200 \<or> code = 503 \<Longrightarrow> replies gate_reply (writeStatus code status service)"
  unfolding writeStatus_def
  by (intro replies_intros) (auto simp: gate_reply_def error_body_def marshal_Status_def)



end
