(* ===== verification/Voucher_Service.thy ===== *)
theory Voucher_Service
  imports Postgres_Repository
begin

text \<open>
  \<^verbatim>\<open>internal/voucher/voucher.go\<close> and \<^verbatim>\<open>link.go\<close>: delegation of vouchers to
  participants, resolution of the wallet a mint goes to, the pending-mint ledger, and the signed
  links. The persistence surface is a record of functions, as in the source; the JWT library is a
  record of its functions, with what the links rely on stated as a hypothesis.
\<close>

section \<open>Errors and the persistence surface\<close>

definition ErrVoucherAllocated :: goerr where
  [sentinel_defs]: "ErrVoucherAllocated =
     Sentinel ''voucher.ErrVoucherAllocated'' ''voucher already allocated''"

definition ErrInvalidDelegation :: goerr where
  [sentinel_defs]: "ErrInvalidDelegation =
     Sentinel ''voucher.ErrInvalidDelegation'' ''invalid delegation''"

definition ErrParticipantNotFound :: goerr where
  [sentinel_defs]: "ErrParticipantNotFound =
     Sentinel ''voucher.ErrParticipantNotFound'' ''participant not found''"

record Repo =
  r_GetParticipant :: "int \<Rightarrow> (world, Participant option) go"
  r_GetParticipantByEmail :: "string \<Rightarrow> (world, Participant option) go"
  r_CreateParticipant :: "string \<Rightarrow> string option \<Rightarrow> int option \<Rightarrow> (world, Participant) go"
  r_SetParticipantWallet :: "int \<Rightarrow> ParticipantWalletState \<Rightarrow> string \<Rightarrow> (world, unit) go"
  r_DelegateVoucher :: "string \<Rightarrow> int \<Rightarrow> (world, unit) go"
  r_UpsertPendingMint :: "PendingMint \<Rightarrow> (world, unit) go"
  r_GetPendingMint :: "int \<Rightarrow> string \<Rightarrow> (world, PendingMint option) go"

definition postgres_repo :: Repo where
  "postgres_repo = \<lparr>r_GetParticipant = GetParticipant, r_GetParticipantByEmail = GetParticipantByEmail,
     r_CreateParticipant = CreateParticipant, r_SetParticipantWallet = SetParticipantWallet,
     r_DelegateVoucher = DelegateVoucher, r_UpsertPendingMint = UpsertPendingMint,
     r_GetPendingMint = GetPendingMint\<rparr>"

section \<open>Wallet resolution\<close>

definition custodialWalletFor :: "int \<Rightarrow> string" where
  "custodialWalletFor participantID = ''0xguardian-custodial-'' @ show_int participantID"

definition attached :: "Participant \<Rightarrow> string option" where
  "attached p = (case p_CustodialWalletAddress p of None \<Rightarrow> None
     | Some a \<Rightarrow> if a = [] then None else Some a)"

definition ResolveMintWallet :: "Participant \<Rightarrow> MintResolution" where
  "ResolveMintWallet p = (case p_WalletState p of
       ParticipantWalletOwn \<Rightarrow>
         (case attached p of
            Some a \<Rightarrow> \<lparr>mr_WalletState = ParticipantWalletOwn, mr_WalletAddress = a, mr_Pending = False\<rparr>
          | None \<Rightarrow> \<lparr>mr_WalletState = ParticipantWalletOwn, mr_WalletAddress = [], mr_Pending = True\<rparr>)
     | ParticipantWalletCustodial \<Rightarrow>
         (case attached p of
            Some a \<Rightarrow> \<lparr>mr_WalletState = ParticipantWalletCustodial, mr_WalletAddress = a, mr_Pending = False\<rparr>
          | None \<Rightarrow> \<lparr>mr_WalletState = ParticipantWalletCustodial, mr_WalletAddress = [], mr_Pending = False\<rparr>)
     | ParticipantWalletNone \<Rightarrow>
         \<lparr>mr_WalletState = ParticipantWalletNone, mr_WalletAddress = [], mr_Pending = True\<rparr>)"

section \<open>Delegation\<close>

text \<open>The \<^verbatim>\<open>switch\<close> on the mode: the participant the voucher goes to.\<close>

definition delegate_account :: "Repo \<Rightarrow> DelegateRequest \<Rightarrow> (world, Participant) go" where
  "delegate_account repo req =
     (if dr_AccountEmail req = []
      then fails (Wrap [] ErrInvalidDelegation '': account_email required for account mode'')
      else check (r_GetParticipantByEmail repo (dr_AccountEmail req)) id (\<lambda>found.
        case found of
          Some p \<Rightarrow> returns p
        | None \<Rightarrow> r_CreateParticipant repo (dr_AccountEmail req) (Some (dr_AccountEmail req)) None))"

definition delegate_dependent :: "Repo \<Rightarrow> DelegateRequest \<Rightarrow> (world, Participant) go" where
  "delegate_dependent repo req =
     (if dr_GuardianID req = 0
      then fails (Wrap [] ErrInvalidDelegation '': guardian_id required for dependent mode'')
      else check (r_GetParticipant repo (dr_GuardianID req)) id (\<lambda>guardian.
        case guardian of
          None \<Rightarrow> fails (Wrap [] ErrParticipantNotFound ('': guardian '' @ show_int (dr_GuardianID req)))
        | Some _ \<Rightarrow>
            check (r_CreateParticipant repo (dr_Name req) None (Some (dr_GuardianID req))) id (\<lambda>p.
            check (r_SetParticipantWallet repo (p_ID p) ParticipantWalletCustodial
                (custodialWalletFor (p_ID p))) id (\<lambda>_.
            returns (p\<lparr>p_CustodialWalletAddress := Some (custodialWalletFor (p_ID p)),
                       p_WalletState := ParticipantWalletCustodial\<rparr>)))))"

definition delegate_to :: "Repo \<Rightarrow> DelegateRequest \<Rightarrow> (world, Participant) go" where
  "delegate_to repo req =
     (if dr_Mode req = DelegationAccount then delegate_account repo req
      else if dr_Mode req = DelegationDependent then delegate_dependent repo req
      else fails (Wrap [] ErrInvalidDelegation ('': unknown mode '' @ go_quote (dr_Mode req))))"

definition delegate_response :: "DelegateRequest \<Rightarrow> Participant \<Rightarrow> DelegateResponse" where
  "delegate_response req p =
     (let res = ResolveMintWallet p
      in \<lparr>ds_ParticipantID = p_ID p, ds_VoucherID = dr_VoucherID req, ds_Mode = dr_Mode req,
          ds_WalletState = mr_WalletState res, ds_WalletAddress = mr_WalletAddress res,
          ds_Pending = mr_Pending res\<rparr>)"

definition Delegate :: "Repo \<Rightarrow> DelegateRequest \<Rightarrow> (world, DelegateResponse) go" where
  "Delegate repo req =
     check (delegate_to repo req) id (\<lambda>p.
     on_err (r_DelegateVoucher repo (dr_VoucherID req) (p_ID p))
       (\<lambda>err. if errors_Is err ErrAlreadyAllocated then fails ErrVoucherAllocated else fails err)
       (\<lambda>_. returns (delegate_response req p)))"

section \<open>The ledger and custody\<close>

definition RecordPendingMint :: "Repo \<Rightarrow> RecordPendingMintRequest \<Rightarrow> (world, unit) go" where
  "RecordPendingMint repo req =
     check (r_GetParticipant repo (rp_ParticipantID req)) id (\<lambda>p. case p of
         None \<Rightarrow> fails (Wrap [] ErrParticipantNotFound ('': '' @ show_int (rp_ParticipantID req)))
       | Some p \<Rightarrow>
           (let res = ResolveMintWallet p
            in r_UpsertPendingMint repo
                 \<lparr>pm_ID = 0, pm_ParticipantID = rp_ParticipantID req, pm_RideIDs = rp_RideIDs req,
                  pm_ScannedAts = rp_ScannedAts req, pm_MintDate = rp_MintDate req,
                  pm_WalletState = mr_WalletState res\<rparr>))"

definition Service_GetPendingMint :: "Repo \<Rightarrow> int \<Rightarrow> string \<Rightarrow> (world, PendingMint option) go" where
  "Service_GetPendingMint repo participantID mintDate = r_GetPendingMint repo participantID mintDate"

definition ClaimCustody :: "Repo \<Rightarrow> int \<Rightarrow> string \<Rightarrow> (world, Participant option) go" where
  "ClaimCustody repo participantID ownWallet =
     check (r_GetParticipant repo participantID) id (\<lambda>p. case p of
         None \<Rightarrow> fails (Wrap [] ErrParticipantNotFound ('': '' @ show_int participantID))
       | Some p \<Rightarrow>
           if p_WalletState p \<noteq> ParticipantWalletCustodial
           then fails (Msg (''participant '' @ show_int participantID @ '' is not a dependent (state='' @
                  WalletState_text (p_WalletState p) @ '')''))
           else check (r_SetParticipantWallet repo participantID ParticipantWalletOwn ownWallet) id
                  (\<lambda>_. r_GetParticipant repo participantID))"

end
