(* ===== verification/Repository_Invariants.thy ===== *)
theory Repository_Invariants
  imports Postgres_Repository
begin

text \<open>
  What holds of the tables whatever sequence of repository methods runs, under every schedule:
  the constraints of the schema, and that a voucher is claimed once and delegated once. Both are
  instances of one interface, a property of the tables every statement keeps.
\<close>

section \<open>Sequences of methods\<close>

datatype repo_op =
    OpCreateUser string
  | OpUpdateSui int string string string
  | OpCreateTicket string "int option" "int option"
  | OpCreateVouchers int int
  | OpClaimVoucher string int
  | OpRecordMint int "int option" string string string int
  | OpRecordMintFor int string string string
  | OpCreateParticipant string "string option" "int option"
  | OpSetWallet int ParticipantWalletState string
  | OpDelegateVoucher string int
  | OpUpsertPending PendingMint
  | OpInsertOutbox string string string int
  | OpBumpOutbox string
  | OpDeleteOutbox string

definition ignoring :: "(world, 'a) state \<Rightarrow> (world, unit) state" where
  "ignoring m = m \<bind> (\<lambda>_. State_Monad.return ())"

fun run_op :: "repo_op \<Rightarrow> (world, unit) state" where
  "run_op (OpCreateUser email) = ignoring (CreateUser email)"
| "run_op (OpUpdateSui i a k p) = ignoring (UpdateSuiAccount i a k p)"
| "run_op (OpCreateTicket t u p) = ignoring (CreateTicket t u p)"
| "run_op (OpCreateVouchers p q) = ignoring (CreateVouchers p q)"
| "run_op (OpClaimVoucher v i) = ignoring (ClaimVoucher v i)"
| "run_op (OpRecordMint u p r d t g) = ignoring (RecordMint u p r d t g)"
| "run_op (OpRecordMintFor p r d t) = ignoring (RecordMintForParticipant p r d t)"
| "run_op (OpCreateParticipant n e g) = ignoring (CreateParticipant n e g)"
| "run_op (OpSetWallet i s a) = ignoring (SetParticipantWallet i s a)"
| "run_op (OpDelegateVoucher v p) = ignoring (DelegateVoucher v p)"
| "run_op (OpUpsertPending pm) = ignoring (UpsertPendingMint pm)"
| "run_op (OpInsertOutbox t e r s) = ignoring (InsertOutbox t e r s)"
| "run_op (OpBumpOutbox t) = ignoring (BumpOutboxAttempts t)"
| "run_op (OpDeleteOutbox t) = ignoring (DeleteOutbox t)"

fun run_ops :: "repo_op list \<Rightarrow> (world, unit) state" where
  "run_ops [] = State_Monad.return ()"
| "run_ops (op1 # ops) = run_op op1 \<bind> (\<lambda>_. run_ops ops)"

lemma keeps_ignoring [keeps_intros]: "keeps I m \<Longrightarrow> keeps I (ignoring m)"
  unfolding ignoring_def by (intro keeps_intros)

section \<open>A property every statement keeps\<close>

locale table_invariant =
  fixes J :: "database \<Rightarrow> bool"
  assumes users_kept: "J d \<Longrightarrow> q_create_user email d = (ru, d') \<Longrightarrow> J d'"
    and sui_kept: "J d \<Longrightarrow> q_update_sui i a k p d = (r, d') \<Longrightarrow> J d'"
    and tickets_kept: "J d \<Longrightarrow> q_create_ticket t u p' d = (r, d') \<Longrightarrow> J d'"
    and vouchers_kept: "J d \<Longrightarrow> q_insert_voucher vid i d = (r, d') \<Longrightarrow> J d'"
    and claim_kept: "J d \<Longrightarrow> q_claim_voucher vid i d = (rn, d') \<Longrightarrow> J d'"
    and delegate_kept: "J d \<Longrightarrow> q_delegate_voucher vid i d = (rn, d') \<Longrightarrow> J d'"
    and participant_kept: "J d \<Longrightarrow> q_create_participant name em pg d = (rp, d') \<Longrightarrow> J d'"
    and wallet_kept: "J d \<Longrightarrow> q_set_wallet i st a d = (r, d') \<Longrightarrow> J d'"
    and mint_kept: "J d \<Longrightarrow> q_record_mint i pg ride date tx gas e d = (r, d') \<Longrightarrow> J d'"
    and pending_kept: "J d \<Longrightarrow> q_upsert_pending pm e d = (r, d') \<Longrightarrow> J d'"
    and insert_outbox_kept: "J d \<Longrightarrow> q_insert_outbox t ue ride at1 now d = (r, d') \<Longrightarrow> J d'"
    and bump_kept: "J d \<Longrightarrow> J (q_bump_outbox t d)"
    and delete_kept: "J d \<Longrightarrow> J (q_delete_outbox t d)"


context table_invariant
begin

lemma keeps_stmt:
  assumes "\<And>e now d r d'. J d \<Longrightarrow> stmt e now d = (r, d') \<Longrightarrow> J d'"
  shows "keeps (\<lambda>w. J (db w)) (sql stmt)"
  by (rule keeps_sql [OF stable_db]) (use assms in simp)

lemma keeps_query:
  assumes "\<And>e now d. snd (stmt e now d) = d"
  shows "keeps (\<lambda>w. J (db w)) (sql stmt)"
  by (rule keeps_stmt) (metis assms snd_conv)

lemma keeps_create_vouchers: "keeps (\<lambda>w. J (db w)) (create_vouchers n p i ids)"
proof (induction n arbitrary: i ids)
  case (Suc n)
  show ?case
    by (simp, intro keeps_intros keeps_stmt Suc) (simp add: vouchers_kept)
qed (simp add: keeps_intros)

lemma keeps_writes:
  "keeps (\<lambda>w. J (db w)) (CreateUser email)"
  "keeps (\<lambda>w. J (db w)) (UpdateSuiAccount i a k p)"
  "keeps (\<lambda>w. J (db w)) (CreateTicket t u pu)"
  "keeps (\<lambda>w. J (db w)) (ClaimVoucher v i)"
  "keeps (\<lambda>w. J (db w)) (DelegateVoucher v i)"
  "keeps (\<lambda>w. J (db w)) (CreateParticipant name em g)"
  "keeps (\<lambda>w. J (db w)) (SetParticipantWallet i st a)"
  "keeps (\<lambda>w. J (db w)) (RecordMint i g ride date tx gas)"
  "keeps (\<lambda>w. J (db w)) (UpsertPendingMint pm)"
  "keeps (\<lambda>w. J (db w)) (InsertOutbox t ue ride at1)"
  "keeps (\<lambda>w. J (db w)) (BumpOutboxAttempts t)"
  "keeps (\<lambda>w. J (db w)) (DeleteOutbox t)"
  unfolding CreateUser_def UpdateSuiAccount_def CreateTicket_def ClaimVoucher_def
    DelegateVoucher_def CreateParticipant_def SetParticipantWallet_def RecordMint_def
    UpsertPendingMint_def InsertOutbox_def BumpOutboxAttempts_def DeleteOutbox_def
  by ((intro keeps_intros keeps_stmt)?, erule users_kept sui_kept tickets_kept claim_kept
      delegate_kept participant_kept wallet_kept mint_kept pending_kept insert_outbox_kept, assumption |
    (intro keeps_intros keeps_stmt)?, auto split: if_splits intro: bump_kept delete_kept)+

lemma keeps_CreateVouchers: "keeps (\<lambda>w. J (db w)) (CreateVouchers p q)"
  unfolding CreateVouchers_def by (intro keeps_intros keeps_create_vouchers)

lemma keeps_RecordMintForParticipant: "keeps (\<lambda>w. J (db w)) (RecordMintForParticipant p r d t)"
  unfolding RecordMintForParticipant_def OwnerUserIDForParticipant_def
  by (intro keeps_intros keeps_query keeps_writes) (simp add: q_owner_def)

lemma keeps_run_op: "keeps (\<lambda>w. J (db w)) (run_op op1)"
  by (cases op1) (simp_all add: keeps_ignoring keeps_writes keeps_CreateVouchers keeps_RecordMintForParticipant)

lemma run_ops_keeps: "J (db w) \<Longrightarrow> run_state (run_ops ops) w = (u, w') \<Longrightarrow> J (db w')"
proof -
  have "keeps (\<lambda>w. J (db w)) (run_ops ops)"
    by (induction ops) (auto intro!: keeps_intros keeps_run_op)
  then show "J (db w) \<Longrightarrow> run_state (run_ops ops) w = (u, w') \<Longrightarrow> J (db w')" by (rule keepsD)
qed

end

section \<open>The constraints of the schema\<close>

definition refers :: "int list \<Rightarrow> int option \<Rightarrow> bool" where
  "refers ids i \<longleftrightarrow> (case i of None \<Rightarrow> True | Some k \<Rightarrow> k \<in> set ids)"

lemma fk_refers [simp]:
  "fk_user d i = refers (map u_ID (users d)) i"
  "fk_participant d i = refers (map p_ID (participants d)) i"
  by (auto simp: fk_user_def fk_participant_def refers_def list_ex_iff split: option.split)

lemma refers_simps [simp]:
  "refers ids None" "refers ids (Some k) \<longleftrightarrow> k \<in> set ids"
  "refers ids i \<Longrightarrow> refers (ids @ ids1) i"
  by (auto simp: refers_def split: option.splits)

definition users_ok :: "User list \<Rightarrow> int \<Rightarrow> bool" where
  "users_ok us n \<longleftrightarrow> distinct (map u_ID us) \<and> distinct (map u_Email us) \<and> (\<forall>u \<in> set us. u_ID u \<le> n)"

definition tickets_ok :: "int list \<Rightarrow> Ticket list \<Rightarrow> bool" where
  "tickets_ok uids ts \<longleftrightarrow> distinct (map t_TicketID ts) \<and>
     (\<forall>t \<in> set ts. refers uids (t_UserID t) \<and> refers uids (t_PurchasedBy t))"

definition vouchers_ok :: "int list \<Rightarrow> int list \<Rightarrow> TicketVoucher list \<Rightarrow> bool" where
  "vouchers_ok uids pids vs \<longleftrightarrow> distinct (map v_VoucherID vs) \<and>
     (\<forall>v \<in> set vs. refers uids (Some (v_PurchaserID v)) \<and> refers uids (v_OwnerID v) \<and>
        refers pids (v_ParticipantID v))"

definition participants_ok :: "Participant list \<Rightarrow> int \<Rightarrow> bool" where
  "participants_ok ps n \<longleftrightarrow> distinct (map p_ID ps) \<and>
     distinct (map p_AccountEmail (filter (\<lambda>p. p_AccountEmail p \<noteq> None) ps)) \<and>
     (\<forall>p \<in> set ps. p_ID p \<le> n \<and> refers (map p_ID ps) (p_GuardianID p))"

definition mints_ok :: "int list \<Rightarrow> int list \<Rightarrow> MintLog list \<Rightarrow> bool" where
  "mints_ok uids pids ms \<longleftrightarrow> distinct (map mint_key ms) \<and>
     (\<forall>m \<in> set ms. refers uids (Some (m_UserID m)) \<and> refers pids (m_ParticipantID m))"

definition pending_ok :: "int list \<Rightarrow> pending_row list \<Rightarrow> bool" where
  "pending_ok pids rs \<longleftrightarrow> distinct (map pending_key rs) \<and>
     (\<forall>r \<in> set rs. refers pids (Some (pr_ParticipantID r)))"

definition outbox_ok :: "OutboxRow list \<Rightarrow> bool" where
  "outbox_ok os \<longleftrightarrow> distinct (map o_TraceID os)"

definition schema_ok :: "database \<Rightarrow> bool" where
  "schema_ok d \<longleftrightarrow> users_ok (users d) (users_seq d) \<and> tickets_ok (map u_ID (users d)) (tickets d) \<and>
     vouchers_ok (map u_ID (users d)) (map p_ID (participants d)) (ticket_vouchers d) \<and>
     participants_ok (participants d) (participants_seq d) \<and>
     mints_ok (map u_ID (users d)) (map p_ID (participants d)) (mint_logs d) \<and>
     pending_ok (map p_ID (participants d)) (pending_mints d) \<and> outbox_ok (outbox d)"

lemma map_id_updates [simp]:
  "map u_ID (update_where p (\<lambda>u. u\<lparr>u_SuiAddress := a, u_EphemeralKey := b, u_ZkloginProof := c\<rparr>) us) = map u_ID us"
  "map p_ID (update_where q (\<lambda>p. p\<lparr>p_WalletState := st, p_CustodialWalletAddress := a\<rparr>) ps) = map p_ID ps"
  by (simp_all add: map_update_where)

text \<open>More users or participants keep every reference.\<close>

lemma more_refs:
  "tickets_ok uids ts \<Longrightarrow> tickets_ok (uids @ u) ts"
  "vouchers_ok uids pids vs \<Longrightarrow> vouchers_ok (uids @ u) pids vs"
  "vouchers_ok uids pids vs \<Longrightarrow> vouchers_ok uids (pids @ u) vs"
  "mints_ok uids pids ms \<Longrightarrow> mints_ok (uids @ u) pids ms"
  "mints_ok uids pids ms \<Longrightarrow> mints_ok uids (pids @ u) ms"
  "pending_ok pids rs \<Longrightarrow> pending_ok (pids @ u) rs"
  by (auto simp: tickets_ok_def vouchers_ok_def mints_ok_def pending_ok_def refers_def split: option.splits)

lemma users_more:
  "users_ok us n \<Longrightarrow> users_ok us (n + 1)"
  "users_ok us n \<Longrightarrow> u_ID u = n + 1 \<Longrightarrow> (\<forall>v \<in> set us. u_Email v \<noteq> u_Email u) \<Longrightarrow> users_ok (us @ [u]) (n + 1)"
  unfolding users_ok_def by force+

lemma users_update: "users_ok us n \<Longrightarrow> users_ok (update_where p
    (\<lambda>u. u\<lparr>u_SuiAddress := a, u_EphemeralKey := b, u_ZkloginProof := c\<rparr>) us) n"
  by (auto simp: users_ok_def map_update_where set_update_where)

lemma tickets_add:
  "tickets_ok uids ts \<Longrightarrow> \<not> list_ex (\<lambda>s. t_TicketID s = t_TicketID t) ts \<Longrightarrow> refers uids (t_UserID t) \<Longrightarrow>
     refers uids (t_PurchasedBy t) \<Longrightarrow> tickets_ok uids (ts @ [t])"
  by (auto simp: tickets_ok_def list_ex_iff)

lemma vouchers_add:
  "vouchers_ok uids pids vs \<Longrightarrow> \<not> list_ex (\<lambda>u. v_VoucherID u = v_VoucherID v) vs \<Longrightarrow>
     refers uids (Some (v_PurchaserID v)) \<Longrightarrow> v_OwnerID v = None \<Longrightarrow> v_ParticipantID v = None \<Longrightarrow>
     vouchers_ok uids pids (vs @ [v])"
  by (auto simp: vouchers_ok_def list_ex_iff)

lemma vouchers_update:
  assumes "vouchers_ok uids pids vs"
  shows "rows_affected p vs > 0 \<longrightarrow> refers uids (Some i) \<Longrightarrow>
      vouchers_ok uids pids (update_where p (\<lambda>v. v\<lparr>v_OwnerID := Some i, v_Status := st\<rparr>) vs)"
    and "rows_affected p vs > 0 \<longrightarrow> refers pids (Some i) \<Longrightarrow>
      vouchers_ok uids pids (update_where p (\<lambda>v. v\<lparr>v_ParticipantID := Some i\<rparr>) vs)"
  using assms
  by (auto simp: vouchers_ok_def map_update_where set_update_where rows_affected_def filter_empty_conv)

lemma participants_add:
  assumes "participants_ok ps n" and "p_ID p = n + 1"
    and "p_AccountEmail p \<noteq> None \<longrightarrow> \<not> list_ex (\<lambda>q. p_AccountEmail q = p_AccountEmail p) ps"
    and "refers (map p_ID ps @ [n + 1]) (p_GuardianID p)"
  shows "participants_ok (ps @ [p]) (n + 1)"
  using assms by (force simp: participants_ok_def list_ex_iff)

lemma participants_more: "participants_ok ps n \<Longrightarrow> participants_ok ps (n + 1)"
  unfolding participants_ok_def by force

lemma participants_update: "participants_ok ps n \<Longrightarrow> participants_ok (update_where q
    (\<lambda>p. p\<lparr>p_WalletState := st, p_CustodialWalletAddress := a\<rparr>) ps) n"
proof -
  let ?f = "\<lambda>p. p\<lparr>p_WalletState := st, p_CustodialWalletAddress := a\<rparr>"
  have "map p_AccountEmail (filter (\<lambda>p. p_AccountEmail p \<noteq> None) (update_where q ?f ps)) =
      map p_AccountEmail (filter (\<lambda>p. p_AccountEmail p \<noteq> None) ps)"
    by (induction ps) (auto simp: update_where_def)
  then show "participants_ok ps n \<Longrightarrow> participants_ok (update_where q ?f ps) n"
    by (auto simp: participants_ok_def set_update_where)
qed

lemma mints_add:
  "mints_ok uids pids ms \<Longrightarrow> \<not> list_ex (\<lambda>k. mint_key k = mint_key m) ms \<Longrightarrow> refers uids (Some (m_UserID m)) \<Longrightarrow>
     refers pids (m_ParticipantID m) \<Longrightarrow> mints_ok uids pids (ms @ [m])"
  by (auto simp: mints_ok_def list_ex_iff)

lemma mints_update: "mints_ok uids pids ms \<Longrightarrow> mints_ok uids pids (update_where p
    (\<lambda>m. m\<lparr>m_TxDigest := t, m_Status := st, m_GasUsed := g\<rparr>) ms)"
  by (auto simp: mints_ok_def map_update_where mint_key_def set_update_where)

lemma pending_add:
  "pending_ok pids rs \<Longrightarrow> \<not> list_ex (\<lambda>k. pending_key k = pending_key r) rs \<Longrightarrow>
     refers pids (Some (pr_ParticipantID r)) \<Longrightarrow> pending_ok pids (rs @ [r])"
  by (auto simp: pending_ok_def list_ex_iff)

lemma pending_update: "pending_ok pids rs \<Longrightarrow> pending_ok pids (update_where p
    (\<lambda>r. r\<lparr>pr_RideIDs := a, pr_ScannedAts := b, pr_WalletState := c\<rparr>) rs)"
  by (auto simp: pending_ok_def map_update_where pending_key_def set_update_where)

lemma outbox_ops:
  "outbox_ok os \<Longrightarrow> \<not> list_ex (\<lambda>k. o_TraceID k = o_TraceID r) os \<Longrightarrow> outbox_ok (os @ [r])"
  "outbox_ok os \<Longrightarrow> outbox_ok (update_where p (\<lambda>r. r\<lparr>o_Attempts := o_Attempts r + 1\<rparr>) os)"
  "outbox_ok os \<Longrightarrow> outbox_ok (filter q os)"
  by (auto simp: outbox_ok_def list_ex_iff map_update_where distinct_map_filter)

lemmas table_rules = more_refs users_more(2) users_update tickets_add vouchers_add vouchers_update
  participants_add participants_update mints_add mints_update pending_add pending_update outbox_ops

interpretation schema: table_invariant schema_ok
proof (unfold_locales, goal_cases)
  case (1 d email ru d')
  then show ?case
    by (auto simp: q_create_user_def Let_def find_None_not schema_ok_def intro!: table_rules
        intro: users_more(1)
        split: if_splits option.splits)
next
  case (2 d i a k p r d')
  then show ?case
    by (auto simp: q_update_sui_def schema_ok_def intro!: table_rules split: if_splits)
next
  case (3 d t u p' r d')
  then show ?case
    by (auto simp: q_create_ticket_def schema_ok_def intro!: table_rules split: if_splits)
next
  case (4 d vid i r d')
  then show ?case
    by (auto simp: q_insert_voucher_def schema_ok_def intro!: table_rules split: if_splits)
next
  case (5 d vid i rn d')
  then show ?case
    by (auto simp: q_claim_voucher_def schema_ok_def intro!: table_rules split: if_splits)
next
  case (6 d vid i rn d')
  then show ?case
    by (auto simp: q_delegate_voucher_def schema_ok_def intro!: table_rules split: if_splits)
next
  case (7 d name em pg rp d')
  have "refers ids pg \<or> pg = Some k \<Longrightarrow> refers (ids @ [k]) pg" for ids k
    by (auto simp: refers_def split: option.splits)
  with 7 show ?case
    by (auto simp: q_create_participant_def Let_def schema_ok_def intro!: table_rules
        intro: participants_more split: if_splits)
next
  case (8 d i st a r d')
  then show ?case
    by (auto simp: q_set_wallet_def schema_ok_def intro!: table_rules split: if_splits)
next
  case (9 d i pg ride date tx gas e r d')
  then show ?case
    by (auto simp: q_record_mint_def schema_ok_def mint_key_def intro!: table_rules
        split: if_splits option.splits)
next
  case (10 d pm e r d')
  then show ?case
    by (auto simp: q_upsert_pending_def schema_ok_def pending_key_def intro!: table_rules
        split: if_splits option.splits)
next
  case (11 d t ue ride at1 now r d')
  then show ?case
    by (auto simp: q_insert_outbox_def schema_ok_def intro!: table_rules split: if_splits)
next
  case (12 d t)
  then show ?case by (simp add: q_bump_outbox_def schema_ok_def table_rules)
next
  case (13 d t)
  then show ?case by (simp add: q_delete_outbox_def schema_ok_def table_rules)
qed


section \<open>Vouchers and mints over time\<close>

text \<open>What may happen to a voucher and to a mint row: nothing but a first claim, a first
  delegation, and a new digest.\<close>

definition voucher_later :: "TicketVoucher \<Rightarrow> TicketVoucher \<Rightarrow> bool" where
  "voucher_later v v' \<longleftrightarrow> v_VoucherID v' = v_VoucherID v \<and> v_PurchaserID v' = v_PurchaserID v \<and>
     (v_Status v \<noteq> StatusUnclaimed \<longrightarrow> v_Status v' = v_Status v \<and> v_OwnerID v' = v_OwnerID v) \<and>
     (v_ParticipantID v \<noteq> None \<longrightarrow> v_ParticipantID v' = v_ParticipantID v)"

definition mint_later :: "MintLog \<Rightarrow> MintLog \<Rightarrow> bool" where
  "mint_later m m' \<longleftrightarrow> mint_key m' = mint_key m \<and> m_ParticipantID m' = m_ParticipantID m"

definition later_rows :: "('r \<Rightarrow> 'r \<Rightarrow> bool) \<Rightarrow> 'r list \<Rightarrow> 'r list \<Rightarrow> bool" where
  "later_rows le old new \<longleftrightarrow> (\<forall>v \<in> set old. \<exists>v' \<in> set new. le v v')"

definition history_ok :: "database \<Rightarrow> database \<Rightarrow> bool" where
  "history_ok d0 d \<longleftrightarrow> later_rows voucher_later (ticket_vouchers d0) (ticket_vouchers d) \<and>
     later_rows mint_later (mint_logs d0) (mint_logs d)"

lemma later_refl: "voucher_later v v" "mint_later m m"
  by (simp_all add: voucher_later_def mint_later_def)

lemma later_rows_refl: "(\<And>v. le v v) \<Longrightarrow> later_rows le vs vs"
  by (auto simp: later_rows_def)

lemma later_rows_append: "later_rows le old vs \<Longrightarrow> later_rows le old (vs @ more_rows)"
  by (auto simp: later_rows_def)

lemma later_rows_update:
  assumes "later_rows le old vs" and "\<And>v. p v \<Longrightarrow> le v (f v)"
    and "\<And>a b c. le a b \<Longrightarrow> le b c \<Longrightarrow> le a c"
  shows "later_rows le old (update_where p f vs)"
  unfolding later_rows_def
proof
  fix v assume "v \<in> set old"
  with assms(1) obtain v' where v': "v' \<in> set vs" "le v v'" by (auto simp: later_rows_def)
  show "\<exists>v'' \<in> set (update_where p f vs). le v v''"
  proof (cases "p v'")
    case True
    with v' assms(2,3) show ?thesis by (intro bexI [of _ "f v'"]) (auto simp: set_update_where)
  next
    case False
    with v' show ?thesis by (intro bexI [of _ v']) (auto simp: set_update_where)
  qed
qed

lemma later_trans:
  "voucher_later a b \<Longrightarrow> voucher_later b c \<Longrightarrow> voucher_later a c"
  "mint_later k m \<Longrightarrow> mint_later m n \<Longrightarrow> mint_later k n"
  by (auto simp: voucher_later_def mint_later_def)

lemma later_claim: "later_rows voucher_later old vs \<Longrightarrow> later_rows voucher_later old
    (update_where (claimable vid) (\<lambda>v. v\<lparr>v_OwnerID := Some i, v_Status := st\<rparr>) vs)"
  by (rule later_rows_update) (auto simp: voucher_later_def claimable_def intro: later_trans)

lemma later_delegate: "later_rows voucher_later old vs \<Longrightarrow> later_rows voucher_later old
    (update_where (delegable vid) (\<lambda>v. v\<lparr>v_ParticipantID := Some i\<rparr>) vs)"
  by (rule later_rows_update) (auto simp: voucher_later_def delegable_def intro: later_trans)

lemma later_mint: "later_rows mint_later old ms \<Longrightarrow> later_rows mint_later old
    (update_where p (\<lambda>m. m\<lparr>m_TxDigest := t, m_Status := st, m_GasUsed := g\<rparr>) ms)"
  by (rule later_rows_update) (auto simp: mint_later_def mint_key_def)

interpretation history: table_invariant "history_ok d0" for d0
  by (unfold_locales, unfold q_create_user_def q_update_sui_def q_create_ticket_def q_insert_voucher_def
      q_claim_voucher_def q_delegate_voucher_def q_create_participant_def q_set_wallet_def q_record_mint_def
      q_upsert_pending_def q_insert_outbox_def q_bump_outbox_def q_delete_outbox_def)
    (auto simp: history_ok_def Let_def later_rows_append later_claim later_delegate later_mint
      split: if_splits option.splits)

text \<open>
  C7: a voucher is claimed once and delegated once. Whatever methods run afterwards, a claimed
  voucher keeps its owner, a delegated one its participant, and a mint row the participant it
  is attributed to; none of them disappears.
\<close>

theorem claims_are_final:
  assumes "run_state (run_ops ops) w = (u, w')"
  shows "(\<forall>v \<in> set (ticket_vouchers (db w)). \<exists>v' \<in> set (ticket_vouchers (db w')).
      v_VoucherID v' = v_VoucherID v \<and> v_PurchaserID v' = v_PurchaserID v \<and>
      (v_Status v = StatusClaimed \<longrightarrow> v_Status v' = StatusClaimed \<and> v_OwnerID v' = v_OwnerID v) \<and>
      (v_ParticipantID v \<noteq> None \<longrightarrow> v_ParticipantID v' = v_ParticipantID v)) \<and>
    (\<forall>m \<in> set (mint_logs (db w)). \<exists>m' \<in> set (mint_logs (db w')).
      mint_key m' = mint_key m \<and> m_ParticipantID m' = m_ParticipantID m)"
proof -
  have "history_ok (db w) (db w)"
    by (simp add: history_ok_def later_rows_refl later_refl)
  from history.run_ops_keeps [OF this assms] show ?thesis
    unfolding history_ok_def later_rows_def voucher_later_def mint_later_def by fastforce
qed

section \<open>The guardian chain\<close>

text \<open>Guardians are registered before their dependents.\<close>

definition guardians_first :: "Participant list \<Rightarrow> bool" where
  "guardians_first ps \<longleftrightarrow> (\<forall>p \<in> set ps. \<forall>g. p_GuardianID p = Some g \<longrightarrow> g < p_ID p)"

lemma chain_fuel:
  assumes "guardians_first ps" and "card {p \<in> set ps. p_ID p \<le> i} \<le> n"
  shows "chain (n + k) ps i = chain n ps i"
  using assms(2)
proof (induction n arbitrary: i)
  case 0
  then have "\<forall>p \<in> set ps. p_ID p \<noteq> i" by auto
  then have "find (\<lambda>p. p_ID p = i) ps = None" by (simp add: find_None_not)
  then show ?case by (cases k) simp_all
next
  case (Suc n)
  show ?case
  proof (cases "find (\<lambda>p. p_ID p = i) ps")
    case (Some p)
    then have p: "p \<in> set ps" "p_ID p = i" using find_Some_in by fastforce+
    have "chain (n + k) ps g = chain n ps g" if "p_GuardianID p = Some g" for g
    proof (rule Suc.IH)
      from assms(1) p that have "g < i" by (auto simp: guardians_first_def)
      with p have "{p \<in> set ps. p_ID p \<le> g} \<subseteq> {p \<in> set ps. p_ID p \<le> i}"
        "p \<in> {p \<in> set ps. p_ID p \<le> i}" "p \<notin> {p \<in> set ps. p_ID p \<le> g}" by auto
      then have "{p \<in> set ps. p_ID p \<le> g} \<subset> {p \<in> set ps. p_ID p \<le> i}" by blast
      from psubset_card_mono [OF _ this] Suc.prems show "card {p \<in> set ps. p_ID p \<le> g} \<le> n" by simp
    qed
    with Some show ?thesis by (simp split: option.split)
  qed simp
qed

lemma chain_enough: "guardians_first ps \<Longrightarrow> length ps \<le> n \<Longrightarrow> chain n ps i = chain (length ps) ps i"
proof -
  assume g: "guardians_first ps" and n: "length ps \<le> n"
  have "card {p \<in> set ps. p_ID p \<le> i} \<le> card (set ps)" by (intro card_mono) auto
  then have "card {p \<in> set ps. p_ID p \<le> i} \<le> length ps" using card_length le_trans by blast
  from chain_fuel [OF g this, of "n - length ps"] n show ?thesis by simp
qed

lemma chain_loops:
  assumes "find (\<lambda>q. p_ID q = i) ps = Some p" and "p_GuardianID p = Some i"
  shows "length (chain n ps i) = n"
  by (induction n) (simp_all add: assms)

text \<open>
  C22: the recursive query ends. When guardians are registered before their dependents, as many
  steps as there are participants compute it, and more steps find nothing more; a participant
  that is its own guardian (which the schema allows) makes it return ever more rows.
\<close>

theorem guardian_chain_ends:
  "(guardians_first ps \<and> length ps \<le> n \<longrightarrow> chain n ps i = chain (length ps) ps i) \<and>
   (\<forall>p. find (\<lambda>q. p_ID q = i) ps = Some p \<and> p_GuardianID p = Some i \<longrightarrow> length (chain n ps i) = n)"
  using chain_enough chain_loops by blast

section \<open>The statements at a concrete family\<close>

definition parent :: Participant where
  "parent = \<lparr>p_ID = 1, p_Name = ''Ann'', p_AccountEmail = Some ''a@x'', p_GuardianID = None,
     p_WalletState = ParticipantWalletNone, p_CustodialWalletAddress = None, p_KeysEnc = None\<rparr>"

definition child :: Participant where
  "child = \<lparr>p_ID = 2, p_Name = ''Bob'', p_AccountEmail = None, p_GuardianID = Some 1,
     p_WalletState = ParticipantWalletCustodial,
     p_CustodialWalletAddress = Some ''0xguardian-custodial-2'', p_KeysEnc = None\<rparr>"

definition family_user :: User where
  "family_user = \<lparr>u_ID = 1, u_Email = ''a@x'', u_SuiAddress = None, u_EphemeralKey = None,
     u_ZkloginProof = None\<rparr>"

definition family_voucher :: TicketVoucher where
  "family_voucher = \<lparr>v_ID = 1, v_VoucherID = ''voucher-1-0'', v_PurchaserID = 1, v_OwnerID = None,
     v_ParticipantID = None, v_Status = StatusUnclaimed\<rparr>"

definition family_db :: database where
  "family_db = empty_database\<lparr>users := [family_user], users_seq := 1, participants := [parent, child],
     participants_seq := 2, ticket_vouchers := [family_voucher], vouchers_seq := 1\<rparr>"

definition family_world :: world where
  "family_world = (start_world plain_environment 5000 [])\<lparr>db := family_db\<rparr>"

lemma family_sel [simp]:
  "quiet family_world" "db family_world = family_db" "env family_world = plain_environment"
  "users family_db = [family_user]" "participants family_db = [parent, child]"
  "participants_seq family_db = 2" "ticket_vouchers family_db = [family_voucher]"
  "mint_logs family_db = []" "pending_mints family_db = []" "tickets family_db = []" "outbox family_db = []"
  by (simp_all add: family_world_def family_db_def empty_database_def)

definition family_ops :: "repo_op list" where
  "family_ops = [OpDelegateVoucher ''voucher-1-0'' 2, OpClaimVoucher ''voucher-1-0'' 1,
     OpCreateVouchers 1 2]"


theorem claims_are_final_witness:
  "\<exists>v' \<in> set (ticket_vouchers (db (snd (run_state (run_ops family_ops) family_world)))).
     v_VoucherID v' = ''voucher-1-0''"
proof -
  obtain u w' where r: "run_state (run_ops family_ops) family_world = (u, w')" by (rule run_obtain)
  from claims_are_final [OF r] r show ?thesis by (auto simp: family_voucher_def)
qed

theorem guardian_chain_ends_witness:
  "chain 5 [parent, child] 2 = [child, parent]"
proof -
  have "guardians_first [parent, child]" by (simp add: guardians_first_def parent_def child_def)
  then have "chain 5 [parent, child] 2 = chain (length [parent, child]) [parent, child] 2"
    by (intro guardian_chain_ends [THEN conjunct1, THEN mp] conjI) simp_all
  then show ?thesis by (simp add: numeral_2_eq_2 parent_def child_def)
qed

end
