(* ===== verification/Voucher_Behaviour.thy ===== *)
theory Voucher_Behaviour
  imports Voucher_Service Repository_Invariants
begin

text \<open>
  What the voucher service does on the Postgres repository: what a successful delegation has
  established, what a failed one leaves behind, and the ledger's round trip.
\<close>

section \<open>Answered statements\<close>

lemma next_event_db: "next_event w = (f, w1) \<Longrightarrow> db w1 = db w \<and> env w1 = env w"
  by (auto simp: next_event_def split: list.splits)

lemma sql_ok:
  assumes "run_state (sql stmt) w = (Inr x, w')"
  shows "\<exists>now. stmt (env w) now (db w) = (Inr x, db w') \<and> env w' = env w"
proof -
  from assms obtain w1 where ev: "next_event w = (Up, w1)"
    and f: "(case stmt (env w1) (clock w1) (db w1) of (r, d) \<Rightarrow> (r, w1\<lparr>db := d\<rparr>)) = (Inr x, w')"
    unfolding sql_def by (elim run_call_cases) auto
  from next_event_db [OF ev] f show ?thesis
    by (intro exI [of _ "clock w1"]) (auto split: prod.splits)
qed

lemma check_ok:
  assumes "run_state (check m wrap f) w = (Inr y, w')"
  obtains x w1 where "run_state m w = (Inr x, w1)" "run_state (f x) w1 = (Inr y, w')"
  using assms by (auto split: prod.splits sum.splits)

lemma GetParticipant_ok:
  assumes "run_state (GetParticipant i) w = (Inr p, w')"
  shows "db w' = db w" and "p = find (\<lambda>p. p_ID p = i) (participants (db w)) \<or> p = None"
proof -
  obtain r w1 where q: "run_state (sql (\<lambda>_ _ d. (found (find (\<lambda>p. p_ID p = i) (participants d)), d))) w = (r, w1)"
    by fastforce
  then have "db w1 = db w" unfolding sql_def
    by (auto elim!: run_call_cases dest!: next_event_db)
  moreover from q assms have "w1 = w'"
    by (auto simp: GetParticipant_def split: sum.splits if_splits)
  ultimately show "db w' = db w" by simp
  show "p = find (\<lambda>p. p_ID p = i) (participants (db w)) \<or> p = None"
  proof (cases r)
    case (Inr y)
    with sql_ok [OF q [unfolded Inr]] assms q show ?thesis
      by (auto simp: GetParticipant_def found_def split: option.splits)
  next
    case (Inl e)
    with assms q show ?thesis by (auto simp: GetParticipant_def split: if_splits)
  qed
qed

lemma CreateParticipant_ok:
  assumes "run_state (CreateParticipant name em g) w = (Inr p, w')"
  shows "p = \<lparr>p_ID = participants_seq (db w) + 1, p_Name = name, p_AccountEmail = em, p_GuardianID = g,
      p_WalletState = ParticipantWalletNone, p_CustodialWalletAddress = None, p_KeysEnc = None\<rparr> \<and>
    db w' = (db w)\<lparr>participants := participants (db w) @ [p],
      participants_seq := participants_seq (db w) + 1\<rparr>"
proof -
  from assms have "run_state (sql (\<lambda>_ _. q_create_participant name em g)) w = (Inr p, w')"
    by (auto simp: CreateParticipant_def split: prod.splits sum.splits)
  from sql_ok [OF this] show ?thesis
    by (auto simp: q_create_participant_def Let_def split: if_splits)
qed

lemma SetParticipantWallet_ok:
  assumes "run_state (SetParticipantWallet i st a) w = (Inr u, w')"
  shows "db w' = (db w)\<lparr>participants := update_where (\<lambda>p. p_ID p = i)
     (\<lambda>p. p\<lparr>p_WalletState := st, p_CustodialWalletAddress := Some a\<rparr>) (participants (db w))\<rparr>"
proof -
  from assms have "run_state (sql (\<lambda>_ _. q_set_wallet i st a)) w = (Inr (), w')"
    by (auto simp: SetParticipantWallet_def split: prod.splits sum.splits)
  from sql_ok [OF this] show ?thesis by (auto simp: q_set_wallet_def split: if_splits)
qed

lemma DelegateVoucher_ok:
  assumes "run_state (DelegateVoucher vid i) w = (Inr u, w')"
  shows "(\<exists>v \<in> set (ticket_vouchers (db w)). delegable vid v) \<and>
    i \<in> set (map p_ID (participants (db w))) \<and>
    db w' = (db w)\<lparr>ticket_vouchers := update_where (delegable vid) (\<lambda>v. v\<lparr>v_ParticipantID := Some i\<rparr>)
       (ticket_vouchers (db w))\<rparr>"
proof -
  from assms obtain n where "run_state (sql (\<lambda>_ _. q_delegate_voucher vid i)) w = (Inr n, w')" "n \<noteq> 0"
    by (auto simp: DelegateVoucher_def split: prod.splits sum.splits if_splits)
  from sql_ok [OF this(1)] this(2) show ?thesis
    by (auto simp: q_delegate_voucher_def rows_affected_def filter_empty_conv split: if_splits)
qed

lemma GetParticipantByEmail_db:
  assumes "run_state (GetParticipantByEmail em) w = (r, w')"
  shows "db w' = db w"
proof -
  obtain q w1 where "run_state (sql (\<lambda>_ _ d. (found (find (\<lambda>p. p_AccountEmail p = Some em) (participants d)), d))) w = (q, w1)"
    by fastforce
  moreover from this have "db w1 = db w" unfolding sql_def
    by (auto elim!: run_call_cases dest!: next_event_db)
  ultimately show ?thesis
    using assms by (auto simp: GetParticipantByEmail_def split: sum.splits if_splits)
qed

section \<open>Delegation\<close>

lemma delegate_account_vouchers:
  assumes "run_state (delegate_account postgres_repo req) w = (Inr p, w')"
  shows "ticket_vouchers (db w') = ticket_vouchers (db w)"
proof -
  from assms obtain f w1 where g: "run_state (GetParticipantByEmail (dr_AccountEmail req)) w = (Inr f, w1)"
    and rest: "f = None \<and> run_state (CreateParticipant (dr_AccountEmail req) (Some (dr_AccountEmail req)) None) w1 = (Inr p, w')
      \<or> w' = w1"
    by (auto simp: delegate_account_def postgres_repo_def split: if_splits prod.splits sum.splits option.splits)
  from rest show ?thesis
    using GetParticipantByEmail_db [OF g] CreateParticipant_ok by (auto dest!: CreateParticipant_ok)
qed

text \<open>The participant a delegation settles on, with its row.\<close>

lemma delegate_dependent_ok:
  assumes "run_state (delegate_dependent postgres_repo req) w = (Inr p, w')"
    and "schema_ok (db w)"
  shows "p \<in> set (participants (db w')) \<and> ticket_vouchers (db w') = ticket_vouchers (db w) \<and>
    p_GuardianID p = Some (dr_GuardianID req) \<and> p_WalletState p = ParticipantWalletCustodial \<and>
    p_CustodialWalletAddress p = Some (custodialWalletFor (p_ID p)) \<and>
    (\<exists>g \<in> set (participants (db w)). p_ID g = dr_GuardianID req)"
proof -
  let ?addr = "\<lambda>p. custodialWalletFor (p_ID p)"
  from assms(1) obtain gd w1 where g: "run_state (GetParticipant (dr_GuardianID req)) w = (Inr (Some gd), w1)"
    and rest: "run_state (check (CreateParticipant (dr_Name req) None (Some (dr_GuardianID req))) id (\<lambda>p.
      check (SetParticipantWallet (p_ID p) ParticipantWalletCustodial (?addr p)) id (\<lambda>_.
      returns (p\<lparr>p_CustodialWalletAddress := Some (?addr p), p_WalletState := ParticipantWalletCustodial\<rparr>)))) w1
      = (Inr p, w')"
    by (auto simp: delegate_dependent_def postgres_repo_def simp del: run_check elim!: check_ok
        split: if_splits option.splits)
  from rest obtain q w2 w3 where c: "run_state (CreateParticipant (dr_Name req) None (Some (dr_GuardianID req))) w1 = (Inr q, w2)"
    and s: "run_state (SetParticipantWallet (p_ID q) ParticipantWalletCustodial (?addr q)) w2 = (Inr (), w3)"
    and p: "p = q\<lparr>p_CustodialWalletAddress := Some (?addr q), p_WalletState := ParticipantWalletCustodial\<rparr>" "w3 = w'"
    by (auto split: prod.splits sum.splits)
  note GetParticipant_ok [OF g]
  moreover from this have "gd \<in> set (participants (db w)) \<and> p_ID gd = dr_GuardianID req"
    using find_Some_in [of "\<lambda>p. p_ID p = dr_GuardianID req" "participants (db w)" gd] by auto
  moreover note CreateParticipant_ok [OF c] SetParticipantWallet_ok [OF s]
  ultimately show ?thesis
    using p by (auto simp: update_where_def)
qed


section \<open>Runs in which the services answer\<close>

lemma run_GetParticipant:
  "quiet w \<Longrightarrow> run_state (GetParticipant i) w = (Inr (find (\<lambda>p. p_ID p = i) (participants (db w))), w)"
  by (simp add: GetParticipant_def found_def split: option.split)

lemma run_CreateDependent:
  assumes "quiet w" and "varchar 255 name" and "g \<in> set (map p_ID (participants (db w)))"
    and "p = \<lparr>p_ID = participants_seq (db w) + 1, p_Name = name, p_AccountEmail = None,
      p_GuardianID = Some g, p_WalletState = ParticipantWalletNone, p_CustodialWalletAddress = None,
      p_KeysEnc = None\<rparr>"
  shows "run_state (CreateParticipant name None (Some g)) w = (Inr p, w\<lparr>db := (db w)\<lparr>participants :=
      participants (db w) @ [p], participants_seq := participants_seq (db w) + 1\<rparr>\<rparr>)"
  using assms(1-3) by (simp add: CreateParticipant_def q_create_participant_def Let_def assms(4))

lemma run_SetWallet:
  "quiet w \<Longrightarrow> varchar 128 a \<Longrightarrow> run_state (SetParticipantWallet i st a) w = (Inr (), w\<lparr>db := (db w)\<lparr>participants :=
     update_where (\<lambda>p. p_ID p = i) (\<lambda>p. p\<lparr>p_WalletState := st, p_CustodialWalletAddress := Some a\<rparr>)
       (participants (db w))\<rparr>\<rparr>)"
  by (simp add: SetParticipantWallet_def q_set_wallet_def)

lemma run_DelegateVoucher_refused:
  assumes "quiet w" and "\<forall>v \<in> set (ticket_vouchers (db w)). \<not> delegable vid v"
  shows "run_state (DelegateVoucher vid i) w = (Inl (wrapf (''voucher '' @ vid @ '': '') ErrAlreadyAllocated), w)"
proof -
  have none: "rows_affected (delegable vid) (ticket_vouchers (db w)) = 0"
    using assms(2) by (simp add: rows_affected_def filter_empty_conv)
  have "update_where (delegable vid) f (ticket_vouchers (db w)) = ticket_vouchers (db w)" for f
    using assms(2) by (intro update_where_none) blast
  with none assms(1) show ?thesis by (simp add: DelegateVoucher_def q_delegate_voucher_def)
qed

definition new_dependent :: "int \<Rightarrow> string \<Rightarrow> int \<Rightarrow> Participant" where
  "new_dependent n name g = \<lparr>p_ID = n, p_Name = name, p_AccountEmail = None, p_GuardianID = Some g,
     p_WalletState = ParticipantWalletCustodial, p_CustodialWalletAddress = Some (custodialWalletFor n),
     p_KeysEnc = None\<rparr>"

definition add_dependent :: "string \<Rightarrow> int \<Rightarrow> database \<Rightarrow> database" where
  "add_dependent name g d = d\<lparr>participants := participants d @ [new_dependent (participants_seq d + 1) name g],
     participants_seq := participants_seq d + 1\<rparr>"

lemma run_delegate_dependent:
  assumes "quiet w" and "dr_GuardianID req \<noteq> 0"
    and "\<exists>g \<in> set (participants (db w)). p_ID g = dr_GuardianID req"
    and "\<forall>p \<in> set (participants (db w)). p_ID p \<le> participants_seq (db w)"
    and "varchar 255 (dr_Name req)" and "varchar 128 (custodialWalletFor (participants_seq (db w) + 1))"
  shows "run_state (delegate_dependent postgres_repo req) w =
    (Inr (new_dependent (participants_seq (db w) + 1) (dr_Name req) (dr_GuardianID req)),
     w\<lparr>db := add_dependent (dr_Name req) (dr_GuardianID req) (db w)\<rparr>)"
proof -
  let ?n = "participants_seq (db w) + 1" and ?ps = "participants (db w)"
  let ?q = "new_dependent ?n (dr_Name req) (dr_GuardianID req)"
  from assms(3) obtain g where g: "find (\<lambda>p. p_ID p = dr_GuardianID req) ?ps = Some g"
    by (cases "find (\<lambda>p. p_ID p = dr_GuardianID req) ?ps") (auto simp: find_None_not)
  from assms(3) have gin: "dr_GuardianID req \<in> set (map p_ID ?ps)" by force
  define p where "p = \<lparr>p_ID = ?n, p_Name = dr_Name req, p_AccountEmail = None,
      p_GuardianID = Some (dr_GuardianID req), p_WalletState = ParticipantWalletNone,
      p_CustodialWalletAddress = None, p_KeysEnc = None\<rparr>"
  define w1 where "w1 = w\<lparr>db := (db w)\<lparr>participants := ?ps @ [p], participants_seq := ?n\<rparr>\<rparr>"
  have q1: "quiet w1" using assms(1) by (simp add: w1_def)
  have "update_where (\<lambda>p. p_ID p = ?n) f ?ps = ?ps" for f
    using assms(4) by (intro update_where_none) force
  then have upd: "update_where (\<lambda>p. p_ID p = ?n) (\<lambda>p. p\<lparr>p_WalletState := ParticipantWalletCustodial,
      p_CustodialWalletAddress := Some (custodialWalletFor ?n)\<rparr>) (?ps @ [p]) = ?ps @ [?q]"
    by (simp add: update_where_def p_def new_dependent_def)
  have c: "run_state (CreateParticipant (dr_Name req) None (Some (dr_GuardianID req))) w = (Inr p, w1)"
    unfolding w1_def by (rule run_CreateDependent [OF assms(1,5) gin p_def])
  have s: "run_state (SetParticipantWallet ?n ParticipantWalletCustodial (custodialWalletFor ?n)) w1 =
      (Inr (), w\<lparr>db := add_dependent (dr_Name req) (dr_GuardianID req) (db w)\<rparr>)"
    using run_SetWallet [OF q1 assms(6)] upd by (simp add: w1_def add_dependent_def)
  have q: "p\<lparr>p_CustodialWalletAddress := Some (custodialWalletFor (p_ID p)),
      p_WalletState := ParticipantWalletCustodial\<rparr> = ?q" "p_ID p = ?n"
    by (simp_all add: p_def new_dependent_def)
  show ?thesis
    using assms(1,2) g c s q
    by (simp add: delegate_dependent_def postgres_repo_def run_GetParticipant)
qed

text \<open>
  Delegation is not atomic. When the voucher is already allocated, the dependent it was
  meant for has been registered, with a custodial wallet, before the refusal: the error leaves
  a new participant behind.
\<close>

theorem refused_delegation_leaves_dependent:
  assumes "quiet w" and "dr_Mode req = DelegationDependent" and "dr_GuardianID req \<noteq> 0"
    and "\<exists>g \<in> set (participants (db w)). p_ID g = dr_GuardianID req"
    and "\<forall>p \<in> set (participants (db w)). p_ID p \<le> participants_seq (db w)"
    and "\<forall>v \<in> set (ticket_vouchers (db w)). \<not> delegable (dr_VoucherID req) v"
    and "varchar 255 (dr_Name req)" and "varchar 128 (custodialWalletFor (participants_seq (db w) + 1))"
  shows "run_state (Delegate postgres_repo req) w =
    (Inl ErrVoucherAllocated, w\<lparr>db := add_dependent (dr_Name req) (dr_GuardianID req) (db w)\<rparr>)"
proof -
  let ?w = "w\<lparr>db := add_dependent (dr_Name req) (dr_GuardianID req) (db w)\<rparr>"
  have d: "run_state (DelegateVoucher (dr_VoucherID req) i) ?w =
      (Inl (wrapf (''voucher '' @ dr_VoucherID req @ '': '') ErrAlreadyAllocated), ?w)" for i
    using assms(1,6) by (intro run_DelegateVoucher_refused) (simp_all add: add_dependent_def)
  have "errors_Is (wrapf (''voucher '' @ dr_VoucherID req @ '': '') ErrAlreadyAllocated) ErrAlreadyAllocated"
    by (simp add: ErrAlreadyAllocated_def)
  with run_delegate_dependent [OF assms(1,3-5,7,8)] d assms(2) show ?thesis
    by (simp add: Delegate_def delegate_to_def postgres_repo_def DelegationAccount_def
        DelegationDependent_def)
qed

section \<open>The ledger\<close>

text \<open>What an upsert leaves: the row of its key replaced, or a new one.\<close>

definition put_pending :: "PendingMint \<Rightarrow> int \<Rightarrow> database \<Rightarrow> database" where
  "put_pending pm day d = d\<lparr>pending_mints :=
     (if list_ex (\<lambda>r. pending_key r = (pm_ParticipantID pm, day)) (pending_mints d)
      then update_where (\<lambda>r. pending_key r = (pm_ParticipantID pm, day))
        (\<lambda>r. r\<lparr>pr_RideIDs := pm_RideIDs pm, pr_ScannedAts := pm_ScannedAts pm,
              pr_WalletState := pm_WalletState pm\<rparr>) (pending_mints d)
      else pending_mints d @ [\<lparr>pr_ID = pending_seq d + 1, pr_ParticipantID = pm_ParticipantID pm,
        pr_RideIDs = pm_RideIDs pm, pr_ScannedAts = pm_ScannedAts pm, pr_MintDate = day,
        pr_WalletState = pm_WalletState pm\<rparr>]),
     pending_seq := pending_seq d + 1\<rparr>"

definition pending_of :: "RecordPendingMintRequest \<Rightarrow> Participant \<Rightarrow> PendingMint" where
  "pending_of req p = \<lparr>pm_ID = 0, pm_ParticipantID = rp_ParticipantID req, pm_RideIDs = rp_RideIDs req,
     pm_ScannedAts = rp_ScannedAts req, pm_MintDate = rp_MintDate req,
     pm_WalletState = mr_WalletState (ResolveMintWallet p)\<rparr>"

lemma run_RecordPendingMint:
  assumes "quiet w" and "env_date_in (env w) (rp_MintDate req) = Some day"
    and "find (\<lambda>p. p_ID p = rp_ParticipantID req) (participants (db w)) = Some p"
    and "list_all (json_time_ok (env_zone (env w))) (rp_ScannedAts req)"
  shows "run_state (RecordPendingMint postgres_repo req) w =
    (Inr (), w\<lparr>db := put_pending (pending_of req p) day (db w)\<rparr>)"
proof -
  have fk: "rp_ParticipantID req \<in> p_ID ` set (participants (db w))"
    using find_Some_in [OF assms(3)] by (metis imageI)
  show ?thesis
    using assms fk
    by (simp add: RecordPendingMint_def postgres_repo_def run_GetParticipant Let_def pending_of_def
        UpsertPendingMint_def q_upsert_pending_def put_pending_def)
qed

lemma pending_key_simps [simp]:
  "pending_key \<lparr>pr_ID = k, pr_ParticipantID = i, pr_RideIDs = a, pr_ScannedAts = b, pr_MintDate = day,
     pr_WalletState = c\<rparr> = (i, day)"
  "pending_key (r\<lparr>pr_RideIDs := a, pr_ScannedAts := b, pr_WalletState := c\<rparr>) = pending_key r"
  by (simp_all add: pending_key_def)

lemma put_pending_find:
  "\<exists>r. find (\<lambda>r. pending_key r = (pm_ParticipantID pm, day)) (pending_mints (put_pending pm day d)) = Some r \<and>
     pr_RideIDs r = pm_RideIDs pm \<and> pr_ScannedAts r = pm_ScannedAts pm \<and> pr_WalletState r = pm_WalletState pm \<and>
     pr_MintDate r = day"
proof (cases "list_ex (\<lambda>r. pending_key r = (pm_ParticipantID pm, day)) (pending_mints d)")
  case True
  have "list_ex (\<lambda>r. pending_key r = (i, day)) rs \<Longrightarrow>
      \<exists>r. find (\<lambda>r. pending_key r = (i, day)) (update_where (\<lambda>r. pending_key r = (i, day))
        (\<lambda>r. r\<lparr>pr_RideIDs := a, pr_ScannedAts := b, pr_WalletState := c\<rparr>) rs) = Some r \<and>
        pr_RideIDs r = a \<and> pr_ScannedAts r = b \<and> pr_WalletState r = c \<and> pr_MintDate r = day" for rs i a b c
    by (induction rs) (auto simp: update_where_def, simp_all add: pending_key_def)
  with True show ?thesis by (simp add: put_pending_def)
next
  case False
  have "\<not> list_ex (\<lambda>r. pending_key r = k) rs \<Longrightarrow>
      find (\<lambda>r. pending_key r = k) (rs @ [x]) = (if pending_key x = k then Some x else None)" for rs x k
    by (induction rs) auto
  with False show ?thesis by (simp add: put_pending_def)
qed

lemma put_pending_others:
  "filter (\<lambda>r. pending_key r \<noteq> (pm_ParticipantID pm, day)) (pending_mints (put_pending pm day d)) =
     filter (\<lambda>r. pending_key r \<noteq> (pm_ParticipantID pm, day)) (pending_mints d)"
proof -
  have "filter (\<lambda>r. pending_key r \<noteq> k) (update_where (\<lambda>r. pending_key r = k)
      (\<lambda>r. r\<lparr>pr_RideIDs := a, pr_ScannedAts := b, pr_WalletState := c\<rparr>) rs) =
      filter (\<lambda>r. pending_key r \<noteq> k) rs" for rs k a b c
    by (induction rs) (auto simp: update_where_def)
  then show ?thesis by (simp add: put_pending_def)
qed

lemma put_pending_frame [simp]:
  "participants (put_pending pm day d) = participants d" "users (put_pending pm day d) = users d"
  "ticket_vouchers (put_pending pm day d) = ticket_vouchers d" "mint_logs (put_pending pm day d) = mint_logs d"
  "scan_events (put_pending pm day d) = scan_events d"
  by (simp_all add: put_pending_def)

text \<open>
  C26: the pending-mint ledger gives back what was recorded: the rides, their times, the date
  and the state of the wallet at the time, replacing what an earlier pass recorded for the same
  participant and date and leaving every other row alone.
\<close>

theorem pending_mint_roundtrip:
  assumes "quiet w" and "env_date_in (env w) (rp_MintDate req) = Some day"
    and "find (\<lambda>p. p_ID p = rp_ParticipantID req) (participants (db w)) = Some p"
    and "list_all (json_time_ok (env_zone (env w))) (rp_ScannedAts req)"
  shows "\<exists>w' k. run_state (RecordPendingMint postgres_repo req) w = (Inr (), w') \<and>
    run_state (Service_GetPendingMint postgres_repo (rp_ParticipantID req) (rp_MintDate req)) w' =
      (Inr (Some \<lparr>pm_ID = k, pm_ParticipantID = rp_ParticipantID req, pm_RideIDs = rp_RideIDs req,
         pm_ScannedAts = rp_ScannedAts req, pm_MintDate = env_date_out (env w) day,
         pm_WalletState = mr_WalletState (ResolveMintWallet p)\<rparr>), w') \<and>
    filter (\<lambda>r. pending_key r \<noteq> (rp_ParticipantID req, day)) (pending_mints (db w')) =
      filter (\<lambda>r. pending_key r \<noteq> (rp_ParticipantID req, day)) (pending_mints (db w))"
proof -
  let ?pm = "pending_of req p"
  let ?w = "w\<lparr>db := put_pending ?pm day (db w)\<rparr>"
  have pm: "pm_ParticipantID ?pm = rp_ParticipantID req" "pm_RideIDs ?pm = rp_RideIDs req"
    "pm_ScannedAts ?pm = rp_ScannedAts req" "pm_WalletState ?pm = mr_WalletState (ResolveMintWallet p)"
    by (simp_all add: pending_of_def)
  from put_pending_find [of ?pm day "db w"] obtain r where
    "find (\<lambda>r. pending_key r = (rp_ParticipantID req, day)) (pending_mints (put_pending ?pm day (db w))) = Some r"
    "pr_RideIDs r = rp_RideIDs req" "pr_ScannedAts r = rp_ScannedAts req" "pr_MintDate r = day"
    "pr_WalletState r = mr_WalletState (ResolveMintWallet p)" unfolding pm by blast
  then have "run_state (Service_GetPendingMint postgres_repo (rp_ParticipantID req) (rp_MintDate req)) ?w =
      (Inr (Some \<lparr>pm_ID = pr_ID r, pm_ParticipantID = rp_ParticipantID req, pm_RideIDs = rp_RideIDs req,
         pm_ScannedAts = rp_ScannedAts req, pm_MintDate = env_date_out (env w) day,
         pm_WalletState = mr_WalletState (ResolveMintWallet p)\<rparr>), ?w)"
    using assms(1,2)
    by (simp add: Service_GetPendingMint_def postgres_repo_def GetPendingMint_def q_get_pending_def found_def)
  with run_RecordPendingMint [OF assms] put_pending_others [of ?pm day "db w"] show ?thesis
    unfolding pm by (intro exI [of _ ?w] exI [of _ "pr_ID r"]) simp
qed

section \<open>The statements at a concrete family\<close>

definition allocated :: TicketVoucher where
  "allocated = family_voucher\<lparr>v_ParticipantID := Some 2\<rparr>"

definition bob_request :: DelegateRequest where
  "bob_request = \<lparr>dr_VoucherID = ''voucher-1-0'', dr_Mode = DelegationDependent, dr_AccountEmail = [],
     dr_Name = ''Eve'', dr_GuardianID = 1\<rparr>"

lemma family_ids [simp]: "p_ID parent = 1" "p_ID child = 2"
  by (simp_all add: parent_def child_def)

lemma custodial_3: "custodialWalletFor 3 = ''0xguardian-custodial-3''"
  by code_simp

lemma family_schema: "schema_ok (db family_world)"
  by (simp add: schema_ok_def users_ok_def tickets_ok_def vouchers_ok_def participants_ok_def
      mints_ok_def pending_ok_def outbox_ok_def family_user_def family_voucher_def parent_def child_def
      family_db_def empty_database_def)

theorem refused_delegation_leaves_dependent_witness:
  "\<exists>w'. run_state (Delegate postgres_repo bob_request) (family_world\<lparr>db := family_db\<lparr>ticket_vouchers := [allocated]\<rparr>\<rparr>) =
      (Inl ErrVoucherAllocated, w') \<and> map p_Name (participants (db w')) = [''Ann'', ''Bob'', ''Eve'']"
  using refused_delegation_leaves_dependent
      [of "family_world\<lparr>db := family_db\<lparr>ticket_vouchers := [allocated]\<rparr>\<rparr>" bob_request] custodial_3
  by (simp add: bob_request_def delegable_def allocated_def family_voucher_def varchar_def char_length_def
      add_dependent_def new_dependent_def) (simp add: parent_def child_def)

theorem pending_mint_roundtrip_witness:
  "\<exists>w' k. run_state (RecordPendingMint postgres_repo
       \<lparr>rp_ParticipantID = 1, rp_MintDate = ''2026-08-13'', rp_RideIDs = [''coaster''], rp_ScannedAts = [1786615200000]\<rparr>)
       family_world = (Inr (), w') \<and>
     run_state (Service_GetPendingMint postgres_repo 1 ''2026-08-13'') w' =
       (Inr (Some \<lparr>pm_ID = k, pm_ParticipantID = 1, pm_RideIDs = [''coaster''],
          pm_ScannedAts = [1786615200000], pm_MintDate = ''2026-08-13'', pm_WalletState = ParticipantWalletNone\<rparr>), w')"
proof -
  have t: "json_time_ok 0 1786615200000" by code_simp
  have d: "date_text 20678 = ''2026-08-13''" by code_simp
  from pending_mint_roundtrip [of family_world "\<lparr>rp_ParticipantID = 1, rp_MintDate = ''2026-08-13'',
      rp_RideIDs = [''coaster''], rp_ScannedAts = [1786615200000]\<rparr>" 20678 parent] t d parse_date_example
  show ?thesis by (auto simp: plain_environment_def ResolveMintWallet_def parent_def)
qed


end
