(* ===== verification/Magic_Link.thy ===== *)
theory Magic_Link
  imports Services
begin

text \<open>
  \<^verbatim>\<open>internal/voucher/link.go\<close> and \<^verbatim>\<open>internal/auth/google.go\<close>: signing and
  verification of voucher links, and the checks on a Google token. The JWT library is a record of
  the functions the source calls; \<open>jwt_contract\<close> states what a signed link relies on.
\<close>

section \<open>The JWT library\<close>

record jwt_header =
  hdr_hmac :: bool
  hdr_alg :: string

text \<open>A parsed token: its validity, its claims when they are a map, and its expiration time.\<close>

record jwt_token =
  tk_Valid :: bool
  tk_Claims :: "(string \<rightharpoonup> json) option"
  tk_ExpirationTime :: "goerr + int option"

type_synonym jwt_claims = "(string \<times> json) list"

record jwt_lib =
  jwt_SignedString :: "string \<Rightarrow> jwt_claims \<Rightarrow> goerr + string"
  jwt_Parse :: "(jwt_header \<Rightarrow> goerr + string) \<Rightarrow> int \<Rightarrow> string \<Rightarrow> goerr + jwt_token"
  jwt_ParseUnverified :: "string \<Rightarrow> goerr + jwt_token"

definition ErrTokenExpired :: goerr where
  [sentinel_defs]: "ErrTokenExpired = Sentinel ''jwt.ErrTokenExpired'' ''token is expired''"

text \<open>\<^verbatim>\<open>s, _ := claims[k].(string)\<close>.\<close>

definition claim_string :: "(string \<rightharpoonup> json) \<Rightarrow> string \<Rightarrow> string" where
  "claim_string claims k = (case claims k of Some (JStr s) \<Rightarrow> s | _ \<Rightarrow> [])"

section \<open>Magic links\<close>

definition ErrInvalidLink :: goerr where
  [sentinel_defs]: "ErrInvalidLink = Sentinel ''voucher.ErrInvalidLink'' ''invalid magic link''"

definition ErrLinkExpired :: goerr where
  [sentinel_defs]: "ErrLinkExpired = Sentinel ''voucher.ErrLinkExpired'' ''magic link expired''"

text \<open>The time to live is a duration in nanoseconds; the clock counts milliseconds.\<close>

definition link_exp :: "int \<Rightarrow> int \<Rightarrow> int" where
  "link_exp now ttl0 =
     (let ttl = (if ttl0 = 0 then 24 * 3600 * 1000000000 else ttl0)
      in int64 ((now * 1000000 + ttl) div 1000000000))"

definition link_claims :: "string \<Rightarrow> int \<Rightarrow> jwt_claims" where
  "link_claims voucherID exp = [(''voucher_id'', JStr voucherID), (''exp'', JNum exp)]"

definition SignMagicLink :: "jwt_lib \<Rightarrow> string \<Rightarrow> string \<Rightarrow> int \<Rightarrow> (world, string) go" where
  "SignMagicLink lib secret voucherID ttl0 = do {
     now \<leftarrow> gets clock;
     State_Monad.return (jwt_SignedString lib secret (link_claims voucherID (link_exp now ttl0)))
   }"

definition link_key :: "string \<Rightarrow> jwt_header \<Rightarrow> goerr + string" where
  "link_key secret t =
     (if \<not> hdr_hmac t then Inl (Msg (''unexpected signing method: '' @ hdr_alg t)) else Inr secret)"

definition link_voucher :: "int \<Rightarrow> jwt_token \<Rightarrow> goerr + string" where
  "link_voucher now parsed =
     (if \<not> tk_Valid parsed then Inl ErrInvalidLink
      else case tk_Claims parsed of
          None \<Rightarrow> Inl ErrInvalidLink
        | Some claims \<Rightarrow>
            if (case tk_ExpirationTime parsed of Inr (Some exp) \<Rightarrow> exp \<le> now | _ \<Rightarrow> False)
            then Inl ErrLinkExpired
            else if claim_string claims ''voucher_id'' = [] then Inl ErrInvalidLink
            else Inr (claim_string claims ''voucher_id''))"

definition VerifyMagicLink :: "jwt_lib \<Rightarrow> string \<Rightarrow> string \<Rightarrow> (world, string) go" where
  "VerifyMagicLink lib secret token =
     (if token = [] then fails ErrInvalidLink
      else do {
        now \<leftarrow> gets clock;
        State_Monad.return (case jwt_Parse lib (link_key secret) now token of
            Inl err \<Rightarrow> if errors_Is err ErrTokenExpired then Inl ErrLinkExpired else Inl ErrInvalidLink
          | Inr parsed \<Rightarrow> link_voucher now parsed)
      })"

text \<open>
  What the library documents of a signed token: it is not empty, it parses with its key to its
  claims until the second it expires, and reports \<open>ErrTokenExpired\<close> from then on.
\<close>

definition jwt_contract :: "jwt_lib \<Rightarrow> string \<Rightarrow> jwt_claims \<Rightarrow> int \<Rightarrow> bool" where
  "jwt_contract lib secret claims exp \<longleftrightarrow>
     (\<exists>tok. jwt_SignedString lib secret claims = Inr tok \<and> tok \<noteq> [] \<and>
       (\<forall>key now. key \<lparr>hdr_hmac = True, hdr_alg = ''HS256''\<rparr> = Inr secret \<longrightarrow>
          (if now < exp * 1000
           then jwt_Parse lib key now tok = Inr \<lparr>tk_Valid = True, tk_Claims = Some (map_of claims),
                  tk_ExpirationTime = Inr (Some (exp * 1000))\<rparr>
           else \<exists>e. jwt_Parse lib key now tok = Inl e \<and> errors_Is e ErrTokenExpired)))"


definition demo_jwt :: jwt_lib where
  "demo_jwt = \<lparr>jwt_SignedString = (\<lambda>secret claims. Inr ''token''),
     jwt_Parse = (\<lambda>key now tok. if now < 86405000
        then Inr \<lparr>tk_Valid = True, tk_Claims = Some (map_of (link_claims ''v-1'' 86405)),
                  tk_ExpirationTime = Inr (Some 86405000)\<rparr>
        else Inl ErrTokenExpired),
     jwt_ParseUnverified = (\<lambda>tok. Inl (Msg ''token is malformed''))\<rparr>"


text \<open>
  Verification answers with a voucher or one of the two errors; a voucher it names is never
  empty, and comes from a token the library accepted under the secret, signed with HMAC, that
  has not expired. It changes nothing.
\<close>

theorem VerifyMagicLink_sound:
  "\<exists>r. run_state (VerifyMagicLink lib secret token) w = (r, w) \<and>
     (case r of Inl err \<Rightarrow> err = ErrInvalidLink \<or> err = ErrLinkExpired
      | Inr v \<Rightarrow> v \<noteq> [] \<and> (\<exists>parsed claims. jwt_Parse lib (link_key secret) (clock w) token = Inr parsed \<and>
          tk_Valid parsed \<and> tk_Claims parsed = Some claims \<and> claims ''voucher_id'' = Some (JStr v) \<and>
          (case tk_ExpirationTime parsed of Inr (Some exp) \<Rightarrow> clock w < exp | _ \<Rightarrow> True)))"
  by (auto simp: VerifyMagicLink_def link_voucher_def claim_string_def
      split: sum.split option.split json.split)

section \<open>Google tokens\<close>

definition GoogleIssuer :: string where
  "GoogleIssuer = ''https://accounts.google.com''"

definition ErrInvalidGoogleToken :: goerr where
  [sentinel_defs]: "ErrInvalidGoogleToken =
     Sentinel ''auth.ErrInvalidGoogleToken'' ''invalid google token''"

record GoogleJWTPayload =
  gp_Email :: string
  gp_Sub :: string

record GoogleTokenVerifier =
  gv_ClientID :: string

definition NewGoogleTokenVerifier :: "string \<Rightarrow> GoogleTokenVerifier" where
  "NewGoogleTokenVerifier clientID = \<lparr>gv_ClientID = clientID\<rparr>"

text \<open>
  \<^verbatim>\<open>exp\<close> as a \<^verbatim>\<open>float64\<close> (exact up to \<open>2\<^sup>5\<^sup>3\<close>): against a whole
  number of seconds a fraction counts as its floor. Fractions are decimal, without exponent.
\<close>

definition floor_text :: "string \<Rightarrow> int" where
  "floor_text s = (if take 1 s = ''-'' then - int (read_nat (takeWhile is_digit (drop 1 s))) - 1
     else int (read_nat (takeWhile is_digit s)))"

definition google_expired :: "(string \<rightharpoonup> json) \<Rightarrow> int \<Rightarrow> bool" where
  "google_expired claims now = (case claims ''exp'' of
       Some (JNum exp) \<Rightarrow> exp < Unix now
     | Some (JFrac exp) \<Rightarrow> floor_text exp < Unix now
     | _ \<Rightarrow> False)"

definition audience_matches :: "string \<Rightarrow> json option \<Rightarrow> bool" where
  "audience_matches clientID aud = (case aud of
       Some (JArr auds) \<Rightarrow> list_ex (\<lambda>a. (case a of JStr s \<Rightarrow> s | _ \<Rightarrow> []) = clientID) auds
     | _ \<Rightarrow> False)"

definition google_error :: "string \<Rightarrow> goerr" where
  "google_error what = Wrap [] ErrInvalidGoogleToken ('': '' @ what)"

definition google_claims :: "GoogleTokenVerifier \<Rightarrow> int \<Rightarrow> (string \<rightharpoonup> json) \<Rightarrow> goerr + GoogleJWTPayload" where
  "google_claims v now claims =
     (if claim_string claims ''iss'' \<noteq> GoogleIssuer
      then Inl (google_error (''issuer '' @ go_quote (claim_string claims ''iss'') @ '' != '' @ GoogleIssuer))
      else if google_expired claims now then Inl (google_error ''token expired'')
      else if gv_ClientID v \<noteq> [] \<and> \<not> audience_matches (gv_ClientID v) (claims ''aud'')
      then Inl (google_error ''aud does not match configured client id'')
      else if claim_string claims ''email'' = [] \<and> claim_string claims ''sub'' = []
      then Inl (google_error ''missing email/sub claims'')
      else Inr \<lparr>gp_Email = claim_string claims ''email'', gp_Sub = claim_string claims ''sub''\<rparr>)"

definition VerifyToken :: "jwt_lib \<Rightarrow> GoogleTokenVerifier \<Rightarrow> string \<Rightarrow> (world, GoogleJWTPayload) go" where
  "VerifyToken lib v token = do {
     now \<leftarrow> gets clock;
     State_Monad.return
       (if token = [] then Inl (google_error ''empty token'')
        else case jwt_ParseUnverified lib token of
            Inl err \<Rightarrow> Inl (google_error (Error err))
          | Inr parsed \<Rightarrow> (case tk_Claims parsed of
              None \<Rightarrow> Inl (google_error ''unparsable claims'')
            | Some claims \<Rightarrow> google_claims v now claims))
   }"

text \<open>
  A token whose audience is the configured client, as the plain string Google sends, is
  refused: only an array of audiences is looked at.
\<close>

theorem string_audience_refused:
  assumes "jwt_ParseUnverified lib token = Inr parsed" and "tk_Claims parsed = Some claims"
    and "claims ''aud'' = Some (JStr clientID)" and "clientID \<noteq> []"
  shows "\<exists>err. run_state (VerifyToken lib (NewGoogleTokenVerifier clientID) token) w = (Inl err, w) \<and>
    errors_Is err ErrInvalidGoogleToken"
  using assms
  by (simp add: VerifyToken_def google_claims_def audience_matches_def NewGoogleTokenVerifier_def
      google_error_def ErrInvalidGoogleToken_def)

definition google_jwt :: jwt_lib where
  "google_jwt = demo_jwt\<lparr>jwt_ParseUnverified := (\<lambda>tok. Inr \<lparr>tk_Valid = False,
     tk_Claims = Some [''iss'' \<mapsto> JStr GoogleIssuer, ''aud'' \<mapsto> JStr ''client-1'', ''email'' \<mapsto> JStr ''a@x''],
     tk_ExpirationTime = Inr None\<rparr>)\<rparr>"

theorem string_audience_refused_witness:
  "\<exists>err. fst (run_state (VerifyToken google_jwt (NewGoogleTokenVerifier ''client-1'') ''t'')
     (start_world plain_environment 5000 [])) = Inl err"
proof -
  obtain parsed claims where "jwt_ParseUnverified google_jwt ''t'' = Inr parsed"
    "tk_Claims parsed = Some claims" "claims ''aud'' = Some (JStr ''client-1'')"
    by (simp add: google_jwt_def)
  from string_audience_refused [OF this, of "start_world plain_environment 5000 []"] show ?thesis by auto
qed

end
