(* ===== verification/Http_Voucher.thy ===== *)
theory Http_Voucher
  imports Config Voucher_Behaviour Magic_Link Health
begin

text \<open>
  \<^verbatim>\<open>cmd/voucher/main.go\<close>: the HTTP endpoints of the voucher service. A handler that
  panics replies nothing: the server closes the connection, which is the reply \<open>aborted\<close>.
\<close>

section \<open>Times in JSON\<close>

text \<open>
  \<^verbatim>\<open>time.Time\<close> from JSON: strict RFC 3339, to the millisecond.
\<close>

definition two_digits :: "string \<Rightarrow> nat \<Rightarrow> nat option" where
  "two_digits s bound =
     (if length s = 2 \<and> list_all is_digit s \<and> read_nat s < bound then Some (read_nat s) else None)"

definition zone_offset :: "string \<Rightarrow> int option" where
  "zone_offset z =
     (if z = ''Z'' then Some 0
      else if length z = 6 \<and> (z ! 0 = CHR ''+'' \<or> z ! 0 = CHR ''-'') \<and> z ! 3 = CHR '':''
      then (case (two_digits (take 2 (drop 1 z)) 24, two_digits (drop 4 z) 60) of
          (Some h, Some m) \<Rightarrow>
            Some ((if z ! 0 = CHR ''-'' then - 1 else 1) * (int h * 3600 + int m * 60))
        | _ \<Rightarrow> None)
      else None)"

definition fraction_ms :: "string \<Rightarrow> nat" where
  "fraction_ms digits = read_nat (take 3 (digits @ ''000''))"

definition parse_rfc3339 :: "string \<Rightarrow> int option" where
  "parse_rfc3339 s =
     (if length s < 20 \<or> s ! 10 \<noteq> CHR ''T'' \<or> s ! 13 \<noteq> CHR '':'' \<or> s ! 16 \<noteq> CHR '':'' then None
      else (let rest = drop 19 s;
                frac = (if take 1 rest = ''.'' then takeWhile is_digit (drop 1 rest) else []);
                zone = (if take 1 rest = ''.'' then dropWhile is_digit (drop 1 rest) else rest)
            in if take 1 rest = ''.'' \<and> frac = [] then None
               else (case (parse_date (take 10 s), two_digits (take 2 (drop 11 s)) 24,
                           two_digits (take 2 (drop 14 s)) 60, two_digits (take 2 (drop 17 s)) 60,
                           zone_offset zone) of
                   (Some day, Some h, Some m, Some sec, Some off) \<Rightarrow>
                     Some ((day * 86400 + int h * 3600 + int m * 60 + int sec - off) * 1000 + int (fraction_ms frac))
                 | _ \<Rightarrow> None)))"

text \<open>The zero time of an element that is \<^verbatim>\<open>null\<close> is the first of January of the year 1.\<close>

definition time_element :: "json \<Rightarrow> int option" where
  "time_element j = (case j of
       JStr s \<Rightarrow> parse_rfc3339 s
     | JNull \<Rightarrow> Some (days_from_civil 1 1 1 * 86400000)
     | _ \<Rightarrow> None)"

definition set_times :: "(int list \<Rightarrow> 'r \<Rightarrow> 'r) \<Rightarrow> json \<Rightarrow> 'r \<times> bool \<Rightarrow> 'r \<times> bool" where
  "set_times upd v acc = (case v of
       JArr js \<Rightarrow> (case those (map time_element js) of
           Some ts \<Rightarrow> (upd ts (fst acc), snd acc) | None \<Rightarrow> (fst acc, False))
     | JNull \<Rightarrow> (upd [] (fst acc), snd acc)
     | _ \<Rightarrow> (fst acc, False))"

section \<open>JSON of requests and replies\<close>

record PurchaseRequest =
  pq_PurchaserEmail :: string
  pq_Quantity :: int

definition field_PurchaseRequest :: "string \<Rightarrow> json \<Rightarrow> PurchaseRequest \<times> bool \<Rightarrow> PurchaseRequest \<times> bool" where
  [codec_defs]: "field_PurchaseRequest k v =
     (if key_is ''purchaser_email'' k then set_string (\<lambda>s r. r\<lparr>pq_PurchaserEmail := s\<rparr>) v
      else if key_is ''quantity'' k then set_int64 (\<lambda>i r. r\<lparr>pq_Quantity := i\<rparr>) v
      else (\<lambda>acc. acc))"

definition unmarshal_PurchaseRequest :: "payload \<Rightarrow> goerr + PurchaseRequest" where
  "unmarshal_PurchaseRequest = unmarshal field_PurchaseRequest \<lparr>pq_PurchaserEmail = [], pq_Quantity = 0\<rparr>"

definition unmarshal_ShareRequest :: "payload \<Rightarrow> goerr + string" where
  "unmarshal_ShareRequest = unmarshal
     (\<lambda>k v. if key_is ''voucher_id'' k then set_string (\<lambda>s _. s) v else (\<lambda>acc. acc)) []"

definition field_DelegateRequest :: "string \<Rightarrow> json \<Rightarrow> DelegateRequest \<times> bool \<Rightarrow> DelegateRequest \<times> bool" where
  [codec_defs]: "field_DelegateRequest k v =
     (if key_is ''voucher_id'' k then set_string (\<lambda>s r. r\<lparr>dr_VoucherID := s\<rparr>) v
      else if key_is ''mode'' k then set_string (\<lambda>s r. r\<lparr>dr_Mode := s\<rparr>) v
      else if key_is ''account_email'' k then set_string (\<lambda>s r. r\<lparr>dr_AccountEmail := s\<rparr>) v
      else if key_is ''name'' k then set_string (\<lambda>s r. r\<lparr>dr_Name := s\<rparr>) v
      else if key_is ''guardian_id'' k then set_int64 (\<lambda>i r. r\<lparr>dr_GuardianID := i\<rparr>) v
      else (\<lambda>acc. acc))"

definition unmarshal_DelegateRequest :: "payload \<Rightarrow> goerr + DelegateRequest" where
  "unmarshal_DelegateRequest = unmarshal field_DelegateRequest
     \<lparr>dr_VoucherID = [], dr_Mode = [], dr_AccountEmail = [], dr_Name = [], dr_GuardianID = 0\<rparr>"

definition field_RecordPendingMintRequest ::
    "string \<Rightarrow> json \<Rightarrow> RecordPendingMintRequest \<times> bool \<Rightarrow> RecordPendingMintRequest \<times> bool" where
  [codec_defs]: "field_RecordPendingMintRequest k v =
     (if key_is ''participant_id'' k then set_int64 (\<lambda>i r. r\<lparr>rp_ParticipantID := i\<rparr>) v
      else if key_is ''mint_date'' k then set_string (\<lambda>s r. r\<lparr>rp_MintDate := s\<rparr>) v
      else if key_is ''ride_ids'' k then set_strings (\<lambda>ss r. r\<lparr>rp_RideIDs := ss\<rparr>) v
      else if key_is ''scanned_ats'' k then set_times (\<lambda>ts r. r\<lparr>rp_ScannedAts := ts\<rparr>) v
      else (\<lambda>acc. acc))"

definition unmarshal_RecordPendingMintRequest :: "payload \<Rightarrow> goerr + RecordPendingMintRequest" where
  "unmarshal_RecordPendingMintRequest = unmarshal field_RecordPendingMintRequest
     \<lparr>rp_ParticipantID = 0, rp_MintDate = [], rp_RideIDs = [], rp_ScannedAts = []\<rparr>"

record CustodyRequest =
  cq_ParticipantID :: int
  cq_OwnWallet :: string

definition field_CustodyRequest :: "string \<Rightarrow> json \<Rightarrow> CustodyRequest \<times> bool \<Rightarrow> CustodyRequest \<times> bool" where
  [codec_defs]: "field_CustodyRequest k v =
     (if key_is ''participant_id'' k then set_int64 (\<lambda>i r. r\<lparr>cq_ParticipantID := i\<rparr>) v
      else if key_is ''own_wallet'' k then set_string (\<lambda>s r. r\<lparr>cq_OwnWallet := s\<rparr>) v
      else (\<lambda>acc. acc))"

definition unmarshal_CustodyRequest :: "payload \<Rightarrow> goerr + CustodyRequest" where
  "unmarshal_CustodyRequest = unmarshal field_CustodyRequest \<lparr>cq_ParticipantID = 0, cq_OwnWallet = []\<rparr>"

definition marshal_DelegateResponse :: "DelegateResponse \<Rightarrow> json" where
  "marshal_DelegateResponse r = JObj
     ([(''participant_id'', JNum (ds_ParticipantID r)), (''voucher_id'', JStr (ds_VoucherID r)),
       (''mode'', JStr (ds_Mode r)), (''wallet_state'', JStr (WalletState_text (ds_WalletState r)))] @
      omit_empty ''wallet_address'' (ds_WalletAddress r) @ [(''pending'', JBool (ds_Pending r))])"

text \<open>A participant has no JSON tags; its two bookkeeping times are left out, as in the row.\<close>

definition marshal_Participant :: "Participant \<Rightarrow> json" where
  "marshal_Participant p = JObj
     [(''ID'', JNum (p_ID p)), (''Name'', JStr (p_Name p)), (''AccountEmail'', json_opt JStr (p_AccountEmail p)),
      (''GuardianID'', json_opt JNum (p_GuardianID p)),
      (''WalletState'', JStr (WalletState_text (p_WalletState p))),
      (''CustodialWalletAddress'', json_opt JStr (p_CustodialWalletAddress p)),
      (''KeysEnc'', json_opt JStr (p_KeysEnc p))]"

section \<open>The handlers\<close>

definition aborted :: http_reply where
  "aborted = \<lparr>hp_Status = 0, hp_Body = Text []\<rparr>"

definition not_post :: http_reply where
  "not_post = http_Error ''method not allowed'' 405"

definition bad_json :: http_reply where
  "bad_json = http_Error ''invalid json'' 400"

text \<open>\<^verbatim>\<open>if err != nil { http.Error(w, err.Error(), code); return }\<close>.\<close>

definition or_status :: "(world, 'a) go \<Rightarrow> int \<Rightarrow> ('a \<Rightarrow> (world, http_reply) state) \<Rightarrow> (world, http_reply) state" where
  "or_status m code f = on_err m (\<lambda>err. State_Monad.return (http_Error (Error err) code)) f"

definition handle_purchase :: handler where
  "handle_purchase = only ''POST'' not_post (decoding unmarshal_PurchaseRequest bad_json (\<lambda>req.
     or_status (CreateUser (pq_PurchaserEmail req)) 500 (\<lambda>user.
     if pq_Quantity req < 0 then State_Monad.return aborted
     else do {
       r \<leftarrow> CreateVouchers (u_ID user) (pq_Quantity req);
       State_Monad.return (case r of
           (ids, None) \<Rightarrow> json_reply 200 (JObj [(''voucher_ids'', JArr (map JStr ids))])
         | (ids, Some err) \<Rightarrow> http_Error (Error err) 500)
     })))"

definition handle_share :: "jwt_lib \<Rightarrow> GateConfig \<Rightarrow> handler" where
  "handle_share lib cfg = decoding unmarshal_ShareRequest bad_json (\<lambda>voucherID.
     on_err (SignMagicLink lib (gc_HMACSecret cfg) voucherID (24 * 3600 * 1000000000))
       (\<lambda>_. State_Monad.return (http_Error ''link signing failed'' 500))
       (\<lambda>tokenStr. State_Monad.return (json_reply 200
          (JObj [(''magic_link'', JStr (''https://themepark.app/claim?token='' @ tokenStr))]))))"

definition handle_claim :: "jwt_lib \<Rightarrow> GateConfig \<Rightarrow> handler" where
  "handle_claim lib cfg r =
     on_err (VerifyMagicLink lib (gc_HMACSecret cfg) (hq_Query r ''token''))
       (\<lambda>_. State_Monad.return (http_Error ''invalid or expired magic link'' 401))
       (\<lambda>voucherID.
          if hq_Query r ''email'' = [] then State_Monad.return (http_Error ''email required'' 400)
          else or_status (CreateUser (hq_Query r ''email'')) 500 (\<lambda>user.
            or_status (ClaimVoucher voucherID (u_ID user)) 409 (\<lambda>_.
            State_Monad.return (json_reply 200
              (JObj [(''status'', JStr ''claimed''), (''user_id'', JStr (hq_Query r ''email''))])))))"

definition delegate_status :: "goerr \<Rightarrow> int" where
  "delegate_status err =
     (if errors_Is err ErrInvalidDelegation \<or> errors_Is err ErrParticipantNotFound then 400
      else if errors_Is err ErrVoucherAllocated then 409 else 500)"

definition handle_delegate :: "Repo \<Rightarrow> handler" where
  "handle_delegate repo = only ''POST'' not_post (decoding unmarshal_DelegateRequest bad_json (\<lambda>req.
     on_err (Delegate repo req)
       (\<lambda>err. State_Monad.return (http_Error (Error err) (delegate_status err)))
       (\<lambda>res. State_Monad.return (json_reply 200 (marshal_DelegateResponse res)))))"

definition handle_pending :: "Repo \<Rightarrow> handler" where
  "handle_pending repo = only ''POST'' not_post (decoding unmarshal_RecordPendingMintRequest bad_json (\<lambda>req.
     or_status (RecordPendingMint repo req) 500 (\<lambda>_.
     State_Monad.return (json_reply 201 (JObj [(''status'', JStr ''recorded'')])))))"

definition handle_claim_custody :: "Repo \<Rightarrow> handler" where
  "handle_claim_custody repo = only ''POST'' not_post (decoding unmarshal_CustodyRequest bad_json (\<lambda>req.
     or_status (ClaimCustody repo (cq_ParticipantID req) (cq_OwnWallet req)) 400 (\<lambda>p.
     State_Monad.return (json_reply 200 (json_opt marshal_Participant p)))))"

section \<open>The service\<close>

definition voucher_checker :: "(world, HealthChecker) state" where
  "voucher_checker = do {
     h \<leftarrow> NewHealthChecker ''voucher'';
     State_Monad.return (AddCheck Redis_Ping (AddCheck Postgres_Ping h))
   }"

definition voucher_routes :: "jwt_lib \<Rightarrow> GateConfig \<Rightarrow> HealthChecker \<Rightarrow> (string \<times> handler) list" where
  "voucher_routes lib cfg checker =
     [(''/healthz'', HealthzHandler checker),
      (''/readyz'', ReadyzHandler checker),
      (''/api/vouchers/purchase'', handle_purchase),
      (''/api/vouchers/share'', handle_share lib cfg),
      (''/api/vouchers/claim'', handle_claim lib cfg),
      (''/api/vouchers/delegate'', handle_delegate postgres_repo),
      (''/api/vouchers/pending'', handle_pending postgres_repo),
      (''/api/mint/claim-custody'', handle_claim_custody postgres_repo)]"

end
