(* ===== verification/Voucher_Api.thy ===== *)
theory Voucher_Api
  imports Http_Voucher
begin

text \<open>
  What the endpoints of the voucher service guarantee over sequences of requests: a property of
  the tables that every statement keeps is kept by every endpoint, and a voucher is claimed once.
\<close>

section \<open>A claimed voucher stays claimed\<close>

definition spent :: "string \<Rightarrow> int \<Rightarrow> database \<Rightarrow> bool" where
  "spent vid owner d \<longleftrightarrow> (\<exists>v \<in> set (ticket_vouchers d). v_VoucherID v = vid) \<and>
     (\<forall>v \<in> set (ticket_vouchers d). v_VoucherID v = vid \<longrightarrow> v_Status v = StatusClaimed \<and> v_OwnerID v = Some owner)"

lemma spent_cong: "ticket_vouchers d' = ticket_vouchers d \<Longrightarrow> spent vid owner d' = spent vid owner d"
  by (simp add: spent_def)

lemma spent_insert:
  assumes "spent vid owner d" and "q_insert_voucher v i d = (r, d')"
  shows "spent vid owner d'"
proof -
  from assms(2) consider "ticket_vouchers d' = ticket_vouchers d"
    | x where "ticket_vouchers d' = ticket_vouchers d @ [x]" "v_VoucherID x = v"
        "\<forall>u \<in> set (ticket_vouchers d). v_VoucherID u \<noteq> v"
    by (auto simp: q_insert_voucher_def list_ex_iff split: if_splits)
  then show ?thesis
    using assms(1) by cases (auto simp: spent_def)
qed

lemma spent_update:
  assumes "spent vid owner d" and "\<And>v. p v \<Longrightarrow> v_Status v = StatusUnclaimed" and "\<And>v. v_VoucherID (f v) = v_VoucherID v"
    and "ticket_vouchers d' = update_where p f (ticket_vouchers d)"
  shows "spent vid owner d'"
proof -
  have keep: "\<not> p v" if "v \<in> set (ticket_vouchers d)" "v_VoucherID v = vid" for v
    using assms(1,2) that by (fastforce simp: spent_def)
  from assms(1) obtain v where "v \<in> set (ticket_vouchers d)" "v_VoucherID v = vid" by (auto simp: spent_def)
  with keep have "v \<in> set (ticket_vouchers d')" by (simp add: assms(4) set_update_where)
  moreover have "v \<in> set (ticket_vouchers d)" if "v \<in> set (ticket_vouchers d')" "v_VoucherID v = vid" for v
    using that keep by (auto simp: assms(3,4) set_update_where)
  ultimately show ?thesis
    using assms(1) \<open>v_VoucherID v = vid\<close> unfolding spent_def by blast
qed

lemma spent_claim:
  assumes "spent vid owner d" and "q_claim_voucher v i d = (rn, d')"
  shows "spent vid owner d'"
proof -
  from assms(2) have "d' = d \<or> ticket_vouchers d' = update_where (claimable v)
      (\<lambda>u. u\<lparr>v_OwnerID := Some i, v_Status := StatusClaimed\<rparr>) (ticket_vouchers d)"
    by (auto simp: q_claim_voucher_def split: if_splits)
  then show ?thesis
    using assms(1) by (elim disjE) (simp, erule spent_update, auto simp: claimable_def)
qed

lemma spent_delegate:
  assumes "spent vid owner d" and "q_delegate_voucher v i d = (rn, d')"
  shows "spent vid owner d'"
proof -
  from assms(2) have "d' = d \<or> ticket_vouchers d' = update_where (delegable v)
      (\<lambda>u. u\<lparr>v_ParticipantID := Some i\<rparr>) (ticket_vouchers d)"
    by (auto simp: q_delegate_voucher_def split: if_splits)
  then show ?thesis
    using assms(1) by (elim disjE) (simp, erule spent_update, auto simp: delegable_def)
qed

interpretation spent: table_invariant "spent vid owner" for vid owner
proof (unfold_locales, goal_cases)
  case (4 d vid' i r d')
  then show ?case by (rule spent_insert)
next
  case (5 d vid' i rn d')
  then show ?case by (rule spent_claim)
next
  case (6 d vid' i rn d')
  then show ?case by (rule spent_delegate)
qed (auto simp: q_create_user_def q_update_sui_def q_create_ticket_def q_create_participant_def q_set_wallet_def
    q_record_mint_def q_upsert_pending_def q_insert_outbox_def q_bump_outbox_def q_delete_outbox_def Let_def
    elim!: spent_cong [THEN iffD2, rotated] split: if_splits option.splits)

lemma keeps_reachable [keeps_intros]: "keeps (\<lambda>w. J (db w)) reachable"
  unfolding reachable_def by (rule keeps_call [OF stable_db]) simp

lemma keeps_Ping [keeps_intros]:
  "keeps (\<lambda>w. J (db w)) Redis_Ping" "keeps (\<lambda>w. J (db w)) Postgres_Ping" "keeps (\<lambda>w. J (db w)) (Kafka_Ping addrs)"
  by (simp_all add: Redis_Ping_def Postgres_Ping_def keeps_reachable) (induction addrs; simp; intro keeps_intros)

lemma keeps_status [keeps_intros]: "keeps I (writeStatus code status service)"
  unfolding writeStatus_def by (intro keeps_intros)

lemma keeps_run_checks: "\<forall>c \<in> set cs. keeps I c \<Longrightarrow> keeps I (run_checks cs)"
  by (induction cs) (auto intro: keeps_intros)

lemma keeps_http [keeps_intros]:
  "keeps I (h req) \<Longrightarrow> keeps I (only m refusal h req)"
  "(\<And>x. keeps I (g x)) \<Longrightarrow> keeps I (decoding dec refusal g req)"
  "keeps I n \<Longrightarrow> (\<And>x. keeps I (k x)) \<Longrightarrow> keeps I (or_status n code k)"
  by (auto simp: only_def decoding_def or_status_def intro!: keeps_intros split: sum.split)

lemma keeps_links [keeps_intros]:
  "keeps I (SignMagicLink lib secret vid t)" "keeps I (VerifyMagicLink lib secret tok)"
  by (auto simp: SignMagicLink_def VerifyMagicLink_def intro!: keeps_intros)

context table_invariant
begin

lemma keeps_reads:
  "keeps (\<lambda>w. J (db w)) (GetParticipant i)" "keeps (\<lambda>w. J (db w)) (GetParticipantByEmail email)"
  "keeps (\<lambda>w. J (db w)) (GetPendingMint i date)"
  unfolding GetParticipant_def GetParticipantByEmail_def GetPendingMint_def
  by (intro keeps_intros keeps_query; simp add: q_get_pending_def keeps_intros)+

lemma keeps_voucher_service:
  "keeps (\<lambda>w. J (db w)) (Delegate postgres_repo req)"
  "keeps (\<lambda>w. J (db w)) (RecordPendingMint postgres_repo preq)"
  "keeps (\<lambda>w. J (db w)) (ClaimCustody postgres_repo i wallet)"
  by (auto simp: Delegate_def delegate_to_def delegate_account_def delegate_dependent_def RecordPendingMint_def
      ClaimCustody_def postgres_repo_def Let_def intro!: keeps_intros keeps_reads keeps_writes split: option.split)

lemma keeps_voucher_api:
  assumes "\<forall>c \<in> set (hc_checks checker). keeps (\<lambda>w. J (db w)) c"
  shows "keeps (\<lambda>w. J (db w)) (http_serve (voucher_routes lib cfg checker) path req)"
proof -
  have "list_all (\<lambda>(path, h). \<forall>req. keeps (\<lambda>w. J (db w)) (h req)) (voucher_routes lib cfg checker)"
    unfolding voucher_routes_def
    by (auto simp: HealthzHandler_def ReadyzHandler_def handle_purchase_def handle_share_def handle_claim_def
        handle_delegate_def handle_pending_def handle_claim_custody_def
        intro!: keeps_intros keeps_writes keeps_CreateVouchers keeps_voucher_service keeps_run_checks assms)
  then show ?thesis
    unfolding http_serve_def
    by (auto simp: list_all_iff dest: map_of_SomeD intro!: keeps_intros split: option.split)
qed

end

section \<open>A claim that succeeded\<close>

lemma q_create_user_ok:
  "q_create_user email d = (Inr u, d') \<Longrightarrow>
     u \<in> set (users d') \<and> u_Email u = email \<and> ticket_vouchers d' = ticket_vouchers d"
  by (auto simp: q_create_user_def Let_def dest!: find_Some_in split: if_splits option.splits)

lemma CreateUser_ok:
  assumes "run_state (CreateUser email) w = (Inr u, w')"
  shows "u \<in> set (users (db w')) \<and> u_Email u = email \<and> ticket_vouchers (db w') = ticket_vouchers (db w)"
proof -
  from assms have "run_state (sql (\<lambda>_ _. q_create_user email)) w = (Inr u, w')"
    by (auto simp: CreateUser_def split: prod.splits sum.splits)
  from sql_ok [OF this] show ?thesis by (auto dest: q_create_user_ok)
qed

lemma ClaimVoucher_ok:
  assumes "run_state (ClaimVoucher vid i) w = (Inr u, w')" and "distinct (map v_VoucherID (ticket_vouchers (db w)))"
  shows "spent vid i (db w') \<and> users (db w') = users (db w) \<and>
    (\<exists>v \<in> set (ticket_vouchers (db w)). claimable vid v)"
proof -
  from assms(1) obtain n where "run_state (sql (\<lambda>_ _. q_claim_voucher vid i)) w = (Inr n, w')" "n \<noteq> 0"
    by (auto simp: ClaimVoucher_def split: prod.splits sum.splits if_splits)
  from sql_ok [OF this(1)] this(2) obtain v where v: "v \<in> set (ticket_vouchers (db w))" "claimable vid v" and
    d: "db w' = (db w)\<lparr>ticket_vouchers := update_where (claimable vid)
      (\<lambda>v. v\<lparr>v_OwnerID := Some i, v_Status := StatusClaimed\<rparr>) (ticket_vouchers (db w))\<rparr>"
    by (auto simp: q_claim_voucher_def rows_affected_def filter_empty_conv split: if_splits)
  have one: "x = v" if "x \<in> set (ticket_vouchers (db w))" "v_VoucherID x = vid" for x
    using distinct_map_unique [OF assms(2) that(1) v(1)] that(2) v(2) by (simp add: claimable_def)
  have "\<exists>x \<in> set (ticket_vouchers (db w')). v_VoucherID x = vid"
    using v by (intro bexI [of _ "v\<lparr>v_OwnerID := Some i, v_Status := StatusClaimed\<rparr>"])
      (auto simp: d set_update_where claimable_def)
  moreover have "v_Status x = StatusClaimed \<and> v_OwnerID x = Some i"
    if "x \<in> set (ticket_vouchers (db w'))" "v_VoucherID x = vid" for x
  proof -
    from that(1) consider "x \<in> set (ticket_vouchers (db w))" "\<not> claimable vid x"
      | y where "x = y\<lparr>v_OwnerID := Some i, v_Status := StatusClaimed\<rparr>"
      by (auto simp: d set_update_where)
    then show ?thesis
    proof cases
      case 1
      with one [OF 1(1) that(2)] v(2) show ?thesis by simp
    qed simp
  qed
  ultimately show ?thesis
    using v by (auto simp: spent_def d)
qed

lemma claim_endpoint_ok:
  assumes "schema_ok (db w)"
    and "run_state (http_serve (voucher_routes lib cfg checker) ''/api/vouchers/claim'' r) w = (rep, w')"
    and "hp_Status rep = 200"
  obtains vid u where "run_state (VerifyMagicLink lib (gc_HMACSecret cfg) (hq_Query r ''token'')) w = (Inr vid, w)"
    "u \<in> set (users (db w'))" "u_Email u = hq_Query r ''email''" "spent vid (u_ID u) (db w')"
    "\<exists>v \<in> set (ticket_vouchers (db w)). claimable vid v"
proof -
  have pure: "run_state (VerifyMagicLink lib (gc_HMACSecret cfg) (hq_Query r ''token'')) w = (x, v) \<Longrightarrow> v = w" for x v
    by (auto simp: VerifyMagicLink_def split: if_splits)
  from assms(2,3) obtain vid u w1 where
    1: "run_state (VerifyMagicLink lib (gc_HMACSecret cfg) (hq_Query r ''token'')) w = (Inr vid, w)" and
    2: "run_state (CreateUser (hq_Query r ''email'')) w = (Inr u, w1)" and
    3: "run_state (ClaimVoucher vid (u_ID u)) w1 = (Inr (), w')"
    by (auto simp: http_serve_def voucher_routes_def handle_claim_def or_status_def
        split: prod.splits sum.splits if_splits dest: pure)
  have "schema_ok (db w1)"
    using keepsD [OF schema.keeps_writes(1)] assms(1) 2 by blast
  then have d: "distinct (map v_VoucherID (ticket_vouchers (db w1)))"
    by (simp add: schema_ok_def vouchers_ok_def)
  from CreateUser_ok [OF 2] ClaimVoucher_ok [OF 3 d] 1 that show thesis by metis
qed

fun requests :: "(string \<times> handler) list \<Rightarrow> (string \<times> http_request) list \<Rightarrow> (world, http_reply list) state" where
  "requests routes [] = State_Monad.return []"
| "requests routes ((path, req) # rs) = do {
     rep \<leftarrow> http_serve routes path req;
     reps \<leftarrow> requests routes rs;
     State_Monad.return (rep # reps)
   }"

lemma keeps_requests_api:
  "(\<And>path req. keeps I (http_serve routes path req)) \<Longrightarrow> keeps I (requests routes rs)"
  by (induction routes rs rule: requests.induct) (auto intro!: keeps_intros)

text \<open>
  C10: a voucher is claimed once. After a claim that was answered with 200, whatever requests reach
  the voucher service and whatever its database does, the voucher belongs to the user with the
  claimant's e-mail, and no further claim with a link for the same voucher, by whomever and
  through whatever link, is answered with 200.
\<close>

theorem voucher_claimed_once:
  assumes "schema_ok (db w)" and "hc_checks checker = [Postgres_Ping, Redis_Ping]"
    and "run_state (http_serve (voucher_routes lib cfg checker) ''/api/vouchers/claim'' r1) w = (rep1, w1)"
    and "hp_Status rep1 = 200"
    and "run_state (requests (voucher_routes lib cfg checker) rs) w1 = (reps, w2)"
    and "run_state (http_serve (voucher_routes lib cfg checker) ''/api/vouchers/claim'' r2) w2 = (rep2, w3)"
    and "fst (run_state (VerifyMagicLink lib (gc_HMACSecret cfg) (hq_Query r2 ''token'')) w2) =
      fst (run_state (VerifyMagicLink lib (gc_HMACSecret cfg) (hq_Query r1 ''token'')) w)"
  shows "hp_Status rep2 \<noteq> 200 \<and>
    (\<exists>vid u v. fst (run_state (VerifyMagicLink lib (gc_HMACSecret cfg) (hq_Query r1 ''token'')) w) = Inr vid \<and>
       u \<in> set (users (db w1)) \<and> u_Email u = hq_Query r1 ''email'' \<and>
       v \<in> set (ticket_vouchers (db w3)) \<and> v_VoucherID v = vid \<and> v_Status v = StatusClaimed \<and>
       v_OwnerID v = Some (u_ID u))"
proof -
  from claim_endpoint_ok [OF assms(1,3,4)] obtain vid u where
    1: "run_state (VerifyMagicLink lib (gc_HMACSecret cfg) (hq_Query r1 ''token'')) w = (Inr vid, w)"
      "u \<in> set (users (db w1))" "u_Email u = hq_Query r1 ''email''" and
    sp: "spent vid (u_ID u) (db w1)" by metis
  have pings: "\<forall>c \<in> set (hc_checks checker). keeps (\<lambda>w. J (db w)) c" for J :: "database \<Rightarrow> bool"
    by (simp add: assms(2) keeps_Ping)
  have sp2: "spent vid (u_ID u) (db w2)"
    using keepsD [OF keeps_requests_api [OF spent.keeps_voucher_api [OF pings]] sp assms(5)] .
  have sp3: "spent vid (u_ID u) (db w3)"
    using keepsD [OF spent.keeps_voucher_api [OF pings] sp2 assms(6)] .
  have sc1: "schema_ok (db w1)" using keepsD [OF schema.keeps_voucher_api [OF pings] assms(1,3)] .
  have sc2: "schema_ok (db w2)"
    using keepsD [OF keeps_requests_api [OF schema.keeps_voucher_api [OF pings]] sc1 assms(5)] .
  have "hp_Status rep2 \<noteq> 200"
  proof
    assume "hp_Status rep2 = 200"
    from claim_endpoint_ok [OF sc2 assms(6) this] obtain vid' where
      "run_state (VerifyMagicLink lib (gc_HMACSecret cfg) (hq_Query r2 ''token'')) w2 = (Inr vid', w2)"
      "\<exists>v \<in> set (ticket_vouchers (db w2)). claimable vid' v" by metis
    with assms(7) 1(1) sp2 show False by (auto simp: spent_def claimable_def)
  qed
  moreover from sp3 have "\<exists>v \<in> set (ticket_vouchers (db w3)). v_VoucherID v = vid \<and> v_Status v = StatusClaimed \<and>
      v_OwnerID v = Some (u_ID u)" by (auto simp: spent_def)
  ultimately show ?thesis using 1 by auto
qed

definition claim_jwt :: jwt_lib where
  "claim_jwt = demo_jwt\<lparr>jwt_Parse := (\<lambda>key now tok. Inr \<lparr>tk_Valid = True,
     tk_Claims = Some [''voucher_id'' \<mapsto> JStr ''voucher-1-0''], tk_ExpirationTime = Inr None\<rparr>)\<rparr>"

definition claim_request :: "string \<Rightarrow> http_request" where
  "claim_request email = \<lparr>hq_Method = ''GET'', hq_Query = (\<lambda>_. []) (''token'' := ''t'', ''email'' := email),
     hq_Body = Text []\<rparr>"

definition voucher_demo :: "(string \<times> handler) list" where
  "voucher_demo = voucher_routes claim_jwt (default_GateConfig ''secret'')
     \<lparr>hc_service = ''voucher'', hc_checks = [Postgres_Ping, Redis_Ping], hc_startTime = 0\<rparr>"

lemma first_claim:
  "hp_Status (fst (run_state (http_serve voucher_demo ''/api/vouchers/claim'' (claim_request ''a@x'')) family_world)) = 200"
proof -
  have "run_state (VerifyMagicLink claim_jwt s ''t'') w = (Inr ''voucher-1-0'', w)" for s w
    by (simp add: VerifyMagicLink_def claim_jwt_def link_voucher_def claim_string_def)
  moreover have "run_state (CreateUser ''a@x'') family_world =
      (Inr family_user, family_world\<lparr>db := family_db\<lparr>users_seq := users_seq family_db + 1\<rparr>\<rparr>)"
    by (simp add: CreateUser_def q_create_user_def varchar_def char_length_def family_user_def)
  moreover have "u_ID family_user = 1" "v_VoucherID family_voucher = ''voucher-1-0''" "v_Status family_voucher = StatusUnclaimed"
    by (simp_all add: family_user_def family_voucher_def)
  ultimately show ?thesis
    by (simp add: http_serve_def voucher_demo_def voucher_routes_def handle_claim_def or_status_def claim_request_def
        ClaimVoucher_def q_claim_voucher_def rows_affected_def claimable_def)
qed

theorem voucher_claimed_once_witness:
  "\<exists>rep1 w1 rep2 w3.
     run_state (http_serve voucher_demo ''/api/vouchers/claim'' (claim_request ''a@x'')) family_world = (rep1, w1) \<and>
     hp_Status rep1 = 200 \<and>
     run_state (http_serve voucher_demo ''/api/vouchers/claim'' (claim_request ''b@x'')) w1 = (rep2, w3) \<and>
     hp_Status rep2 \<noteq> 200"
proof -
  let ?lib = claim_jwt and ?cfg = "default_GateConfig ''secret''" and
    ?h = "\<lparr>hc_service = ''voucher'', hc_checks = [Postgres_Ping, Redis_Ping], hc_startTime = 0\<rparr>"
  obtain rep1 w1 where 1: "run_state (http_serve voucher_demo ''/api/vouchers/claim'' (claim_request ''a@x'')) family_world = (rep1, w1)"
    by fastforce
  obtain rep2 w3 where 2: "run_state (http_serve voucher_demo ''/api/vouchers/claim'' (claim_request ''b@x'')) w1 = (rep2, w3)"
    by fastforce
  have ok: "hp_Status rep1 = 200" using first_claim 1 by simp
  have v: "fst (run_state (VerifyMagicLink ?lib (gc_HMACSecret ?cfg) (hq_Query (claim_request e) ''token'')) w) =
      Inr ''voucher-1-0''" for e w
    by (simp add: VerifyMagicLink_def claim_jwt_def link_voucher_def claim_string_def claim_request_def)
  have s: "schema_ok (db family_world)" using family_schema by simp
  have n: "run_state (requests (voucher_routes ?lib ?cfg ?h) []) w1 = ([], w1)" by simp
  from voucher_claimed_once [OF s _ 1 [unfolded voucher_demo_def] ok n 2 [unfolded voucher_demo_def]] v
  have "hp_Status rep2 \<noteq> 200" by simp
  with 1 2 ok show ?thesis by blast
qed

end
