(* ===== verification/Storage.thy ===== *)
theory Storage
  imports Services
begin

text \<open>
  \<^verbatim>\<open>internal/storage\<close>: the badge and the metadata of a ride, the Pinata client, and the
  cache that pins the assets of a ride once. Title case and the random source are parameters of
  the environment.
\<close>

section \<open>Text\<close>

text \<open>\<^verbatim>\<open>strings.ReplaceAll(s, "-", t)\<close>.\<close>

definition replace_dash :: "string \<Rightarrow> string \<Rightarrow> string" where
  "replace_dash t s = concat (map (\<lambda>c. if c = CHR ''-'' then t else [c]) s)"

text \<open>The runes a \<^verbatim>\<open>range\<close> loop sees: UTF-8, an invalid byte counting as U+FFFD.\<close>

definition continuation :: "nat \<Rightarrow> nat \<Rightarrow> char \<Rightarrow> bool" where
  "continuation lo hi c \<longleftrightarrow> lo \<le> of_char c \<and> of_char c \<le> hi"

definition second_byte :: "nat \<Rightarrow> nat \<times> nat" where
  "second_byte b = (if b = 224 then (160, 191) else if b = 237 then (128, 159)
     else if b = 240 then (144, 191) else if b = 244 then (128, 143) else (128, 191))"

definition rune_size :: "string \<Rightarrow> nat" where
  "rune_size s = (case s of [] \<Rightarrow> 0 | c # rest \<Rightarrow>
     (let b = of_char c :: nat;
          n = (if b < 128 then 1 else if 194 \<le> b \<and> b \<le> 223 then 2 else if 224 \<le> b \<and> b \<le> 239 then 3
               else if 240 \<le> b \<and> b \<le> 244 then 4 else 0);
          (lo, hi) = second_byte b
      in if n \<ge> 2 \<and> length rest \<ge> n - 1 \<and> continuation lo hi (rest ! 0) \<and>
            list_all (continuation 128 191) (take (n - 2) (drop 1 rest)) then n
         else if n = 1 then 1 else 0))"

definition rune_value :: "nat \<Rightarrow> string \<Rightarrow> int" where
  "rune_value n s = (case map of_char (take n s) of
       [b] \<Rightarrow> b
     | [b, c] \<Rightarrow> (b - 192) * 64 + (c - 128)
     | [b, c, d] \<Rightarrow> (b - 224) * 4096 + (c - 128) * 64 + (d - 128)
     | [b, c, d, e] \<Rightarrow> (b - 240) * 262144 + (c - 128) * 4096 + (d - 128) * 64 + (e - 128)
     | _ \<Rightarrow> 65533)"

function runes :: "string \<Rightarrow> int list" where
  "runes [] = []"
| "runes (c # s) = (let n = rune_size (c # s)
     in if n = 0 then 65533 # runes s else rune_value n (c # s) # runes (drop (n - 1) s))"
  by pat_completeness auto

termination
  by (relation "measure length") (auto simp: rune_size_def)

definition hash :: "string \<Rightarrow> int" where
  "hash s = (let h = foldl (\<lambda>h c. int64 (h * 31 + c)) 0 (runes s) in if h < 0 then int64 (- h) else h)"

section \<open>Metadata\<close>

record Attribute =
  at_TraitType :: string
  at_Value :: string

record NFTMetadata =
  nm_Name :: string
  nm_Description :: string
  nm_Image :: string
  nm_Attributes :: "Attribute list"

definition rideNames :: "string \<rightharpoonup> string" where
  "rideNames = map_of
     [(''ride-001'', ''Space Mountain''), (''ride-002'', ''Pirates of the Caribbean''),
      (''ride-003'', ''Haunted Mansion''), (''ride-004'', ''Big Thunder Mountain''),
      (''ride-005'', ''Splash Mountain''), (''ride-006'', ''Indiana Jones Adventure''),
      (''ride-007'', ''It'' @ [CHR 0x27] @ ''s a Small World''),
      (''ride-008'', ''Star Wars: Rise of the Resistance''),
      (''ride-009'', ''Avatar Flight of Passage''), (''ride-010'', ''Expedition Everest'')]"

definition RideName :: "environment \<Rightarrow> string \<Rightarrow> string" where
  "RideName e rideID = (case rideNames rideID of Some name \<Rightarrow> name
     | None \<Rightarrow> env_title e (replace_dash '' '' rideID))"

definition displayDate :: "string \<Rightarrow> string" where
  "displayDate date0 = (let date = replace_dash [] date0
     in if length date = 8
        then take 4 date @ ''-'' @ take 2 (drop 4 date) @ ''-'' @ drop 6 date
        else date)"

definition em_dash :: string where
  "em_dash = map char_of [226, 128, 148 :: nat]"

definition BuildMetadata :: "environment \<Rightarrow> string \<Rightarrow> string \<Rightarrow> string \<Rightarrow> NFTMetadata" where
  "BuildMetadata e rideID date imageURL =
     (let name = RideName e rideID
      in \<lparr>nm_Name = name @ '' '' @ em_dash @ '' '' @ displayDate date,
          nm_Description = ''Attendance NFT for completing '' @ name @ '' on '' @ displayDate date,
          nm_Image = imageURL,
          nm_Attributes =
            [\<lparr>at_TraitType = ''Ride'', at_Value = name\<rparr>,
             \<lparr>at_TraitType = ''Ride ID'', at_Value = rideID\<rparr>,
             \<lparr>at_TraitType = ''Date'', at_Value = displayDate date\<rparr>,
             \<lparr>at_TraitType = ''Rarity'', at_Value = ''Common''\<rparr>]\<rparr>)"

definition marshal_Attribute :: "Attribute \<Rightarrow> json" where
  "marshal_Attribute a = JObj [(''trait_type'', JStr (at_TraitType a)), (''value'', JStr (at_Value a))]"

definition marshal_NFTMetadata :: "NFTMetadata \<Rightarrow> json" where
  "marshal_NFTMetadata m = JObj
     [(''name'', JStr (nm_Name m)), (''description'', JStr (nm_Description m)),
      (''image'', JStr (nm_Image m)), (''attributes'', JArr (map marshal_Attribute (nm_Attributes m)))]"

section \<open>The badge\<close>

definition rideColors :: "string \<rightharpoonup> string" where
  "rideColors = map_of
     [(''ride-001'', ''#1a1a2e''), (''ride-002'', ''#3d1c02''), (''ride-003'', ''#2d1b4e''),
      (''ride-004'', ''#8b4513''), (''ride-005'', ''#1e90ff''), (''ride-006'', ''#b8860b''),
      (''ride-007'', ''#ff69b4''), (''ride-008'', ''#ff4500''), (''ride-009'', ''#00ced1''),
      (''ride-010'', ''#228b22'')]"

definition ride_color :: "environment \<Rightarrow> string \<Rightarrow> string" where
  "ride_color e rideID = (case rideColors rideID of Some c \<Rightarrow> c
     | None \<Rightarrow> ''#'' @ pad 6 (show_hex (nat (env_intn e (hash rideID) 16777215))))"

text \<open>Lines of markup; \<open>attr\<close> is a quoted attribute value.\<close>

definition attr :: "string \<Rightarrow> string" where
  "attr s = [CHR 0x22] @ s @ [CHR 0x22]"

definition svg_text :: "string \<Rightarrow> string \<Rightarrow> string \<Rightarrow> string \<Rightarrow> string \<Rightarrow> string" where
  "svg_text y fill fsize weight body =
     ''  <text x='' @ attr ''256'' @ '' y='' @ attr y @ '' text-anchor='' @ attr ''middle'' @ '' fill='' @ attr fill @
     '' font-family='' @ attr ''Arial, sans-serif'' @ '' font-size='' @ attr fsize @ weight @ ''>'' @ body @ ''</text>''"

definition GenerateRideSVG :: "environment \<Rightarrow> string \<Rightarrow> string \<Rightarrow> string" where
  "GenerateRideSVG e rideID date =
     (let name = RideName e rideID; color = ride_color e rideID; displayDt = displayDate date;
          bold = '' font-weight='' @ attr ''bold'';
          stop = (\<lambda>off c. ''      <stop offset='' @ attr off @ '' style='' @
             attr (''stop-color:'' @ c @ '';stop-opacity:1'') @ ''/>'')
      in join [CHR 0x0A]
        [''<svg xmlns='' @ attr ''http://www.w3.org/2000/svg'' @ '' width='' @ attr ''512'' @ '' height='' @ attr ''512'' @
           '' viewBox='' @ attr ''0 0 512 512'' @ ''>'',
         ''  <defs>'',
         ''    <linearGradient id='' @ attr ''bg'' @ '' x1='' @ attr ''0%'' @ '' y1='' @ attr ''0%'' @ '' x2='' @ attr ''100%'' @
           '' y2='' @ attr ''100%'' @ ''>'',
         stop ''0%'' color,
         stop ''100%'' ''#000000'',
         ''    </linearGradient>'',
         ''  </defs>'',
         ''  <rect width='' @ attr ''512'' @ '' height='' @ attr ''512'' @ '' rx='' @ attr ''32'' @ '' fill='' @ attr ''url(#bg)'' @ ''/>'',
         svg_text ''160'' ''white'' ''28'' bold (map char_of [240, 159, 142, 162 :: nat] @ '' ThemeParkNFT''),
         svg_text ''240'' ''white'' ''36'' bold name,
         svg_text ''300'' ''#cccccc'' ''22'' [] displayDt,
         svg_text ''380'' ''#999999'' ''16'' [] ''Attendance NFT'',
         svg_text ''440'' ''#666666'' ''14'' [] ''Verified on Sui Blockchain'',
         ''</svg>''])"

section \<open>Pinata\<close>

record PinataClient =
  pn_apiKey :: string
  pn_apiSecret :: string
  pn_jwt :: string
  pn_gateway :: string

record PinataResponse =
  pr_IpfsHash :: string
  pr_PinSize :: int
  pr_Timestamp :: string

definition NewPinataClient :: "string \<Rightarrow> string \<Rightarrow> string \<Rightarrow> string \<Rightarrow> PinataClient" where
  "NewPinataClient apiKey apiSecret jwt gateway =
     \<lparr>pn_apiKey = apiKey, pn_apiSecret = apiSecret, pn_jwt = jwt,
      pn_gateway = (if gateway = [] then ''https://gateway.pinata.cloud'' else gateway)\<rparr>"

definition applyAuth :: "PinataClient \<Rightarrow> (string \<times> string) list" where
  "applyAuth p = (if pn_jwt p \<noteq> [] then [(''Authorization'', ''Bearer '' @ pn_jwt p)]
     else [(''pinata_api_key'', pn_apiKey p), (''pinata_secret_api_key'', pn_apiSecret p)])"

definition field_PinataResponse :: "string \<Rightarrow> json \<Rightarrow> PinataResponse \<times> bool \<Rightarrow> PinataResponse \<times> bool" where
  [codec_defs]: "field_PinataResponse k v =
     (if key_is ''ipfshash'' k then set_string (\<lambda>s r. r\<lparr>pr_IpfsHash := s\<rparr>) v
      else if key_is ''pinsize'' k then set_int64 (\<lambda>i r. r\<lparr>pr_PinSize := i\<rparr>) v
      else if key_is ''timestamp'' k then set_string (\<lambda>s r. r\<lparr>pr_Timestamp := s\<rparr>) v
      else (\<lambda>acc. acc))"

definition pinned :: "string \<Rightarrow> http_response \<Rightarrow> goerr + string \<times> string" where
  "pinned what resp =
     (if hr_Status resp \<noteq> 200
      then Inl (Msg (''pinata '' @ what @ '' returned '' @ show_int (hr_Status resp) @ '': '' @ hr_Body resp))
      else case unmarshal field_PinataResponse \<lparr>pr_IpfsHash = [], pr_PinSize = 0, pr_Timestamp = []\<rparr> (hr_JSON resp) of
          Inl err \<Rightarrow> Inl (wrapf ''decode pinata response: '' err)
        | Inr r \<Rightarrow> Inr (pr_IpfsHash r, ''ipfs://'' @ pr_IpfsHash r))"

definition PinFile :: "PinataClient \<Rightarrow> string \<Rightarrow> string \<Rightarrow> (world, string \<times> string) go" where
  "PinFile p filename content =
     check (http (HttpForm ''https://api.pinata.cloud/pinning/pinFileToIPFS'' (applyAuth p) filename content))
       (wrapf ''pinata pinFile request: '') (\<lambda>resp. State_Monad.return (pinned ''pinFile'' resp))"

definition PinJSON :: "PinataClient \<Rightarrow> string \<Rightarrow> json \<Rightarrow> (world, string \<times> string) go" where
  "PinJSON p name data =
     check (http (HttpPost ''https://api.pinata.cloud/pinning/pinJSONToIPFS''
         ((''Content-Type'', ''application/json'') # applyAuth p)
         (JObj [(''pinataContent'', data), (''pinataMetadata'', JObj [(''name'', JStr name)])])))
       (wrapf ''pinata pinJSON request: '') (\<lambda>resp. State_Monad.return (pinned ''pinJSON'' resp))"

definition GatewayURL :: "PinataClient \<Rightarrow> string \<Rightarrow> string" where
  "GatewayURL p ipfsURI =
     (if length ipfsURI > 7 \<and> take 7 ipfsURI = ''ipfs://''
      then pn_gateway p @ ''/ipfs/'' @ drop 7 ipfsURI else ipfsURI)"

section \<open>The cache\<close>

definition GetOrPin :: "PinataClient \<Rightarrow> string \<Rightarrow> string \<Rightarrow> (world, RideAssets) go" where
  "GetOrPin p rideID date = do {
     cache \<leftarrow> gets cid_cache;
     case cache rideID of
       Some assets \<Rightarrow> returns assets
     | None \<Rightarrow> do {
         e \<leftarrow> gets env;
         check (PinFile p (rideID @ ''-'' @ date @ ''.svg'') (GenerateRideSVG e rideID date))
             (wrapf (''pin artwork for '' @ rideID @ '': '')) (\<lambda>(artCID, artURI).
         check (PinJSON p (rideID @ ''-metadata-'' @ date)
               (marshal_NFTMetadata (BuildMetadata e rideID date artURI)))
             (wrapf (''pin metadata for '' @ rideID @ '': '')) (\<lambda>(metaCID, metaURI). do {
           let assets = \<lparr>a_ArtworkCID = artCID, a_ArtworkURI = artURI, a_MetadataCID = metaCID,
                         a_MetadataURI = metaURI\<rparr>;
           _ \<leftarrow> modify (\<lambda>w. w\<lparr>cid_cache := (cid_cache w)(rideID \<mapsto> assets)\<rparr>);
           returns assets
         }))
       }
   }"

definition cache_Get :: "string \<Rightarrow> (world, RideAssets option) state" where
  "cache_Get rideID = gets (\<lambda>w. cid_cache w rideID)"

definition cache_Size :: "(world, nat) state" where
  "cache_Size = gets (\<lambda>w. card (dom (cid_cache w)))"

section \<open>Pins are bounded\<close>

lemma http_ok:
  assumes "run_state (http req) w = (Inr x, w')"
  shows "rpc_log w' = rpc_log w @ [req] \<and> cid_cache w' = cid_cache w \<and> env w' = env w"
  using assms unfolding http_def
  by (auto elim!: run_call_cases simp: next_event_def split: list.splits)

lemma PinFile_ok:
  assumes "run_state (PinFile p filename content) w = (Inr x, w')"
  shows "length (rpc_log w') = length (rpc_log w) + 1 \<and> cid_cache w' = cid_cache w"
  using assms by (auto simp: PinFile_def split: prod.splits sum.splits dest!: http_ok)

lemma PinJSON_ok:
  assumes "run_state (PinJSON p name data) w = (Inr x, w')"
  shows "length (rpc_log w') = length (rpc_log w) + 1 \<and> cid_cache w' = cid_cache w"
  using assms by (auto simp: PinJSON_def split: prod.splits sum.splits dest!: http_ok)

lemma GetOrPin_cached:
  "cid_cache w rideID = Some a \<Longrightarrow> run_state (GetOrPin p rideID date) w = (Inr a, w)"
  by (simp add: GetOrPin_def)

lemma GetOrPin_fresh:
  assumes "run_state (GetOrPin p rideID date) w = (Inr a, w')" and "cid_cache w rideID = None"
  shows "length (rpc_log w') = length (rpc_log w) + 2 \<and> cid_cache w' = (cid_cache w)(rideID \<mapsto> a)"
proof -
  let ?file = "PinFile p (rideID @ ''-'' @ date @ ''.svg'') (GenerateRideSVG (env w) rideID date)"
  obtain r1 w1 where f: "run_state ?file w = (r1, w1)" by fastforce
  from assms f obtain c u where r1: "r1 = Inr (c, u)"
    by (cases r1) (auto simp: GetOrPin_def)
  let ?json = "PinJSON p (rideID @ ''-metadata-'' @ date) (marshal_NFTMetadata (BuildMetadata (env w) rideID date u))"
  obtain r2 w2 where j: "run_state ?json w1 = (r2, w2)" by fastforce
  from assms f r1 j obtain c2 u2 where r2: "r2 = Inr (c2, u2)"
    by (cases r2) (auto simp: GetOrPin_def)
  from PinFile_ok [OF f [unfolded r1]] PinJSON_ok [OF j [unfolded r2]] assms f r1 j r2 show ?thesis
    by (auto simp: GetOrPin_def Let_def)
qed

fun pin_all :: "PinataClient \<Rightarrow> (string \<times> string) list \<Rightarrow> (world, (goerr + RideAssets) list) state" where
  "pin_all p [] = State_Monad.return []"
| "pin_all p ((ride, date) # reqs) = do {
     r \<leftarrow> GetOrPin p ride date;
     rs \<leftarrow> pin_all p reqs;
     State_Monad.return (r # rs)
   }"

lemma card_uncached_insert:
  assumes "finite A" and "x \<notin> dom c"
  shows "card (insert x A - dom c) = card (A - dom (c(x \<mapsto> a))) + 1"
proof -
  have "insert x A - dom c = insert x (A - dom (c(x \<mapsto> a)))" using assms(2) by auto
  then show ?thesis using assms(1) by simp
qed

text \<open>
  C38: the assets of a ride are pinned once. Over any sequence of requests that all succeed, for
  whatever dates and under any schedule, at most two uploads are made per ride that was not in
  the cache yet, and every ride asked for is in the cache afterwards.
\<close>

theorem pins_bounded:
  assumes "run_state (pin_all p reqs) w = (rs, w')" and "\<forall>r \<in> set rs. \<exists>a. r = Inr a"
  shows "length (rpc_log w') \<le> length (rpc_log w) + 2 * card (fst ` set reqs - dom (cid_cache w)) \<and>
    fst ` set reqs \<subseteq> dom (cid_cache w') \<and> cid_cache w \<subseteq>\<^sub>m cid_cache w'"
  using assms
proof (induction reqs arbitrary: w rs)
  case (Cons req reqs)
  obtain ride date where req: "req = (ride, date)" by fastforce
  obtain r w1 where g: "run_state (GetOrPin p ride date) w = (r, w1)" by fastforce
  obtain rs1 w2 where rest: "run_state (pin_all p reqs) w1 = (rs1, w2)" by fastforce
  from Cons.prems req g rest have rs: "rs = r # rs1" "w2 = w'" by simp_all
  with Cons.prems(2) obtain a where r: "r = Inr a" and ok: "\<forall>r \<in> set rs1. \<exists>a. r = Inr a" by auto
  from rest rs(2) have rest': "run_state (pin_all p reqs) w1 = (rs1, w')" by simp
  note IH = Cons.IH [OF rest' ok]
  show ?case
  proof (cases "cid_cache w ride")
    case (Some b)
    with g GetOrPin_cached have "w1 = w" by (metis prod.inject)
    moreover have "insert ride (fst ` set reqs) - dom (cid_cache w) = fst ` set reqs - dom (cid_cache w)"
      using Some by auto
    ultimately show ?thesis using IH Some by (auto simp: req map_le_def dom_def)
  next
    case None
    note fresh = GetOrPin_fresh [OF g [unfolded r] None]
    have "card (insert ride (fst ` set reqs) - dom (cid_cache w)) =
        card (fst ` set reqs - dom (cid_cache w1)) + 1"
      using card_uncached_insert [of "fst ` set reqs" ride "cid_cache w" a] None fresh by auto
    moreover have le: "cid_cache w \<subseteq>\<^sub>m cid_cache w1" using fresh None by (auto simp: map_le_def)
    moreover have "cid_cache w \<subseteq>\<^sub>m cid_cache w'" using map_le_trans [OF le] IH by blast
    moreover have "ride \<in> dom (cid_cache w')"
      using IH fresh unfolding map_le_def by (metis domI fun_upd_same)
    moreover have "length (rpc_log w1) = length (rpc_log w) + 2" using fresh by simp
    ultimately show ?thesis using IH by (simp add: req)
  qed
qed simp

text \<open>
  The metadata of a ride carries the date of the first request. Whatever date is asked for
  afterwards, the cache answers with the assets of the first one and uploads nothing.
\<close>

theorem first_date_is_reused:
  assumes "run_state (GetOrPin p rideID date1) w = (Inr a, w1)"
  shows "run_state (GetOrPin p' rideID date2) w1 = (Inr a, w1)"
proof (cases "cid_cache w rideID")
  case None
  with GetOrPin_fresh [OF assms None] show ?thesis by (intro GetOrPin_cached) simp
next
  case (Some b)
  with assms GetOrPin_cached [OF Some] show ?thesis by (metis GetOrPin_cached prod.inject sum.inject(2))
qed

section \<open>The statements at a concrete ride\<close>

definition pinata_env :: environment where
  "pinata_env = plain_environment\<lparr>env_http := (\<lambda>log req. Inr \<lparr>hr_Status = 200, hr_Body = [],
     hr_JSON = Json (JObj [(''IpfsHash'', JStr (''Qm'' @ show_nat (length log)))])\<rparr>)\<rparr>"

definition pinata_world :: world where
  "pinata_world = start_world pinata_env 5000 []"

definition demo_pinata :: PinataClient where
  "demo_pinata = NewPinataClient [] [] ''jwt'' []"

definition coaster_assets :: RideAssets where
  "coaster_assets = \<lparr>a_ArtworkCID = ''Qm0'', a_ArtworkURI = ''ipfs://Qm0'', a_MetadataCID = ''Qm1'',
     a_MetadataURI = ''ipfs://Qm1''\<rparr>"

lemma pinned_reply: "pinned what \<lparr>hr_Status = 200, hr_Body = [],
    hr_JSON = Json (JObj [(''IpfsHash'', JStr cid)])\<rparr> = Inr (cid, ''ipfs://'' @ cid)"
proof -
  have k: "key_is ''ipfshash'' ''IpfsHash''" by code_simp
  show ?thesis by (simp add: pinned_def unmarshal_def field_PinataResponse_def k set_string_def)
qed

lemma run_pin_coaster:
  "\<exists>w'. run_state (GetOrPin demo_pinata ''ride-001'' date) pinata_world = (Inr coaster_assets, w')"
proof -
  have s: "show_nat 0 = ''0''" "show_nat (Suc 0) = ''1''" by code_simp+
  have q: "quiet pinata_world" "cid_cache pinata_world = Map.empty" "env pinata_world = pinata_env"
    "rpc_log pinata_world = []"
    by (simp_all add: pinata_world_def start_world_def quiet_def)
  have e: "env_http pinata_env = (\<lambda>log req. Inr \<lparr>hr_Status = 200, hr_Body = [],
      hr_JSON = Json (JObj [(''IpfsHash'', JStr (''Qm'' @ show_nat (length log)))])\<rparr>)"
    by (simp add: pinata_env_def)
  show ?thesis
    by (simp add: GetOrPin_def PinFile_def PinJSON_def q e pinned_reply s coaster_assets_def Let_def
        del: append.simps)
qed

theorem first_date_is_reused_witness:
  "\<exists>w1. run_state (GetOrPin demo_pinata ''ride-001'' ''2026-08-13'') pinata_world = (Inr coaster_assets, w1) \<and>
     run_state (GetOrPin demo_pinata ''ride-001'' ''2026-08-14'') w1 = (Inr coaster_assets, w1)"
  using run_pin_coaster first_date_is_reused by blast

theorem pins_bounded_witness:
  "length (rpc_log (snd (run_state (pin_all demo_pinata
     [(''ride-001'', ''2026-08-13''), (''ride-001'', ''2026-08-14'')]) pinata_world))) \<le> 2"
proof -
  let ?reqs = "[(''ride-001'', ''2026-08-13''), (''ride-001'', ''2026-08-14'')]"
  from run_pin_coaster [of "''2026-08-13''"] obtain w1 where
    1: "run_state (GetOrPin demo_pinata ''ride-001'' ''2026-08-13'') pinata_world = (Inr coaster_assets, w1)" by blast
  have "cid_cache w1 ''ride-001'' = Some coaster_assets"
    using GetOrPin_fresh [OF 1] by (simp add: pinata_world_def start_world_def)
  from GetOrPin_cached [OF this, of demo_pinata "''2026-08-14''"] 1
  have r: "run_state (pin_all demo_pinata ?reqs) pinata_world = ([Inr coaster_assets, Inr coaster_assets], w1)"
    by simp
  from pins_bounded [OF r] r show ?thesis by (simp add: pinata_world_def start_world_def)
qed

end
