(* ===== verification/Mint_Day.thy ===== *)
theory Mint_Day
  imports Voucher_Behaviour Sui_Client Storage
begin

text \<open>
  \<^verbatim>\<open>internal/minter\<close>: the end-of-day pass. The rides of a participant come from the
  table of scans, the resolver decides who can be minted and records the others in the ledger,
  and the batch submits the mints and attributes them.
\<close>

section \<open>The rides of a participant\<close>

text \<open>
  The rows of the two queries, without duplicates; \<^verbatim>\<open>ORDER BY scanned_at\<close> leaves the
  order of simultaneous scans to Postgres.
\<close>

definition ordered_rides :: "environment \<Rightarrow> ScanRecord list \<Rightarrow> (string \<times> int) list" where
  "ordered_rides e rows = sort_key snd (env_order e (remdups (map (\<lambda>s. (s_RideID s, s_ScannedAt s)) rows)))"

definition q_rides :: "string \<Rightarrow> (int \<Rightarrow> database \<Rightarrow> ScanRecord \<Rightarrow> bool) \<Rightarrow> environment \<Rightarrow> database \<Rightarrow>
    (goerr + (string \<times> int) list) \<times> database" where
  "q_rides date p e d = (case env_date_in e date of
       None \<Rightarrow> Inl bad_date
     | Some day \<Rightarrow> Inr (ordered_rides e (filter (p day d) (scan_events d))), d)"

definition scan_by_email :: "string \<Rightarrow> environment \<Rightarrow> int \<Rightarrow> database \<Rightarrow> ScanRecord \<Rightarrow> bool" where
  "scan_by_email email e day d s \<longleftrightarrow>
     list_ex (\<lambda>u. s_UserID s = Some (u_ID u) \<and> u_Email u = email) (users d) \<and> env_ts_date e (s_ScannedAt s) = day"

definition scan_by_participant :: "int \<Rightarrow> environment \<Rightarrow> int \<Rightarrow> database \<Rightarrow> ScanRecord \<Rightarrow> bool" where
  "scan_by_participant participantID e day d s \<longleftrightarrow>
     list_ex (\<lambda>v. s_TicketID s = Some (v_VoucherID v) \<and> v_ParticipantID v = Some participantID)
       (ticket_vouchers d) \<and> env_ts_date e (s_ScannedAt s) = day"

definition byEmail :: "string \<Rightarrow> string \<Rightarrow> (world, string list \<times> int list) go" where
  "byEmail email date =
     check (sql (\<lambda>e _. q_rides date (scan_by_email email e) e)) (wrapf ''query scan_events by email: '')
       (\<lambda>rows. returns (map fst rows, map snd rows))"

definition byParticipantID :: "int \<Rightarrow> string \<Rightarrow> (world, string list \<times> int list) go" where
  "byParticipantID participantID date =
     check (sql (\<lambda>e _. q_rides date (scan_by_participant participantID e) e))
       (wrapf ''query scan_events by participant: '') (\<lambda>rows. returns (map fst rows, map snd rows))"

definition RidesForParticipant :: "Participant \<Rightarrow> string \<Rightarrow> (world, string list \<times> int list) go" where
  "RidesForParticipant p date = (case p_AccountEmail p of
       Some email \<Rightarrow> if email \<noteq> [] then byEmail email date else byParticipantID (p_ID p) date
     | None \<Rightarrow> byParticipantID (p_ID p) date)"

section \<open>The resolver\<close>

record WalletResolver =
  wr_ResolveMintWallet :: "Participant \<Rightarrow> MintResolution"
  wr_RecordPendingMint :: "RecordPendingMintRequest \<Rightarrow> (world, unit) go"

record DayResolver =
  dv_ListParticipants :: "(world, Participant list) go"
  dv_RidesForParticipant :: "Participant \<Rightarrow> string \<Rightarrow> (world, string list \<times> int list) go"
  dv_wallets :: WalletResolver

definition production_resolver :: DayResolver where
  "production_resolver = \<lparr>dv_ListParticipants = ListParticipants, dv_RidesForParticipant = RidesForParticipant,
     dv_wallets = \<lparr>wr_ResolveMintWallet = ResolveMintWallet,
                   wr_RecordPendingMint = RecordPendingMint postgres_repo\<rparr>\<rparr>"

datatype Outcome = OutcomePending | OutcomeMintReady

record Resolution =
  rs_ParticipantID :: int
  rs_MintDate :: string
  rs_RideIDs :: "string list"
  rs_WalletState :: ParticipantWalletState
  rs_WalletAddress :: string
  rs_Outcome :: Outcome

definition resolution :: "string \<Rightarrow> Participant \<Rightarrow> string list \<Rightarrow> MintResolution \<Rightarrow> Resolution" where
  "resolution date p rides res =
     \<lparr>rs_ParticipantID = p_ID p, rs_MintDate = date, rs_RideIDs = rides, rs_WalletState = mr_WalletState res,
      rs_WalletAddress = mr_WalletAddress res,
      rs_Outcome = (if mr_Pending res then OutcomePending else OutcomeMintReady)\<rparr>"

text \<open>The loop over the participants; what was resolved before an error comes back with it.\<close>

fun resolve_all :: "DayResolver \<Rightarrow> string \<Rightarrow> Participant list \<Rightarrow> Resolution list \<Rightarrow>
    (world, Resolution list \<times> goerr option) state" where
  "resolve_all d date [] resolutions = State_Monad.return (resolutions, None)"
| "resolve_all d date (p # ps) resolutions =
     on_err (dv_RidesForParticipant d p date)
       (\<lambda>err. State_Monad.return
          (resolutions, Some (wrapf (''rides for participant '' @ show_int (p_ID p) @ '': '') err)))
       (\<lambda>(rides, ats).
          if rides = [] then resolve_all d date ps resolutions
          else (let res = wr_ResolveMintWallet (dv_wallets d) p;
                    done = resolve_all d date ps (resolutions @ [resolution date p rides res])
            in if mr_Pending res
               then on_err (wr_RecordPendingMint (dv_wallets d)
                     \<lparr>rp_ParticipantID = p_ID p, rp_MintDate = date, rp_RideIDs = rides, rp_ScannedAts = ats\<rparr>)
                   (\<lambda>err. State_Monad.return (resolutions, Some (wrapf
                      (''record pending mint for participant '' @ show_int (p_ID p) @ '': '') err)))
                   (\<lambda>_. done)
               else done))"

definition ResolveDay :: "DayResolver \<Rightarrow> string \<Rightarrow> (world, Resolution list \<times> goerr option) state" where
  "ResolveDay d date =
     on_err (dv_ListParticipants d)
       (\<lambda>err. State_Monad.return ([], Some (wrapf ''list participants: '' err)))
       (\<lambda>ps. resolve_all d date ps [])"

section \<open>The batch\<close>

type_synonym MetadataProvider = "string \<Rightarrow> string \<Rightarrow> (world, string) go"
type_synonym MintRecorder = "int \<Rightarrow> string \<Rightarrow> string \<Rightarrow> string \<Rightarrow> (world, unit) go"

definition cid_metadata :: "PinataClient option \<Rightarrow> MetadataProvider" where
  "cid_metadata cache rideID date = (case cache of
       None \<Rightarrow> fails (Msg ''CID cache not configured'')
     | Some p \<Rightarrow> check (GetOrPin p rideID date) id (\<lambda>assets. returns (a_MetadataURI assets)))"

record BatchMint =
  bm_client :: Minter
  bm_metadata :: MetadataProvider
  bm_records :: MintRecorder

record MintLive =
  ml_ParticipantID :: int
  ml_WalletAddress :: string
  ml_RideIDs :: "string list"
  ml_Date :: string

record MintResolutionResult =
  mx_ParticipantID :: int
  mx_WalletAddress :: string
  mx_RideIDs :: "string list"
  mx_TxDigest :: string
  mx_Minted :: bool
  mx_Error :: string

definition NewBatchMint :: "Minter \<Rightarrow> MetadataProvider \<Rightarrow> MintRecorder \<Rightarrow> BatchMint" where
  "NewBatchMint client metadata records =
     \<lparr>bm_client = client, bm_metadata = metadata, bm_records = records\<rparr>"

definition rideName :: "string \<Rightarrow> string" where
  "rideName rideID = (if rideID = [] then ''Ride'' else ''Ride '' @ rideID)"

fun pin_urls :: "BatchMint \<Rightarrow> string \<Rightarrow> string list \<Rightarrow> string list \<Rightarrow> (world, string + string list) state" where
  "pin_urls b date [] urls = State_Monad.return (Inr urls)"
| "pin_urls b date (rideID # rides) urls =
     on_err (bm_metadata b rideID date)
       (\<lambda>err. State_Monad.return (Inl (''pin metadata '' @ rideID @ '': '' @ Error err)))
       (\<lambda>uri. pin_urls b date rides (urls @ [uri]))"

fun record_all :: "BatchMint \<Rightarrow> MintLive \<Rightarrow> string \<Rightarrow> string list \<Rightarrow> (world, string + unit) state" where
  "record_all b l digest [] = State_Monad.return (Inr ())"
| "record_all b l digest (rideID # rides) =
     on_err (bm_records b (ml_ParticipantID l) rideID (ml_Date l) digest)
       (\<lambda>err. State_Monad.return (Inl (''record mint '' @ rideID @ '': '' @ Error err)))
       (\<lambda>_. record_all b l digest rides)"

definition mintOne :: "BatchMint \<Rightarrow> MintLive \<Rightarrow> (world, MintResolutionResult) state" where
  "mintOne b l =
     (let res = \<lparr>mx_ParticipantID = ml_ParticipantID l, mx_WalletAddress = ml_WalletAddress l,
                 mx_RideIDs = ml_RideIDs l, mx_TxDigest = [], mx_Minted = False, mx_Error = []\<rparr>
      in on_err (pin_urls b (ml_Date l) (ml_RideIDs l) [])
           (\<lambda>msg. State_Monad.return (res\<lparr>mx_Error := msg\<rparr>))
           (\<lambda>urls. on_err (mn_MintBatchAttendance (bm_client b) (ml_WalletAddress l) (ml_RideIDs l) (ml_Date l)
                (map rideName (ml_RideIDs l)) urls)
              (\<lambda>err. State_Monad.return (res\<lparr>mx_Error := ''mint: '' @ Error err\<rparr>))
              (\<lambda>digest. let res = res\<lparr>mx_TxDigest := digest, mx_Minted := True\<rparr>
                in on_err (record_all b l digest (ml_RideIDs l))
                     (\<lambda>msg. State_Monad.return (res\<lparr>mx_Error := msg\<rparr>))
                     (\<lambda>_. State_Monad.return res))))"

fun Run :: "BatchMint \<Rightarrow> MintLive list \<Rightarrow> (world, MintResolutionResult list) state" where
  "Run b [] = State_Monad.return []"
| "Run b (l # lives) = do {
     res \<leftarrow> mintOne b l;
     results \<leftarrow> Run b lives;
     State_Monad.return (res # results)
   }"

definition production_batch :: "Client \<Rightarrow> PinataClient \<Rightarrow> BatchMint" where
  "production_batch c p = NewBatchMint (client_minter c) (cid_metadata (Some p)) RecordMintForParticipant"

text \<open>The live set of a day (\<^verbatim>\<open>cmd/minter\<close>).\<close>

definition mint_ready :: "string \<Rightarrow> Resolution list \<Rightarrow> MintLive list" where
  "mint_ready date resolutions =
     map (\<lambda>res. \<lparr>ml_ParticipantID = rs_ParticipantID res, ml_WalletAddress = rs_WalletAddress res,
                 ml_RideIDs = rs_RideIDs res, ml_Date = date\<rparr>)
       (filter (\<lambda>res. rs_Outcome res = OutcomeMintReady \<and> rs_WalletAddress res \<noteq> []) resolutions)"

section \<open>A day resolved\<close>

text \<open>The specification: the rides of a participant, and what becomes of everyone who rode.\<close>

definition rides_on :: "environment \<Rightarrow> database \<Rightarrow> int \<Rightarrow> Participant \<Rightarrow> (string \<times> int) list" where
  "rides_on e d day p = ordered_rides e (filter
     (case p_AccountEmail p of
        Some email \<Rightarrow> if email \<noteq> [] then scan_by_email email e day d else scan_by_participant (p_ID p) e day d
      | None \<Rightarrow> scan_by_participant (p_ID p) e day d) (scan_events d))"

definition attending :: "environment \<Rightarrow> database \<Rightarrow> int \<Rightarrow> Participant list \<Rightarrow> Participant list" where
  "attending e d day ps = filter (\<lambda>p. rides_on e d day p \<noteq> []) ps"

definition day_resolution :: "environment \<Rightarrow> database \<Rightarrow> int \<Rightarrow> string \<Rightarrow> Participant \<Rightarrow> Resolution" where
  "day_resolution e d day date p = resolution date p (map fst (rides_on e d day p)) (ResolveMintWallet p)"

lemma run_Rides:
  assumes "quiet w" and "env_date_in (env w) date = Some day"
  shows "run_state (RidesForParticipant p date) w =
    (Inr (map fst (rides_on (env w) (db w) day p), map snd (rides_on (env w) (db w) day p)), w)"
  using assms
  by (simp add: RidesForParticipant_def byEmail_def byParticipantID_def q_rides_def rides_on_def
      split: option.split)

definition same_inputs :: "database \<Rightarrow> database \<Rightarrow> bool" where
  "same_inputs d d' \<longleftrightarrow> participants d' = participants d \<and> users d' = users d \<and>
     ticket_vouchers d' = ticket_vouchers d \<and> scan_events d' = scan_events d \<and> mint_logs d' = mint_logs d"

lemma rides_on_cong: "same_inputs d d' \<Longrightarrow> rides_on e d' day p = rides_on e d day p"
  by (auto simp: rides_on_def same_inputs_def scan_by_email_def [abs_def] scan_by_participant_def [abs_def]
      split: option.split)

definition in_ledger :: "environment \<Rightarrow> database \<Rightarrow> int \<Rightarrow> Participant \<Rightarrow> database \<Rightarrow> bool" where
  "in_ledger e d day p d' \<longleftrightarrow> (\<exists>r \<in> set (pending_mints d'). pending_key r = (p_ID p, day) \<and>
     pr_RideIDs r = map fst (rides_on e d day p) \<and> pr_ScannedAts r = map snd (rides_on e d day p) \<and>
     pr_WalletState r = mr_WalletState (ResolveMintWallet p))"

lemma in_ledger_put_other:
  assumes "in_ledger e d day p d1" and "p_ID p \<noteq> pm_ParticipantID pm"
  shows "in_ledger e d day p (put_pending pm day d1)"
proof -
  from assms obtain r where r: "r \<in> set (pending_mints d1)" "pending_key r = (p_ID p, day)"
    "pr_RideIDs r = map fst (rides_on e d day p)" "pr_ScannedAts r = map snd (rides_on e d day p)"
    "pr_WalletState r = mr_WalletState (ResolveMintWallet p)" by (auto simp: in_ledger_def)
  have "r \<in> set (filter (\<lambda>r. pending_key r \<noteq> (pm_ParticipantID pm, day)) (pending_mints d1))"
    using r assms(2) by simp
  then have "r \<in> set (filter (\<lambda>r. pending_key r \<noteq> (pm_ParticipantID pm, day)) (pending_mints (put_pending pm day d1)))"
    by (simp only: put_pending_others)
  then have "r \<in> set (pending_mints (put_pending pm day d1))" by simp
  with r show ?thesis by (auto simp: in_ledger_def)
qed

lemma in_ledger_put:
  assumes "same_inputs d d1" and "rp_ParticipantID req = p_ID p"
    and "rp_RideIDs req = map fst (rides_on e d day p)" and "rp_ScannedAts req = map snd (rides_on e d day p)"
  shows "in_ledger e d day p (put_pending (pending_of req p) day d1)"
proof -
  from put_pending_find [of "pending_of req p" day d1] obtain r where
    "find (\<lambda>r. pending_key r = (p_ID p, day)) (pending_mints (put_pending (pending_of req p) day d1)) = Some r"
    "pr_RideIDs r = rp_RideIDs req" "pr_ScannedAts r = rp_ScannedAts req"
    "pr_WalletState r = mr_WalletState (ResolveMintWallet p)"
    using assms(2) by (auto simp: pending_of_def)
  with assms(3,4) find_Some_in show ?thesis unfolding in_ledger_def by fastforce
qed

lemma run_resolve_all:
  assumes "quiet w" and "env w = e" and "env_date_in e date = Some day" and "same_inputs d (db w)"
    and "distinct (map p_ID ps)" and "\<forall>p \<in> set ps. find (\<lambda>q. p_ID q = p_ID p) (participants d) = Some p"
    and "\<forall>p \<in> set ps. list_all (json_time_ok (env_zone e)) (map snd (rides_on e d day p))"
  shows "\<exists>w'. run_state (resolve_all production_resolver date ps acc) w =
      ((acc @ map (day_resolution e d day date) (attending e d day ps), None), w') \<and>
    same_inputs d (db w') \<and> rpc_log w' = rpc_log w \<and> quiet w' \<and> env w' = e \<and>
    (\<forall>p. p_ID p \<notin> p_ID ` set ps \<longrightarrow> in_ledger e d day p (db w) \<longrightarrow> in_ledger e d day p (db w')) \<and>
    (\<forall>p \<in> set (attending e d day ps). mr_Pending (ResolveMintWallet p) \<longrightarrow> in_ledger e d day p (db w'))"
  using assms
proof (induction ps arbitrary: w acc)
  case Nil
  then show ?case by (auto simp: attending_def)
next
  case (Cons p ps)
  let ?rs = "rides_on e d day p"
  have rides: "run_state (RidesForParticipant p date) w = (Inr (map fst ?rs, map snd ?rs), w)"
    using run_Rides [of w date day p] Cons.prems rides_on_cong [OF Cons.prems(4)] by simp
  have sel: "dv_RidesForParticipant production_resolver = RidesForParticipant"
    "wr_ResolveMintWallet (dv_wallets production_resolver) = ResolveMintWallet"
    "wr_RecordPendingMint (dv_wallets production_resolver) = RecordPendingMint postgres_repo"
    by (simp_all add: production_resolver_def)
  note IH = Cons.IH [OF _ _ Cons.prems(3)]
  have ids: "p_ID p \<notin> p_ID ` set ps" "distinct (map p_ID ps)" using Cons.prems(5) by auto
  consider "?rs = []" | "?rs \<noteq> []" "\<not> mr_Pending (ResolveMintWallet p)" | "?rs \<noteq> []" "mr_Pending (ResolveMintWallet p)"
    by blast
  then show ?case
  proof cases
    case 1
    then have step: "run_state (resolve_all production_resolver date (p # ps) acc) w =
        run_state (resolve_all production_resolver date ps acc) w" "attending e d day (p # ps) = attending e d day ps"
      using rides by (simp_all add: sel attending_def)
    from IH [OF Cons.prems(1,2,4) ids(2), of acc] Cons.prems(6,7) show ?thesis
      unfolding step by auto
  next
    case 2
    then have step: "run_state (resolve_all production_resolver date (p # ps) acc) w =
        run_state (resolve_all production_resolver date ps (acc @ [day_resolution e d day date p])) w"
      "attending e d day (p # ps) = p # attending e d day ps"
      using rides by (simp_all add: sel attending_def Let_def day_resolution_def)
    from IH [OF Cons.prems(1,2,4) ids(2), of "acc @ [day_resolution e d day date p]"] Cons.prems(6,7) 2(2)
    show ?thesis unfolding step by auto
  next
    case 3
    define req where "req = \<lparr>rp_ParticipantID = p_ID p, rp_MintDate = date, rp_RideIDs = map fst ?rs,
        rp_ScannedAts = map snd ?rs\<rparr>"
    let ?w = "w\<lparr>db := put_pending (pending_of req p) day (db w)\<rparr>"
    have f: "find (\<lambda>q. p_ID q = rp_ParticipantID req) (participants (db w)) = Some p"
      using Cons.prems(4,6) by (simp add: req_def same_inputs_def)
    have rec: "run_state (RecordPendingMint postgres_repo req) w = (Inr (), ?w)"
      by (rule run_RecordPendingMint) (use Cons.prems f in \<open>simp_all add: req_def\<close>)
    have si: "same_inputs d (db ?w)" using Cons.prems(4) by (simp add: same_inputs_def)
    have here: "in_ledger e d day p (db ?w)"
      using in_ledger_put [OF Cons.prems(4), of req p] by (simp add: req_def)
    have keep: "in_ledger e d day q (db w) \<Longrightarrow> p_ID q \<noteq> p_ID p \<Longrightarrow> in_ledger e d day q (db ?w)" for q
      using in_ledger_put_other [of e d day q "db w" "pending_of req p"] by (simp add: pending_of_def req_def)
    have step: "run_state (resolve_all production_resolver date (p # ps) acc) w =
        run_state (resolve_all production_resolver date ps (acc @ [day_resolution e d day date p])) ?w"
      using rides rec 3 by (simp add: sel Let_def req_def day_resolution_def)
    have "quiet ?w" "env ?w = e" using Cons.prems by simp_all
    from IH [OF this si ids(2), of "acc @ [day_resolution e d day date p]"] Cons.prems(6,7) obtain w' where
      run: "run_state (resolve_all production_resolver date ps (acc @ [day_resolution e d day date p])) ?w =
        ((acc @ [day_resolution e d day date p] @ map (day_resolution e d day date) (attending e d day ps), None), w')" and
      fr: "same_inputs d (db w')" "rpc_log w' = rpc_log w" "quiet w'" "env w' = e" and
      kp: "\<forall>q. p_ID q \<notin> p_ID ` set ps \<longrightarrow> in_ledger e d day q (db ?w) \<longrightarrow> in_ledger e d day q (db w')" and
      new: "\<forall>q \<in> set (attending e d day ps). mr_Pending (ResolveMintWallet q) \<longrightarrow> in_ledger e d day q (db w')"
      by auto
    have "in_ledger e d day p (db w')" using kp here ids(1) by blast
    moreover have "\<forall>q. p_ID q \<notin> p_ID ` set (p # ps) \<longrightarrow> in_ledger e d day q (db w) \<longrightarrow> in_ledger e d day q (db w')"
      using kp keep by auto
    moreover have "attending e d day (p # ps) = p # attending e d day ps" using 3(1) by (simp add: attending_def)
    ultimately show ?thesis
      unfolding step using run fr new by (intro exI [of _ w']) simp
  qed
qed



end
