(* ===== verification/Http_Minter.thy ===== *)
theory Http_Minter
  imports Mint_Day Http_Voucher
begin

text \<open>
  \<^verbatim>\<open>cmd/minter/main.go\<close>: the HTTP endpoints of the minter. The Sui client is there only
  when the mnemonic could be derived; without it the endpoints that need the chain reply 503.
\<close>

section \<open>JSON of requests and replies\<close>

definition unmarshal_token :: "payload \<Rightarrow> goerr + string" where
  "unmarshal_token = unmarshal
     (\<lambda>k v. if key_is ''token'' k then set_string (\<lambda>s _. s) v else (\<lambda>acc. acc)) []"

definition unmarshal_date :: "payload \<Rightarrow> goerr + string" where
  "unmarshal_date = unmarshal
     (\<lambda>k v. if key_is ''date'' k then set_string (\<lambda>s _. s) v else (\<lambda>acc. acc)) []"

record TransferRequest =
  tq_ParticipantID :: int
  tq_OwnWallet :: string
  tq_NFTObjectIDs :: "string list"

definition field_TransferRequest :: "string \<Rightarrow> json \<Rightarrow> TransferRequest \<times> bool \<Rightarrow> TransferRequest \<times> bool" where
  [codec_defs]: "field_TransferRequest k v =
     (if key_is ''participant_id'' k then set_int64 (\<lambda>i r. r\<lparr>tq_ParticipantID := i\<rparr>) v
      else if key_is ''own_wallet'' k then set_string (\<lambda>s r. r\<lparr>tq_OwnWallet := s\<rparr>) v
      else if key_is ''nft_object_ids'' k then set_strings (\<lambda>ss r. r\<lparr>tq_NFTObjectIDs := ss\<rparr>) v
      else (\<lambda>acc. acc))"

definition unmarshal_TransferRequest :: "payload \<Rightarrow> goerr + TransferRequest" where
  "unmarshal_TransferRequest = unmarshal field_TransferRequest
     \<lparr>tq_ParticipantID = 0, tq_OwnWallet = [], tq_NFTObjectIDs = []\<rparr>"

fun Outcome_text :: "Outcome \<Rightarrow> string" where
  "Outcome_text OutcomePending = ''pending''"
| "Outcome_text OutcomeMintReady = ''mint_ready''"

definition marshal_Resolution :: "Resolution \<Rightarrow> json" where
  "marshal_Resolution r = JObj
     ([(''participant_id'', JNum (rs_ParticipantID r)), (''mint_date'', JStr (rs_MintDate r)),
       (''ride_ids'', JArr (map JStr (rs_RideIDs r))),
       (''wallet_state'', JStr (WalletState_text (rs_WalletState r)))] @
      omit_empty ''wallet_address'' (rs_WalletAddress r) @
      [(''outcome'', JStr (Outcome_text (rs_Outcome r)))])"

definition marshal_MintResolutionResult :: "MintResolutionResult \<Rightarrow> json" where
  "marshal_MintResolutionResult r = JObj
     ([(''participant_id'', JNum (mx_ParticipantID r)), (''wallet_address'', JStr (mx_WalletAddress r)),
       (''ride_ids'', JArr (map JStr (mx_RideIDs r))), (''tx_digest'', JStr (mx_TxDigest r)),
       (''minted'', JBool (mx_Minted r))] @ omit_empty ''error'' (mx_Error r))"

section \<open>Sign-in\<close>

text \<open>The secret of the derived wallets falls back to the encryption key.\<close>

definition det_secret :: "AuthConfig \<Rightarrow> string" where
  "det_secret cfg = (if ac_DeterministicWalletSecret cfg = [] then ac_EncryptionKey cfg
     else ac_DeterministicWalletSecret cfg)"

definition handle_auth_google :: "jwt_lib \<Rightarrow> crypto_lib \<Rightarrow> AuthConfig \<Rightarrow> handler" where
  "handle_auth_google jl cl cfg = only ''POST'' not_post (decoding unmarshal_token bad_json (\<lambda>token.
     on_err (VerifyToken jl (NewGoogleTokenVerifier (ac_GoogleOAuthClientID cfg)) token)
       (\<lambda>err. State_Monad.return (http_Error (''google token invalid: '' @ Error err) 401))
       (\<lambda>p.
          if gp_Email p = [] then State_Monad.return (http_Error ''google token missing email claim'' 401)
          else case DeterministicWallet cl (gp_Email p) (det_secret cfg) of
              Inl err \<Rightarrow> State_Monad.return (http_Error (''wallet derivation failed: '' @ Error err) 500)
            | Inr (_, suiAddr) \<Rightarrow>
                or_status (CreateUser (gp_Email p)) 500 (\<lambda>user.
                or_status (UpdateSuiAccount (u_ID user) suiAddr [] []) 500 (\<lambda>_.
                State_Monad.return (json_reply 200 (JObj
                  [(''email'', JStr (gp_Email p)), (''sui_address'', JStr suiAddr),
                   (''user_id'', JStr (show_int (u_ID user)))])))))))"

section \<open>The day\<close>

definition resolve_reply :: "string \<Rightarrow> Resolution list \<times> goerr option \<Rightarrow> http_reply" where
  "resolve_reply date r = (case r of
       (_, Some err) \<Rightarrow> http_Error (''resolve-day failed: '' @ Error err) 500
     | (resolutions, None) \<Rightarrow> json_reply 200
         (JObj [(''date'', JStr date), (''resolutions'', JArr (map marshal_Resolution resolutions))]))"

definition handle_resolve_day :: handler where
  "handle_resolve_day = only ''POST'' not_post (decoding unmarshal_date bad_json (\<lambda>date.
     if date = [] then State_Monad.return (http_Error ''date required (YYYY-MM-DD)'' 400)
     else do {
       r \<leftarrow> ResolveDay production_resolver date;
       State_Monad.return (resolve_reply date r)
     }))"

definition no_sui :: http_reply where
  "no_sui = http_Error ''sui client not initialized (check SUI_GAS_POOL_MNEMONIC)'' 503"

definition run_day_reply :: "string \<Rightarrow> Resolution list \<Rightarrow> MintResolutionResult list \<Rightarrow> http_reply" where
  "run_day_reply date resolutions results = json_reply 200 (JObj
     [(''date'', JStr date), (''details'', JArr (map marshal_Resolution resolutions)),
      (''results'', JArr (map marshal_MintResolutionResult results))])"

definition handle_run_day :: "Minter option \<Rightarrow> MetadataProvider \<Rightarrow> handler" where
  "handle_run_day sui meta = only ''POST'' not_post (\<lambda>r. case sui of
       None \<Rightarrow> State_Monad.return no_sui
     | Some client \<Rightarrow> decoding unmarshal_date bad_json (\<lambda>date.
         if date = [] then State_Monad.return (http_Error ''date required (YYYY-MM-DD)'' 400)
         else do {
           r \<leftarrow> ResolveDay production_resolver date;
           case r of
             (_, Some err) \<Rightarrow> State_Monad.return (http_Error (''resolve-day failed: '' @ Error err) 500)
           | (resolutions, None) \<Rightarrow> do {
               results \<leftarrow> Run (NewBatchMint client meta RecordMintForParticipant) (mint_ready date resolutions);
               State_Monad.return (run_day_reply date resolutions results)
             }
         }) r)"

section \<open>Custody\<close>

text \<open>The objects in order, up to the first transfer that fails.\<close>

fun transfer_all :: "Minter \<Rightarrow> string \<Rightarrow> string list \<Rightarrow> string list \<Rightarrow> (world, string + string list) state" where
  "transfer_all sui wallet [] digests = State_Monad.return (Inr digests)"
| "transfer_all sui wallet (objID # objs) digests =
     on_err (mn_TransferNFT sui objID wallet)
       (\<lambda>err. State_Monad.return (Inl (''custody transfer of '' @ objID @ '' failed: '' @ Error err)))
       (\<lambda>d. transfer_all sui wallet objs (digests @ [d]))"

definition handle_custody_transfer :: "Minter option \<Rightarrow> handler" where
  "handle_custody_transfer sui = only ''POST'' not_post (\<lambda>r. case sui of
       None \<Rightarrow> State_Monad.return no_sui
     | Some client \<Rightarrow> decoding unmarshal_TransferRequest bad_json (\<lambda>req.
         if tq_ParticipantID req = 0 \<or> tq_OwnWallet req = [] \<or> tq_NFTObjectIDs req = []
         then State_Monad.return (http_Error ''participant_id, own_wallet, nft_object_ids required'' 400)
         else on_err (transfer_all client (tq_OwnWallet req) (tq_NFTObjectIDs req) [])
           (\<lambda>msg. State_Monad.return (http_Error msg 500))
           (\<lambda>digests. on_err (ClaimCustody postgres_repo (tq_ParticipantID req) (tq_OwnWallet req))
              (\<lambda>err. State_Monad.return (http_Error (''claim-custody state update failed: '' @ Error err) 500))
              (\<lambda>p. State_Monad.return (case p of
                   None \<Rightarrow> aborted
                 | Some p \<Rightarrow> json_reply 200 (JObj
                     [(''own_wallet'', json_opt JStr (p_CustodialWalletAddress p)),
                      (''participant_id'', JNum (p_ID p)), (''status'', JStr ''transferred''),
                      (''tx_digests'', JArr (map JStr digests))]))))) r)"

section \<open>The service\<close>

definition minter_client :: "crypto_lib \<Rightarrow> SuiConfig \<Rightarrow> Minter option" where
  "minter_client lib cfg = (case NewClient lib cfg of Inl _ \<Rightarrow> None | Inr c \<Rightarrow> Some (client_minter c))"

definition minter_checker :: "Minter option \<Rightarrow> (world, HealthChecker) state" where
  "minter_checker sui = do {
     h \<leftarrow> NewHealthChecker ''minter'';
     let h = AddCheck Redis_Ping (AddCheck Postgres_Ping h);
     State_Monad.return (case sui of None \<Rightarrow> h | Some client \<Rightarrow> AddCheck (mn_Ping client) h)
   }"

definition minter_routes :: "jwt_lib \<Rightarrow> crypto_lib \<Rightarrow> AuthConfig \<Rightarrow> Minter option \<Rightarrow> MetadataProvider \<Rightarrow>
    HealthChecker \<Rightarrow> (string \<times> handler) list" where
  "minter_routes jl cl cfg sui meta checker =
     [(''/healthz'', HealthzHandler checker),
      (''/readyz'', ReadyzHandler checker),
      (''/api/auth/google'', handle_auth_google jl cl cfg),
      (''/mint/resolve-day'', handle_resolve_day),
      (''/mint/run-day'', handle_run_day sui meta),
      (''/mint/claim-custody'', handle_custody_transfer sui)]"

end
