(* ===== verification/Mint_Attribution.thy ===== *)
theory Mint_Attribution
  imports Mint_Day
begin

text \<open>
  Who a mint is attributed to, what a second run of a day does, and the statements about the
  minter at a concrete family.
\<close>

section \<open>One row per owner, ride and day\<close>

definition minted_row :: "int \<Rightarrow> int \<Rightarrow> int option \<Rightarrow> string \<Rightarrow> int \<Rightarrow> string \<Rightarrow> MintLog" where
  "minted_row k owner pid rideID day digest = \<lparr>m_ID = k, m_UserID = owner, m_ParticipantID = pid,
     m_RideID = rideID, m_MintDate = day, m_TxDigest = Some digest, m_Status = MintConfirmed, m_GasUsed = Some 0\<rparr>"

lemma minted_row_key [simp]: "mint_key (minted_row k owner pid rideID day digest) = (owner, rideID, day)"
  by (simp add: minted_row_def mint_key_def)

lemma run_Owner:
  assumes "quiet w" and "owner_rows p (db w) = [i]" and "env_pick (env w) [i] = i"
  shows "run_state (OwnerUserIDForParticipant p) w = (Inr i, w)"
  using assms by (simp add: OwnerUserIDForParticipant_def q_owner_def)

lemma run_RecordFor:
  assumes "quiet w" and "owner_rows p (db w) = [i]" and "env_pick (env w) [i] = i" and "i \<noteq> 0"
  shows "run_state (RecordMintForParticipant p rideID date digest) w =
    run_state (RecordMint i (Some p) rideID date digest 0) w"
  using run_Owner [OF assms(1-3)] assms(4) by (simp add: RecordMintForParticipant_def)

text \<open>
  A family shares one row per ride and day. When two participants belong to the same account
  (a guardian and a dependent) and both are minted the same ride on the same day, the second
  mint overwrites the digest of the first and stays attributed to the first participant: the
  second one has no row.
\<close>

theorem family_mint_overwrites:
  assumes "quiet w" and "owner_rows p1 (db w) = [i]" and "owner_rows p2 (db w) = [i]" and "p1 \<noteq> p2"
    and "env_pick (env w) [i] = i" and "i \<noteq> 0" and "env_date_in (env w) date = Some day"
    and "varchar 64 rideID" and "varchar 128 d1" and "varchar 128 d2"
    and "\<forall>m \<in> set (mint_logs (db w)). mint_key m \<noteq> (i, rideID, day)"
    and "i \<in> set (map u_ID (users (db w)))" and "p1 \<in> set (map p_ID (participants (db w)))"
  shows "\<exists>w1 w2 k. run_state (RecordMintForParticipant p1 rideID date d1) w = (Inr (), w1) \<and>
    run_state (RecordMintForParticipant p2 rideID date d2) w1 = (Inr (), w2) \<and>
    filter (\<lambda>m. mint_key m = (i, rideID, day)) (mint_logs (db w2)) = [minted_row k i (Some p1) rideID day d2] \<and>
    (\<forall>m \<in> set (mint_logs (db w2)). m_ParticipantID m = Some p2 \<longrightarrow> m \<in> set (mint_logs (db w)))"
proof -
  let ?k = "(i, rideID, day)" and ?n = "mint_seq (db w) + 1"
  define w1 where "w1 = w\<lparr>db := (db w)\<lparr>mint_logs := mint_logs (db w) @ [minted_row ?n i (Some p1) rideID day d1],
      mint_seq := ?n\<rparr>\<rparr>"
  define w2 where "w2 = w1\<lparr>db := (db w1)\<lparr>mint_logs := mint_logs (db w) @ [minted_row ?n i (Some p1) rideID day d2],
      mint_seq := ?n + 1\<rparr>\<rparr>"
  have fresh: "\<not> list_ex (\<lambda>m. mint_key m = ?k) (mint_logs (db w))"
    using assms(11) by (auto simp: list_ex_iff)
  have 1: "run_state (RecordMintForParticipant p1 rideID date d1) w = (Inr (), w1)"
    using assms fresh
    by (simp add: run_RecordFor RecordMint_def q_record_mint_def w1_def minted_row_def)
  have old: "update_where (\<lambda>m. mint_key m = ?k) f (mint_logs (db w)) = mint_logs (db w)" for f
    using assms(11) by (intro update_where_none) auto
  have upd: "update_where (\<lambda>m. mint_key m = ?k) (\<lambda>m. m\<lparr>m_TxDigest := Some d2, m_Status := MintConfirmed,
      m_GasUsed := Some 0\<rparr>) (mint_logs (db w) @ [minted_row ?n i (Some p1) rideID day d1]) =
      mint_logs (db w) @ [minted_row ?n i (Some p1) rideID day d2]"
    using old by (simp add: update_where_def) (simp add: minted_row_def)
  have "owner_rows p2 (db w1) = [i]" using assms(3) by (simp add: w1_def owner_rows_def)
  then have "run_state (RecordMintForParticipant p2 rideID date d2) w1 =
      run_state (RecordMint i (Some p2) rideID date d2 0) w1"
    using assms(1,5,6) by (intro run_RecordFor) (simp_all add: w1_def)
  also have "\<dots> = (Inr (), w2)"
    using assms(1,7-10) upd
    by (simp add: RecordMint_def q_record_mint_def w1_def w2_def)
  finally have 2: "run_state (RecordMintForParticipant p2 rideID date d2) w1 = (Inr (), w2)" .
  have "filter (\<lambda>m. mint_key m = ?k) (mint_logs (db w)) = []"
    using assms(11) by (auto simp: filter_empty_conv)
  then have 3: "filter (\<lambda>m. mint_key m = ?k) (mint_logs (db w2)) = [minted_row ?n i (Some p1) rideID day d2]"
    by (simp add: w2_def)
  have 4: "\<forall>m \<in> set (mint_logs (db w2)). m_ParticipantID m = Some p2 \<longrightarrow> m \<in> set (mint_logs (db w))"
    using assms(4) by (auto simp: w2_def minted_row_def)
  from 1 2 3 4 show ?thesis by blast
qed

section \<open>A second run\<close>

lemma sql_log: "run_state (sql stmt) w = (r, w') \<Longrightarrow> rpc_log w' = rpc_log w"
  unfolding sql_def by (auto elim!: run_call_cases dest!: next_event_log split: prod.splits)

lemma record_for_log:
  assumes "run_state (RecordMintForParticipant p ride date digest) w = (r, w')"
  shows "rpc_log w' = rpc_log w"
proof -
  obtain r1 w1 where o: "run_state (OwnerUserIDForParticipant p) w = (r1, w1)" by fastforce
  obtain r0 w0 where "run_state (sql (\<lambda>e _. q_owner p e)) w = (r0, w0)" by fastforce
  with o have l1: "rpc_log w1 = rpc_log w"
    by (auto simp: OwnerUserIDForParticipant_def dest: sql_log split: sum.splits if_splits)
  from assms o l1 show ?thesis
    by (auto simp: RecordMintForParticipant_def RecordMint_def dest: sql_log split: sum.splits if_splits)
qed

lemma record_all_log:
  assumes "bm_records b = RecordMintForParticipant"
    and "run_state (record_all b l digest rides) w = (r, w')"
  shows "rpc_log w' = rpc_log w"
  using assms(2)
proof (induction rides arbitrary: w)
  case (Cons ride rides)
  then show ?case
    using record_for_log by (auto simp: assms(1) split: prod.splits sum.splits)
qed simp

lemma run_pin_cached:
  assumes "\<forall>ride \<in> set rides. \<exists>a. cid_cache w ride = Some a"
  shows "run_state (pin_urls (production_batch c p) date rides urls) w =
    (Inr (urls @ map (\<lambda>ride. a_MetadataURI (the (cid_cache w ride))) rides), w)"
  using assms
proof (induction rides arbitrary: urls)
  case (Cons ride rides)
  then obtain a where "cid_cache w ride = Some a" by auto
  with GetOrPin_cached Cons show ?case
    by (simp add: production_batch_def NewBatchMint_def cid_metadata_def)
qed simp

definition live_request :: "Client \<Rightarrow> world \<Rightarrow> MintLive \<Rightarrow> rpc_request" where
  "live_request c w l = mint_request c (ml_WalletAddress l) (ml_RideIDs l) (ml_Date l) (map rideName (ml_RideIDs l))
     (map (\<lambda>ride. a_MetadataURI (the (cid_cache w ride))) (ml_RideIDs l))"

definition mint_options :: "(string \<times> json) list" where
  "mint_options = [(''showInput'', JBool True), (''showEffects'', JBool True), (''showEvents'', JBool True),
     (''showObjectChanges'', JBool True)]"

lemma production_batch_sel [simp]:
  "bm_client (production_batch c p) = client_minter c"
  "bm_records (production_batch c p) = RecordMintForParticipant"
  by (simp_all add: production_batch_def NewBatchMint_def)

lemma run_mintOne_cached:
  assumes "quiet w" and "inflight w < c_concurrency c" and "c_packageID c \<noteq> []" and "c_mintCapID c \<noteq> []"
    and "ml_RideIDs l \<noteq> []" and "\<forall>ride \<in> set (ml_RideIDs l). \<exists>a. cid_cache w ride = Some a"
    and "env_rpc (env w) (rpc_log w) (live_request c w l) = Inr meta"
    and "env_rpc (env w) (rpc_log w @ [live_request c w l]) (sign_request c meta mint_options) = Inr resp"
    and "run_state (record_all (production_batch c p) l (string_field ''digest'' resp) (ml_RideIDs l))
      (w\<lparr>rpc_log := rpc_log w @ [live_request c w l, sign_request c meta mint_options]\<rparr>) = (r, w')"
  shows "run_state (mintOne (production_batch c p) l) w =
    (\<lparr>mx_ParticipantID = ml_ParticipantID l, mx_WalletAddress = ml_WalletAddress l, mx_RideIDs = ml_RideIDs l,
      mx_TxDigest = string_field ''digest'' resp, mx_Minted = True,
      mx_Error = (case r of Inl msg \<Rightarrow> msg | Inr _ \<Rightarrow> [])\<rparr>, w')"
proof -
  let ?urls = "map (\<lambda>ride. a_MetadataURI (the (cid_cache w ride))) (ml_RideIDs l)"
  have five: "submit c b opts l1 l2 l3 5 = submit c b opts l1 l2 l3 (Suc 4)" for b opts l1 l2 l3
    by (simp add: eval_nat_numeral)
  define w1 where "w1 = w\<lparr>rpc_log := rpc_log w @ [live_request c w l, sign_request c meta mint_options]\<rparr>"
  have "run_state (MintBatchAttendance c (ml_WalletAddress l) (ml_RideIDs l) (ml_Date l)
      (map rideName (ml_RideIDs l)) ?urls) w = (Inr (string_field ''digest'' resp), w1)"
    unfolding MintBatchAttendance_def five if_not_P [OF assms(3)] if_not_P [OF assms(4)] if_not_P [OF assms(5)]
      w1_def live_request_def [symmetric] mint_options_def [symmetric]
    by (rule submit_done [OF assms(1,2,7,8)])
  with run_pin_cached [OF assms(6), of c p "ml_Date l" "[]"] assms(9) [folded w1_def] show ?thesis
    by (cases r) (simp_all add: mintOne_def Let_def client_minter_def)
qed

text \<open>
  Every run mints again. With the metadata in the cache and a chain that answers, a run for
  a participant submits a transaction whatever \<^verbatim>\<open>mint_logs\<close> holds, in particular when it
  already has the confirmed mint of the same rides and date.
\<close>

theorem rerun_mints_again:
  assumes "quiet w" and "inflight w < c_concurrency c" and "c_packageID c \<noteq> []" and "c_mintCapID c \<noteq> []"
    and "ml_RideIDs l \<noteq> []" and "\<forall>ride \<in> set (ml_RideIDs l). \<exists>a. cid_cache w ride = Some a"
    and "env_rpc (env w) (rpc_log w) (live_request c w l) = Inr meta"
    and "env_rpc (env w) (rpc_log w @ [live_request c w l]) (sign_request c meta mint_options) = Inr resp"
  shows "\<exists>res w'. run_state (mintOne (production_batch c p) l) w = (res, w') \<and> mx_Minted res \<and>
    mx_TxDigest res = string_field ''digest'' resp \<and>
    rpc_log w' = rpc_log w @ [live_request c w l, sign_request c meta mint_options]"
proof -
  let ?w1 = "w\<lparr>rpc_log := rpc_log w @ [live_request c w l, sign_request c meta mint_options]\<rparr>"
  obtain r w' where rec: "run_state (record_all (production_batch c p) l (string_field ''digest'' resp)
      (ml_RideIDs l)) ?w1 = (r, w')" by fastforce
  from record_all_log [OF production_batch_sel(2) rec] run_mintOne_cached [OF assms rec] show ?thesis by simp
qed

section \<open>The statements at a concrete family\<close>

definition family_scan :: ScanRecord where
  "family_scan = \<lparr>s_ID = 1, s_TraceID = ''t-0'', s_UserID = Some 1, s_TicketID = Some ''voucher-1-0'',
     s_RideID = ''ride-001'', s_ScannedAt = 1786615200000\<rparr>"

definition mint_world :: world where
  "mint_world = family_world\<lparr>db := family_db\<lparr>scan_events := [family_scan]\<rparr>\<rparr>"

lemma mint_world_sel [simp]:
  "quiet mint_world" "env mint_world = plain_environment" "participants (db mint_world) = [parent, child]"
  "users (db mint_world) = [family_user]" "scan_events (db mint_world) = [family_scan]"
  "ticket_vouchers (db mint_world) = [family_voucher]" "mint_logs (db mint_world) = []"
  by (simp_all add: mint_world_def)

lemma parent_rides: "rides_on plain_environment (db mint_world) 20678 parent = [(''ride-001'', 1786615200000)]"
proof -
  have "(1786615200000 :: int) div 86400000 = 20678" by simp
  then show ?thesis
    by (simp add: rides_on_def ordered_rides_def scan_by_email_def parent_def family_scan_def family_user_def
        plain_environment_def)
qed

lemma child_rides: "rides_on plain_environment (db mint_world) 20678 child = []"
  by (simp add: rides_on_def ordered_rides_def scan_by_participant_def child_def family_voucher_def
      plain_environment_def)


lemma family_owner: "owner_rows 1 (db mint_world) = [1]" "owner_rows 2 (db mint_world) = [1]"
  by (simp_all add: owner_rows_def numeral_2_eq_2 parent_def child_def family_user_def)

theorem family_mint_overwrites_witness:
  "\<exists>w1 w2 k. run_state (RecordMintForParticipant 1 ''ride-001'' ''2026-08-13'' ''D1'') mint_world = (Inr (), w1) \<and>
     run_state (RecordMintForParticipant 2 ''ride-001'' ''2026-08-13'' ''D2'') w1 = (Inr (), w2) \<and>
     filter (\<lambda>m. mint_key m = (1, ''ride-001'', 20678)) (mint_logs (db w2)) =
       [minted_row k 1 (Some 1) ''ride-001'' 20678 ''D2'']"
proof -
  have z: "env_pick plain_environment = hd" "env_date_in plain_environment = parse_date"
    by (simp_all add: plain_environment_def)
  have "u_ID family_user = 1" by (simp add: family_user_def)
  with family_mint_overwrites [of mint_world 1 1 2 "''2026-08-13''" 20678 "''ride-001''" "''D1''" "''D2''"]
    family_owner z parse_date_example
  show ?thesis by (auto simp: varchar_def char_length_def)
qed

definition busy_chain :: environment where
  "busy_chain = plain_environment\<lparr>env_rpc := (\<lambda>log req. Inr (JObj [(''digest'', JStr ''Dg'')]))\<rparr>"

definition minted_world :: world where
  "minted_world = (start_world busy_chain 5000 [])\<lparr>cid_cache := [''ride-001'' \<mapsto> coaster_assets],
     db := (db mint_world)\<lparr>mint_logs := [minted_row 1 1 (Some 1) ''ride-001'' 20678 ''D1'']\<rparr>\<rparr>"

theorem rerun_mints_again_witness:
  "\<exists>res w'. run_state (mintOne (production_batch demo_client demo_pinata)
      \<lparr>ml_ParticipantID = 1, ml_WalletAddress = ''0xa'', ml_RideIDs = [''ride-001''], ml_Date = ''2026-08-13''\<rparr>)
      minted_world = (res, w') \<and> mx_Minted res \<and> length (rpc_log w') = 2"
proof -
  have "quiet minted_world" "inflight minted_world = 0" "rpc_log minted_world = []" "env minted_world = busy_chain"
    "cid_cache minted_world ''ride-001'' = Some coaster_assets"
    by (simp_all add: minted_world_def)
  then show ?thesis
    using rerun_mints_again [of minted_world demo_client "\<lparr>ml_ParticipantID = 1, ml_WalletAddress = ''0xa'',
      ml_RideIDs = [''ride-001''], ml_Date = ''2026-08-13''\<rparr>" "JObj [(''digest'', JStr ''Dg'')]"
      "JObj [(''digest'', JStr ''Dg'')]" demo_pinata]
    by (auto simp: busy_chain_def demo_client_def)
qed

end
