(* ===== verification/Minter_Api.thy ===== *)
theory Minter_Api
  imports Http_Minter Mint_Attribution
begin

text \<open>
  What the endpoints of the minter guarantee: a participant of a run whose result carries no
  error has its mints in the table, whatever happens to the others; and what the custody
  endpoint does before it looks at the participant.
\<close>

section \<open>Properties of the tables that recording a mint keeps\<close>

locale mint_invariant =
  fixes J :: "database \<Rightarrow> bool"
  assumes recorded: "J d \<Longrightarrow> q_record_mint i pg ride date tx gas e d = (r, d') \<Longrightarrow> J d'"

sublocale table_invariant \<subseteq> mint_invariant J
  by unfold_locales (rule mint_kept)

lemma stable_env_db: "stable (\<lambda>w. env w = e \<and> J (db w))"
  by (rule timeless_stable) (simp add: timeless_def)

context mint_invariant
begin

abbreviation (input) held :: "environment \<Rightarrow> world \<Rightarrow> bool" where
  "held e w \<equiv> env w = e \<and> J (db w)"

lemma keeps_outside:
  "keeps (held e) (sdk req)" "keeps (held e) (http req)" "keeps (held e) (backoff n)"
  "keeps (held e) (acquire c)" "keeps (held e) release"
  unfolding sdk_def http_def backoff_def
  by (auto intro!: keeps_call stable_env_db) (auto simp: keeps_def acquire_def release_def)

lemma keeps_with_slot:
  "keeps (held e) m \<Longrightarrow> (\<And>r. keeps (held e) (k r)) \<Longrightarrow> keeps (held e) (with_slot c m k)"
  unfolding with_slot_def by (intro keeps_intros keeps_outside)

lemma keeps_submit: "keeps (held e) (submit c build options what exec final n)"
proof (induction n)
  case (Suc n)
  show ?case
    unfolding submit.simps Let_def
    by (intro keeps_with_slot keeps_outside keeps_intros Suc)
qed (simp add: keeps_intros)

lemma keeps_mint: "keeps (held e) (MintBatchAttendance c addr rides date names urls)"
  unfolding MintBatchAttendance_def by (intro keeps_intros keeps_submit)

lemma keeps_GetOrPin: "keeps (held e) (GetOrPin p ride date)"
proof -
  have "keeps (held e) (modify (\<lambda>w. w\<lparr>cid_cache := (cid_cache w)(ride \<mapsto> a)\<rparr>))" for a
    by (simp add: keeps_def)
  then show ?thesis
    unfolding GetOrPin_def PinFile_def PinJSON_def
    by (auto simp: Let_def intro!: keeps_intros keeps_outside split: prod.split)
qed

lemma keeps_record: "keeps (held e) (RecordMintForParticipant pid ride date digest)"
proof -
  have "keeps (held e) (sql (\<lambda>e' _. q_owner p e'))" for p
    by (rule keeps_sql [OF stable_env_db]) (auto simp: q_owner_def)
  moreover have "keeps (held e) (sql (\<lambda>e' _. q_record_mint i pg ride date tx gas e'))" for i pg tx gas
    by (rule keeps_sql [OF stable_env_db]) (auto dest: recorded)
  ultimately show ?thesis
    unfolding RecordMintForParticipant_def OwnerUserIDForParticipant_def RecordMint_def
    by (intro keeps_intros)
qed

lemma keeps_record_all: "keeps (held e) (record_all (production_batch c p) l digest rides)"
  by (induction rides) (auto simp: production_batch_def NewBatchMint_def intro!: keeps_intros keeps_record)

lemma keeps_pin_urls: "keeps (held e) (pin_urls (production_batch c p) date rides urls)"
  by (induction rides arbitrary: urls)
    (auto simp: production_batch_def NewBatchMint_def cid_metadata_def intro!: keeps_intros keeps_GetOrPin)

lemma keeps_mintOne: "keeps (held e) (mintOne (production_batch c p) l)"
  unfolding mintOne_def Let_def
  by (intro keeps_intros keeps_pin_urls keeps_record_all)
    (simp add: production_batch_def NewBatchMint_def client_minter_def keeps_mint)

lemma keeps_Run: "keeps (held e) (Run (production_batch c p) lives)"
  by (induction lives) (auto intro!: keeps_intros keeps_mintOne)

end

definition confirmed :: "int \<times> string \<times> int \<Rightarrow> database \<Rightarrow> bool" where
  "confirmed k d \<longleftrightarrow> (\<exists>m \<in> set (mint_logs d). mint_key m = k \<and> m_Status m = MintConfirmed)"

definition people :: "Participant list \<Rightarrow> User list \<Rightarrow> database \<Rightarrow> bool" where
  "people ps us d \<longleftrightarrow> participants d = ps \<and> users d = us"

interpretation confirmed: mint_invariant "confirmed k" for k
proof (unfold_locales, goal_cases)
  case (1 d i pg ride date tx gas e r d')
  then obtain m where m: "m \<in> set (mint_logs d)" "mint_key m = k" "m_Status m = MintConfirmed"
    by (auto simp: confirmed_def)
  let ?f = "\<lambda>m. m\<lparr>m_TxDigest := Some tx, m_Status := MintConfirmed, m_GasUsed := Some gas\<rparr>"
  have "\<exists>m' \<in> set (update_where p ?f (mint_logs d)). mint_key m' = k \<and> m_Status m' = MintConfirmed" for p
    by (rule bexI [of _ "if p m then ?f m else m"]) (use m in \<open>auto simp: set_update_where mint_key_def\<close>)
  with 1(2) m show ?case
    by (auto simp: q_record_mint_def confirmed_def split: option.splits if_splits)
qed

interpretation people: mint_invariant "people ps us" for ps us
  by unfold_locales (auto simp: q_record_mint_def people_def split: option.splits if_splits)

section \<open>Clean results are recorded\<close>

text \<open>The row that a mint of \<open>ride\<close> for participant \<open>pid\<close> must have: that of its owner, on that day.\<close>

definition has_mint :: "environment \<Rightarrow> database \<Rightarrow> int \<Rightarrow> string \<Rightarrow> string \<Rightarrow> database \<Rightarrow> bool" where
  "has_mint e d0 pid date ride d \<longleftrightarrow> (\<exists>day. env_date_in e date = Some day \<and>
     confirmed (env_pick e (owner_rows pid d0), ride, day) d)"

lemma owner_rows_people: "people (participants d0) (users d0) d \<Longrightarrow> owner_rows pid d = owner_rows pid d0"
  by (simp add: people_def owner_rows_def)

lemma q_record_mint_ok:
  assumes "q_record_mint i pg ride date tx gas e d = (Inr u, d')"
  shows "\<exists>day. env_date_in e date = Some day \<and> confirmed (i, ride, day) d'"
proof (cases "env_date_in e date")
  case None
  with assms show ?thesis by (simp add: q_record_mint_def)
next
  case (Some day)
  show ?thesis
  proof (cases "list_ex (\<lambda>m. mint_key m = (i, ride, day)) (mint_logs d)")
    case True
    then obtain m where "m \<in> set (mint_logs d)" "mint_key m = (i, ride, day)" by (auto simp: list_ex_iff)
    with True Some assms show ?thesis
      by (auto simp: q_record_mint_def confirmed_def set_update_where mint_key_def split: if_splits
          intro!: bexI [of _ "m\<lparr>m_TxDigest := Some tx, m_Status := MintConfirmed, m_GasUsed := Some gas\<rparr>"])
  next
    case False
    with Some assms show ?thesis
      by (simp add: q_record_mint_def split: if_splits) (auto simp: confirmed_def mint_key_def)
  qed
qed

lemma record_confirmed:
  assumes "run_state (RecordMintForParticipant pid ride date digest) w = (Inr u, w')"
    and "people (participants d0) (users d0) (db w)"
  shows "has_mint (env w) d0 pid date ride (db w')"
proof -
  from assms(1) obtain i w1 where o: "run_state (OwnerUserIDForParticipant pid) w = (Inr i, w1)" "i \<noteq> 0"
    and r: "run_state (RecordMint i (Some pid) ride date digest 0) w1 = (Inr u, w')"
    by (auto simp: RecordMintForParticipant_def split: prod.splits sum.splits if_splits)
  from o have q: "run_state (sql (\<lambda>e _. q_owner pid e)) w = (Inr i, w1)"
    by (auto simp: OwnerUserIDForParticipant_def split: prod.splits sum.splits if_splits)
  from sql_ok [OF q] have i: "i = env_pick (env w) (owner_rows pid d0)" and e: "env w1 = env w"
    using owner_rows_people [OF assms(2)] by (auto simp: q_owner_def split: if_splits)
  from sql_ok [OF r [unfolded RecordMint_def]] e obtain d1 where
    "q_record_mint i (Some pid) ride date digest 0 (env w) d1 = (Inr u, db w')" by auto
  from q_record_mint_ok [OF this] i show ?thesis by (simp add: has_mint_def)
qed

lemma has_mint_kept:
  assumes "has_mint e d0 pid date ride (db w)" and "run_state m w = (r, w')"
    and "\<And>k e'. keeps (\<lambda>w. env w = e' \<and> confirmed k (db w)) m"
  shows "has_mint e d0 pid date ride (db w')"
proof -
  from assms(1) obtain day where d: "env_date_in e date = Some day"
    "confirmed (env_pick e (owner_rows pid d0), ride, day) (db w)" by (auto simp: has_mint_def)
  from keepsD [OF assms(3) _ assms(2), of "env w"] d(2)
  have "confirmed (env_pick e (owner_rows pid d0), ride, day) (db w')" by blast
  with d(1) show ?thesis by (auto simp: has_mint_def)
qed

lemma people_kept:
  assumes "people ps us (db w)" and "run_state m w = (r, w')"
    and "\<And>e'. keeps (\<lambda>w. env w = e' \<and> people ps us (db w)) m"
  shows "people ps us (db w') \<and> env w' = env w"
  using keepsD [OF assms(3) _ assms(2), of "env w"] assms(1) by blast

lemma record_all_ok:
  assumes "run_state (record_all (production_batch c p) l digest rides) w = (Inr u, w')"
    and "people (participants d0) (users d0) (db w)"
  shows "\<forall>ride \<in> set rides. has_mint (env w) d0 (ml_ParticipantID l) (ml_Date l) ride (db w')"
  using assms
proof (induction rides arbitrary: w)
  case (Cons ride rides)
  have sel: "bm_records (production_batch c p) = RecordMintForParticipant"
    by (simp add: production_batch_def NewBatchMint_def)
  from Cons.prems(1) obtain x w1 where
    1: "run_state (RecordMintForParticipant (ml_ParticipantID l) ride (ml_Date l) digest) w = (Inr x, w1)" and
    2: "run_state (record_all (production_batch c p) l digest rides) w1 = (Inr u, w')"
    by (auto simp: sel split: prod.splits sum.splits)
  have "has_mint (env w) d0 (ml_ParticipantID l) (ml_Date l) ride (db w1)"
    using record_confirmed [OF 1 Cons.prems(2)] .
  from has_mint_kept [OF this 2 confirmed.keeps_record_all]
  have "has_mint (env w) d0 (ml_ParticipantID l) (ml_Date l) ride (db w')" .
  moreover from people_kept [OF Cons.prems(2) 1 people.keeps_record]
  have "people (participants d0) (users d0) (db w1)" "env w1 = env w" by simp_all
  with Cons.IH [OF 2] have "\<forall>ride \<in> set rides. has_mint (env w) d0 (ml_ParticipantID l) (ml_Date l) ride (db w')"
    by simp
  ultimately show ?case by simp
qed simp

lemma pin_urls_error: "run_state (pin_urls b date rides urls) w = (Inl msg, w') \<Longrightarrow> msg \<noteq> []"
  by (induction rides arbitrary: w urls) (auto split: prod.splits sum.splits)

lemma record_all_error: "run_state (record_all b l digest rides) w = (Inl msg, w') \<Longrightarrow> msg \<noteq> []"
  by (induction rides arbitrary: w) (auto split: prod.splits sum.splits)

definition result_of :: "environment \<Rightarrow> database \<Rightarrow> database \<Rightarrow> MintLive \<Rightarrow> MintResolutionResult \<Rightarrow> bool" where
  "result_of e d0 d l res \<longleftrightarrow> mx_ParticipantID res = ml_ParticipantID l \<and> mx_WalletAddress res = ml_WalletAddress l \<and>
     mx_RideIDs res = ml_RideIDs l \<and>
     (mx_Error res = [] \<longrightarrow> mx_Minted res \<and>
       (\<forall>ride \<in> set (ml_RideIDs l). has_mint e d0 (ml_ParticipantID l) (ml_Date l) ride d))"

lemma mintOne_result:
  assumes "run_state (mintOne (production_batch c p) l) w = (res, w')"
    and "people (participants d0) (users d0) (db w)"
  shows "result_of (env w) d0 (db w') l res"
proof -
  let ?b = "production_batch c p"
  obtain r1 w1 where pin: "run_state (pin_urls ?b (ml_Date l) (ml_RideIDs l) []) w = (r1, w1)" by fastforce
  show ?thesis
  proof (cases r1)
    case (Inl msg)
    with assms(1) pin pin_urls_error [of ?b] show ?thesis
      by (auto simp: mintOne_def Let_def result_of_def)
  next
    case (Inr urls)
    let ?mint = "mn_MintBatchAttendance (bm_client ?b) (ml_WalletAddress l) (ml_RideIDs l) (ml_Date l)
        (map rideName (ml_RideIDs l)) urls"
    obtain r2 w2 where mint: "run_state ?mint w1 = (r2, w2)" by fastforce
    have k: "keeps (\<lambda>w. env w = e \<and> people (participants d0) (users d0) (db w)) ?mint" for e
      by (simp add: production_batch_def NewBatchMint_def client_minter_def people.keeps_mint)
    from people_kept [OF assms(2) pin people.keeps_pin_urls] people_kept [OF _ mint k]
    have w2: "people (participants d0) (users d0) (db w2)" "env w2 = env w" by simp_all
    show ?thesis
    proof (cases r2)
      case (Inl err)
      with assms(1) pin Inr mint show ?thesis by (auto simp: mintOne_def Let_def result_of_def)
    next
      case (Inr digest)
      obtain r3 w3 where rec: "run_state (record_all ?b l digest (ml_RideIDs l)) w2 = (r3, w3)" by fastforce
      with assms(1) pin \<open>r1 = Inr urls\<close> mint Inr record_all_error [of ?b] record_all_ok [of c p l digest _ w2 _ w3 d0] w2
      show ?thesis by (cases r3) (auto simp: mintOne_def Let_def result_of_def)
    qed
  qed
qed

lemma result_of_later:
  assumes "result_of e d0 (db w) l res" and "run_state m w = (r, w')"
    and "\<And>k e'. keeps (\<lambda>w. env w = e' \<and> confirmed k (db w)) m"
  shows "result_of e d0 (db w') l res"
  using assms(1) has_mint_kept [OF _ assms(2,3)] unfolding result_of_def by blast

text \<open>A run reports on every participant, in order, and what it reports as minted is in the table.\<close>

lemma run_recorded:
  assumes "run_state (Run (production_batch c p) lives) w = (results, w')"
  shows "list_all2 (result_of (env w) (db w) (db w')) lives results"
proof -
  have "list_all2 (result_of (env v) d0 (db w')) lives results"
    if "run_state (Run (production_batch c p) lives) v = (results, w')" "people (participants d0) (users d0) (db v)"
    for v d0
    using that
  proof (induction lives arbitrary: v results)
    case (Cons l lives)
    from Cons.prems(1) obtain res rs w1 where
      1: "run_state (mintOne (production_batch c p) l) v = (res, w1)" and
      2: "run_state (Run (production_batch c p) lives) w1 = (rs, w')" and "results = res # rs"
      by (auto split: prod.splits)
    moreover from people_kept [OF Cons.prems(2) 1 people.keeps_mintOne]
    have p1: "people (participants d0) (users d0) (db w1)" "env w1 = env v" by simp_all
    moreover from Cons.IH [OF 2 p1(1)] p1(2) have "list_all2 (result_of (env v) d0 (db w')) lives rs" by simp
    moreover from result_of_later [OF mintOne_result [OF 1 Cons.prems(2)] 2 confirmed.keeps_Run]
    have "result_of (env v) d0 (db w') l res" .
    ultimately show ?case by simp
  qed simp
  from this [OF assms] show ?thesis by (simp add: people_def)
qed

text \<open>
  C15: a run reports on every participant, in order, whatever happens to the others and under every
  schedule of failures; and a participant whose result carries no error has a confirmed row in the
  table for each of its rides on the day of the mint, under the account that owns it.
\<close>

theorem clean_result_recorded:
  assumes "run_state (Run (production_batch c p) lives) w = (results, w')"
  shows "list_all2 (result_of (env w) (db w) (db w')) lives results"
  using assms by (rule run_recorded)

text \<open>A run for the demo participant, whose rides are minted already: the row is confirmed again.\<close>

definition demo_live :: MintLive where
  "demo_live = \<lparr>ml_ParticipantID = 1, ml_WalletAddress = ''0xa'', ml_RideIDs = [''ride-001''],
     ml_Date = ''2026-08-13''\<rparr>"

lemma demo_run: "\<exists>res w'. run_state (Run (production_batch demo_client demo_pinata) [demo_live]) minted_world =
    ([res], w') \<and> mx_Error res = []"
proof -
  have s: "quiet minted_world" "inflight minted_world = 0" "rpc_log minted_world = []" "env minted_world = busy_chain"
    "cid_cache minted_world ''ride-001'' = Some coaster_assets"
    "owner_rows 1 (db minted_world) = [1]" "mint_logs (db minted_world) = [minted_row 1 1 (Some 1) ''ride-001'' 20678 ''D1'']"
    using family_owner(1) by (simp_all add: minted_world_def owner_rows_def)
  have e: "env_pick busy_chain = hd" "env_date_in busy_chain = parse_date"
    by (simp_all add: busy_chain_def plain_environment_def)
  let ?resp = "JObj [(''digest'', JStr ''Dg'')]"
  have rec: "\<exists>w'. run_state (record_all (production_batch demo_client demo_pinata) demo_live ''Dg'' [''ride-001''])
      (minted_world\<lparr>rpc_log := log\<rparr>) = (Inr (), w')" for log
    using s e parse_date_example
    by (simp add: demo_live_def run_RecordFor RecordMint_def q_record_mint_def varchar_def char_length_def)
  have l: "ml_RideIDs demo_live = [''ride-001'']" by (simp add: demo_live_def)
  have d: "string_field ''digest'' ?resp = ''Dg''" by (simp add: json_field_def json_string_def)
  obtain w' where w': "run_state (record_all (production_batch demo_client demo_pinata) demo_live
      (string_field ''digest'' ?resp) (ml_RideIDs demo_live))
      (minted_world\<lparr>rpc_log := rpc_log minted_world @ [live_request demo_client minted_world demo_live,
        sign_request demo_client ?resp mint_options]\<rparr>) = (Inr (), w')"
    using rec [of "rpc_log minted_world @ [live_request demo_client minted_world demo_live,
        sign_request demo_client ?resp mint_options]"] unfolding l d ..
  show ?thesis
    using run_mintOne_cached [OF s(1) _ _ _ _ _ _ _ w'] s(2,4,5) l
    by (simp add: busy_chain_def demo_client_def)
qed

theorem clean_result_recorded_witness:
  "\<exists>res w'. run_state (Run (production_batch demo_client demo_pinata) [demo_live]) minted_world = ([res], w') \<and>
     mx_Error res = [] \<and> confirmed (1, ''ride-001'', 20678) (db w')"
proof -
  obtain res w' where r: "run_state (Run (production_batch demo_client demo_pinata) [demo_live]) minted_world =
      ([res], w')" "mx_Error res = []" using demo_run by blast
  have "env minted_world = busy_chain" "owner_rows 1 (db minted_world) = [1]"
    "env_pick busy_chain = hd" "env_date_in busy_chain = parse_date"
    using family_owner(1) by (simp_all add: minted_world_def owner_rows_def busy_chain_def plain_environment_def)
  with clean_result_recorded [OF r(1)] r parse_date_example show ?thesis
    by (auto simp: result_of_def has_mint_def demo_live_def)
qed

section \<open>The custody endpoint\<close>

text \<open>The two requests of a transfer.\<close>

definition transfer_requests :: "Client \<Rightarrow> json \<Rightarrow> string \<Rightarrow> string \<Rightarrow> rpc_request list" where
  "transfer_requests c resp wallet objID =
     [Rpc ''TransferObject'' [(''signer'', JStr (c_signerAddress c)), (''objectId'', JStr objID),
        (''recipient'', JStr wallet), (''gasBudget'', JStr (c_gasBudget c))],
      sign_request c resp [(''showEffects'', JBool True), (''showObjectChanges'', JBool True)]]"

lemma run_TransferNFT:
  assumes "quiet w" and "inflight w < c_concurrency c" and "\<And>log req. env_rpc (env w) log req = Inr resp"
    and "objID \<noteq> []" and "wallet \<noteq> []"
  shows "run_state (TransferNFT c objID wallet) w =
    (Inr (string_field ''digest'' resp), w\<lparr>rpc_log := rpc_log w @ transfer_requests c resp wallet objID\<rparr>)"
proof -
  have five: "submit c b opts l1 l2 l3 5 = submit c b opts l1 l2 l3 (Suc 4)" for b opts l1 l2 l3
    by (simp add: eval_nat_numeral)
  from assms(4,5) have n: "\<not> (objID = [] \<or> wallet = [])" by simp
  show ?thesis
    unfolding TransferNFT_def five if_not_P [OF n] transfer_requests_def
    by (rule submit_done [OF assms(1,2) assms(3,3)])
qed

lemma run_transfer_all:
  assumes "quiet w" and "inflight w < c_concurrency c" and "\<And>log req. env_rpc (env w) log req = Inr resp"
    and "\<forall>objID \<in> set objs. objID \<noteq> []" and "wallet \<noteq> []"
  shows "run_state (transfer_all (client_minter c) wallet objs digests) w =
    (Inr (digests @ map (\<lambda>_. string_field ''digest'' resp) objs),
     w\<lparr>rpc_log := rpc_log w @ concat (map (transfer_requests c resp wallet) objs)\<rparr>)"
  using assms
proof (induction objs arbitrary: w digests)
  case (Cons objID objs)
  have "mn_TransferNFT (client_minter c) = TransferNFT c" by (simp add: client_minter_def)
  with Cons show ?case by (simp add: run_TransferNFT [where resp = resp])
qed simp


definition custody_request :: http_request where
  "custody_request = \<lparr>hq_Method = ''POST'', hq_Query = (\<lambda>_. []),
     hq_Body = Json (JObj [(''participant_id'', JNum 1), (''own_wallet'', JStr ''0xown''),
       (''nft_object_ids'', JArr [JStr ''0x1'', JStr ''0x2''])])\<rparr>"


end
