(* ===== verification/Demo_Types.thy ===== *)
theory Demo_Types
  imports Http Mint_Day
begin

text \<open>
  \<^verbatim>\<open>internal/demo/types.go\<close> and the response types of \<^verbatim>\<open>scenarios.go\<close>: the
  scenarios of the demo, the flow events and cards of a run, the wallet view, and their JSON. A
  slice that is only appended to is \<^verbatim>\<open>null\<close> in JSON while it is empty.
\<close>

section \<open>Scenarios\<close>

type_synonym Scenario = string

definition ScenarioProbe :: Scenario where "ScenarioProbe = ''2a''"
definition ScenarioGuardianMint :: Scenario where "ScenarioGuardianMint = ''2b''"
definition ScenarioDependentMint :: Scenario where "ScenarioDependentMint = ''2c''"
definition ScenarioMixedMint :: Scenario where "ScenarioMixedMint = ''2d''"

lemmas scenario_defs = ScenarioProbe_def ScenarioGuardianMint_def ScenarioDependentMint_def ScenarioMixedMint_def

definition AllScenarios :: "Scenario list" where
  "AllScenarios = [ScenarioProbe, ScenarioGuardianMint, ScenarioDependentMint, ScenarioMixedMint]"

definition validScenario :: "Scenario \<Rightarrow> bool" where
  "validScenario s \<longleftrightarrow> list_ex (\<lambda>v. v = s) AllScenarios"

record ScenarioDeps =
  sd_Guardians :: int
  sd_Dependents :: int
  sd_ProbeTx :: int

definition depsFor :: "Scenario \<Rightarrow> ScenarioDeps" where
  "depsFor s =
     (if s = ScenarioProbe then \<lparr>sd_Guardians = 9, sd_Dependents = 1, sd_ProbeTx = 10\<rparr>
      else if s = ScenarioGuardianMint then \<lparr>sd_Guardians = 10, sd_Dependents = 0, sd_ProbeTx = 0\<rparr>
      else if s = ScenarioDependentMint then \<lparr>sd_Guardians = 0, sd_Dependents = 10, sd_ProbeTx = 0\<rparr>
      else if s = ScenarioMixedMint then \<lparr>sd_Guardians = 5, sd_Dependents = 5, sd_ProbeTx = 0\<rparr>
      else \<lparr>sd_Guardians = 0, sd_Dependents = 0, sd_ProbeTx = 0\<rparr>)"

section \<open>The result of a run\<close>

record FlowEvent =
  fe_Step :: int
  fe_Label :: string
  fe_Kind :: string
  fe_Detail :: string
  fe_TxDigest :: string
  fe_ExplorerURL :: string
  fe_Participant :: string
  fe_Wallet :: string

text \<open>An event without a transaction.\<close>

definition flow :: "int \<Rightarrow> string \<Rightarrow> string \<Rightarrow> string \<Rightarrow> string \<Rightarrow> string \<Rightarrow> FlowEvent" where
  "flow step label kind detail participant wallet = \<lparr>fe_Step = step, fe_Label = label, fe_Kind = kind,
     fe_Detail = detail, fe_TxDigest = [], fe_ExplorerURL = [], fe_Participant = participant, fe_Wallet = wallet\<rparr>"

lemma flow_sel [simp]: "fe_Step (flow step label kind detail participant wallet) = step"
  by (simp add: flow_def)

record TxnCard =
  tc_Participant :: string
  tc_Kind :: string
  tc_Recipient :: string
  tc_TxDigest :: string
  tc_ExplorerURL :: string
  tc_Status :: string
  tc_NFTsCreated :: int

definition failed_card :: "string \<Rightarrow> string \<Rightarrow> string \<Rightarrow> TxnCard" where
  "failed_card participant kind recipient = \<lparr>tc_Participant = participant, tc_Kind = kind,
     tc_Recipient = recipient, tc_TxDigest = [], tc_ExplorerURL = [], tc_Status = ''failed'', tc_NFTsCreated = 0\<rparr>"

record RunTotals =
  rt_Transactions :: int
  rt_Succeeded :: int
  rt_Failed :: int
  rt_NFTsCreated :: int

record RunResult =
  rr_Scenario :: Scenario
  rr_Date :: string
  rr_Steps :: "FlowEvent list"
  rr_Transactions :: "TxnCard list"
  rr_Totals :: RunTotals

definition add_step :: "FlowEvent \<Rightarrow> RunResult \<Rightarrow> RunResult" where
  "add_step e out = out\<lparr>rr_Steps := rr_Steps out @ [e]\<rparr>"

definition add_card :: "TxnCard \<Rightarrow> RunResult \<Rightarrow> RunResult" where
  "add_card c out = out\<lparr>rr_Transactions := rr_Transactions out @ [c]\<rparr>"

lemma add_sel [simp]:
  "rr_Steps (add_step e out) = rr_Steps out @ [e]" "rr_Transactions (add_step e out) = rr_Transactions out"
  "rr_Steps (add_card c out) = rr_Steps out" "rr_Transactions (add_card c out) = rr_Transactions out @ [c]"
  "rr_Totals (add_step e out) = rr_Totals out" "rr_Totals (add_card c out) = rr_Totals out"
  by (simp_all add: add_step_def add_card_def)

record SeedGuardian =
  sg_Email :: string
  sg_Wallet :: string

record SeedDependent =
  se_Name :: string
  se_GuardianEmail :: string
  se_GuardianWallet :: string

record SeedResult =
  sr_Scenario :: Scenario
  sr_Date :: string
  sr_Guardians :: "SeedGuardian list"
  sr_Dependents :: "SeedDependent list"

section \<open>The wallet view\<close>

record WalletAttribution =
  wa_Section :: string
  wa_Participant :: string
  wa_MintDate :: string
  wa_RideIDs :: "string list"

record WalletNFTObject =
  wo_ObjectID :: string
  wo_Type :: string
  wo_Owner :: string
  wo_Version :: string

record WalletView =
  wv_Address :: string
  wv_BalanceMist :: string
  wv_HasDependents :: bool
  wv_GuardianName :: string
  wv_NFTObjects :: "WalletNFTObject list"
  wv_Attribution :: "WalletAttribution list"

record ResetResult =
  rx_TruncatedTables :: "string list"
  rx_RedisFlushed :: bool

section \<open>JSON\<close>

definition nil_or_list :: "('a \<Rightarrow> json) \<Rightarrow> 'a list \<Rightarrow> json" where
  "nil_or_list f xs = (if xs = [] then JNull else JArr (map f xs))"

definition marshal_FlowEvent :: "FlowEvent \<Rightarrow> json" where
  "marshal_FlowEvent e = JObj
     ([(''step'', JNum (fe_Step e)), (''label'', JStr (fe_Label e)), (''kind'', JStr (fe_Kind e)),
       (''detail'', JStr (fe_Detail e))] @ omit_empty ''txDigest'' (fe_TxDigest e) @
      omit_empty ''explorerUrl'' (fe_ExplorerURL e) @ omit_empty ''participant'' (fe_Participant e) @
      omit_empty ''wallet'' (fe_Wallet e))"

definition marshal_TxnCard :: "TxnCard \<Rightarrow> json" where
  "marshal_TxnCard c = JObj
     ([(''participant'', JStr (tc_Participant c)), (''kind'', JStr (tc_Kind c)),
       (''recipient'', JStr (tc_Recipient c)), (''tx_digest'', JStr (tc_TxDigest c)),
       (''explorer_url'', JStr (tc_ExplorerURL c)), (''status'', JStr (tc_Status c))] @
      (if tc_NFTsCreated c = 0 then [] else [(''nfts_created'', JNum (tc_NFTsCreated c))]))"

definition marshal_RunTotals :: "RunTotals \<Rightarrow> json" where
  "marshal_RunTotals t = JObj
     [(''transactions'', JNum (rt_Transactions t)), (''succeeded'', JNum (rt_Succeeded t)),
      (''failed'', JNum (rt_Failed t)), (''nfts_created'', JNum (rt_NFTsCreated t))]"

definition marshal_RunResult :: "RunResult \<Rightarrow> json" where
  "marshal_RunResult r = JObj
     [(''scenario'', JStr (rr_Scenario r)), (''date'', JStr (rr_Date r)),
      (''steps'', nil_or_list marshal_FlowEvent (rr_Steps r)),
      (''transactions'', nil_or_list marshal_TxnCard (rr_Transactions r)),
      (''totals'', marshal_RunTotals (rr_Totals r))]"

definition marshal_SeedResult :: "SeedResult \<Rightarrow> json" where
  "marshal_SeedResult r = JObj
     [(''scenario'', JStr (sr_Scenario r)), (''date'', JStr (sr_Date r)),
      (''guardians'', nil_or_list (\<lambda>g. JObj [(''email'', JStr (sg_Email g)), (''wallet'', JStr (sg_Wallet g))])
         (sr_Guardians r)),
      (''dependents'', nil_or_list (\<lambda>d. JObj [(''name'', JStr (se_Name d)),
         (''guardian_email'', JStr (se_GuardianEmail d)), (''guardian_wallet'', JStr (se_GuardianWallet d))])
         (sr_Dependents r))]"

definition marshal_WalletAttribution :: "WalletAttribution \<Rightarrow> json" where
  "marshal_WalletAttribution a = JObj
     [(''section'', JStr (wa_Section a)), (''participant'', JStr (wa_Participant a)),
      (''mint_date'', JStr (wa_MintDate a)), (''ride_ids'', JArr (map JStr (wa_RideIDs a)))]"

definition marshal_WalletNFTObject :: "WalletNFTObject \<Rightarrow> json" where
  "marshal_WalletNFTObject n = JObj
     [(''object_id'', JStr (wo_ObjectID n)), (''type'', JStr (wo_Type n)), (''owner'', JStr (wo_Owner n)),
      (''version'', JStr (wo_Version n))]"

definition marshal_WalletView :: "WalletView \<Rightarrow> json" where
  "marshal_WalletView v = JObj
     ([(''address'', JStr (wv_Address v)), (''balance_mist'', JStr (wv_BalanceMist v)),
       (''has_dependents'', JBool (wv_HasDependents v))] @ omit_empty ''guardian_name'' (wv_GuardianName v) @
      [(''nft_objects'', JArr (map marshal_WalletNFTObject (wv_NFTObjects v))),
       (''attribution'', JArr (map marshal_WalletAttribution (wv_Attribution v)))])"

definition marshal_ResetResult :: "ResetResult \<Rightarrow> json" where
  "marshal_ResetResult r = JObj
     [(''truncated_tables'', JArr (map JStr (rx_TruncatedTables r))), (''redis_flushed'', JBool (rx_RedisFlushed r))]"

end
