(* ===== verification/Demo_Seed.thy ===== *)
theory Demo_Seed
  imports Demo_Types Http_Voucher Sui_Reader
begin

text \<open>
  \<^verbatim>\<open>internal/demo/seed.go\<close> and \<^verbatim>\<open>seedScenario\<close>: the participants and rides
  a scenario needs, found or created one by one. Seeding is not a transaction: what was created
  before an error stays.
\<close>

section \<open>The orchestrator\<close>

text \<open>Its dependencies; the repository, the database and Redis are those of the world.\<close>

record Orchestrator =
  oc_crypto :: crypto_lib
  oc_sui :: Minter
  oc_reader :: Reader
  oc_meta :: MetadataProvider
  oc_walletSecret :: string
  oc_probeAmountMist :: string
  oc_checker :: HealthChecker
  oc_checks :: "(string \<times> Checker) list"

section \<open>Deterministic names\<close>

definition scenarioDate :: "Scenario \<Rightarrow> string" where
  "scenarioDate s =
     (if s = ScenarioProbe then ''2026-08-13''
      else if s = ScenarioGuardianMint then ''2026-08-14''
      else if s = ScenarioDependentMint then ''2026-08-15''
      else if s = ScenarioMixedMint then ''2026-08-16''
      else ''2026-08-13'')"

definition guardianEmail :: "int \<Rightarrow> string" where
  "guardianEmail n = ''guardian-'' @ pad 4 (show_int n) @ ''@themepark.local''"

definition dependentName :: "int \<Rightarrow> string" where
  "dependentName n = ''dependent-'' @ pad 4 (show_int n)"

definition rideID :: "int \<Rightarrow> string" where
  "rideID n = ''ride-'' @ pad 3 (show_int n)"

text \<open>The time of a scan: ten o'clock on the day and ten minutes more per ride.\<close>

definition dateScannedAt :: "int \<Rightarrow> string \<Rightarrow> string \<Rightarrow> int" where
  "dateScannedAt now date ride =
     (let t = (case parse_rfc3339 (date @ ''T10:00:00Z'') of Some t \<Rightarrow> t | None \<Rightarrow> now)
      in if ride = rideID 2 then t + 600000
         else if ride = rideID 3 then t + 1200000
         else if ride = rideID 4 then t + 1800000
         else if ride = rideID 5 then t + 2400000
         else t)"

section \<open>Guardians and dependents\<close>

record guardian =
  gd_userID :: int
  gd_particip :: Participant
  gd_wallet :: string

definition seedGuardian :: "Orchestrator \<Rightarrow> string \<Rightarrow> (world, guardian) go" where
  "seedGuardian oc email =
     check (CreateUser email) (wrapf (''create user '' @ email @ '': '')) (\<lambda>user.
     check (GetParticipantByEmail email) id (\<lambda>found.
     check (case found of None \<Rightarrow> CreateParticipant email (Some email) None | Some p \<Rightarrow> returns p) id (\<lambda>p.
     (case DeterministicWallet (oc_crypto oc) email (oc_walletSecret oc) of
        Inl err \<Rightarrow> fails err
      | Inr (_, addr) \<Rightarrow>
          check (SetParticipantWallet (p_ID p) ParticipantWalletOwn addr) id (\<lambda>_.
          check (UpdateSuiAccount (u_ID user) addr [] []) id (\<lambda>_.
          returns \<lparr>gd_userID = u_ID user, gd_particip = p, gd_wallet = addr\<rparr>))))))"

text \<open>\<^verbatim>\<open>LIMIT 1\<close> without an order: Postgres picks one of the rows.\<close>

definition q_find_dependent :: "string \<Rightarrow> int \<Rightarrow> environment \<Rightarrow> database \<Rightarrow> (goerr + Participant) \<times> database" where
  "q_find_dependent name guardianID e d =
     (let rows = filter (\<lambda>p. p_Name p = name \<and> p_GuardianID p = Some guardianID) (participants d)
      in if rows = [] then (Inl ErrNoRows, d)
         else (found (find (\<lambda>p. p_ID p = env_pick e (map p_ID rows)) rows), d))"

definition findDependent :: "string \<Rightarrow> int \<Rightarrow> (world, Participant option) go" where
  "findDependent name guardianID =
     on_err (sql (\<lambda>e _. q_find_dependent name guardianID e))
       (\<lambda>err. if errors_Is err ErrNoRows then returns None
              else fails (wrapf (''find dependent '' @ name @ '': '') err))
       (\<lambda>p. returns (Some p))"

definition seedDependent :: "guardian \<Rightarrow> string \<Rightarrow> (world, Participant) go" where
  "seedDependent g name =
     check (findDependent name (p_ID (gd_particip g))) id (\<lambda>found.
     check (case found of
         None \<Rightarrow> CreateParticipant name None (Some (p_ID (gd_particip g)))
       | Some p \<Rightarrow> returns p) id (\<lambda>p.
     check (SetParticipantWallet (p_ID p) ParticipantWalletCustodial (gd_wallet g)) id (\<lambda>_.
     returns p)))"

section \<open>Rides\<close>

definition q_seed_scan :: "string \<Rightarrow> int option \<Rightarrow> string option \<Rightarrow> string \<Rightarrow> int \<Rightarrow> database \<Rightarrow>
    (goerr + unit) \<times> database" where
  "q_seed_scan trace userID ticketID ride scannedAt d =
     (if \<not> varchar 64 trace \<or> (case ticketID of None \<Rightarrow> False | Some t \<Rightarrow> \<not> varchar 64 t) \<or> \<not> varchar 64 ride
      then (Inl too_long, d)
      else if list_ex (\<lambda>s. s_TraceID s = trace) (scan_events d) then (Inr (), d\<lparr>scan_seq := scan_seq d + 1\<rparr>)
      else if \<not> fk_user d userID
      then (Inl (fk_violation ''scan_events_user_id_fkey''), d\<lparr>scan_seq := scan_seq d + 1\<rparr>)
      else (Inr (), d\<lparr>scan_events := scan_events d @ [\<lparr>s_ID = scan_seq d + 1, s_TraceID = trace,
              s_UserID = userID, s_TicketID = ticketID, s_RideID = ride, s_ScannedAt = scannedAt\<rparr>],
            scan_seq := scan_seq d + 1\<rparr>))"

definition seedRideAccount :: "guardian \<Rightarrow> string \<Rightarrow> string \<Rightarrow> string \<Rightarrow> (world, unit) go" where
  "seedRideAccount g date ride trace = do {
     now \<leftarrow> gets clock;
     sql (\<lambda>_ _. q_seed_scan trace (Some (gd_userID g)) None ride (dateScannedAt now date ride))
   }"

definition demo_voucher_id :: "Participant \<Rightarrow> string" where
  "demo_voucher_id p = ''demo-voucher-'' @ show_int (p_ID p)"

definition q_seed_voucher :: "string \<Rightarrow> int \<Rightarrow> int \<Rightarrow> database \<Rightarrow> (goerr + unit) \<times> database" where
  "q_seed_voucher voucherID purchaserID participantID d =
     (if \<not> varchar 64 voucherID then (Inl too_long, d)
      else if list_ex (\<lambda>v. v_VoucherID v = voucherID) (ticket_vouchers d)
      then (Inr (), d\<lparr>vouchers_seq := vouchers_seq d + 1\<rparr>)
      else if \<not> fk_user d (Some purchaserID)
      then (Inl (fk_violation ''ticket_vouchers_purchaser_id_fkey''), d\<lparr>vouchers_seq := vouchers_seq d + 1\<rparr>)
      else if \<not> fk_participant d (Some participantID)
      then (Inl (fk_violation ''ticket_vouchers_participant_id_fkey''), d\<lparr>vouchers_seq := vouchers_seq d + 1\<rparr>)
      else (Inr (), d\<lparr>ticket_vouchers := ticket_vouchers d @ [\<lparr>v_ID = vouchers_seq d + 1,
              v_VoucherID = voucherID, v_PurchaserID = purchaserID, v_OwnerID = None,
              v_ParticipantID = Some participantID, v_Status = StatusUnclaimed\<rparr>],
            vouchers_seq := vouchers_seq d + 1\<rparr>))"

definition seedRideDependent :: "guardian \<Rightarrow> Participant \<Rightarrow> string \<Rightarrow> string \<Rightarrow> string \<Rightarrow> (world, unit) go" where
  "seedRideDependent g p date ride trace =
     check (sql (\<lambda>_ _. q_seed_voucher (demo_voucher_id p) (gd_userID g) (p_ID p)))
       (wrapf ''insert dependent voucher: '') (\<lambda>_. do {
         now \<leftarrow> gets clock;
         check (sql (\<lambda>_ _. q_seed_scan trace None (Some (demo_voucher_id p)) ride (dateScannedAt now date ride)))
           (wrapf ''insert dependent scan event: '') returns
       })"

section \<open>Scenarios\<close>

record dependentInfo =
  di_particip :: Participant
  di_name :: string
  di_guardian :: guardian

record seedState =
  ss_scenario :: Scenario
  ss_date :: string
  ss_guardians :: "guardian list"
  ss_dependents :: "dependentInfo list"
  ss_label :: "int \<rightharpoonup> string"
  ss_kind :: "int \<rightharpoonup> string"

definition add_guardian :: "guardian \<Rightarrow> seedState \<Rightarrow> seedState" where
  "add_guardian g st = st\<lparr>ss_guardians := ss_guardians st @ [g],
     ss_label := (ss_label st)(p_ID (gd_particip g) \<mapsto> p_Name (gd_particip g)),
     ss_kind := (ss_kind st)(p_ID (gd_particip g) \<mapsto> ''guardian'')\<rparr>"

definition add_dependent :: "Participant \<Rightarrow> string \<Rightarrow> guardian \<Rightarrow> seedState \<Rightarrow> seedState" where
  "add_dependent d name g st = st\<lparr>
     ss_dependents := ss_dependents st @ [\<lparr>di_particip = d, di_name = name, di_guardian = g\<rparr>],
     ss_label := (ss_label st)(p_ID d \<mapsto> p_Name d),
     ss_kind := (ss_kind st)(p_ID d \<mapsto> ''dependent'')\<rparr>"

text \<open>The trace id of a seeded ride.\<close>

definition seed_trace :: "Scenario \<Rightarrow> string \<Rightarrow> int \<Rightarrow> string" where
  "seed_trace s name r = ''seed-'' @ s @ ''-'' @ name @ ''-'' @ show_int r"

fun guardian_rides :: "Scenario \<Rightarrow> string \<Rightarrow> guardian \<Rightarrow> int list \<Rightarrow> (world, unit) go" where
  "guardian_rides s date g [] = returns ()"
| "guardian_rides s date g (r # rs) =
     check (seedRideAccount g date (rideID r) (seed_trace s (p_Name (gd_particip g)) r)) id
       (\<lambda>_. guardian_rides s date g rs)"

fun dependent_rides :: "Scenario \<Rightarrow> string \<Rightarrow> guardian \<Rightarrow> Participant \<Rightarrow> int list \<Rightarrow> (world, unit) go" where
  "dependent_rides s date g d [] = returns ()"
| "dependent_rides s date g d (r # rs) =
     check (seedRideDependent g d date (rideID r) (seed_trace s (p_Name d) r)) id
       (\<lambda>_. dependent_rides s date g d rs)"

text \<open>The loops over the guardians: alone, with rides of their own, with a dependent that rides.\<close>

fun seed_guardians :: "Orchestrator \<Rightarrow> int list \<Rightarrow> seedState \<Rightarrow> (world, seedState) go" where
  "seed_guardians oc [] st = returns st"
| "seed_guardians oc (i # is) st =
     check (seedGuardian oc (guardianEmail i)) id (\<lambda>g. seed_guardians oc is (add_guardian g st))"

fun seed_riders :: "Orchestrator \<Rightarrow> int list \<Rightarrow> seedState \<Rightarrow> (world, seedState) go" where
  "seed_riders oc [] st = returns st"
| "seed_riders oc (i # is) st =
     check (seedGuardian oc (guardianEmail i)) id (\<lambda>g.
     check (guardian_rides (ss_scenario st) (ss_date st) g [1, 2]) id (\<lambda>_.
     seed_riders oc is (add_guardian g st)))"

fun seed_families :: "Orchestrator \<Rightarrow> int list \<Rightarrow> seedState \<Rightarrow> (world, seedState) go" where
  "seed_families oc [] st = returns st"
| "seed_families oc (i # is) st =
     check (seedGuardian oc (guardianEmail i)) id (\<lambda>g.
     check (seedDependent g (dependentName i)) id (\<lambda>d.
     check (dependent_rides (ss_scenario st) (ss_date st) g d [1, 2]) id (\<lambda>_.
     seed_families oc is (add_dependent d (dependentName i) g (add_guardian g st)))))"

definition seedScenario :: "Orchestrator \<Rightarrow> Scenario \<Rightarrow> (world, seedState) go" where
  "seedScenario oc s =
     (let st = \<lparr>ss_scenario = s, ss_date = scenarioDate s, ss_guardians = [], ss_dependents = [],
                ss_label = Map.empty, ss_kind = Map.empty\<rparr>
      in if s = ScenarioProbe then
           check (seed_guardians oc [1..9] st) id (\<lambda>st.
             let gLast = last (ss_guardians st)
             in check (seedDependent gLast (dependentName 1)) id (\<lambda>d.
                returns (add_dependent d (dependentName 1) gLast st)))
         else if s = ScenarioGuardianMint then seed_riders oc [1..10] st
         else if s = ScenarioDependentMint then seed_families oc [1..10] st
         else if s = ScenarioMixedMint then
           check (seed_riders oc [1..5] st) id (seed_families oc [6..10])
         else returns st)"

definition unknown_scenario :: "Scenario \<Rightarrow> goerr" where
  "unknown_scenario s = Msg (''unknown scenario '' @ go_quote s @ '' (expected 2a|2b|2c|2d)'')"

definition Orchestrator_Seed :: "Orchestrator \<Rightarrow> Scenario \<Rightarrow> (world, SeedResult) go" where
  "Orchestrator_Seed oc s =
     (if \<not> validScenario s then fails (unknown_scenario s)
      else check (seedScenario oc s) id (\<lambda>st. returns \<lparr>sr_Scenario = s, sr_Date = ss_date st,
        sr_Guardians = map (\<lambda>g. \<lparr>sg_Email = p_Name (gd_particip g), sg_Wallet = gd_wallet g\<rparr>) (ss_guardians st),
        sr_Dependents = map (\<lambda>d. \<lparr>se_Name = di_name d, se_GuardianEmail = p_Name (gd_particip (di_guardian d)),
          se_GuardianWallet = gd_wallet (di_guardian d)\<rparr>) (ss_dependents st)\<rparr>))"

end
