(* ===== verification/Demo_Run.thy ===== *)
theory Demo_Run
  imports Demo_Seed
begin

text \<open>
  \<^verbatim>\<open>internal/demo/scenarios.go\<close>: a run of a scenario, which probes wallets or mints the
  day, and tells what it did as numbered steps and transaction cards.
\<close>

definition suiscanTxURL :: string where
  "suiscanTxURL = ''https://suiscan.xyz/testnet/tx/''"

text \<open>The arrow and the middle dot of the labels, in UTF-8.\<close>

definition arrow :: string where
  "arrow = map char_of [226, 134, 146 :: nat]"

definition middle_dot :: string where
  "middle_dot = map char_of [194, 183 :: nat]"

text \<open>Reading a Go map of strings: a missing key gives the empty string.\<close>

definition text_at :: "(int \<rightharpoonup> string) \<Rightarrow> int \<Rightarrow> string" where
  "text_at m k = (case m k of None \<Rightarrow> [] | Some s \<Rightarrow> s)"

section \<open>Probing wallets\<close>

definition probeWallet :: "Orchestrator \<Rightarrow> RunResult \<Rightarrow> int \<Rightarrow> string \<Rightarrow> string \<Rightarrow> string \<Rightarrow> string \<Rightarrow>
    (world, int \<times> RunResult) state" where
  "probeWallet oc out step participant recipient kind walletDesc =
     on_err (rd_TransferSuiProbe (oc_reader oc) recipient (oc_probeAmountMist oc))
       (\<lambda>err. State_Monad.return (step + 1,
          add_card (failed_card participant kind recipient)
            (add_step (flow (step + 1) ''Wallet probe failed'' ''onchain'' (Error err) participant recipient) out)))
       (\<lambda>digest. do {
          stt \<leftarrow> rd_TransactionStatus (oc_reader oc) digest;
          let status = (case stt of Inl _ \<Rightarrow> ''success'' | Inr ts \<Rightarrow> tx_Status ts);
          let label = (if kind = ''probe-dependent''
            then ''Dependent probe pushed '' @ arrow @ '' guardian '' @ recipient
            else ''Wallet probe '' @ arrow @ '' '' @ recipient);
          let detail = ''Gas-pool sponsored SUI transfer proving '' @ walletDesc @ '' is live'';
          State_Monad.return (step + 1,
            add_card \<lparr>tc_Participant = participant, tc_Kind = kind, tc_Recipient = recipient, tc_TxDigest = digest,
                tc_ExplorerURL = suiscanTxURL @ digest, tc_Status = status, tc_NFTsCreated = 0\<rparr>
              (add_step \<lparr>fe_Step = step + 1, fe_Label = label, fe_Kind = ''onchain'', fe_Detail = detail,
                  fe_TxDigest = digest, fe_ExplorerURL = suiscanTxURL @ digest,
                  fe_Participant = participant, fe_Wallet = recipient\<rparr> out))
        })"

fun probe_guardians :: "Orchestrator \<Rightarrow> int \<Rightarrow> guardian list \<Rightarrow> int \<Rightarrow> RunResult \<Rightarrow>
    (world, int \<times> RunResult) state" where
  "probe_guardians oc i [] step out = State_Monad.return (step, out)"
| "probe_guardians oc i (g # gs) step out = do {
     let name = p_Name (gd_particip g);
     let out = add_step (flow (step + 1) (''Gate pairs wristband wb-'' @ pad 3 (show_int (i + 1)) @ '' to '' @ name)
       ''offchain'' (''POST /api/wristband/bind '' @ arrow @ '' Redis binding created'') name (gd_wallet g)) out;
     (step, out) \<leftarrow> probeWallet oc out (step + 1) name (gd_wallet g) ''probe'' ''own wallet'';
     probe_guardians oc (i + 1) gs step out
   }"

fun probe_dependents :: "Orchestrator \<Rightarrow> dependentInfo list \<Rightarrow> int \<Rightarrow> RunResult \<Rightarrow>
    (world, int \<times> RunResult) state" where
  "probe_dependents oc [] step out = State_Monad.return (step, out)"
| "probe_dependents oc (d # ds) step out = do {
     let wallet = gd_wallet (di_guardian d);
     let out = add_step (flow (step + 1) (''Gate pairs wristband wb-dep-'' @ di_name d @ '' to '' @ di_name d)
       ''offchain'' ''Dependent has no wallet; pairing targets guardian custodial wallet'' (di_name d) wallet) out;
     (step, out) \<leftarrow> probeWallet oc out (step + 1) (di_name d) wallet ''probe-dependent'' ''guardian custodial wallet'';
     probe_dependents oc ds step out
   }"

definition runProbe :: "Orchestrator \<Rightarrow> seedState \<Rightarrow> RunResult \<Rightarrow> (world, RunResult) state" where
  "runProbe oc st out = do {
     (step, out) \<leftarrow> probe_guardians oc 0 (ss_guardians st) 0 out;
     (step, out) \<leftarrow> probe_dependents oc (ss_dependents st) step out;
     State_Monad.return (case ss_dependents st of
         [] \<Rightarrow> out
       | d # _ \<Rightarrow> add_step (flow (step + 1)
           (''Wristband Account Pairing Successful '' @ middle_dot @ '' '' @
            show_int (int (length (ss_dependents st))) @ '' Dependent'') ''offchain''
           ''Dependents have no wallet; rides + probes mint/push into the guardian custodial wallet''
           (di_name d) (gd_wallet (di_guardian d))) out)
   }"

section \<open>Minting a day\<close>

definition minted_rows :: "int \<Rightarrow> int \<Rightarrow> MintLog list \<Rightarrow> MintLog list" where
  "minted_rows participantID day rows =
     filter (\<lambda>m. m_ParticipantID m = Some participantID \<and> m_MintDate m = day) rows"

definition q_already_minted :: "int \<Rightarrow> string \<Rightarrow> environment \<Rightarrow> database \<Rightarrow> (goerr + string option) \<times> database" where
  "q_already_minted participantID date e d = (case env_date_in e date of
       None \<Rightarrow> Inl bad_date
     | Some day \<Rightarrow> (let rows = minted_rows participantID day (mint_logs d)
         in if rows = [] then Inl ErrNoRows
            else (case find (\<lambda>m. m_ID m = env_pick e (map m_ID rows)) rows of
                None \<Rightarrow> Inr (m_TxDigest (hd rows)) | Some m \<Rightarrow> Inr (m_TxDigest m))), d)"

definition alreadyMinted :: "int \<Rightarrow> string \<Rightarrow> (world, bool \<times> string) go" where
  "alreadyMinted participantID date =
     on_err (sql (\<lambda>e _. q_already_minted participantID date e))
       (\<lambda>err. if err = ErrNoRows then returns (False, []) else fails err)
       (\<lambda>digest. returns (True, case digest of None \<Rightarrow> [] | Some s \<Rightarrow> s))"

text \<open>The resolutions that are ready, parted into those minted already and those to mint.\<close>

fun split_minted :: "string \<Rightarrow> Resolution list \<Rightarrow> Resolution list \<Rightarrow> MintLive list \<Rightarrow>
    (world, Resolution list \<times> MintLive list) go" where
  "split_minted date [] already lives = returns (already, lives)"
| "split_minted date (res # rs) already lives =
     (if rs_Outcome res \<noteq> OutcomeMintReady \<or> rs_WalletAddress res = [] then split_minted date rs already lives
      else check (alreadyMinted (rs_ParticipantID res) date) id (\<lambda>(done, _).
        if done then split_minted date rs (already @ [res]) lives
        else split_minted date rs already (lives @
          [\<lparr>ml_ParticipantID = rs_ParticipantID res, ml_WalletAddress = rs_WalletAddress res,
            ml_RideIDs = rs_RideIDs res, ml_Date = date\<rparr>])))"

text \<open>
  \<^verbatim>\<open>rand.Shuffle\<close>: from the last position down, each is swapped with one drawn from
  those up to it; the \<open>k\<close>-th draw below \<open>n\<close> is \<open>draw k n\<close>.
\<close>

definition swap :: "nat \<Rightarrow> nat \<Rightarrow> 'a list \<Rightarrow> 'a list" where
  "swap i j xs = xs[i := xs ! j, j := xs ! i]"

fun shuffle_from :: "(nat \<Rightarrow> int \<Rightarrow> int) \<Rightarrow> nat \<Rightarrow> nat \<Rightarrow> 'a list \<Rightarrow> 'a list" where
  "shuffle_from draw 0 k xs = xs"
| "shuffle_from draw (Suc i) k xs =
     shuffle_from draw i (Suc k) (swap (Suc i) (nat (draw k (int i + 2)) mod (i + 2)) xs)"

definition shuffle :: "(nat \<Rightarrow> int \<Rightarrow> int) \<Rightarrow> 'a list \<Rightarrow> 'a list" where
  "shuffle draw xs = shuffle_from draw (length xs - 1) 0 xs"

fun already_events :: "seedState \<Rightarrow> Resolution list \<Rightarrow> int \<Rightarrow> RunResult \<Rightarrow> int \<times> RunResult" where
  "already_events st [] step out = (step, out)"
| "already_events st (res # rs) step out =
     (let label = text_at (ss_label st) (rs_ParticipantID res)
      in already_events st rs (step + 1) (add_step (flow (step + 1) (label @ '' already minted'') ''offchain''
           (''mint_logs.idempotent '' @ arrow @ '' no duplicate on-chain tx'') label (rs_WalletAddress res)) out))"

definition cardKindHuman :: "string \<Rightarrow> string" where
  "cardKindHuman kind = (if kind = ''mint-dependent'' then ''guardian custodial wallet''
     else ''own non-custodial wallet'')"

fun mint_events :: "Orchestrator \<Rightarrow> seedState \<Rightarrow> MintResolutionResult list \<Rightarrow> int \<Rightarrow> RunResult \<Rightarrow>
    (world, int \<times> RunResult) state" where
  "mint_events oc st [] step out = State_Monad.return (step, out)"
| "mint_events oc st (r # rs) step out =
     (let label = text_at (ss_label st) (mx_ParticipantID r);
          cardKind = (if text_at (ss_kind st) (mx_ParticipantID r) = ''dependent'' then ''mint-dependent''
            else ''mint-guardian'')
      in if \<not> mx_Minted r \<or> mx_TxDigest r = [] then
           mint_events oc st rs (step + 1) (add_card (failed_card label cardKind (mx_WalletAddress r))
             (add_step (flow (step + 1) (''Mint failed: '' @ label) ''onchain'' (mx_Error r) label
               (mx_WalletAddress r)) out))
         else do {
           stt \<leftarrow> rd_TransactionStatus (oc_reader oc) (mx_TxDigest r);
           let status = (case stt of Inl _ \<Rightarrow> ''success'' | Inr ts \<Rightarrow> tx_Status ts);
           let nfts = (case stt of Inl _ \<Rightarrow> 0 | Inr ts \<Rightarrow> tx_CountNFTsCreated ts);
           mint_events oc st rs (step + 1)
             (add_card \<lparr>tc_Participant = label, tc_Kind = cardKind, tc_Recipient = mx_WalletAddress r,
                 tc_TxDigest = mx_TxDigest r, tc_ExplorerURL = suiscanTxURL @ mx_TxDigest r,
                 tc_Status = status, tc_NFTsCreated = nfts\<rparr>
               (add_step \<lparr>fe_Step = step + 1, fe_Label = ''Mint '' @ label @ '' '' @ arrow @ '' '' @ mx_WalletAddress r,
                   fe_Kind = ''onchain'', fe_Detail = ''attendance::mint_batch into '' @ cardKindHuman cardKind,
                   fe_TxDigest = mx_TxDigest r, fe_ExplorerURL = suiscanTxURL @ mx_TxDigest r,
                   fe_Participant = label, fe_Wallet = mx_WalletAddress r\<rparr> out))
         })"

fun verify_events :: "dependentInfo list \<Rightarrow> int \<Rightarrow> RunResult \<Rightarrow> RunResult" where
  "verify_events [] step out = out"
| "verify_events (d # ds) step out =
     (let wallet = gd_wallet (di_guardian d)
      in verify_events ds (step + 1) (add_step (flow (step + 1)
           (''Verify: '' @ di_name d @ '' minted into guardian wallet '' @ wallet) ''onchain''
           ''Reverse-object check: created NFT owner == guardian custodial address'' (di_name d) wallet) out))"

definition mint_batch :: "Orchestrator \<Rightarrow> BatchMint" where
  "mint_batch oc = NewBatchMint (oc_sui oc) (oc_meta oc) RecordMintForParticipant"

definition mint_lives :: "Orchestrator \<Rightarrow> seedState \<Rightarrow> Resolution list \<Rightarrow> MintLive list \<Rightarrow> RunResult \<Rightarrow>
    (world, RunResult) state" where
  "mint_lives oc st already lives out =
     (let (step, out) = already_events st already 2 out
      in if lives = [] then State_Monad.return (add_step (flow (step + 1) ''No new mints'' ''mock''
             ''All participants already minted for this date'' [] []) out)
         else do {
           results \<leftarrow> Run (mint_batch oc) lives;
           (step, out) \<leftarrow> mint_events oc st results (step + 1) out;
           State_Monad.return (if ss_scenario st = ScenarioDependentMint \<or> ss_scenario st = ScenarioMixedMint
             then verify_events (ss_dependents st) step out else out)
         })"

definition runMint :: "Orchestrator \<Rightarrow> seedState \<Rightarrow> RunResult \<Rightarrow> (world, RunResult) state" where
  "runMint oc st out =
     (let out = add_step (flow 1 (''Resolve day '' @ ss_date st @ '' participants'') ''offchain''
            (''POST /mint/resolve-day '' @ arrow @ '' durable scan_events source'') [] []) out
      in do {
        r \<leftarrow> ResolveDay production_resolver (ss_date st);
        (case r of
           (_, Some err) \<Rightarrow> State_Monad.return (add_step (flow 2 ''resolve failed'' ''mock'' (Error err) [] []) out)
         | (resolutions, None) \<Rightarrow>
             on_err (split_minted (ss_date st) resolutions [] [])
               (\<lambda>err. State_Monad.return (add_step (flow 2 ''mint check failed'' ''mock'' (Error err) [] []) out))
               (\<lambda>(already, lives). do {
                  draw \<leftarrow> gets (\<lambda>w. env_int31n (env w) (int64 (clock w * 1000000)));
                  mint_lives oc st already
                    (if ss_scenario st = ScenarioMixedMint \<and> 1 < length lives then shuffle draw lives else lives) out
                }))
      })"

section \<open>A run\<close>

definition count_card :: "TxnCard \<Rightarrow> RunTotals \<Rightarrow> RunTotals" where
  "count_card c t =
     (if tc_Status c = ''success'' then t\<lparr>rt_Succeeded := rt_Succeeded t + 1,
           rt_NFTsCreated := rt_NFTsCreated t + tc_NFTsCreated c\<rparr>
      else t\<lparr>rt_Failed := rt_Failed t + 1\<rparr>)"

definition with_totals :: "RunResult \<Rightarrow> RunResult" where
  "with_totals out = out\<lparr>rr_Totals := fold count_card (rr_Transactions out)
     ((rr_Totals out)\<lparr>rt_Transactions := int (length (rr_Transactions out))\<rparr>)\<rparr>"

definition Orchestrator_Run :: "Orchestrator \<Rightarrow> Scenario \<Rightarrow> (world, RunResult) go" where
  "Orchestrator_Run oc s =
     (if \<not> validScenario s then fails (unknown_scenario s)
      else check (seedScenario oc s) id (\<lambda>st. do {
        let out = \<lparr>rr_Scenario = s, rr_Date = ss_date st, rr_Steps = [], rr_Transactions = [],
          rr_Totals = \<lparr>rt_Transactions = 0, rt_Succeeded = 0, rt_Failed = 0, rt_NFTsCreated = 0\<rparr>\<rparr>;
        out \<leftarrow> (if s = ScenarioProbe then runProbe oc st out else runMint oc st out);
        returns (with_totals out)
      }))"

end
