(* ===== verification/Demo_Service.thy ===== *)
theory Demo_Service
  imports Demo_Run Http_Gate Http_Minter
begin

text \<open>
  \<^verbatim>\<open>internal/demo/wallet.go\<close>, \<^verbatim>\<open>reset.go\<close>, \<^verbatim>\<open>handlers.go\<close> and
  \<^verbatim>\<open>orchestrator.go\<close>: the wallet view with its attribution, the reset, the endpoints and
  the construction of the demo service. A reply that is \<open>None\<close> never comes: reading the
  objects of a wallet does not end when the chain keeps announcing pages.
\<close>

section \<open>Who the objects of a wallet were minted for\<close>

record attribution_row =
  ar_Name :: string
  ar_State :: ParticipantWalletState
  ar_MintDate :: string
  ar_RideID :: string

text \<open>The account participant with the lowest id whose user has the address; 0 when there is none.\<close>

definition wallet_owners :: "string \<Rightarrow> database \<Rightarrow> Participant list" where
  "wallet_owners address d = sort_key p_ID (filter (\<lambda>p. list_ex (\<lambda>u. p_AccountEmail p = Some (u_Email u) \<and>
     u_SuiAddress u = Some address) (users d)) (participants d))"

definition q_wallet_owner :: "string \<Rightarrow> database \<Rightarrow> (goerr + int \<times> string) \<times> database" where
  "q_wallet_owner address d = (case wallet_owners address d of
       [] \<Rightarrow> Inl ErrNoRows | p # _ \<Rightarrow> Inr (p_ID p, p_Name p), d)"

definition family_of :: "int \<Rightarrow> Participant \<Rightarrow> bool" where
  "family_of guardianID p \<longleftrightarrow> p_ID p = guardianID \<or> p_GuardianID p = Some guardianID"

text \<open>Rows with the same date, name and ride come in the order of the table.\<close>

definition attribution_le :: "environment \<Rightarrow> int \<times> attribution_row \<Rightarrow> int \<times> attribution_row \<Rightarrow> bool" where
  "attribution_le e x y \<longleftrightarrow> fst x < fst y \<or> fst x = fst y \<and>
     (\<not> env_collate e (ar_Name (snd y)) (ar_Name (snd x)) \<or>
      env_collate e (ar_Name (snd x)) (ar_Name (snd y)) \<and> env_collate e (ar_RideID (snd x)) (ar_RideID (snd y)))"

definition q_attribution :: "int \<Rightarrow> environment \<Rightarrow> database \<Rightarrow> (goerr + attribution_row list) \<times> database" where
  "q_attribution guardianID e d =
     (Inr (map snd (sort_by (attribution_le e) (concat (map (\<lambda>m.
        map (\<lambda>p. (m_MintDate m, \<lparr>ar_Name = p_Name p, ar_State = p_WalletState p,
                   ar_MintDate = env_date_out e (m_MintDate m), ar_RideID = m_RideID m\<rparr>))
          (filter (\<lambda>p. Some (p_ID p) = m_ParticipantID m \<and> family_of guardianID p) (participants d)))
        (filter (\<lambda>m. m_TxDigest m \<noteq> None) (mint_logs d)))))), d)"

text \<open>The loop that groups the rows: the map of groups, the order of their keys.\<close>

definition row_section :: "attribution_row \<Rightarrow> string" where
  "row_section r = (if ar_State r = ParticipantWalletCustodial then ar_Name r else ''guardian'')"

definition row_key :: "attribution_row \<Rightarrow> string" where
  "row_key r = row_section r @ ''|'' @ ar_Name r @ ''|'' @ ar_MintDate r"

fun group_rows :: "attribution_row list \<Rightarrow> (string \<rightharpoonup> WalletAttribution) \<Rightarrow> string list \<Rightarrow> bool \<Rightarrow>
    (string \<rightharpoonup> WalletAttribution) \<times> string list \<times> bool" where
  "group_rows [] grouped order hasDependents = (grouped, order, hasDependents)"
| "group_rows (r # rs) grouped order hasDependents =
     (let key = row_key r;
          old = (case grouped key of Some a \<Rightarrow> a
            | None \<Rightarrow> \<lparr>wa_Section = row_section r, wa_Participant = ar_Name r, wa_MintDate = ar_MintDate r,
                wa_RideIDs = []\<rparr>);
          order = (if grouped key = None then order @ [key] else order)
      in group_rows rs (grouped(key \<mapsto> old\<lparr>wa_RideIDs := wa_RideIDs old @ [ar_RideID r]\<rparr>)) order
           (hasDependents \<or> ar_State r = ParticipantWalletCustodial))"

definition attribution_list :: "attribution_row list \<Rightarrow> WalletAttribution list \<times> bool" where
  "attribution_list rows = (case group_rows rows Map.empty [] False of
     (grouped, order, hasDependents) \<Rightarrow> (map (\<lambda>key. the (grouped key)) order, hasDependents))"

definition attribution :: "string \<Rightarrow> (world, WalletAttribution list \<times> string \<times> bool) go" where
  "attribution address = do {
     owner \<leftarrow> sql (\<lambda>_ _. q_wallet_owner address);
     (case owner of
        Inl err \<Rightarrow>
          if err \<noteq> ErrNoRows then fails (wrapf ''resolve guardian by wallet: '' err)
          else check (sql (\<lambda>e _. q_attribution 0 e)) (wrapf ''query attribution: '') (\<lambda>rows.
            case attribution_list rows of (out, hasDependents) \<Rightarrow> returns (out, [], hasDependents))
      | Inr (guardianID, guardianName) \<Rightarrow>
          check (sql (\<lambda>e _. q_attribution guardianID e)) (wrapf ''query attribution: '') (\<lambda>rows.
            case attribution_list rows of (out, hasDependents) \<Rightarrow> returns (out, guardianName, hasDependents)))
   }"

definition Orchestrator_Wallet :: "Orchestrator \<Rightarrow> string \<Rightarrow> (world, (goerr + WalletView) option) state" where
  "Orchestrator_Wallet oc address =
     (if address = [] then State_Monad.return (Some (Inl (Msg ''address query parameter required'')))
      else do {
        nfts \<leftarrow> rd_OwnedNFTs (oc_reader oc) address;
        (case nfts of
           None \<Rightarrow> State_Monad.return None
         | Some (Inl err) \<Rightarrow> State_Monad.return (Some (Inl err))
         | Some (Inr ns) \<Rightarrow> do {
             balance \<leftarrow> rd_BalanceMist (oc_reader oc);
             a \<leftarrow> attribution address;
             State_Monad.return (Some (case a of
                 Inl err \<Rightarrow> Inl err
               | Inr (groups, guardianName, hasDependents) \<Rightarrow> Inr \<lparr>wv_Address = address,
                   wv_BalanceMist = (case balance of Inl _ \<Rightarrow> [] | Inr b \<Rightarrow> b),
                   wv_HasDependents = hasDependents, wv_GuardianName = guardianName,
                   wv_NFTObjects = map (\<lambda>n. \<lparr>wo_ObjectID = ni_ObjectID n, wo_Type = ni_Type n,
                     wo_Owner = ni_Owner n, wo_Version = ni_Version n\<rparr>) ns,
                   wv_Attribution = groups\<rparr>))
           })
      })"

section \<open>Reset\<close>

definition reset_tables :: "string list" where
  "reset_tables = [''scan_events'', ''scan_events_outbox'', ''mint_logs'', ''pending_mints'',
     ''ticket_vouchers'', ''participants'', ''tickets'', ''users'']"

text \<open>
  \<^verbatim>\<open>TRUNCATE ... RESTART IDENTITY CASCADE\<close>: the table and the tables whose foreign keys
  reach it, each with its sequence.
\<close>

definition truncate_one :: "string \<Rightarrow> database \<Rightarrow> database" where
  "truncate_one t d =
     (if t = ''scan_events'' then d\<lparr>scan_events := [], scan_seq := 0\<rparr>
      else if t = ''scan_events_outbox'' then d\<lparr>outbox := [], outbox_seq := 0\<rparr>
      else if t = ''mint_logs'' then d\<lparr>mint_logs := [], mint_seq := 0\<rparr>
      else if t = ''pending_mints'' then d\<lparr>pending_mints := [], pending_seq := 0\<rparr>
      else if t = ''ticket_vouchers'' then d\<lparr>ticket_vouchers := [], vouchers_seq := 0\<rparr>
      else if t = ''participants'' then d\<lparr>participants := [], participants_seq := 0\<rparr>
      else if t = ''tickets'' then d\<lparr>tickets := [], tickets_seq := 0\<rparr>
      else if t = ''users'' then d\<lparr>users := [], users_seq := 0\<rparr>
      else d)"

definition referencing :: "string \<Rightarrow> string list" where
  "referencing t =
     (if t = ''participants'' then [''ticket_vouchers'', ''pending_mints'', ''mint_logs'']
      else if t = ''users'' then [''tickets'', ''ticket_vouchers'', ''scan_events'', ''mint_logs'']
      else [])"

definition q_truncate :: "string \<Rightarrow> database \<Rightarrow> (goerr + unit) \<times> database" where
  "q_truncate t d = (Inr (), fold truncate_one (t # referencing t) d)"

fun truncate_all :: "string list \<Rightarrow> (world, unit) go" where
  "truncate_all [] = returns ()"
| "truncate_all (t # ts) =
     check (sql (\<lambda>_ _. q_truncate t)) (wrapf (''truncate '' @ t @ '': '')) (\<lambda>_. truncate_all ts)"

definition Orchestrator_Reset :: "(world, ResetResult) go" where
  "Orchestrator_Reset =
     check (truncate_all reset_tables) id (\<lambda>_.
     check FlushDB (wrapf ''redis flushdb: '') (\<lambda>_.
     returns \<lparr>rx_TruncatedTables = reset_tables, rx_RedisFlushed = True\<rparr>))"

section \<open>The endpoints\<close>

text \<open>The health of every dependency; Go sorts the keys of a map in JSON.\<close>

fun health_checks :: "(string \<times> Checker) list \<Rightarrow> bool \<Rightarrow> (string \<rightharpoonup> json) \<Rightarrow>
    (world, bool \<times> (string \<rightharpoonup> json)) state" where
  "health_checks [] healthy services = State_Monad.return (healthy, services)"
| "health_checks ((name, c) # cs) healthy services =
     on_err c
       (\<lambda>err. health_checks cs False (services(name \<mapsto>
          JObj ((''healthy'', JBool False) # omit_empty ''error'' (Error err)))))
       (\<lambda>_. health_checks cs healthy (services(name \<mapsto> JObj [(''healthy'', JBool True)])))"

definition demo_handle_health :: "Orchestrator \<Rightarrow> handler" where
  "demo_handle_health oc req = do {
     (healthy, services) \<leftarrow> health_checks (oc_checks oc) True Map.empty;
     now \<leftarrow> gets clock;
     State_Monad.return (writeJSON 200 (JObj
       [(''healthy'', JBool healthy),
        (''services'', JObj (map (\<lambda>name. (name, the (services name)))
           (sort_by bytes_le (remdups (map fst (oc_checks oc)))))),
        (''ts'', JStr (format_rfc3339 now))]))
   }"

definition unmarshal_scenario :: "payload \<Rightarrow> goerr + Scenario" where
  "unmarshal_scenario = unmarshal
     (\<lambda>k v. if key_is ''scenario'' k then set_string (\<lambda>s _. s) v else (\<lambda>acc. acc)) []"

definition demo_not_allowed :: http_reply where
  "demo_not_allowed = writeErr 405 ''method not allowed''"

definition scenario_endpoint :: "(Scenario \<Rightarrow> (world, json) go) \<Rightarrow> handler" where
  "scenario_endpoint act = only ''POST'' demo_not_allowed
     (decoding unmarshal_scenario (writeErr 400 ''invalid json'') (\<lambda>s.
        on_err (act s)
          (\<lambda>err. State_Monad.return (writeErr 400 (Error err)))
          (\<lambda>v. State_Monad.return (writeJSON 200 v))))"

definition demo_handle_seed :: "Orchestrator \<Rightarrow> handler" where
  "demo_handle_seed oc = scenario_endpoint
     (\<lambda>s. check (Orchestrator_Seed oc s) id (\<lambda>res. returns (marshal_SeedResult res)))"

definition demo_handle_run :: "Orchestrator \<Rightarrow> handler" where
  "demo_handle_run oc = scenario_endpoint
     (\<lambda>s. check (Orchestrator_Run oc s) id (\<lambda>res. returns (marshal_RunResult res)))"

definition demo_handle_reset :: handler where
  "demo_handle_reset = only ''POST'' demo_not_allowed (\<lambda>_.
     on_err Orchestrator_Reset
       (\<lambda>err. State_Monad.return (writeErr 500 (Error err)))
       (\<lambda>res. State_Monad.return (writeJSON 200 (marshal_ResetResult res))))"

definition demo_handle_wallet :: "Orchestrator \<Rightarrow> http_request \<Rightarrow> (world, http_reply option) state" where
  "demo_handle_wallet oc req =
     (if hq_Method req \<noteq> ''GET'' then State_Monad.return (Some demo_not_allowed)
      else if hq_Query req ''address'' = []
      then State_Monad.return (Some (writeErr 400 ''address query parameter required''))
      else do {
        res \<leftarrow> Orchestrator_Wallet oc (hq_Query req ''address'');
        State_Monad.return (case res of
            None \<Rightarrow> None
          | Some (Inl err) \<Rightarrow> Some (writeErr 500 (Error err))
          | Some (Inr v) \<Rightarrow> Some (writeJSON 200 (marshal_WalletView v)))
      })"

section \<open>The service\<close>

definition NewOrchestrator :: "crypto_lib \<Rightarrow> string list \<Rightarrow> Minter option \<Rightarrow> Reader option \<Rightarrow> MetadataProvider \<Rightarrow>
    Config \<Rightarrow> (world, Orchestrator) go" where
  "NewOrchestrator lib brokers suiClient reader meta cfg = (case suiClient of
       None \<Rightarrow> fails (Msg ''sui client required'')
     | Some sui \<Rightarrow> (case reader of
         None \<Rightarrow> fails (Msg ''sui reader required'')
       | Some rd \<Rightarrow> do {
           h \<leftarrow> NewHealthChecker ''demo'';
           let checks = [(''postgres'', Postgres_Ping), (''redis'', Redis_Ping), (''kafka'', Kafka_Ping brokers),
             (''sui'', mn_Ping sui)];
           returns \<lparr>oc_crypto = lib, oc_sui = sui, oc_reader = rd, oc_meta = meta,
             oc_walletSecret = det_secret (cf_Auth cfg),
             oc_probeAmountMist = (if dc_ProbeAmountMist (cf_Demo cfg) = [] then ''1000000''
               else dc_ProbeAmountMist (cf_Demo cfg)),
             oc_checker = fold (AddCheck \<circ> snd) checks h, oc_checks = checks\<rparr>
         }))"

definition returning :: "handler \<Rightarrow> http_request \<Rightarrow> (world, http_reply option) state" where
  "returning h req = do { reply \<leftarrow> h req; State_Monad.return (Some reply) }"

definition Register :: "Orchestrator \<Rightarrow> (string \<times> (http_request \<Rightarrow> (world, http_reply option) state)) list" where
  "Register oc =
     [(''/healthz'', returning (HealthzHandler (oc_checker oc))),
      (''/readyz'', returning (ReadyzHandler (oc_checker oc))),
      (''/api/demo/health'', returning (demo_handle_health oc)),
      (''/api/demo/seed'', returning (demo_handle_seed oc)),
      (''/api/demo/run'', returning (demo_handle_run oc)),
      (''/api/demo/reset'', returning demo_handle_reset),
      (''/api/demo/wallet'', demo_handle_wallet oc)]"

definition demo_serve :: "Orchestrator \<Rightarrow> string \<Rightarrow> http_request \<Rightarrow> (world, http_reply option) state" where
  "demo_serve oc path = (case map_of (Register oc) path of
       None \<Rightarrow> (\<lambda>_. State_Monad.return (Some (http_Error ''404 page not found'' 404)))
     | Some h \<Rightarrow> h)"

definition WaitReady :: "Orchestrator \<Rightarrow> nat \<Rightarrow> world \<Rightarrow> ((goerr + unit) \<times> world) option" where
  "WaitReady oc timeout = WaitForChecks (oc_checker oc) timeout"

end
