(* ===== verification/Demo_Invariants.thy ===== *)
theory Demo_Invariants
  imports Demo_Service Minter_Api Voucher_Api
begin

text \<open>
  What the operations of the demo service keep. The interfaces follow what the parts write: the
  pass over a day writes the ledger, seeding also users, participants, vouchers and scans, a
  batch only the mint log and the log of chain requests.
\<close>

section \<open>The pass over a day\<close>

text \<open>The environment, the requests to the chain, and a property of the tables.\<close>

abbreviation (input) calm :: "(database \<Rightarrow> bool) \<Rightarrow> rpc_request list \<Rightarrow> environment \<Rightarrow> world \<Rightarrow> bool" where
  "calm J l e w \<equiv> rpc_log w = l \<and> env w = e \<and> J (db w)"

lemma stable_calm: "stable (calm J l e)"
  by (rule timeless_stable) (simp add: timeless_def)

lemma calm_any: "(\<And>l e. keeps (calm J l e) m) \<Longrightarrow> keeps (\<lambda>w. env w = e \<and> J (db w)) m"
  by (rule keeps_any)

lemma calm_sql:
  assumes "\<And>now d r d'. J d \<Longrightarrow> stmt e now d = (r, d') \<Longrightarrow> J d'"
  shows "keeps (calm J l e) (sql stmt)"
  by (rule keeps_sql [OF stable_calm]) (use assms in auto)

lemma calm_query: "(\<And>now d. snd (stmt e now d) = d) \<Longrightarrow> keeps (calm J l e) (sql stmt)"
  by (rule calm_sql) (metis snd_conv)

lemma calm_reads:
  "keeps (calm J l e) (GetParticipant i)" "keeps (calm J l e) (GetParticipantByEmail email)"
  "keeps (calm J l e) ListParticipants" "keeps (calm J l e) (RidesForParticipant p date)"
  unfolding GetParticipant_def GetParticipantByEmail_def ListParticipants_def RidesForParticipant_def
    byEmail_def byParticipantID_def
  by (intro keeps_intros calm_query; auto simp: q_rides_def intro!: keeps_intros calm_query split: prod.split)+

locale day_invariant =
  fixes J :: "database \<Rightarrow> bool"
  assumes ledger_kept: "J d \<Longrightarrow> q_upsert_pending pm e d = (r, d') \<Longrightarrow> J d'"
begin

lemma calm_pending: "keeps (calm J l e) (RecordPendingMint postgres_repo req)"
proof -
  have "keeps (calm J l e) (UpsertPendingMint pm)" for pm
    unfolding UpsertPendingMint_def by (intro keeps_intros calm_sql) (erule ledger_kept)
  then show ?thesis
    by (auto simp: RecordPendingMint_def postgres_repo_def intro!: keeps_intros calm_reads split: option.split)
qed

lemma calm_resolve_all: "keeps (calm J l e) (resolve_all production_resolver date ps acc)"
  by (induction ps arbitrary: acc)
    (auto simp: production_resolver_def Let_def intro!: keeps_intros calm_reads calm_pending)

lemma calm_ResolveDay: "keeps (calm J l e) (ResolveDay production_resolver date)"
  unfolding ResolveDay_def
  by (intro keeps_intros calm_resolve_all) (simp add: production_resolver_def calm_reads)

end

sublocale table_invariant \<subseteq> day_invariant J
  by unfold_locales (rule pending_kept)

section \<open>Seeding\<close>

locale seed_invariant = day_invariant J for J +
  assumes user_seeded: "J d \<Longrightarrow> q_create_user email d = (ru, d') \<Longrightarrow> J d'"
    and sui_seeded: "J d \<Longrightarrow> q_update_sui i a k p d = (r, d') \<Longrightarrow> J d'"
    and participant_seeded: "J d \<Longrightarrow> q_create_participant name em pg d = (rp, d') \<Longrightarrow> J d'"
    and wallet_seeded: "J d \<Longrightarrow> q_set_wallet i st a d = (r, d') \<Longrightarrow> J d'"
    and scan_seeded: "J d \<Longrightarrow> q_seed_scan trace u tk ride at1 d = (r, d') \<Longrightarrow> J d'"
    and voucher_seeded: "J d \<Longrightarrow> q_seed_voucher vid i p' d = (r, d') \<Longrightarrow> J d'"
begin

lemma calm_writes:
  "keeps (calm J l e) (CreateUser email)" "keeps (calm J l e) (UpdateSuiAccount i a k p)"
  "keeps (calm J l e) (CreateParticipant name em g)" "keeps (calm J l e) (SetParticipantWallet i st addr)"
  unfolding CreateUser_def UpdateSuiAccount_def CreateParticipant_def SetParticipantWallet_def
  by ((intro keeps_intros calm_sql)?, erule user_seeded sui_seeded participant_seeded wallet_seeded, assumption)+

lemma calm_seedGuardian: "keeps (calm J l e) (seedGuardian oc email)"
  by (auto simp: seedGuardian_def intro!: keeps_intros calm_reads calm_writes split: sum.split prod.split)

lemma calm_seedDependent: "keeps (calm J l e) (seedDependent g name)"
proof -
  have "keeps (calm J l e) (findDependent name i)" for i
    unfolding findDependent_def by (intro keeps_intros calm_query) (simp add: q_find_dependent_def Let_def)
  then show ?thesis
    by (auto simp: seedDependent_def intro!: keeps_intros calm_writes)
qed

lemma calm_rides:
  "keeps (calm J l e) (guardian_rides s date g rs)" "keeps (calm J l e) (dependent_rides s date g d rs)"
proof -
  have "keeps (calm J l e) (seedRideAccount g date ride trace)" for ride trace
    unfolding seedRideAccount_def by (intro keeps_intros calm_sql) (erule scan_seeded)
  then show "keeps (calm J l e) (guardian_rides s date g rs)"
    by (induction rs) (auto intro!: keeps_intros)
  have "keeps (calm J l e) (seedRideDependent g d date ride trace)" for ride trace
    unfolding seedRideDependent_def by (intro keeps_intros calm_sql; erule scan_seeded voucher_seeded)
  then show "keeps (calm J l e) (dependent_rides s date g d rs)"
    by (induction rs) (auto intro!: keeps_intros)
qed

lemma calm_loops:
  "keeps (calm J l e) (seed_guardians oc is st)" "keeps (calm J l e) (seed_riders oc is st)"
  "keeps (calm J l e) (seed_families oc is st)"
  by (induction "is" arbitrary: st)
    (auto simp del: guardian_rides.simps dependent_rides.simps
      intro!: keeps_intros calm_seedGuardian calm_seedDependent calm_rides)

lemma calm_seedScenario: "keeps (calm J l e) (seedScenario oc s)"
  by (auto simp: seedScenario_def Let_def intro!: keeps_intros calm_loops calm_seedDependent)

end

section \<open>Runs\<close>

text \<open>The orchestrator of \<^verbatim>\<open>cmd/demo\<close>: the Sui client as minter and reader, the pinning cache.\<close>

definition on_testnet :: "Client \<Rightarrow> PinataClient \<Rightarrow> nat \<Rightarrow> Orchestrator \<Rightarrow> bool" where
  "on_testnet c p fuel oc \<longleftrightarrow> oc_sui oc = client_minter c \<and> oc_reader oc = client_reader fuel c \<and>
     oc_meta oc = cid_metadata (Some p)"

lemma on_testnet_batch: "on_testnet c p fuel oc \<Longrightarrow> mint_batch oc = production_batch c p"
  by (simp add: on_testnet_def mint_batch_def production_batch_def)

context mint_invariant
begin

lemma keeps_reader:
  "keeps (held e) (rd_TransferSuiProbe (client_reader fuel c) recipient amount)"
  "keeps (held e) (rd_TransactionStatus (client_reader fuel c) digest)"
  "keeps (held e) (rd_BalanceMist (client_reader fuel c))"
  by (auto simp: client_reader_def TransferSuiProbe_def TransactionStatus_def BalanceMist_def Let_def
      intro!: keeps_intros keeps_outside keeps_submit split: list.split)

lemma keeps_OwnedNFTs: "keeps (held e) (rd_OwnedNFTs (client_reader fuel c) address)"
proof -
  have "keeps (held e) (owned_pages n c address cursor out)" for n cursor out
    by (induction n arbitrary: cursor out) (auto simp: Let_def intro!: keeps_intros keeps_outside)
  then show ?thesis by (simp add: client_reader_def OwnedNFTs_def)
qed

lemma keeps_mint_events:
  assumes "on_testnet c p fuel oc"
  shows "keeps (held e) (mint_events oc st rs step out)"
proof -
  have "oc_reader oc = client_reader fuel c" using assms by (simp add: on_testnet_def)
  then show ?thesis
    by (induction rs arbitrary: step out) (auto simp: Let_def intro!: keeps_intros keeps_reader)
qed

lemma keeps_mint_lives: "on_testnet c p fuel oc \<Longrightarrow> keeps (held e) (mint_lives oc st already lives out)"
  by (auto simp: mint_lives_def on_testnet_batch intro!: keeps_intros keeps_Run keeps_mint_events split: prod.split)

lemma keeps_probes:
  assumes "on_testnet c p fuel oc"
  shows "keeps (held e) (runProbe oc st out)"
proof -
  have rd: "oc_reader oc = client_reader fuel c" using assms by (simp add: on_testnet_def)
  have probe: "keeps (held e) (probeWallet oc out step participant recipient kind desc)" for out step participant recipient kind desc
    by (auto simp: probeWallet_def rd Let_def intro!: keeps_intros keeps_reader)
  have "keeps (held e) (probe_guardians oc i gs step out)" for i gs step out
    by (induction gs arbitrary: i step out) (auto simp: Let_def intro!: keeps_intros probe)
  moreover have "keeps (held e) (probe_dependents oc ds step out)" for ds step out
    by (induction ds arbitrary: step out) (auto simp: Let_def intro!: keeps_intros probe)
  ultimately show ?thesis
    by (auto simp: runProbe_def intro!: keeps_intros)
qed

end

lemma calm_split_minted: "keeps (calm J l e) (split_minted date rs already lives)"
proof -
  have "keeps (calm J l e) (alreadyMinted i date)" for i
    unfolding alreadyMinted_def by (intro keeps_intros calm_query) (simp add: q_already_minted_def)
  then show ?thesis
    by (induction rs arbitrary: already lives) (auto intro!: keeps_intros)
qed

section \<open>Every request\<close>

locale demo_invariant = table_invariant J for J +
  assumes demo_scan_kept: "J d \<Longrightarrow> q_seed_scan trace u tk ride at1 d = (r, d') \<Longrightarrow> J d'"
    and demo_voucher_kept: "J d \<Longrightarrow> q_seed_voucher vid i p' d = (r, d') \<Longrightarrow> J d'"
    and truncate_kept: "J d \<Longrightarrow> t \<in> set reset_tables \<Longrightarrow> J (snd (q_truncate t d))"

sublocale demo_invariant \<subseteq> seed_invariant J
  by unfold_locales (erule users_kept sui_kept participant_kept wallet_kept demo_scan_kept demo_voucher_kept, assumption)+

context demo_invariant
begin

lemma keeps_seedScenario: "keeps (held e) (seedScenario oc s)"
  by (rule calm_any) (rule calm_seedScenario)

lemma keeps_runMint:
  assumes "on_testnet c p fuel oc"
  shows "keeps (held e) (runMint oc st out)"
proof -
  have "keeps (held e) (split_minted date rs already lives)" for date rs already lives
    by (rule calm_any) (rule calm_split_minted)
  moreover have "keeps (held e) (ResolveDay production_resolver date)" for date
    by (rule calm_any) (rule calm_ResolveDay)
  ultimately show ?thesis
    by (auto simp: runMint_def Let_def intro!: keeps_intros keeps_mint_lives [OF assms] split: option.split)
qed

lemma keeps_scenarios:
  assumes "on_testnet c p fuel oc"
  shows "keeps (held e) (Orchestrator_Run oc s)" "keeps (held e) (Orchestrator_Seed oc s)"
  by (auto simp: Orchestrator_Run_def Orchestrator_Seed_def Let_def
      intro!: keeps_intros keeps_seedScenario keeps_runMint [OF assms] keeps_probes [OF assms])

lemma keeps_Wallet:
  assumes "on_testnet c p fuel oc"
  shows "keeps (held e) (Orchestrator_Wallet oc address)"
proof -
  have rd: "oc_reader oc = client_reader fuel c" using assms by (simp add: on_testnet_def)
  have "keeps (held e) (attribution address)"
    by (rule calm_any) (auto simp: attribution_def q_wallet_owner_def q_attribution_def
        intro!: keeps_intros calm_query split: prod.split)
  then show ?thesis
    by (auto simp: Orchestrator_Wallet_def rd intro!: keeps_intros keeps_reader keeps_OwnedNFTs split: option.split)
qed

lemma keeps_Reset: "keeps (held e) Orchestrator_Reset"
proof -
  have "set ts \<subseteq> set reset_tables \<Longrightarrow> keeps (held e) (truncate_all ts)" for ts
  proof (induction ts)
    case (Cons t ts)
    have "keeps (held e) (sql (\<lambda>_ _. q_truncate t))"
    proof (rule keeps_sql [OF stable_env_db])
      fix w :: world and r :: "goerr + unit" and d
      assume "held e w" and "q_truncate t (db w) = (r, d)"
      then show "held e (w\<lparr>db := d\<rparr>)" using truncate_kept [of "db w" t] Cons.prems by simp
    qed
    with Cons show ?case by (auto intro!: keeps_intros)
  qed (simp add: keeps_intros)
  moreover have "keeps (held e) FlushDB"
    unfolding FlushDB_def by (intro keeps_intros keeps_redis_frame stable_env_db) simp
  ultimately show ?thesis
    unfolding Orchestrator_Reset_def by (intro keeps_intros) simp_all
qed

end

end
