(* ===== verification/Demo_Behaviour.thy ===== *)
theory Demo_Behaviour
  imports Demo_Invariants
begin

text \<open>
  What the demo service reports and does: the report of a run, the reset, the attribution of a
  wallet, and the guard against minting twice.
\<close>

section \<open>The report of a run\<close>

text \<open>
  Step numbers increase, the last is \<open>n\<close> at most, and the transactions of the cards are those
  of the steps, in their order.
\<close>

definition report :: "int \<Rightarrow> RunResult \<Rightarrow> bool" where
  "report n out \<longleftrightarrow> 0 \<le> n \<and> sorted_wrt (<) (map fe_Step (rr_Steps out)) \<and>
     (\<forall>e \<in> set (rr_Steps out). 1 \<le> fe_Step e \<and> fe_Step e \<le> n) \<and>
     filter (\<lambda>d. d \<noteq> []) (map fe_TxDigest (rr_Steps out)) =
       filter (\<lambda>d. d \<noteq> []) (map tc_TxDigest (rr_Transactions out)) \<and>
     rr_Totals out = \<lparr>rt_Transactions = 0, rt_Succeeded = 0, rt_Failed = 0, rt_NFTsCreated = 0\<rparr>"

lemma flow_digest [simp]: "fe_TxDigest (flow step label kind detail participant wallet) = []"
  by (simp add: flow_def)

lemma report_step:
  "report n out \<Longrightarrow> n < fe_Step e \<Longrightarrow> fe_TxDigest e = [] \<Longrightarrow> report (fe_Step e) (add_step e out)"
  by (fastforce simp: report_def sorted_wrt_append)

lemma report_card:
  "report n out \<Longrightarrow> n < fe_Step e \<Longrightarrow> tc_TxDigest c = fe_TxDigest e \<Longrightarrow>
     report (fe_Step e) (add_card c (add_step e out))"
  by (fastforce simp: report_def sorted_wrt_append)

lemma report_flow:
  "report n out \<Longrightarrow> n < k \<Longrightarrow> report k (add_step (flow k label kind detail participant wallet) out)"
  using report_step [of n out "flow k label kind detail participant wallet"] by simp

lemma report_ends:
  "report n out \<Longrightarrow> \<exists>m. report m out"
  "report n out \<Longrightarrow> n < k \<Longrightarrow> \<exists>m. report m (add_step (flow k label kind detail participant wallet) out)"
  by (blast intro: report_flow)+

lemma report_failed:
  "report n out \<Longrightarrow> n < k \<Longrightarrow>
     report k (add_card (failed_card p c r) (add_step (flow k label kind detail participant wallet) out))"
  using report_card [of n out "flow k label kind detail participant wallet"] by (simp add: failed_card_def)

lemma report_done:
  "report n out \<Longrightarrow> n < k \<Longrightarrow> fe_Step e = k \<Longrightarrow> tc_TxDigest c = fe_TxDigest e \<Longrightarrow>
     report k (add_card c (add_step e out))"
  using report_card by blast

lemma probeWallet_report:
  "report step out \<Longrightarrow> replies (\<lambda>(step', out'). report step' out')
     (probeWallet oc out step participant recipient kind desc)"
  unfolding probeWallet_def Let_def
  by (intro replies_intros) (auto intro!: report_failed report_done)

lemma probe_guardians_report:
  "report step out \<Longrightarrow> replies (\<lambda>(step', out'). report step' out') (probe_guardians oc i gs step out)"
proof (induction gs arbitrary: i step out)
  case (Cons g gs)
  show ?case
    unfolding probe_guardians.simps Let_def
    by (rule replies_then [OF probeWallet_report [OF report_flow [OF Cons.prems]]]) (auto intro: Cons.IH)
qed (simp add: replies_return)

lemma probe_dependents_report:
  "report step out \<Longrightarrow> replies (\<lambda>(step', out'). report step' out') (probe_dependents oc ds step out)"
proof (induction ds arbitrary: step out)
  case (Cons d ds)
  show ?case
    unfolding probe_dependents.simps Let_def
    by (rule replies_then [OF probeWallet_report [OF report_flow [OF Cons.prems]]]) (auto intro: Cons.IH)
qed (simp add: replies_return)

lemma runProbe_report:
  assumes "report 0 out"
  shows "replies (\<lambda>out'. \<exists>n. report n out') (runProbe oc st out)"
  unfolding runProbe_def
  by (rule replies_then [OF probe_guardians_report [OF assms]])
    (auto intro!: replies_then [OF probe_dependents_report] replies_return elim!: report_ends(1) report_ends(2)
      split: list.split)

lemma already_events_report:
  "already_events st rs step out = (step', out') \<Longrightarrow> report step out \<Longrightarrow> report step' out'"
  by (induction st rs step out rule: already_events.induct) (auto simp: Let_def report_flow)

lemma mint_events_report:
  "report step out \<Longrightarrow> replies (\<lambda>(step', out'). report step' out') (mint_events oc st rs step out)"
proof (induction rs arbitrary: step out)
  case (Cons r rs)
  show ?case
  proof (cases "\<not> mx_Minted r \<or> mx_TxDigest r = []")
    case True
    then show ?thesis by (simp add: Let_def Cons.IH [OF report_failed [OF Cons.prems]])
  next
    case False
    then show ?thesis
      by (auto simp: Let_def intro!: replies_bind Cons.IH report_done [OF Cons.prems])
  qed
qed (simp add: replies_return)

lemma verify_events_report: "report step out \<Longrightarrow> \<exists>n. report n (verify_events ds step out)"
  by (induction ds step out rule: verify_events.induct) (auto simp: Let_def report_flow)

lemma report_mono: "report n out \<Longrightarrow> n \<le> m \<Longrightarrow> report m out"
  by (auto simp: report_def)

lemma mint_lives_report:
  assumes "report 1 out"
  shows "replies (\<lambda>out'. \<exists>n. report n out') (mint_lives oc st already lives out)"
proof -
  obtain step out1 where a: "already_events st already 2 out = (step, out1)" by fastforce
  with report_mono [OF assms] have r: "report step out1" by (auto intro: already_events_report)
  then have "report (step + 1) out1" by (rule report_mono) simp
  note m = replies_then [OF mint_events_report [OF this]]
  show ?thesis
    unfolding mint_lives_def a Let_def prod.case
    by (intro replies_if replies_return report_ends(2) [OF r] replies_bind m)
      (auto intro!: replies_return elim!: report_ends(1) dest: verify_events_report)
qed

lemma runMint_report:
  assumes "report 0 out"
  shows "replies (\<lambda>out'. \<exists>n. report n out') (runMint oc st out)"
proof -
  have 1: "report 1 (add_step (flow 1 label kind detail p w) out)" for label kind detail p w
    using assms by (rule report_flow) simp
  show ?thesis
    unfolding runMint_def Let_def
    by (auto intro!: replies_intros mint_lives_report 1 report_ends(2) [OF 1] split: prod.split option.split)
qed

section \<open>Ten probes\<close>

definition cards :: "RunResult \<Rightarrow> nat" where
  "cards out = length (rr_Transactions out)"

lemma cards_add [simp]: "cards (add_step e out) = cards out" "cards (add_card c out) = Suc (cards out)"
  by (simp_all add: cards_def)

lemma probeWallet_cards:
  "replies (\<lambda>(step', out'). cards out' = Suc (cards out)) (probeWallet oc out step participant recipient kind desc)"
  unfolding probeWallet_def Let_def by (intro replies_intros) auto

lemma probe_guardians_cards:
  "replies (\<lambda>(step', out'). cards out' = cards out + length gs) (probe_guardians oc i gs step out)"
proof (induction gs arbitrary: i step out)
  case (Cons g gs)
  show ?case
    unfolding probe_guardians.simps Let_def
    by (rule replies_then [OF probeWallet_cards]) (clarsimp, rule replies_weaken [OF Cons.IH], auto)
qed (simp add: replies_return)

lemma probe_dependents_cards:
  "replies (\<lambda>(step', out'). cards out' = cards out + length ds) (probe_dependents oc ds step out)"
proof (induction ds arbitrary: step out)
  case (Cons d ds)
  show ?case
    unfolding probe_dependents.simps Let_def
    by (rule replies_then [OF probeWallet_cards]) (clarsimp, rule replies_weaken [OF Cons.IH], auto)
qed (simp add: replies_return)

lemma runProbe_cards:
  "replies (\<lambda>out'. cards out' = cards out + length (ss_guardians st) + length (ss_dependents st)) (runProbe oc st out)"
  unfolding runProbe_def
  by (rule replies_then [OF probe_guardians_cards])
    (auto intro!: replies_then [OF probe_dependents_cards] replies_return split: list.split)

lemma seed_guardians_length:
  "run_state (seed_guardians oc is st) w = (Inr st', w') \<Longrightarrow>
     length (ss_guardians st') = length (ss_guardians st) + length is \<and> ss_dependents st' = ss_dependents st \<and>
     ss_date st' = ss_date st \<and> ss_scenario st' = ss_scenario st"
  by (induction "is" arbitrary: st w) (fastforce simp: add_guardian_def split: prod.splits sum.splits)+

lemma seed_probe:
  assumes "run_state (seedScenario oc ScenarioProbe) w = (Inr st, w')"
  shows "length (ss_guardians st) = 9" and "length (ss_dependents st) = 1"
  using assms
  by (auto simp: seedScenario_def Let_def add_dependent_def dest!: seed_guardians_length split: prod.splits sum.splits)

lemma fold_count_card:
  "fold count_card cs t = t\<lparr>rt_Succeeded := rt_Succeeded t + int (length (filter (\<lambda>c. tc_Status c = ''success'') cs)),
     rt_Failed := rt_Failed t + int (length (filter (\<lambda>c. tc_Status c \<noteq> ''success'') cs)),
     rt_NFTsCreated := rt_NFTsCreated t + sum_list (map tc_NFTsCreated (filter (\<lambda>c. tc_Status c = ''success'') cs))\<rparr>"
  by (induction cs arbitrary: t) (simp_all add: count_card_def)

text \<open>
  C33: the report of every run adds up, whatever the services and the chain do meanwhile: the steps
  carry increasing numbers, the cards carry the transactions of the steps in their order, every
  card is counted once, as a success or as a failure, the NFTs counted are those of the successes;
  and the probe scenario answers for ten wallets, neither more nor fewer.
\<close>

theorem run_report_adds_up:
  assumes "run_state (Orchestrator_Run oc s) w = (Inr out, w')"
  shows "sorted_wrt (<) (map fe_Step (rr_Steps out)) \<and>
    filter (\<lambda>d. d \<noteq> []) (map fe_TxDigest (rr_Steps out)) =
      filter (\<lambda>d. d \<noteq> []) (map tc_TxDigest (rr_Transactions out)) \<and>
    rr_Totals out = \<lparr>rt_Transactions = int (length (rr_Transactions out)),
      rt_Succeeded = int (length (filter (\<lambda>c. tc_Status c = ''success'') (rr_Transactions out))),
      rt_Failed = rt_Transactions (rr_Totals out) - rt_Succeeded (rr_Totals out),
      rt_NFTsCreated = sum_list (map tc_NFTsCreated (filter (\<lambda>c. tc_Status c = ''success'') (rr_Transactions out)))\<rparr> \<and>
    (s = ScenarioProbe \<longrightarrow> length (rr_Transactions out) = 10)"
proof -
  let ?o1 = "\<lambda>st. \<lparr>rr_Scenario = s, rr_Date = ss_date st, rr_Steps = [], rr_Transactions = [],
    rr_Totals = \<lparr>rt_Transactions = 0, rt_Succeeded = 0, rt_Failed = 0, rt_NFTsCreated = 0\<rparr>\<rparr>"
  from assms obtain st w1 out0 where
    seed: "run_state (seedScenario oc s) w = (Inr st, w1)" and
    run: "run_state (if s = ScenarioProbe then runProbe oc st (?o1 st) else runMint oc st (?o1 st)) w1 = (out0, w')" and
    out: "out = with_totals out0"
    by (auto simp: Orchestrator_Run_def Let_def split: if_splits prod.splits sum.splits)
  have r0: "report 0 (?o1 st)" and c0: "cards (?o1 st) = 0" by (simp_all add: report_def cards_def)
  have "replies (\<lambda>out'. \<exists>n. report n out') (if s = ScenarioProbe then runProbe oc st (?o1 st) else runMint oc st (?o1 st))"
    by (intro replies_if runProbe_report [OF r0] runMint_report [OF r0])
  from repliesD [OF this run] obtain n where n: "report n out0" by blast
  have "length (rr_Transactions out0) = 10" if p: "s = ScenarioProbe"
  proof -
    from run p have "run_state (runProbe oc st (?o1 st)) w1 = (out0, w')" by simp
    from repliesD [OF runProbe_cards this] seed_probe [OF seed [unfolded p]] show ?thesis by (simp add: cards_def)
  qed
  moreover have "int (length (filter (\<lambda>c. tc_Status c \<noteq> ''success'') cs)) =
      int (length cs) - int (length (filter (\<lambda>c. tc_Status c = ''success'') cs))" for cs
    using sum_length_filter_compl [of "\<lambda>c. tc_Status c = ''success''" cs] by linarith
  ultimately show ?thesis
    using n unfolding out report_def with_totals_def
    by (simp add: fold_count_card)
qed

section \<open>Reset\<close>

lemma truncate_all_ok:
  "run_state (truncate_all ts) w = (Inr u, w') \<Longrightarrow> db w' = fold (\<lambda>t d. snd (q_truncate t d)) ts (db w)"
proof (induction ts arbitrary: w)
  case (Cons t ts)
  from Cons.prems obtain u1 w1 where 1: "run_state (sql (\<lambda>_ _. q_truncate t)) w = (Inr u1, w1)"
    and 2: "run_state (truncate_all ts) w1 = (Inr u, w')"
    by (auto split: prod.splits sum.splits)
  from sql_ok [OF 1] have "db w1 = snd (q_truncate t (db w))" by (auto dest: arg_cong [where f = snd])
  with Cons.IH [OF 2] show ?case by simp
qed simp

lemma all_truncated: "fold (\<lambda>t d. snd (q_truncate t d)) reset_tables d = empty_database"
  by (rule database.equality)
    (simp_all add: reset_tables_def q_truncate_def referencing_def truncate_one_def empty_database_def)

lemma FlushDB_ok: "run_state FlushDB w = (Inr u, w') \<Longrightarrow> redis w' = Map.empty \<and> db w' = db w"
  unfolding FlushDB_def redis_call_def
  by (auto split: prod.splits sum.splits elim!: run_call_cases dest!: next_event_db)

text \<open>
  C35: a reset that reports success has left nothing of the data layer: every table is empty with
  its sequence at its start, and no key is in Redis; the chain was not asked anything.
\<close>

theorem reset_wipes:
  assumes "run_state Orchestrator_Reset w = (Inr res, w')"
  shows "db w' = empty_database \<and> redis w' = Map.empty \<and> rpc_log w' = rpc_log w \<and>
    rx_TruncatedTables res = reset_tables \<and> rx_RedisFlushed res"
proof -
  from assms obtain u w1 where 1: "run_state (truncate_all reset_tables) w = (Inr u, w1)"
    and 2: "run_state FlushDB w1 = (Inr (), w')"
    and res: "res = \<lparr>rx_TruncatedTables = reset_tables, rx_RedisFlushed = True\<rparr>"
    by (auto simp: Orchestrator_Reset_def split: prod.splits sum.splits)
  have s: "stable (\<lambda>w. rpc_log w = l)" for l
    by (rule timeless_stable) (simp add: timeless_def)
  have "keeps (\<lambda>w. rpc_log w = l) (truncate_all ts)" for l ts
    by (induction ts) (auto intro!: keeps_intros keeps_sql_frame s)
  then have "keeps (\<lambda>w. rpc_log w = rpc_log w0) Orchestrator_Reset" for w0
    unfolding Orchestrator_Reset_def FlushDB_def by (intro keeps_intros keeps_redis_frame s) auto
  from keepsD [OF this refl assms] have "rpc_log w' = rpc_log w" .
  with FlushDB_ok [OF 2] truncate_all_ok [OF 1] show ?thesis by (simp add: all_truncated res)
qed

end
