(* ===== verification/Demo_Rerun.thy ===== *)
theory Demo_Rerun
  imports Demo_Behaviour
begin

text \<open>
  The guard of the demo against minting twice: a pass over a day on which everyone who rode has
  been minted asks the chain nothing, under every schedule.
\<close>

interpretation inputs: day_invariant "same_inputs d0" for d0
  by unfold_locales (auto simp: same_inputs_def q_upsert_pending_def split: if_splits option.splits)

lemma rides_ok:
  assumes "run_state (RidesForParticipant p date) w = (Inr (rides, ats), w')"
    and "env_date_in (env w) date = Some day"
  shows "rides = map fst (rides_on (env w) (db w) day p)" "ats = map snd (rides_on (env w) (db w) day p)"
  using assms
  by (auto simp: RidesForParticipant_def byEmail_def byParticipantID_def q_rides_def rides_on_def
      dest!: sql_ok split: option.splits if_splits prod.splits sum.splits)

text \<open>
  One round of the pass under any schedule, seen through its specification: it stops with an
  error, passes over who did not ride, resolves who has a wallet, or records who has none.
\<close>

definition ledger_request :: "environment \<Rightarrow> database \<Rightarrow> int \<Rightarrow> string \<Rightarrow> Participant \<Rightarrow> RecordPendingMintRequest" where
  "ledger_request e d day date p = \<lparr>rp_ParticipantID = p_ID p, rp_MintDate = date,
     rp_RideIDs = map fst (rides_on e d day p), rp_ScannedAts = map snd (rides_on e d day p)\<rparr>"

lemma resolve_round:
  assumes "run_state (resolve_all production_resolver date (p # ps) acc) w = ((rs, err), w')"
    and "same_inputs d (db w)" and "env w = e" and "env_date_in e date = Some day"
  obtains (stop) "rs = acc" "err \<noteq> None"
    | (absent) w1 where "rides_on e d day p = []" "same_inputs d (db w1)" "env w1 = e"
        "run_state (resolve_all production_resolver date ps acc) w1 = ((rs, err), w')"
    | (ready) w1 where "rides_on e d day p \<noteq> []" "\<not> mr_Pending (ResolveMintWallet p)"
        "same_inputs d (db w1)" "env w1 = e"
        "run_state (resolve_all production_resolver date ps (acc @ [day_resolution e d day date p])) w1 = ((rs, err), w')"
    | (pending) w1 w2 where "rides_on e d day p \<noteq> []" "mr_Pending (ResolveMintWallet p)"
        "same_inputs d (db w1)" "env w1 = e" "same_inputs d (db w2)" "env w2 = e"
        "run_state (RecordPendingMint postgres_repo (ledger_request e d day date p)) w1 = (Inr (), w2)"
        "run_state (resolve_all production_resolver date ps (acc @ [day_resolution e d day date p])) w2 = ((rs, err), w')"
proof -
  have sel: "dv_RidesForParticipant production_resolver = RidesForParticipant"
    "wr_ResolveMintWallet (dv_wallets production_resolver) = ResolveMintWallet"
    "wr_RecordPendingMint (dv_wallets production_resolver) = RecordPendingMint postgres_repo"
    by (simp_all add: production_resolver_def)
  obtain r w1 where r: "run_state (RidesForParticipant p date) w = (r, w1)" by fastforce
  from keepsD [OF calm_reads(4) _ r, of "rpc_log w" "env w" "same_inputs d"] assms(2,3)
  have w1: "same_inputs d (db w1)" "env w1 = e" by auto
  show thesis
  proof (cases r)
    case (Inl x)
    with assms(1) r show thesis by (intro stop) (auto simp: sel)
  next
    case (Inr x)
    let ?rides = "rides_on e d day p"
    have x: "x = (map fst ?rides, map snd ?rides)"
      using rides_ok [of p date w "fst x" "snd x" w1 day] r Inr assms(3,4) rides_on_cong [OF assms(2)]
      by (cases x) simp
    have run: "run_state (RidesForParticipant p date) w = (Inr (map fst ?rides, map snd ?rides), w1)"
      using r Inr x by simp
    consider "?rides = []" | "?rides \<noteq> []" "\<not> mr_Pending (ResolveMintWallet p)"
      | "?rides \<noteq> []" "mr_Pending (ResolveMintWallet p)" by blast
    then show thesis
    proof cases
      case 1
      with assms(1) run w1 show thesis by (intro absent) (simp_all add: sel)
    next
      case 2
      with assms(1) run w1 show thesis by (intro ready) (simp_all add: sel Let_def day_resolution_def)
    next
      case 3
      obtain r2 w2 where
        r2: "run_state (RecordPendingMint postgres_repo (ledger_request e d day date p)) w1 = (r2, w2)" by fastforce
      from keepsD [OF inputs.calm_pending _ r2, of "rpc_log w1" "env w1"] w1
      have w2: "same_inputs d (db w2)" "env w2 = e" by auto
      show thesis
      proof (cases r2)
        case (Inl x2)
        with assms(1) run 3 r2 show thesis by (intro stop) (auto simp: sel Let_def ledger_request_def)
      next
        case (Inr u)
        with assms(1) run 3 r2 w1 w2 show thesis
          by (intro pending) (simp_all add: sel Let_def ledger_request_def day_resolution_def)
      qed
    qed
  qed
qed

text \<open>
  The pass under any schedule: what it resolves is an initial part of what its specification names,
  and all of it when there was no error.
\<close>

lemma resolve_all_prefix:
  assumes "run_state (resolve_all production_resolver date ps acc) w = ((rs, err), w')"
    and "same_inputs d0 (db w)" and "env w = e" and "env_date_in e date = Some day"
  shows "\<exists>k. rs = acc @ List.take k (map (day_resolution e d0 day date) (attending e d0 day ps)) \<and>
    (err = None \<longrightarrow> length (attending e d0 day ps) \<le> k)"
  using assms
proof (induction ps arbitrary: w acc)
  case (Cons p ps)
  have resolved: ?case if "rides_on e d0 day p \<noteq> []" "same_inputs d0 (db v)" "env v = e"
    "run_state (resolve_all production_resolver date ps (acc @ [day_resolution e d0 day date p])) v = ((rs, err), w')" for v
  proof -
    from Cons.IH [OF that(4,2,3) Cons.prems(4)] obtain k where
      "rs = (acc @ [day_resolution e d0 day date p]) @ List.take k (map (day_resolution e d0 day date) (attending e d0 day ps))"
      "err = None \<longrightarrow> length (attending e d0 day ps) \<le> k" by blast
    then show ?thesis using that(1) by (intro exI [of _ "Suc k"]) (simp add: attending_def)
  qed
  from Cons.prems show ?case
  proof (cases rule: resolve_round)
    case stop
    then show ?thesis by (intro exI [of _ 0]) (cases err; simp)
  next
    case (absent w1)
    with Cons.IH [OF absent(4,2,3) Cons.prems(4)] show ?thesis by (simp add: attending_def)
  qed (rule resolved, assumption+)+
qed (auto simp: attending_def)

lemma ResolveDay_prefix:
  assumes "run_state (ResolveDay production_resolver date) w = ((rs, err), w')"
    and "env_date_in (env w) date = Some day"
  shows "\<exists>k. rs = List.take k (map (day_resolution (env w) (db w) day date)
      (attending (env w) (db w) day (sort_key p_ID (participants (db w))))) \<and>
    (err = None \<longrightarrow> length (attending (env w) (db w) day (sort_key p_ID (participants (db w)))) \<le> k)"
proof -
  obtain r w1 where r: "run_state ListParticipants w = (r, w1)" by fastforce
  from keepsD [OF calm_reads(3) _ r, of "rpc_log w" "env w" "same_inputs (db w)"]
  have w1: "same_inputs (db w) (db w1)" "env w1 = env w" by (auto simp: same_inputs_def)
  show ?thesis
  proof (cases r)
    case (Inl x)
    with assms(1) r show ?thesis by (intro exI [of _ 0]) (auto simp: ResolveDay_def production_resolver_def)
  next
    case (Inr ps)
    with assms(1) r have run: "run_state (resolve_all production_resolver date ps []) w1 = ((rs, err), w')"
      by (simp add: ResolveDay_def) (simp add: production_resolver_def)
    have "ps = sort_key p_ID (participants (db w))"
      using r Inr by (auto simp: ListParticipants_def dest!: sql_ok split: prod.splits sum.splits)
    with resolve_all_prefix [OF run w1 assms(2)] show ?thesis by simp
  qed
qed

text \<open>Whoever is resolved rode that day.\<close>

definition rode :: "environment \<Rightarrow> database \<Rightarrow> int \<Rightarrow> Resolution \<Rightarrow> bool" where
  "rode e d day res \<longleftrightarrow> (\<exists>p \<in> set (participants d). rs_ParticipantID res = p_ID p \<and> rides_on e d day p \<noteq> [])"

lemma ResolveDay_rode:
  assumes "run_state (ResolveDay production_resolver date) w = ((rs, err), w')"
    and "env_date_in (env w) date = Some day"
  shows "\<forall>res \<in> set rs. rode (env w) (db w) day res"
    and "rpc_log w' = rpc_log w" "env w' = env w" "same_inputs (db w) (db w')"
proof -
  have refl: "same_inputs (db w) (db w)" by (simp add: same_inputs_def)
  from keepsD [OF inputs.calm_ResolveDay _ assms(1), of "rpc_log w" "env w"] refl
  show "rpc_log w' = rpc_log w" "env w' = env w" "same_inputs (db w) (db w')" by auto
  from ResolveDay_prefix [OF assms] show "\<forall>res \<in> set rs. rode (env w) (db w) day res"
    by (auto dest!: in_set_takeD simp: rode_def attending_def day_resolution_def resolution_def) blast+
qed

lemma alreadyMinted_ok:
  assumes "run_state (alreadyMinted i date) w = (Inr (minted, digest), w')"
    and "env_date_in (env w) date = Some day" and "minted_rows i day (mint_logs (db w)) \<noteq> []"
  shows "minted"
proof -
  obtain r w1 where r: "run_state (sql (\<lambda>e _. q_already_minted i date e)) w = (r, w1)" by fastforce
  have "r \<noteq> Inl ErrNoRows"
  proof
    assume e: "r = Inl ErrNoRows"
    obtain x where q: "fst (q_already_minted i date (env w) (db w)) = Inr x"
      using assms(2,3) by (cases "find (\<lambda>m. m_ID m = env_pick (env w) (map m_ID (minted_rows i day (mint_logs (db w)))))
        (minted_rows i day (mint_logs (db w)))") (auto simp: q_already_minted_def Let_def)
    from r [unfolded e sql_def] show False
    proof (cases rule: run_call_cases)
      case (up w2)
      with next_event_db [OF up(1)] q show False by (simp split: prod.splits)
    qed (simp_all add: ErrNoRows_def)
  qed
  with assms(1) r show ?thesis
    by (cases r) (auto simp: alreadyMinted_def split: if_splits)
qed

lemma split_minted_done:
  assumes "run_state (split_minted date rs already lives) w = (Inr (already', lives'), w')"
    and "env_date_in (env w) date = Some day" and "\<forall>res \<in> set rs. minted_rows (rs_ParticipantID res) day (mint_logs (db w)) \<noteq> []"
  shows "lives' = lives"
  using assms
proof (induction rs arbitrary: already w)
  case (Cons res rs)
  show ?case
  proof (cases "rs_Outcome res \<noteq> OutcomeMintReady \<or> rs_WalletAddress res = []")
    case True
    with Cons show ?thesis by auto
  next
    case False
    with Cons.prems(1) obtain minted digest w1 where
      a: "run_state (alreadyMinted (rs_ParticipantID res) date) w = (Inr (minted, digest), w1)"
      by (auto split: prod.splits sum.splits)
    have "minted" using alreadyMinted_ok [OF a Cons.prems(2)] Cons.prems(3) by simp
    moreover have "keeps (calm (\<lambda>d. mint_logs d = mint_logs (db w)) (rpc_log w) (env w)) (alreadyMinted i date)" for i
      unfolding alreadyMinted_def by (intro keeps_intros calm_query) (simp add: q_already_minted_def)
    from keepsD [OF this _ a] have "env w1 = env w" "mint_logs (db w1) = mint_logs (db w)" by auto
    ultimately show ?thesis
      using False Cons.prems a Cons.IH [of "already @ [res]" w1] by simp
  qed
qed simp

text \<open>
  C17: a pass of the demo over a day on which everyone who rode has a mint already asks the chain
  for nothing and makes no card, under every schedule of delays and failures: whatever goes wrong
  on the way, nobody is minted twice.
\<close>

theorem rerun_sends_nothing:
  assumes "run_state (runMint oc st out) w = (out', w')"
    and "env_date_in (env w) (ss_date st) = Some day"
    and "\<forall>p \<in> set (participants (db w)). rides_on (env w) (db w) day p \<noteq> [] \<longrightarrow>
      (\<exists>m \<in> set (mint_logs (db w)). m_ParticipantID m = Some (p_ID p) \<and> m_MintDate m = day)"
  shows "rpc_log w' = rpc_log w \<and> mint_logs (db w') = mint_logs (db w) \<and>
    rr_Transactions out' = rr_Transactions out"
proof -
  let ?date = "ss_date st"
  obtain rs err w1 where day: "run_state (ResolveDay production_resolver ?date) w = ((rs, err), w1)"
    by (metis surj_pair)
  note d = ResolveDay_rode [OF day assms(2)]
  have m1: "mint_logs (db w1) = mint_logs (db w)" using d(4) by (simp add: same_inputs_def)
  show ?thesis
  proof (cases err)
    case (Some e)
    with assms(1) day d(2) m1 show ?thesis by (auto simp: runMint_def Let_def)
  next
    case None
    have rows: "\<forall>res \<in> set rs. minted_rows (rs_ParticipantID res) day (mint_logs (db w1)) \<noteq> []"
      using d(1) assms(3) unfolding m1 by (fastforce simp: rode_def minted_rows_def filter_empty_conv)
    obtain r w2 where sp: "run_state (split_minted ?date rs [] []) w1 = (r, w2)" by fastforce
    from keepsD [OF calm_split_minted _ sp, of "rpc_log w1" "env w1" "\<lambda>d. mint_logs d = mint_logs (db w1)"]
    have w2: "rpc_log w2 = rpc_log w" "mint_logs (db w2) = mint_logs (db w)" using d(2) m1 by auto
    have same: "already_events st al step o1 = (step', o2) \<Longrightarrow> rr_Transactions o2 = rr_Transactions o1"
      for al step o1 step' o2
      by (induction st al step o1 rule: already_events.induct) (auto simp: Let_def)
    show ?thesis
    proof (cases r)
      case (Inl e)
      with assms(1) day sp None w2 show ?thesis by (auto simp: runMint_def Let_def)
    next
      case (Inr x)
      obtain already lives where x: "x = (already, lives)" by fastforce
      have "lives = []" using split_minted_done [OF sp [unfolded Inr x] _ rows] assms(2) d(3) by simp
      with assms(1) day sp None Inr x w2 same show ?thesis
        by (auto simp: runMint_def mint_lives_def Let_def split: prod.splits)
    qed
  qed
qed

end
