(* ===== verification/Demo_Schema.thy ===== *)
theory Demo_Schema
  imports Demo_Invariants
begin

text \<open>
  The demo service keeps the constraints of the schema, whatever is sent to it: the interface of
  the demo interpreted on the schema, and the requests one after the other.
\<close>

interpretation schema_demo: demo_invariant schema_ok
proof (unfold_locales, goal_cases)
  case (1 d trace u tk ride at1 r d')
  then show ?case by (auto simp: q_seed_scan_def schema_ok_def split: if_splits)
next
  case (2 d vid i p' r d')
  have "vouchers_ok uids pids vs \<Longrightarrow> \<not> list_ex (\<lambda>v. v_VoucherID v = vid) vs \<Longrightarrow> i \<in> set uids \<Longrightarrow> p' \<in> set pids \<Longrightarrow>
      vouchers_ok uids pids (vs @ [\<lparr>v_ID = k, v_VoucherID = vid, v_PurchaserID = i, v_OwnerID = None,
        v_ParticipantID = Some p', v_Status = StatusUnclaimed\<rparr>])" for uids pids vs k
    by (auto simp: vouchers_ok_def list_ex_iff)
  with 2 show ?case by (auto simp: q_seed_voucher_def schema_ok_def split: if_splits)
next
  case (3 d t)
  then show ?case
    by (auto simp: reset_tables_def q_truncate_def referencing_def truncate_one_def schema_ok_def users_ok_def
        tickets_ok_def vouchers_ok_def participants_ok_def mints_ok_def pending_ok_def outbox_ok_def)
qed

text \<open>Requests one after the other.\<close>

fun demo_requests :: "Orchestrator \<Rightarrow> (string \<times> http_request) list \<Rightarrow> (world, http_reply option list) state" where
  "demo_requests oc [] = State_Monad.return []"
| "demo_requests oc ((path, req) # rs) = do {
     rep \<leftarrow> demo_serve oc path req;
     reps \<leftarrow> demo_requests oc rs;
     State_Monad.return (rep # reps)
   }"

lemma NewOrchestrator_ok:
  assumes "run_state (NewOrchestrator lib brokers (Some (client_minter c)) (Some (client_reader fuel c))
    (cid_metadata (Some p)) cfg) w = (Inr oc, w')"
  shows "on_testnet c p fuel oc"
    and "set (hc_checks (oc_checker oc)) = {Postgres_Ping, Redis_Ping, Kafka_Ping brokers, Client_Ping}"
    and "snd ` set (oc_checks oc) = {Postgres_Ping, Redis_Ping, Kafka_Ping brokers, Client_Ping}"
  using assms
  by (auto simp: NewOrchestrator_def NewHealthChecker_def on_testnet_def AddCheck_def client_minter_def Let_def)

context demo_invariant
begin

lemma keeps_checks:
  assumes "chk \<in> {Postgres_Ping, Redis_Ping, Kafka_Ping brokers, Client_Ping}"
  shows "keeps (\<lambda>w. J (db w)) chk"
proof -
  have "keeps (held e) Client_Ping" for e
    unfolding Client_Ping_def by (intro keeps_intros keeps_outside)
  then have "keeps (\<lambda>w. J (db w)) Client_Ping" by (rule keeps_any)
  with assms show ?thesis by (auto simp: keeps_Ping)
qed

lemma keeps_demo_serve:
  assumes "on_testnet c p fuel oc"
    and "\<forall>chk \<in> set (hc_checks (oc_checker oc)) \<union> snd ` set (oc_checks oc). keeps (\<lambda>w. J (db w)) chk"
  shows "keeps (\<lambda>w. J (db w)) (demo_serve oc path req)"
proof -
  have health: "list_all (\<lambda>chk. keeps (\<lambda>w. J (db w)) (snd chk)) cs \<Longrightarrow>
      keeps (\<lambda>w. J (db w)) (health_checks cs ok services)" for cs ok services
    by (induction cs ok services rule: health_checks.induct) (auto intro!: keeps_intros)
  have j: "keeps (\<lambda>w. J (db w)) (Orchestrator_Run oc s)" "keeps (\<lambda>w. J (db w)) (Orchestrator_Seed oc s)"
    "keeps (\<lambda>w. J (db w)) (Orchestrator_Wallet oc address)" "keeps (\<lambda>w. J (db w)) Orchestrator_Reset" for s address
    by (rule keeps_any [OF keeps_scenarios(1) [OF assms(1)]] keeps_any [OF keeps_scenarios(2) [OF assms(1)]]
        keeps_any [OF keeps_Wallet [OF assms(1)]] keeps_any [OF keeps_Reset])+
  have "list_all (\<lambda>(path, h). keeps (\<lambda>w. J (db w)) (h req)) (Register oc)"
    unfolding Register_def
    by (auto simp: returning_def HealthzHandler_def ReadyzHandler_def demo_handle_health_def demo_handle_seed_def
        demo_handle_run_def demo_handle_reset_def demo_handle_wallet_def scenario_endpoint_def list_all_iff
        intro!: keeps_intros keeps_run_checks health j split: option.split sum.split)
      (use assms(2) in force)+
  then show ?thesis
    by (auto simp: demo_serve_def list_all_iff dest: map_of_SomeD intro!: keeps_intros split: option.split)
qed

end


definition demo_config :: Config where
  "demo_config = \<lparr>
     cf_App = \<lparr>ap_Env = ''development'', ap_Name = ''theme-park-nft-engine'', ap_Port = 8080, ap_LogLevel = ''info''\<rparr>,
     cf_Postgres = \<lparr>pc_Host = ''localhost'', pc_Port = 5432, pc_User = ''themepark'', pc_Password = ''themepark_dev'',
       pc_DB = ''themepark'', pc_SSLMode = ''disable'', pc_MaxConns = 25\<rparr>,
     cf_Redis = default_RedisConfig, cf_Kafka = default_KafkaConfig, cf_Gate = default_GateConfig ''secret'',
     cf_Sui = \<lparr>sc_RPCURL = ''https://sui-testnet-endpoint.blockvision.org'', sc_Network = ''testnet'', sc_PackageID = ''0x2'',
       sc_MintCapID = ''0x3'', sc_GasPoolMnemonic = ''words'', sc_GasBudget = ''100000000'',
       sc_RPCMaxConcurrency = 5, sc_RPCMaxRetries = 5\<rparr>,
     cf_Auth = \<lparr>ac_GoogleOAuthClientID = [], ac_GoogleOAuthClientSecret = [], ac_EncryptionKey = ''key'',
       ac_DeterministicWalletSecret = []\<rparr>,
     cf_Pinata = \<lparr>pi_APIKey = [], pi_APISecret = [], pi_JWT = ''jwt'', pi_Gateway = ''https://gateway.pinata.cloud''\<rparr>,
     cf_OTel = \<lparr>ot_ExporterEndpoint = ''http://localhost:4317'', ot_ServiceName = ''theme-park-nft-engine'',
       ot_DDAPIKey = [], ot_DDSite = ''datadoghq.com''\<rparr>,
     cf_AWS = \<lparr>aw_Region = ''us-east-1'', aw_ECRRegistry = [], aw_EC2InstanceID = []\<rparr>,
     cf_Demo = \<lparr>dc_Port = 8090, dc_ProbeAmountMist = ''1000000''\<rparr>\<rparr>"

definition seed_request :: "string \<Rightarrow> http_request" where
  "seed_request s = \<lparr>hq_Method = ''POST'', hq_Query = (\<lambda>_. []), hq_Body = Json (JObj [(''scenario'', JStr s)])\<rparr>"

definition plain_crypto :: crypto_lib where
  "plain_crypto = \<lparr>cl_blake2b = (\<lambda>bs. bs), cl_public_key = (\<lambda>bs. bs), cl_mnemonic_seed = (\<lambda>_. Inr []),
     cl_derive = (\<lambda>_ _. Inr [])\<rparr>"


end
