(* ===== verification/Demo_Witnesses.thy ===== *)
theory Demo_Witnesses
  imports Demo_Rerun Demo_Schema
begin

text \<open>
  The statements about the demo at concrete inputs: the probe scenario on the family's tables with
  a chain that refuses, a reset, and a second pass over a minted day.
\<close>

section \<open>The probe scenario succeeds when the services answer\<close>

lemma image_update_wallet [simp]:
  "p_ID ` set (update_where q (\<lambda>p. p\<lparr>p_WalletState := st, p_CustodialWalletAddress := a\<rparr>) ps) = p_ID ` set ps"
  using map_id_updates(2) [where q = q and st = st and a = a and ps = ps] by (metis set_map)

lemma seedGuardian_quiet:
  assumes "quiet w" and "varchar 255 email"
    and "DeterministicWallet (oc_crypto oc) email (oc_walletSecret oc) = Inr (k, addr)" and "varchar 128 addr"
  shows "\<exists>g w'. run_state (seedGuardian oc email) w = (Inr g, w') \<and> quiet w' \<and>
    p_ID (gd_particip g) \<in> set (map p_ID (participants (db w'))) \<and> gd_wallet g = addr"
proof -
  obtain user d1 where u: "q_create_user email (db w) = (Inr user, d1)" "participants d1 = participants (db w)"
    using assms(2) by (cases "find (\<lambda>u. u_Email u = email) (users (db w))") (auto simp: q_create_user_def Let_def)
  have "\<exists>p d2. run_state (case find (\<lambda>p. p_AccountEmail p = Some email) (participants d1) of
        None \<Rightarrow> CreateParticipant email (Some email) None | Some p \<Rightarrow> returns p) (w\<lparr>db := d1\<rparr>) = (Inr p, w\<lparr>db := d2\<rparr>) \<and>
      p_ID p \<in> set (map p_ID (participants d2))"
  proof (cases "find (\<lambda>p. p_AccountEmail p = Some email) (participants d1)")
    case None
    then have "\<not> list_ex (\<lambda>p. p_AccountEmail p = Some email) (participants d1)"
      by (auto simp: find_None_not list_ex_iff)
    with None assms(1,2) show ?thesis
      by (auto simp: CreateParticipant_def q_create_participant_def Let_def)
  next
    case (Some p)
    with find_Some_in [OF Some] show ?thesis by auto
  qed
  then obtain p d2 where p: "run_state (case find (\<lambda>p. p_AccountEmail p = Some email) (participants d1) of
        None \<Rightarrow> CreateParticipant email (Some email) None | Some p \<Rightarrow> returns p) (w\<lparr>db := d1\<rparr>) = (Inr p, w\<lparr>db := d2\<rparr>)"
    "p_ID p \<in> set (map p_ID (participants d2))" by blast
  have g: "run_state (GetParticipantByEmail email) (w\<lparr>db := d1\<rparr>) =
      (Inr (find (\<lambda>p. p_AccountEmail p = Some email) (participants d1)), w\<lparr>db := d1\<rparr>)"
    using assms(1) by (simp add: GetParticipantByEmail_def found_def split: option.split)
  show ?thesis
    using assms(1,3,4) u p
    by (simp add: seedGuardian_def CreateUser_def g SetParticipantWallet_def q_set_wallet_def UpdateSuiAccount_def
        q_update_sui_def varchar_def)
qed

definition walletless :: "Orchestrator \<Rightarrow> bool" where
  "walletless oc \<longleftrightarrow> (\<forall>email. email \<noteq> [] \<longrightarrow>
     (\<exists>k. DeterministicWallet (oc_crypto oc) email (oc_walletSecret oc) = Inr (k, ''0x'')))"

lemma seed_guardians_quiet:
  assumes "walletless oc" and "quiet w" and "\<forall>i \<in> set is. varchar 255 (guardianEmail i)"
    and "ss_guardians st \<noteq> [] \<Longrightarrow> p_ID (gd_particip (last (ss_guardians st))) \<in> set (map p_ID (participants (db w))) \<and>
      gd_wallet (last (ss_guardians st)) = ''0x''"
  shows "\<exists>st' w'. run_state (seed_guardians oc is st) w = (Inr st', w') \<and> quiet w' \<and>
    (ss_guardians st' \<noteq> [] \<longrightarrow> p_ID (gd_particip (last (ss_guardians st'))) \<in> set (map p_ID (participants (db w'))) \<and>
      gd_wallet (last (ss_guardians st')) = ''0x'')"
  using assms(2-4)
proof (induction "is" arbitrary: st w)
  case (Cons i "is")
  have "guardianEmail i \<noteq> []" by (simp add: guardianEmail_def)
  with assms(1) obtain k where d: "DeterministicWallet (oc_crypto oc) (guardianEmail i) (oc_walletSecret oc) = Inr (k, ''0x'')"
    unfolding walletless_def by blast
  have "varchar 128 ''0x''" by (simp add: varchar_def char_length_def)
  with seedGuardian_quiet [OF Cons.prems(1) _ d] Cons.prems(2) obtain g w1 where
    g: "run_state (seedGuardian oc (guardianEmail i)) w = (Inr g, w1)" "quiet w1"
      "p_ID (gd_particip g) \<in> set (map p_ID (participants (db w1)))" "gd_wallet g = ''0x''" by auto
  from Cons.IH [OF g(2), of "add_guardian g st"] g Cons.prems(2) show ?case
    by (auto simp: add_guardian_def)
qed auto

lemma seedDependent_quiet:
  assumes "quiet w" and "varchar 255 name" and "varchar 128 (gd_wallet g)"
    and "p_ID (gd_particip g) \<in> set (map p_ID (participants (db w)))"
  shows "\<exists>d w'. run_state (seedDependent g name) w = (Inr d, w')"
proof -
  have "q_find_dependent name i e d = (Inl ErrNoRows, d) \<or> (\<exists>p. q_find_dependent name i e d = (Inr p, d))" for i e d
    by (auto simp: q_find_dependent_def Let_def found_def split: option.split)
  from this [of "p_ID (gd_particip g)" "env w" "db w"] obtain r where
    f: "run_state (findDependent name (p_ID (gd_particip g))) w = (Inr r, w)"
    using assms(1) by (auto simp: findDependent_def)
  have "\<exists>d w1. run_state (case r of None \<Rightarrow> CreateParticipant name None (Some (p_ID (gd_particip g)))
      | Some p \<Rightarrow> returns p) w = (Inr d, w1) \<and> quiet w1"
    using assms by (cases r) (auto simp: CreateParticipant_def q_create_participant_def Let_def)
  then obtain d w1 where "run_state (case r of None \<Rightarrow> CreateParticipant name None (Some (p_ID (gd_particip g)))
      | Some p \<Rightarrow> returns p) w = (Inr d, w1)" "quiet w1" by blast
  with f assms(3) show ?thesis
    by (simp add: seedDependent_def SetParticipantWallet_def q_set_wallet_def)
qed

definition plain_orchestrator :: Orchestrator where
  "plain_orchestrator = \<lparr>oc_crypto = plain_crypto\<lparr>cl_blake2b := (\<lambda>_. [])\<rparr>, oc_sui = client_minter demo_client,
     oc_reader = client_reader 3 demo_client, oc_meta = cid_metadata (Some demo_pinata), oc_walletSecret = ''key'',
     oc_probeAmountMist = ''1000000'', oc_checker = \<lparr>hc_service = ''demo'', hc_checks = [], hc_startTime = 0\<rparr>,
     oc_checks = []\<rparr>"

lemma plain_walletless: "walletless plain_orchestrator"
  by (simp add: walletless_def plain_orchestrator_def DeterministicWallet_def PubKeyToSuiAddress_def hex_def Let_def)

lemma probe_emails: "\<forall>i \<in> set [1..9]. varchar 255 (guardianEmail i)"
proof -
  have "list_all (\<lambda>i. varchar 255 (guardianEmail i)) [1..9]" by code_simp
  then show ?thesis by (simp only: list_all_iff)
qed

lemma probe_run:
  "\<exists>out w'. run_state (Orchestrator_Run plain_orchestrator ScenarioProbe) family_world = (Inr out, w')"
proof -
  let ?st = "\<lparr>ss_scenario = ScenarioProbe, ss_date = scenarioDate ScenarioProbe, ss_guardians = [], ss_dependents = [],
      ss_label = Map.empty, ss_kind = Map.empty\<rparr>"
  from seed_guardians_quiet [OF plain_walletless family_sel(1) probe_emails, of ?st] obtain st w1 where
    1: "run_state (seed_guardians plain_orchestrator [1..9] ?st) family_world = (Inr st, w1)" "quiet w1" and
    2: "ss_guardians st \<noteq> [] \<longrightarrow> p_ID (gd_particip (last (ss_guardians st))) \<in> set (map p_ID (participants (db w1))) \<and>
      gd_wallet (last (ss_guardians st)) = ''0x''" by auto
  from seed_guardians_length [OF 1(1)] have "length (ss_guardians st) = 9" by simp
  then have "ss_guardians st \<noteq> []" by auto
  with 2 have g: "p_ID (gd_particip (last (ss_guardians st))) \<in> set (map p_ID (participants (db w1)))"
    "varchar 128 (gd_wallet (last (ss_guardians st)))" by (simp_all add: varchar_def char_length_def)
  have n: "varchar 255 (dependentName 1)" by code_simp
  from seedDependent_quiet [OF 1(2) n g(2,1)] obtain d w2 where
    3: "run_state (seedDependent (last (ss_guardians st)) (dependentName 1)) w1 = (Inr d, w2)" by blast
  have "validScenario ScenarioProbe" by (simp add: validScenario_def AllScenarios_def)
  moreover have "\<exists>st' w2. run_state (seedScenario plain_orchestrator ScenarioProbe) family_world = (Inr st', w2)"
    using 1(1) 3 by (simp add: seedScenario_def Let_def)
  ultimately show ?thesis
    by (auto simp: Orchestrator_Run_def Let_def split: prod.split)
qed

theorem run_report_adds_up_witness:
  "\<exists>out w'. run_state (Orchestrator_Run plain_orchestrator ScenarioProbe) family_world = (Inr out, w') \<and>
     rt_Transactions (rr_Totals out) = 10 \<and> rt_Succeeded (rr_Totals out) + rt_Failed (rr_Totals out) = 10"
proof -
  obtain out w' where run: "run_state (Orchestrator_Run plain_orchestrator ScenarioProbe) family_world = (Inr out, w')"
    using probe_run by blast
  from run_report_adds_up [OF run] have "length (rr_Transactions out) = 10"
    "rt_Transactions (rr_Totals out) = int (length (rr_Transactions out))"
    "rt_Failed (rr_Totals out) = rt_Transactions (rr_Totals out) - rt_Succeeded (rr_Totals out)"
    by (simp, metis RunTotals.select_convs(1), metis RunTotals.select_convs(3))
  then have "rt_Transactions (rr_Totals out) = 10" "rt_Succeeded (rr_Totals out) + rt_Failed (rr_Totals out) = 10"
    by linarith+
  with run show ?thesis by blast
qed

section \<open>A reset\<close>

theorem reset_wipes_witness:
  "\<exists>res w'. run_state Orchestrator_Reset family_world = (Inr res, w') \<and> db w' = empty_database \<and>
     redis w' = Map.empty"
proof -
  have "quiet w \<Longrightarrow> \<exists>w'. run_state (truncate_all ts) w = (Inr (), w') \<and> quiet w'" for ts w
    by (induction ts arbitrary: w) (simp_all add: q_truncate_def)
  from this [OF family_sel(1)] obtain w1 where "run_state (truncate_all reset_tables) family_world = (Inr (), w1)" "quiet w1"
    by blast
  then obtain res w' where run: "run_state Orchestrator_Reset family_world = (Inr res, w')"
    by (simp add: Orchestrator_Reset_def FlushDB_def)
  from reset_wipes [OF run] run show ?thesis by blast
qed

section \<open>A second pass\<close>

definition rich_parent :: Participant where
  "rich_parent = parent\<lparr>p_WalletState := ParticipantWalletOwn, p_CustodialWalletAddress := Some ''0xa''\<rparr>"

definition second_day :: world where
  "second_day = minted_world\<lparr>db := (db minted_world)\<lparr>participants := [rich_parent, child]\<rparr>\<rparr>"

definition day_state :: seedState where
  "day_state = \<lparr>ss_scenario = ScenarioGuardianMint, ss_date = ''2026-08-13'', ss_guardians = [], ss_dependents = [],
     ss_label = Map.empty, ss_kind = Map.empty\<rparr>"

theorem rerun_sends_nothing_witness:
  "\<exists>out w'. run_state (runMint plain_orchestrator day_state \<lparr>rr_Scenario = ''2b'', rr_Date = ''2026-08-13'', rr_Steps = [],
      rr_Transactions = [], rr_Totals = \<lparr>rt_Transactions = 0, rt_Succeeded = 0, rt_Failed = 0, rt_NFTsCreated = 0\<rparr>\<rparr>)
      second_day = (out, w') \<and> rpc_log w' = [] \<and> rr_Transactions out = []"
proof -
  let ?out = "\<lparr>rr_Scenario = ''2b'', rr_Date = ''2026-08-13'', rr_Steps = [],
      rr_Transactions = [], rr_Totals = \<lparr>rt_Transactions = 0, rt_Succeeded = 0, rt_Failed = 0, rt_NFTsCreated = 0\<rparr>\<rparr>"
  obtain out w' where run: "run_state (runMint plain_orchestrator day_state ?out) second_day = (out, w')"
    by fastforce
  have e: "env_date_in (env second_day) (ss_date day_state) = Some 20678"
    using parse_date_example
    by (simp add: second_day_def minted_world_def busy_chain_def plain_environment_def day_state_def)
  have "rides_on (env second_day) (db second_day) 20678 child = []"
    by (simp add: rides_on_def ordered_rides_def scan_by_participant_def child_def family_voucher_def
        second_day_def minted_world_def busy_chain_def plain_environment_def)
  then have "\<forall>p \<in> set (participants (db second_day)). rides_on (env second_day) (db second_day) 20678 p \<noteq> [] \<longrightarrow>
      (\<exists>m \<in> set (mint_logs (db second_day)). m_ParticipantID m = Some (p_ID p) \<and> m_MintDate m = 20678)"
    by (auto simp: second_day_def minted_world_def rich_parent_def parent_def minted_row_def)
  from rerun_sends_nothing [OF run e this] run show ?thesis
    by (auto simp: second_day_def minted_world_def)
qed

end
