(* ===== verification/Demo_Wallet.thy ===== *)
theory Demo_Wallet
  imports Demo_Service "HOL-Library.Multiset"
begin

text \<open>
  The attribution of a wallet: the loop over the rows with its map of groups computes the groups
  of the rows, in the order in which their keys first occur.
\<close>

section \<open>First occurrences and groups\<close>

definition firsts :: "'a list \<Rightarrow> 'a list" where
  "firsts xs = rev (remdups (rev xs))"

lemma firsts_snoc [simp]: "firsts [] = []" "firsts (xs @ [x]) = (if x \<in> set xs then firsts xs else firsts xs @ [x])"
  by (simp_all add: firsts_def)

lemma firsts_props [simp]: "distinct (firsts xs)" "set (firsts xs) = set xs"
  by (simp_all add: firsts_def)

definition rows_at :: "string \<Rightarrow> attribution_row list \<Rightarrow> attribution_row list" where
  "rows_at key rows = filter (\<lambda>r. row_key r = key) rows"

definition group_of :: "attribution_row list \<Rightarrow> string \<Rightarrow> WalletAttribution" where
  "group_of rows key = (let rs = rows_at key rows in
     \<lparr>wa_Section = row_section (hd rs), wa_Participant = ar_Name (hd rs), wa_MintDate = ar_MintDate (hd rs),
      wa_RideIDs = map ar_RideID rs\<rparr>)"

definition groups_of :: "attribution_row list \<Rightarrow> string \<rightharpoonup> WalletAttribution" where
  "groups_of rows = (\<lambda>key. if key \<in> row_key ` set rows then Some (group_of rows key) else None)"

lemma rows_at_snoc [simp]: "rows_at key (rows @ [r]) = rows_at key rows @ (if row_key r = key then [r] else [])"
  by (simp add: rows_at_def)

lemma rows_at_none: "key \<notin> row_key ` set rows \<Longrightarrow> rows_at key rows = []"
  by (force simp: rows_at_def filter_empty_conv)

lemma rows_at_some: "key \<in> row_key ` set rows \<Longrightarrow> rows_at key rows \<noteq> []"
  by (force simp: rows_at_def filter_empty_conv)

text \<open>One turn of the loop.\<close>

lemma groups_of_snoc:
  "groups_of (rows @ [r]) = (groups_of rows)(row_key r \<mapsto>
     (case groups_of rows (row_key r) of
        Some a \<Rightarrow> a\<lparr>wa_RideIDs := wa_RideIDs a @ [ar_RideID r]\<rparr>
      | None \<Rightarrow> \<lparr>wa_Section = row_section r, wa_Participant = ar_Name r, wa_MintDate = ar_MintDate r,
          wa_RideIDs = [ar_RideID r]\<rparr>))"
  by (rule ext) (auto simp: groups_of_def group_of_def Let_def rows_at_none rows_at_some hd_append2)

lemma group_rows_groups:
  "group_rows rs (groups_of rows) (firsts (map row_key rows)) h =
     (groups_of (rows @ rs), firsts (map row_key (rows @ rs)),
      h \<or> list_ex (\<lambda>r. ar_State r = ParticipantWalletCustodial) rs)"
proof (induction rs arbitrary: rows h)
  case (Cons r rs)
  have "groups_of rows (row_key r) = None \<longleftrightarrow> row_key r \<notin> set (map row_key rows)"
    by (simp add: groups_of_def)
  then have "group_rows (r # rs) (groups_of rows) (firsts (map row_key rows)) h =
      group_rows rs (groups_of (rows @ [r])) (firsts (map row_key (rows @ [r]))) (h \<or> ar_State r = ParticipantWalletCustodial)"
    by (cases "groups_of rows (row_key r)") (simp_all add: groups_of_snoc Let_def)
  then show ?case by (simp only: Cons.IH) simp
qed simp

lemma mset_rows_at:
  "distinct keys \<Longrightarrow> mset (concat (map (\<lambda>key. rows_at key rows) keys)) = mset (filter (\<lambda>r. row_key r \<in> set keys) rows)"
proof (induction keys)
  case (Cons key keys)
  have "mset (rows_at key rows) + mset (filter (\<lambda>r. row_key r \<in> set keys) rows) =
      mset (filter (\<lambda>r. row_key r \<in> set (key # keys)) rows)"
    using Cons.prems unfolding rows_at_def by (induction rows) auto
  with Cons show ?case by simp
qed simp

text \<open>
  C34: the loop that groups the rows of a wallet (a map of groups updated row by row, and the order
  in which its keys appeared) computes the reference: one group per key, in the order of their
  first rows, with the rides of exactly its rows in their order. No row is lost or counted twice.
\<close>

theorem attribution_groups:
  "attribution_list rows =
     (map (group_of rows) (firsts (map row_key rows)),
      list_ex (\<lambda>r. ar_State r = ParticipantWalletCustodial) rows) \<and>
   mset (concat (map wa_RideIDs (fst (attribution_list rows)))) = mset (map ar_RideID rows)"
proof -
  have a: "attribution_list rows = (map (\<lambda>key. the (groups_of rows key)) (firsts (map row_key rows)),
      list_ex (\<lambda>r. ar_State r = ParticipantWalletCustodial) rows)"
    using group_rows_groups [of rows "[]" False] by (simp add: attribution_list_def groups_of_def)
  have groups: "map (\<lambda>key. the (groups_of rows key)) (firsts (map row_key rows)) = map (group_of rows) (firsts (map row_key rows))"
    by (rule map_cong) (auto simp: groups_of_def)
  have rides: "concat (map wa_RideIDs (map (group_of rows) keys)) =
      map ar_RideID (concat (map (\<lambda>key. rows_at key rows) keys))" for keys
    by (induction keys) (simp_all add: group_of_def Let_def)
  have "mset (map ar_RideID (concat (map (\<lambda>key. rows_at key rows) (firsts (map row_key rows))))) =
      mset (map ar_RideID rows)"
    using mset_rows_at [of "firsts (map row_key rows)" rows] unfolding mset_map
    by (simp add: filter_id_conv [THEN iffD2])
  then show ?thesis unfolding a fst_conv groups rides by simp
qed

end
