(* ===== verification/Consumer_Run.thy ===== *)
theory Consumer_Run
  imports Scan_Pipeline Health "HOL-Library.Multiset"
begin

text \<open>
  The consumer as it runs: \<^verbatim>\<open>Run\<close> of \<^verbatim>\<open>internal/kafka/consumer.go\<close> (one
  loop that fetches, a pool of workers that process) and \<^verbatim>\<open>cmd/consumer/main.go\<close>,
  which puts the drain of the outbox beside it. The work on one message is one step; which worker
  finishes when is open, so messages are processed in any order the pool allows.
\<close>

section \<open>Run\<close>

text \<open>
  The channel \<^verbatim>\<open>msgCh\<close>, what each worker has in hand, and the log: the messages
  fetched, those processed, and those reported as uncommitted.
\<close>

record consuming =
  cn_next :: nat
  cn_queue :: "kmessage list"
  cn_closed :: bool
  cn_hand :: "nat \<Rightarrow> kmessage option"
  cn_returned :: "nat \<Rightarrow> bool"
  cn_fetched :: "kmessage list"
  cn_processed :: "kmessage list"
  cn_uncommitted :: "kmessage list"
  cn_world :: world

definition start_consuming :: "nat \<Rightarrow> world \<Rightarrow> consuming" where
  "start_consuming position w = \<lparr>cn_next = position, cn_queue = [], cn_closed = False, cn_hand = (\<lambda>_. None),
     cn_returned = (\<lambda>_. False), cn_fetched = [], cn_processed = [], cn_uncommitted = [], cn_world = w\<rparr>"

text \<open>A worker processes the message it has; an error is logged and the next one is taken.\<close>

definition finish :: "consumer \<Rightarrow> nat \<Rightarrow> kmessage \<Rightarrow> consuming \<Rightarrow> consuming" where
  "finish c i m st = (case run_state (processAndCommit c m) (cn_world st) of (r, w) \<Rightarrow>
     st\<lparr>cn_world := w, cn_hand := (cn_hand st)(i := None), cn_processed := cn_processed st @ [m],
       cn_uncommitted := cn_uncommitted st @ (case r of Inl _ \<Rightarrow> [m] | Inr _ \<Rightarrow> [])\<rparr>)"

text \<open>A failed fetch is retried after a second; other writers append to the topic meanwhile.\<close>

inductive run_step :: "consumer \<Rightarrow> nat \<Rightarrow> ScanHandler \<Rightarrow> consuming \<Rightarrow> consuming \<Rightarrow> bool" for c n h where
  fetch: "\<not> cn_closed st \<Longrightarrow> length (cn_queue st) < 2 * n \<Longrightarrow> cn_next st < length (ride_scans (cn_world st)) \<Longrightarrow>
    m = ride_scans (cn_world st) ! cn_next st \<Longrightarrow>
    run_step c n h st (st\<lparr>cn_next := cn_next st + 1, cn_queue := cn_queue st @ [m], cn_fetched := cn_fetched st @ [m]\<rparr>)"
| fetch_failed: "\<not> cn_closed st \<Longrightarrow> run_step c n h st (st\<lparr>cn_world := elapse 1000 (cn_world st)\<rparr>)"
| cancel: "run_step c n h st (st\<lparr>cn_closed := True\<rparr>)"
| receive: "i < n \<Longrightarrow> \<not> cn_returned st i \<Longrightarrow> cn_hand st i = None \<Longrightarrow> cn_queue st = m # q \<Longrightarrow>
    run_step c n h st (st\<lparr>cn_queue := q, cn_hand := (cn_hand st)(i := Some m)\<rparr>)"
| process: "i < n \<Longrightarrow> cn_hand st i = Some m \<Longrightarrow> run_step c n h st (finish c i m st)"
| leave: "i < n \<Longrightarrow> cn_hand st i = None \<Longrightarrow> cn_queue st = [] \<Longrightarrow> cn_closed st \<Longrightarrow>
    run_step c n h st (st\<lparr>cn_returned := (cn_returned st)(i := True)\<rparr>)"
| drain: "run_step c n h st (st\<lparr>cn_world := snd (run_state (DrainOutbox h repo_outbox 100) (cn_world st))\<rparr>)"
| arrive: "run_step c n h st (st\<lparr>cn_world := append_topic RideScans m (cn_world st)\<rparr>)"

definition returned :: "nat \<Rightarrow> consuming \<Rightarrow> bool" where
  "returned n st \<longleftrightarrow> cn_closed st \<and> list_all (cn_returned st) [0..<n]"

section \<open>Every message fetched is processed once\<close>

definition in_hand :: "nat \<Rightarrow> (nat \<Rightarrow> kmessage option) \<Rightarrow> kmessage multiset" where
  "in_hand n f = (\<Sum>i<n. case f i of None \<Rightarrow> {#} | Some m \<Rightarrow> {#m#})"

lemma in_hand_upd:
  assumes "i < n"
  shows "in_hand n (f(i := x)) + (case f i of None \<Rightarrow> {#} | Some m \<Rightarrow> {#m#}) =
    in_hand n f + (case x of None \<Rightarrow> {#} | Some m \<Rightarrow> {#m#})"
proof -
  have "in_hand n g = (case g i of None \<Rightarrow> {#} | Some m \<Rightarrow> {#m#}) +
      (\<Sum>k \<in> {..<n} - {i}. case g k of None \<Rightarrow> {#} | Some m \<Rightarrow> {#m#})" for g :: "nat \<Rightarrow> kmessage option"
    unfolding in_hand_def using assms by (intro sum.remove) auto
  then show ?thesis by simp
qed

lemma in_hand_member:
  assumes "i < n" and "f i = Some m"
  shows "m \<in># in_hand n f"
proof -
  have "in_hand n f = in_hand n (f(i := None)) + {#m#}" using in_hand_upd [OF assms(1), of f None] assms(2) by simp
  then show ?thesis by simp
qed

definition conserved :: "nat \<Rightarrow> consuming \<Rightarrow> bool" where
  "conserved n st \<longleftrightarrow>
     mset (cn_fetched st) = mset (cn_queue st) + in_hand n (cn_hand st) + mset (cn_processed st) \<and>
     (\<forall>i<n. cn_returned st i \<longrightarrow> cn_hand st i = None \<and> cn_queue st = [] \<and> cn_closed st)"

lemma conserved_start: "conserved n (start_consuming position w)"
  by (simp add: conserved_def start_consuming_def in_hand_def)

lemma conserved_step: "run_step c n h st st' \<Longrightarrow> conserved n st \<Longrightarrow> conserved n st'"
proof (induction rule: run_step.induct)
  case (receive i st m q)
  then show ?case using in_hand_upd [of i n "cn_hand st" "Some m"]
    by (auto simp: conserved_def)
next
  case (process i st m)
  then show ?case using in_hand_upd [of i n "cn_hand st" None]
    by (auto simp: conserved_def finish_def split: prod.split)
qed (auto simp: conserved_def)

lemma conserved_reachable:
  "(run_step c n h)\<^sup>*\<^sup>* (start_consuming position w) st \<Longrightarrow> conserved n st"
  by (induction rule: rtranclp_induct) (auto intro: conserved_start conserved_step)

lemma returned_processed:
  assumes "conserved n st" and "returned n st" and "0 < n"
  shows "mset (cn_processed st) = mset (cn_fetched st)"
proof -
  have r: "\<forall>i<n. cn_returned st i" using assms(2) by (auto simp: returned_def list_all_iff)
  with assms(1,3) have "cn_queue st = []" "\<forall>i<n. cn_hand st i = None" unfolding conserved_def by blast+
  then have "in_hand n (cn_hand st) = {#}" by (simp add: in_hand_def)
  with assms(1) \<open>cn_queue st = []\<close> show ?thesis by (simp add: conserved_def)
qed

lemma finish_sel [simp]:
  "cn_queue (finish c i m st) = cn_queue st" "cn_closed (finish c i m st) = cn_closed st"
  "cn_hand (finish c i m st) = (cn_hand st)(i := None)" "cn_returned (finish c i m st) = cn_returned st"
  "cn_fetched (finish c i m st) = cn_fetched st" "cn_processed (finish c i m st) = cn_processed st @ [m]"
  by (simp_all add: finish_def split: prod.split)

section \<open>Run can always end\<close>

lemma conserved_steps: "(run_step c n h)\<^sup>*\<^sup>* st st' \<Longrightarrow> conserved n st \<Longrightarrow> conserved n st'"
  by (induction rule: rtranclp_induct) (auto intro: conserved_step)

text \<open>The workers below \<open>k\<close> finish what they have in hand.\<close>

lemma hands_emptied:
  "k \<le> n \<Longrightarrow> \<exists>st'. (run_step c n h)\<^sup>*\<^sup>* st st' \<and> (\<forall>i<k. cn_hand st' i = None) \<and>
     cn_queue st' = cn_queue st \<and> cn_closed st' = cn_closed st \<and> cn_returned st' = cn_returned st"
proof (induction k)
  case (Suc k)
  then obtain st1 where 1: "(run_step c n h)\<^sup>*\<^sup>* st st1" "\<forall>i<k. cn_hand st1 i = None"
    "cn_queue st1 = cn_queue st" "cn_closed st1 = cn_closed st" "cn_returned st1 = cn_returned st" by auto
  show ?case
  proof (cases "cn_hand st1 k")
    case None
    with 1 show ?thesis by (intro exI [of _ st1]) (auto simp: less_Suc_eq)
  next
    case (Some m)
    have "run_step c n h st1 (finish c k m st1)" using Suc.prems Some by (intro run_step.process) auto
    with 1 show ?thesis
      by (intro exI [of _ "finish c k m st1"]) (auto simp: less_Suc_eq intro: rtranclp.rtrancl_into_rtrancl)
  qed
qed auto

text \<open>The first worker takes what the channel holds.\<close>

lemma queue_emptied:
  assumes "conserved n st" and "0 < n" and "\<forall>i<n. cn_hand st i = None"
  shows "\<exists>st'. (run_step c n h)\<^sup>*\<^sup>* st st' \<and> (\<forall>i<n. cn_hand st' i = None) \<and> cn_queue st' = [] \<and>
    cn_closed st' = cn_closed st"
  using assms
proof (induction "cn_queue st" arbitrary: st)
  case (Cons m q)
  let ?s1 = "st\<lparr>cn_queue := q, cn_hand := (cn_hand st)(0 := Some m)\<rparr>" and ?s2 = "\<lambda>s. finish c 0 m s"
  have "\<not> cn_returned st 0" using Cons.prems(1,2) Cons.hyps(2) by (auto simp: conserved_def)
  then have 1: "run_step c n h st ?s1"
    using Cons.prems(2,3) Cons.hyps(2) [symmetric] by (intro run_step.receive) auto
  have 2: "run_step c n h ?s1 (?s2 ?s1)" using Cons.prems(2) by (intro run_step.process) simp_all
  have "conserved n (?s2 ?s1)" using conserved_step [OF 2 conserved_step [OF 1 Cons.prems(1)]] .
  moreover have "q = cn_queue (?s2 ?s1)" "\<forall>i<n. cn_hand (?s2 ?s1) i = None" using Cons.prems(3) by auto
  ultimately obtain st' where "(run_step c n h)\<^sup>*\<^sup>* (?s2 ?s1) st'" "\<forall>i<n. cn_hand st' i = None" "cn_queue st' = []"
    "cn_closed st' = cn_closed (?s2 ?s1)" using Cons.hyps(1) [OF _ _ Cons.prems(2)] by blast
  moreover have "(run_step c n h)\<^sup>*\<^sup>* st (?s2 ?s1)" by (rule rtranclp.rtrancl_into_rtrancl [OF r_into_rtranclp [of "run_step c n h"]]) (rule 1, rule 2)
  ultimately show ?case by (intro exI [of _ st']) (auto intro: rtranclp_trans)
qed auto

lemma all_leave:
  assumes "cn_closed st" and "cn_queue st = []" and "\<forall>i<n. cn_hand st i = None"
  shows "k \<le> n \<Longrightarrow> \<exists>st'. (run_step c n h)\<^sup>*\<^sup>* st st' \<and> (\<forall>i<k. cn_returned st' i) \<and>
    cn_closed st' \<and> cn_queue st' = [] \<and> cn_hand st' = cn_hand st"
proof (induction k)
  case (Suc k)
  then obtain st1 where 1: "(run_step c n h)\<^sup>*\<^sup>* st st1" "\<forall>i<k. cn_returned st1 i" "cn_closed st1"
    "cn_queue st1 = []" "cn_hand st1 = cn_hand st" by auto
  let ?s = "st1\<lparr>cn_returned := (cn_returned st1)(k := True)\<rparr>"
  have "run_step c n h st1 ?s" using 1 Suc.prems assms(3) by (intro run_step.leave) auto
  with 1 show ?case
    by (intro exI [of _ ?s]) (auto simp: less_Suc_eq intro: rtranclp.rtrancl_into_rtrancl)
qed (use assms in auto)

lemma run_can_end:
  assumes "conserved n st" and "0 < n"
  shows "\<exists>st'. (run_step c n h)\<^sup>*\<^sup>* st st' \<and> returned n st'"
proof -
  let ?s1 = "st\<lparr>cn_closed := True\<rparr>"
  have 1: "(run_step c n h)\<^sup>*\<^sup>* st ?s1" by (intro r_into_rtranclp run_step.cancel)
  obtain s2 where 2: "(run_step c n h)\<^sup>*\<^sup>* ?s1 s2" "\<forall>i<n. cn_hand s2 i = None" "cn_closed s2"
    using hands_emptied [of n n c h ?s1] by auto
  have "conserved n s2" using conserved_steps [OF 2(1) conserved_steps [OF 1 assms(1)]] .
  from queue_emptied [OF this assms(2) 2(2)] 2(3)
  obtain s3 where 3: "(run_step c n h)\<^sup>*\<^sup>* s2 s3" "\<forall>i<n. cn_hand s3 i = None" "cn_queue s3 = []" "cn_closed s3"
    by blast
  from all_leave [OF 3(4,3,2), of n c h]
  obtain s4 where 4: "(run_step c n h)\<^sup>*\<^sup>* s3 s4" "\<forall>i<n. cn_returned s4 i" "cn_closed s4" by auto
  have "(run_step c n h)\<^sup>*\<^sup>* st s4" using 1 2(1) 3(1) 4(1) by (meson rtranclp_trans)
  moreover have "returned n s4" using 4 by (simp add: returned_def list_all_iff)
  ultimately show ?thesis by blast
qed

section \<open>What the steps keep\<close>

lemma keeps_DrainOutbox:
  assumes "stable I" and "\<And>w rows. I w \<Longrightarrow> I (w\<lparr>db := (db w)\<lparr>outbox := rows\<rparr>\<rparr>)"
    and "\<And>u ride date. keeps I (sr_AddRideToUserSet (h_redis h) u ride date)"
  shows "keeps I (DrainOutbox h repo_outbox batch)"
proof -
  have l: "keeps I (ListPendingOutbox k)" for k
    unfolding ListPendingOutbox_def by (intro keeps_intros keeps_sql assms(1)) (auto simp: q_list_outbox_def)
  have b: "keeps I (BumpOutboxAttempts t)" for t
    unfolding BumpOutboxAttempts_def by (intro keeps_intros keeps_sql assms(1)) (auto simp: q_bump_outbox_def intro: assms(2) split: if_splits)
  have x: "keeps I (DeleteOutbox t)" for t
    unfolding DeleteOutbox_def by (intro keeps_intros keeps_sql assms(1)) (auto simp: q_delete_outbox_def intro: assms(2))
  have "keeps I (drain_rows h repo_outbox rows k)" for rows k
    by (induction rows arbitrary: k)
      (auto simp: repo_outbox_def Let_def intro!: keeps_intros assms(3) b x)
  then show ?thesis unfolding DrainOutbox_def by (auto simp: repo_outbox_def intro!: keeps_intros l)
qed


lemma keeps_serving_drain: "keeps serving (DrainOutbox (production_handler rcfg) repo_outbox batch)"
proof -
  have u: "keeps all_up (DrainOutbox (production_handler rcfg) repo_outbox batch)"
    using redis_scan.redis_frame [OF stable_all_up]
    by (intro keeps_DrainOutbox stable_all_up) (auto simp: all_up_def)
  have m: "keeps (markers_ok_but t) (DrainOutbox (production_handler rcfg) repo_outbox batch)" for t
    by (intro keeps_DrainOutbox timeless_stable [OF timeless_markers(2)])
      (auto simp: keeps_add_markers markers_ok_but_def marked_def has_row_def)
  have "markers_ok w \<longleftrightarrow> markers_ok_but [] w \<and> markers_ok_but ''x'' w" for w
    unfolding markers_ok_def markers_ok_but_def by (metis list.distinct(1))
  then show ?thesis using u m unfolding serving_def keeps_def by blast
qed

lemma keeps_topics_drain:
  "keeps (\<lambda>v. dlq v = q \<and> commits v = cs \<and> scan_events (db v) = rows)
     (DrainOutbox (production_handler rcfg) repo_outbox batch)"
proof -
  have st: "stable (\<lambda>v. dlq v = q \<and> commits v = cs \<and> scan_events (db v) = rows)"
    by (rule timeless_stable) (simp add: timeless_def)
  show ?thesis using redis_scan.redis_frame [OF st] by (intro keeps_DrainOutbox st) auto
qed

text \<open>
  What the end-to-end argument carries along: \<open>w0\<close> is the world at the start, \<open>ms\<close> are the
  messages processed.
\<close>

definition safe :: "world \<Rightarrow> kmessage set \<Rightarrow> world \<Rightarrow> bool" where
  "safe w0 ms w \<longleftrightarrow> serving w \<and> set (commits w0) \<union> ms \<subseteq> set (commits w) \<and>
     (\<forall>m \<in> ms \<union> (set (commits w) - set (commits w0)). finalised (\<lambda>ev. has_row (ev_TraceID ev)) m w)"

lemma safe_good: "safe w0 ms w \<longleftrightarrow>
    production.good (set (commits w0)) ms w \<and> set (commits w0) \<union> ms \<subseteq> set (commits w)"
  by (auto simp: safe_def production.good_def)

lemma safe_drain:
  assumes "safe w0 ms w" and "run_state (DrainOutbox (production_handler rcfg) repo_outbox batch) w = (r, w')"
  shows "safe w0 ms w'"
proof -
  have "dlq w' = dlq w \<and> commits w' = commits w \<and> scan_events (db w') = scan_events (db w)"
    by (rule keepsD [OF keeps_topics_drain _ assms(2)]) simp
  then show ?thesis
    using assms(1) keepsD [OF keeps_serving_drain _ assms(2)]
    by (auto simp: safe_def finalised_def dead_lettered_def has_row_def)
qed

lemma safe_process:
  assumes "safe w0 ms w" and "cs_handler c = Handle (production_handler rcfg)"
    and "run_state (processAndCommit c m) w = (r, w')"
  shows "safe w0 (insert m ms) w' \<and> r = Inr ()"
proof -
  have up: "keeps all_up (cs_handler c ev)" for ev
    unfolding assms(2) by (rule keeps_Handle [OF scan_invariant_all_up])
  from assms(1) have "all_up w" by (simp add: safe_def serving_def)
  with process_up [OF up _ assms(3)] have r: "r = Inr ()" .
  have "c\<lparr>cs_handler := Handle (production_handler rcfg)\<rparr> = c" by (simp flip: assms(2))
  then have k: "keeps (\<lambda>v. set (commits w) \<subseteq> set (commits v)) (processAndCommit c m)"
    using keeps_commits [where cs = "set (commits w)" and rcfg = rcfg and c = c and msg = m] by simp
  have "set (commits w) \<subseteq> set (commits w')" by (rule keepsD [OF k _ assms(3)]) simp
  with production.process_good [OF assms(2) _ assms(3), of "set (commits w0)" ms] assms(1) r
  show ?thesis by (auto simp: safe_good production.good_def)
qed

definition run_safe :: "world \<Rightarrow> consuming \<Rightarrow> bool" where
  "run_safe w0 st \<longleftrightarrow> safe w0 (set (cn_processed st)) (cn_world st) \<and> cn_uncommitted st = []"

lemma run_safe_step:
  assumes "run_step c n (production_handler rcfg) st st'" and "cs_handler c = Handle (production_handler rcfg)"
    and "run_safe w0 st"
  shows "run_safe w0 st'"
  using assms
proof (induction rule: run_step.induct)
  case (fetch_failed st)
  then show ?case using production.good_wait [of "set (commits w0)" "set (cn_processed st)" "cn_world st" 1000]
    by (auto simp: run_safe_def safe_good)
next
  case (process i st m)
  obtain r w' where p: "run_state (processAndCommit c m) (cn_world st) = (r, w')" by fastforce
  from process.prems(2) safe_process [OF _ process.prems(1) p, of w0 "set (cn_processed st)"] show ?case
    by (auto simp: run_safe_def finish_def p)
next
  case (drain st)
  obtain r w' where d: "run_state (DrainOutbox (production_handler rcfg) repo_outbox 100) (cn_world st) = (r, w')"
    by fastforce
  from drain.prems(2) safe_drain [OF _ d, of w0 "set (cn_processed st)"] show ?case by (auto simp: run_safe_def d)
next
  case (arrive st m)
  then show ?case
    by (auto simp: run_safe_def safe_def serving_def all_up_def markers_ok_def marked_def has_row_def
        finalised_def dead_lettered_def append_topic_def)
qed (auto simp: run_safe_def)

lemma run_safe_reachable:
  assumes "all_up w"
    and "\<forall>t. redis w (dedupKey t) \<noteq> None \<longrightarrow> (\<exists>s \<in> set (scan_events (db w)). s_TraceID s = t)"
    and "cs_handler c = Handle (production_handler rcfg)"
    and "(run_step c n (production_handler rcfg))\<^sup>*\<^sup>* (start_consuming position w) st"
  shows "run_safe w st"
  using assms(4)
proof (induction rule: rtranclp_induct)
  case base
  have "serving w" using assms(1,2) unfolding serving_def markers_ok_def marked_def has_row_def by blast
  then show ?case by (simp add: run_safe_def start_consuming_def safe_def)
next
  case (step st1 st2)
  then show ?case using run_safe_step [OF step.hyps(2) assms(3)] by blast
qed


section \<open>The process\<close>

text \<open>\<^verbatim>\<open>cmd/consumer\<close>: ten workers on the production handler, ready with its services.\<close>

definition Consumer_Ping :: "KafkaConfig \<Rightarrow> Checker" where
  "Consumer_Ping cfg = Kafka_Ping (BrokerList cfg)"

definition consumer_checker :: "KafkaConfig \<Rightarrow> (world, HealthChecker) state" where
  "consumer_checker cfg = do {
     h \<leftarrow> NewHealthChecker ''consumer'';
     State_Monad.return (AddCheck (Consumer_Ping cfg) (AddCheck Postgres_Ping (AddCheck Redis_Ping h)))
   }"

definition consumer_routes :: "HealthChecker \<Rightarrow> (string \<times> handler) list" where
  "consumer_routes checker = [(''/healthz'', HealthzHandler checker), (''/readyz'', ReadyzHandler checker)]"

section \<open>A run of one message\<close>

definition arrived :: "kmessage list \<Rightarrow> world \<Rightarrow> world" where
  "arrived ms w = fold (append_topic RideScans) ms w"

lemma reach_arrived:
  "(run_step c n h)\<^sup>*\<^sup>* st (st\<lparr>cn_world := arrived ms (cn_world st)\<rparr>)"
proof (induction ms arbitrary: st)
  case (Cons m ms)
  have "run_step c n h st (st\<lparr>cn_world := append_topic RideScans m (cn_world st)\<rparr>)" by (rule run_step.arrive)
  from converse_rtranclp_into_rtranclp [OF this Cons.IH] show ?case by (simp add: arrived_def)
qed (simp add: arrived_def)

lemma waiting_message_run:
  assumes "ride_scans w = [m]"
  shows "\<exists>st. (run_step c 1 h)\<^sup>*\<^sup>* (start_consuming 0 w) st \<and> returned 1 st \<and>
    cn_fetched st = [m] \<and> cn_processed st = [m] \<and> cn_world st = snd (run_state (processAndCommit c m) w)"
proof -
  let ?s1 = "start_consuming 0 w"
  let ?s2 = "?s1\<lparr>cn_next := 1, cn_queue := [m], cn_fetched := [m]\<rparr>"
  let ?s3 = "?s2\<lparr>cn_closed := True\<rparr>"
  let ?s4 = "?s3\<lparr>cn_queue := [], cn_hand := (\<lambda>_. None)(0 := Some m)\<rparr>"
  let ?s5 = "finish c 0 m ?s4"
  let ?s6 = "?s5\<lparr>cn_returned := (cn_returned ?s5)(0 := True)\<rparr>"
  have 1: "run_step c 1 h ?s1 ?s2"
    using run_step.fetch [OF _ _ _ refl, of ?s1 1 c h] assms by (simp add: start_consuming_def)
  have 2: "run_step c 1 h ?s2 ?s3" by (rule run_step.cancel)
  have 3: "run_step c 1 h ?s3 ?s4"
    using run_step.receive [of 0 1 ?s3 m "[]" c h] by (simp add: start_consuming_def)
  have 4: "run_step c 1 h ?s4 ?s5" by (rule run_step.process) simp_all
  have 5: "run_step c 1 h ?s5 ?s6" by (rule run_step.leave) simp_all
  note step = rtranclp.rtrancl_into_rtrancl [of "run_step c 1 h"]
  have "(run_step c 1 h)\<^sup>*\<^sup>* ?s1 ?s6"
    by (rule step [OF step [OF step [OF step [OF r_into_rtranclp [of "run_step c 1 h", OF 1] 2] 3] 4] 5])
  moreover have "returned 1 ?s6" "cn_fetched ?s6 = [m]" "cn_processed ?s6 = [m]"
    by (simp_all add: returned_def start_consuming_def)
  moreover have "cn_world ?s6 = snd (run_state (processAndCommit c m) w)"
    by (simp add: finish_def start_consuming_def split: prod.split)
  ultimately show ?thesis by blast
qed

lemma one_message_run:
  assumes "ride_scans w = []"
  shows "\<exists>st. (run_step c 1 h)\<^sup>*\<^sup>* (start_consuming 0 w) st \<and> returned 1 st \<and>
    cn_fetched st = [m\<lparr>k_Offset := 0\<rparr>] \<and> cn_processed st = [m\<lparr>k_Offset := 0\<rparr>] \<and>
    cn_world st = snd (run_state (processAndCommit c (m\<lparr>k_Offset := 0\<rparr>)) (arrived [m] w))"
proof -
  have "ride_scans (arrived [m] w) = [m\<lparr>k_Offset := 0\<rparr>]" using assms by (simp add: arrived_def append_topic_def)
  moreover have "(run_step c 1 h)\<^sup>*\<^sup>* (start_consuming 0 w) (start_consuming 0 (arrived [m] w))"
    using reach_arrived [of c 1 h "start_consuming 0 w" "[m]"] by (simp add: start_consuming_def)
  ultimately show ?thesis using waiting_message_run by (meson rtranclp_trans)
qed


section \<open>A commit passes a message in hand\<close>

text \<open>
  A commit moves the position of the group behind the message it names. With two workers the second
  of two messages can be committed while the first is still in hand: nothing has failed, and the
  group is already past a scan that has no row and is in no dead-letter topic. If the process ends
  here, the scan is not fetched again.
\<close>

theorem commit_passes_message_in_hand:
  "\<exists>st. (run_step production_consumer 2 (production_handler default_RedisConfig))\<^sup>*\<^sup>*
      (start_consuming 0 (start_world plain_environment 1000 [])) st \<and>
     cn_hand st 0 = Some ride_message \<and> parseMessage ride_message = Inr ride_event \<and>
     k_Offset ride_message < k_Offset poison_message \<and> poison_message \<in> set (commits (cn_world st)) \<and>
     scan_events (db (cn_world st)) = [] \<and> cn_uncommitted st = []"
proof -
  let ?c = production_consumer and ?h = "production_handler default_RedisConfig"
  let ?w = "start_world plain_environment 1000 []"
  let ?a = "arrived [ride_message, poison_message] ?w"
  let ?s0 = "start_consuming 0 ?w"
  let ?s1 = "?s0\<lparr>cn_world := ?a\<rparr>"
  let ?s2 = "?s1\<lparr>cn_next := 1, cn_queue := [ride_message], cn_fetched := [ride_message]\<rparr>"
  let ?s3 = "?s2\<lparr>cn_queue := [], cn_hand := (\<lambda>_. None)(0 := Some ride_message)\<rparr>"
  let ?s4 = "?s3\<lparr>cn_next := 2, cn_queue := [poison_message], cn_fetched := [ride_message, poison_message]\<rparr>"
  let ?s5 = "?s4\<lparr>cn_queue := [], cn_hand := (\<lambda>_. None)(0 := Some ride_message, 1 := Some poison_message)\<rparr>"
  let ?s6 = "finish ?c 1 poison_message ?s5"
  have topic: "ride_scans ?a = [ride_message, poison_message]"
    by (simp add: arrived_def append_topic_def start_world_def ride_message_def buildMessage_def poison_message_def)
  have sel: "scan_events (db ?a) = []" "serving ?a" "commits ?a = []"
    by (simp_all add: arrived_def serving_def all_up_def markers_ok_def marked_def start_world_def empty_database_def)
  have 0: "(run_step ?c 2 ?h)\<^sup>*\<^sup>* ?s0 ?s1"
    using reach_arrived [of ?c 2 ?h ?s0 "[ride_message, poison_message]"] by (simp add: start_consuming_def)
  have 1: "run_step ?c 2 ?h ?s1 ?s2"
    using run_step.fetch [OF _ _ _ refl, of ?s1 2 ?c ?h] topic by (simp add: start_consuming_def)
  have 2: "run_step ?c 2 ?h ?s2 ?s3"
    using run_step.receive [of 0 2 ?s2 ride_message "[]" ?c ?h] by (simp add: start_consuming_def)
  have 3: "run_step ?c 2 ?h ?s3 ?s4"
    using run_step.fetch [OF _ _ _ refl, of ?s3 2 ?c ?h] topic by (simp add: start_consuming_def numeral_2_eq_2)
  have 4: "run_step ?c 2 ?h ?s4 ?s5"
    using run_step.receive [of 1 2 ?s4 poison_message "[]" ?c ?h] by (simp add: start_consuming_def)
  have 5: "run_step ?c 2 ?h ?s5 ?s6" by (rule run_step.process) simp_all
  note step = rtranclp.rtrancl_into_rtrancl [of "run_step ?c 2 ?h"]
  have reach: "(run_step ?c 2 ?h)\<^sup>*\<^sup>* ?s0 ?s6"
    by (rule step [OF step [OF step [OF step [OF step [OF 0 1] 2] 3] 4] 5])
  obtain r w' where p: "run_state (processAndCommit ?c poison_message) ?a = (r, w')" by fastforce
  have "safe ?a {} ?a" using sel by (simp add: safe_def)
  with safe_process [OF _ production_consumer_sel(1) p]
  have r: "r = Inr ()" "poison_message \<in> set (commits w')" by (blast, fastforce simp: safe_def)
  have "worker_invariant (\<lambda>v. scan_events (db v) = [])"
    unfolding worker_invariant_def by (auto intro!: timeless_stable simp: timeless_def)
  then have "keeps (\<lambda>v. scan_events (db v) = []) (processAndCommit ?c poison_message)"
    by (simp add: processAndCommit_def parse_poison keeps_intros keeps_writeDLQ keeps_commit)
  from keepsD [OF this sel(1) p] have "scan_events (db w') = []" .
  with reach r p parse_ride show ?thesis
    by (intro exI [of _ ?s6]) (auto simp: finish_def start_consuming_def ride_message_def buildMessage_def poison_message_def)
qed

end
