(* ===== verification/Ride_To_Mint.thy ===== *)
theory Ride_To_Mint
  imports Consumer_Run Demo_Rerun
begin

text \<open>
  From the topic to the end of the day: a scan that the consumer has processed is among the rides
  that the day's resolution gives to the participant of its account.
\<close>

section \<open>The rows the consumer adds\<close>

text \<open>
  The environment, the participants, the users and the vouchers as at the start; every row that was added is that
  of one of the events, attributed to the user with its e-mail.
\<close>

definition row_for :: "User list \<Rightarrow> ScanEvent \<Rightarrow> ScanRecord \<Rightarrow> bool" where
  "row_for us ev s \<longleftrightarrow> row_of s ev \<and> s_UserID s = map_option u_ID (find (\<lambda>u. u_Email u = ev_UserID ev) us)"

definition attributed :: "world \<Rightarrow> ScanEvent set \<Rightarrow> world \<Rightarrow> bool" where
  "attributed w0 evs w \<longleftrightarrow> env w = env w0 \<and> participants (db w) = participants (db w0) \<and>
     users (db w) = users (db w0) \<and> ticket_vouchers (db w) = ticket_vouchers (db w0) \<and>
     (\<forall>s \<in> set (scan_events (db w)). s \<in> set (scan_events (db w0)) \<or> 
        (\<exists>ev \<in> evs. row_for (users (db w0)) ev s))"

lemma attributed_start: "attributed w evs w"
  by (simp add: attributed_def)

lemma stable_attributed: "stable (attributed w0 evs)"
  by (rule timeless_stable) (simp add: timeless_def attributed_def)

lemma scan_invariant_attributed:
  assumes "ev \<in> evs"
  shows "scan_invariant ev (attributed w0 evs)"
  unfolding scan_invariant_def
proof (intro conjI allI impI stable_attributed)
  fix w r d
  assume w: "attributed w0 evs w" and q: "q_insert_scan ev (db w) = (r, d)"
  from q have d: "participants d = participants (db w)" "users d = users (db w)" "ticket_vouchers d = ticket_vouchers (db w)"
    and rows: "scan_events d = scan_events (db w) \<or> 
      (\<exists>s. scan_events d = scan_events (db w) @ [s] \<and> row_for (users (db w)) ev s)"
    by (auto simp: q_insert_scan_def row_of_def row_for_def split: if_splits)
  from rows w d assms show "attributed w0 evs (w\<lparr>db := d\<rparr>)" unfolding attributed_def by fastforce
qed (simp_all add: attributed_def)

lemma worker_attributed: "worker_invariant (attributed w0 evs)"
  unfolding worker_invariant_def by (simp add: stable_attributed) (simp add: attributed_def append_topic_def)

lemma keeps_attributed_drain: "keeps (attributed w0 evs) (DrainOutbox (production_handler rcfg) repo_outbox batch)"
  using redis_scan.redis_frame [OF stable_attributed, of w0 evs]
  by (intro keeps_DrainOutbox stable_attributed) (auto simp: attributed_def)

text \<open>Whatever is fetched carries an event of \<open>evs\<close>; then so does every row added.\<close>

lemma run_attributed:
  assumes "(run_step c n (production_handler rcfg))\<^sup>*\<^sup>* (start_consuming position w) st"
    and "cs_handler c = Handle (production_handler rcfg)"
    and "\<forall>m \<in> set (cn_fetched st). \<forall>ev. parseMessage m = Inr ev \<longrightarrow> ev \<in> evs"
  shows "attributed w evs (cn_world st)"
  using assms(1,3)
proof (induction rule: rtranclp_induct)
  case base
  show ?case by (simp add: start_consuming_def attributed_start)
next
  case (step st1 st2)
  from step.hyps(2) have "set (cn_fetched st1) \<subseteq> set (cn_fetched st2)" by cases auto
  with step have IH: "attributed w evs (cn_world st1)" by blast
  from step.hyps(2) show ?case
  proof cases
    case (process i m)
    have "conserved n st1" using conserved_reachable [OF step.hyps(1)] .
    with in_hand_member [of i n "cn_hand st1" m] process have "m \<in># mset (cn_fetched st1)" by (simp add: conserved_def)
    then have "\<forall>ev. parseMessage m = Inr ev \<longrightarrow> ev \<in> evs"
      using step.prems \<open>set (cn_fetched st1) \<subseteq> set (cn_fetched st2)\<close> by auto
    then have k: "keeps (attributed w evs) (processAndCommit c m)"
      by (intro keeps_process worker_attributed) (auto simp: assms(2) intro!: keeps_Handle scan_invariant_attributed)
    obtain r v where p: "run_state (processAndCommit c m) (cn_world st1) = (r, v)" by fastforce
    with keepsD [OF k IH p] process show ?thesis by (simp add: finish_def)
  next
    case drain
    obtain r v where d: "run_state (DrainOutbox (production_handler rcfg) repo_outbox 100) (cn_world st1) = (r, v)"
      by fastforce
    with keepsD [OF keeps_attributed_drain IH d] drain show ?thesis by simp
  qed (use IH in \<open>auto simp: attributed_def append_topic_def\<close>)
qed

section \<open>The rides of the day\<close>

text \<open>
  A new scan that a run of the consumer from \<open>w\<close> has processed and not put into the dead-letter
  topic, while the services answer (\<open>all_up\<close>); trace ids name one event each.
\<close>

definition processed_scan :: "world \<Rightarrow> RedisConfig \<Rightarrow> consumer \<Rightarrow> nat \<Rightarrow> nat \<Rightarrow> consuming \<Rightarrow> kmessage \<Rightarrow> ScanEvent \<Rightarrow> bool" where
  "processed_scan w rcfg c n position st m ev \<longleftrightarrow> all_up w \<and>
     (\<forall>t. redis w (dedupKey t) \<noteq> None \<longrightarrow> (\<exists>s \<in> set (scan_events (db w)). s_TraceID s = t)) \<and>
     cs_handler c = Handle (production_handler rcfg) \<and>
     (run_step c n (production_handler rcfg))\<^sup>*\<^sup>* (start_consuming position w) st \<and>
     m \<in> set (cn_processed st) \<and> parseMessage m = Inr ev \<and>
     k_Value m \<notin> set (written (dlq (cn_world st))) \<and>
     (\<forall>s \<in> set (scan_events (db w)). s_TraceID s \<noteq> ev_TraceID ev) \<and>
     (\<forall>m' \<in> set (cn_fetched st). \<forall>ev'. parseMessage m' = Inr ev' \<longrightarrow> ev_TraceID ev' = ev_TraceID ev \<longrightarrow> ev' = ev)"

text \<open>Whose ride it is: the participant with the account of the scan, or the one the ticket was given to.\<close>

definition rider_of :: "database \<Rightarrow> string \<Rightarrow> string \<Rightarrow> Participant \<Rightarrow> bool" where
  "rider_of d email ticket p \<longleftrightarrow> p \<in> set (participants d) \<and>
     (if p_AccountEmail p \<in> {None, Some []}
      then \<exists>v \<in> set (ticket_vouchers d). v_VoucherID v = ticket \<and> v_ParticipantID v = Some (p_ID p)
      else p_AccountEmail p = Some email \<and> (\<exists>u \<in> set (users d). u_Email u = email))"

lemma ride_of_row:
  assumes "s \<in> set (scan_events d)" and "row_for (users d) ev s" and "rider_of d (ev_UserID ev) (ev_TicketID ev) p"
    and "\<forall>rows. set (env_order e rows) = set rows"
  shows "ev_RideID ev \<in> set (map fst (rides_on e d (env_ts_date e (ev_Timestamp ev)) p))"
proof -
  let ?day = "env_ts_date e (ev_Timestamp ev)"
  have row: "row_of s ev" "s_UserID s = map_option u_ID (find (\<lambda>u. u_Email u = ev_UserID ev) (users d))"
    using assms(2) by (simp_all add: row_for_def)
  have "(s_RideID s, s_ScannedAt s) \<in> set (rides_on e d ?day p)"
  proof (cases "p_AccountEmail p \<in> {None, Some []}")
    case True
    with assms(3) row(1) have "scan_by_participant (p_ID p) e ?day d s"
      by (auto simp: rider_of_def scan_by_participant_def list_ex_iff row_of_def) metis+
    with assms(1,4) True show ?thesis
      by (auto simp: rides_on_def ordered_rides_def)
  next
    case False
    with assms(3) obtain v where v: "find (\<lambda>u. u_Email u = ev_UserID ev) (users d) = Some v"
      by (metis (mono_tags, lifting) find_None_iff2 not_Some_eq rider_of_def)
    then have "v \<in> set (users d)" "u_Email v = ev_UserID ev" by (auto simp: find_Some_iff)
    with v row have "scan_by_email (ev_UserID ev) e ?day d s"
      by (auto simp: scan_by_email_def list_ex_iff row_of_def)
    with assms(1,3,4) False show ?thesis
      by (auto simp: rides_on_def ordered_rides_def rider_of_def)
  qed
  then show ?thesis using row(1) by (force simp: row_of_def)
qed

lemma processed_ride:
  assumes "processed_scan w rcfg c n position st m ev" and "rider_of (db w) (ev_UserID ev) (ev_TicketID ev) p"
    and "\<forall>rows. set (env_order (env w) rows) = set rows"
  shows "ev_RideID ev \<in> set (map fst (rides_on (env w) (db (cn_world st)) (env_ts_date (env w) (ev_Timestamp ev)) p))"
    and "env (cn_world st) = env w" and "people (participants (db w)) (users (db w)) (db (cn_world st))"
proof -
  let ?w = "cn_world st" and ?T = "ev_TraceID ev"
  note scan = assms(1) [unfolded processed_scan_def]
  from scan have "run_safe w st" by (intro run_safe_reachable) auto
  with scan have "has_row ?T ?w"
    by (auto simp: run_safe_def safe_def finalised_def dead_lettered_def)
  then obtain s where s: "s \<in> set (scan_events (db ?w))" "s_TraceID s = ?T" by (auto simp: has_row_def)
  have at: "attributed w {ev'. ev_TraceID ev' = ?T \<longrightarrow> ev' = ev} ?w"
    by (rule run_attributed) (use scan in auto)
  have row: "row_for (users (db w)) ev s"
  proof -
    have "s \<notin> set (scan_events (db w))" using s(2) scan by blast
    with at s(1) obtain ev' where "ev_TraceID ev' = ?T \<longrightarrow> ev' = ev" "row_for (users (db w)) ev' s"
      unfolding attributed_def by blast
    moreover from this(2) s(2) have "ev_TraceID ev' = ?T" by (simp add: row_for_def row_of_def)
    ultimately show ?thesis by simp
  qed
  from at show env: "env ?w = env w" and "people (participants (db w)) (users (db w)) (db ?w)"
    by (simp_all add: attributed_def people_def)
  have "rider_of (db ?w) (ev_UserID ev) (ev_TicketID ev) p" using at assms(2) by (simp add: attributed_def rider_of_def)
  with ride_of_row [of s "db ?w" ev p "env w"] s(1) row at assms(3)
  show "ev_RideID ev \<in> set (map fst (rides_on (env w) (db ?w) (env_ts_date (env w) (ev_Timestamp ev)) p))"
    by (simp add: attributed_def)
qed

lemma resolved_ride:
  assumes "processed_scan w rcfg c n position st m ev" and "rider_of (db w) (ev_UserID ev) (ev_TicketID ev) p"
    and "\<forall>rows. set (env_order (env w) rows) = set rows"
    and "env_date_in (env w) date = Some (env_ts_date (env w) (ev_Timestamp ev))"
    and "run_state (ResolveDay production_resolver date) (cn_world st) = ((resolutions, None), w')"
  shows "\<exists>rides. ev_RideID ev \<in> set rides \<and> resolution date p rides (ResolveMintWallet p) \<in> set resolutions"
proof -
  let ?w = "cn_world st" and ?day = "env_ts_date (env w) (ev_Timestamp ev)"
  note ride = processed_ride [OF assms(1-3)]
  from ResolveDay_prefix [OF assms(5), of ?day] assms(4) ride(2)
  have "resolutions = map (day_resolution (env w) (db ?w) ?day date)
      (attending (env w) (db ?w) ?day (sort_key p_ID (participants (db ?w))))" by auto
  moreover have "p \<in> set (attending (env w) (db ?w) ?day (sort_key p_ID (participants (db ?w))))"
    using ride(1,3) assms(2) by (auto simp: attending_def rider_of_def people_def)
  ultimately show ?thesis using ride(1)
    by (intro exI [of _ "map fst (rides_on (env w) (db ?w) ?day p)"]) (auto simp: day_resolution_def)
qed

text \<open>
  A ride that was scanned is among those that the day gives the participant with the account of the
  scan: any pass over its day that reports no error, under every schedule.
\<close>

theorem scanned_ride_is_resolved:
  assumes "all_up w"
    and "\<forall>t. redis w (dedupKey t) \<noteq> None \<longrightarrow> (\<exists>s \<in> set (scan_events (db w)). s_TraceID s = t)"
    and "cs_handler c = Handle (production_handler rcfg)"
    and "(run_step c n (production_handler rcfg))\<^sup>*\<^sup>* (start_consuming position w) st"
    and "m \<in> set (cn_processed st)" and "parseMessage m = Inr ev"
    and "k_Value m \<notin> set (written (dlq (cn_world st)))"
    and "\<forall>s \<in> set (scan_events (db w)). s_TraceID s \<noteq> ev_TraceID ev"
    and "\<forall>m' \<in> set (cn_fetched st). \<forall>ev'. parseMessage m' = Inr ev' \<longrightarrow> ev_TraceID ev' = ev_TraceID ev \<longrightarrow> ev' = ev"
    and "u \<in> set (users (db w))" and "u_Email u = ev_UserID ev"
    and "p \<in> set (participants (db w))" and "p_AccountEmail p = Some (ev_UserID ev)" and "ev_UserID ev \<noteq> []"
    and "env_date_in (env w) date = Some (env_ts_date (env w) (ev_Timestamp ev))"
    and "\<forall>rows. set (env_order (env w) rows) = set rows"
    and "run_state (ResolveDay production_resolver date) (cn_world st) = ((resolutions, None), w')"
  shows "\<exists>res \<in> set resolutions. rs_ParticipantID res = p_ID p \<and> ev_RideID ev \<in> set (rs_RideIDs res)"
proof -
  have "processed_scan w rcfg c n position st m ev" using assms(1-9) by (simp add: processed_scan_def)
  moreover have "rider_of (db w) (ev_UserID ev) (ev_TicketID ev) p" using assms(10-14) by (auto simp: rider_of_def)
  ultimately obtain rides where "ev_RideID ev \<in> set rides"
    "resolution date p rides (ResolveMintWallet p) \<in> set resolutions"
    using resolved_ride [OF _ _ assms(16,15,17)] by blast
  then show ?thesis by (force simp: resolution_def)
qed

end
