(* ===== verification/Day_Run.thy ===== *)
theory Day_Run
  imports Ride_To_Mint
begin

text \<open>
  The run of a day after the consumer: what becomes of a ride that was scanned, when the run
  endpoint of the minter has answered.
\<close>

section \<open>The ledger under every schedule\<close>

lemma pending_recorded:
  assumes "run_state (RecordPendingMint postgres_repo req) w = (Inr u, w')" and "same_inputs d (db w)"
    and "env_date_in (env w) (rp_MintDate req) = Some day"
    and "find (\<lambda>q. p_ID q = rp_ParticipantID req) (participants d) = Some p"
  shows "db w' = put_pending (pending_of req p) day (db w)"
proof -
  obtain r w1 where g: "run_state (GetParticipant (rp_ParticipantID req)) w = (r, w1)" by fastforce
  have w1: "db w1 = db w" "env w1 = env w"
    using keepsD [OF calm_reads(1) _ g, of "rpc_log w" "env w" "\<lambda>d. d = db w"] by simp_all
  from assms(1) g obtain q where r: "r = Inr (Some q)"
    by (auto simp: RecordPendingMint_def postgres_repo_def split: sum.splits option.splits)
  from GetParticipant_ok(2) [OF g [unfolded r]] assms(2,4) have q: "q = p" by (auto simp: same_inputs_def)
  with assms(1) g r have "run_state (UpsertPendingMint (pending_of req p)) w1 = (Inr u, w')"
    by (simp add: RecordPendingMint_def postgres_repo_def Let_def pending_of_def)
  then have "\<exists>d'. q_upsert_pending (pending_of req p) (env w1) (db w1) = (Inr u, d') \<and> d' = db w'"
    by (auto simp: UpsertPendingMint_def split: if_splits prod.splits sum.splits dest!: sql_ok)
  then show ?thesis using w1 assms(3)
    by (auto simp: q_upsert_pending_def put_pending_def pending_of_def split: if_splits)
qed

lemma calm_other_pending:
  assumes "p_ID p \<noteq> rp_ParticipantID req" and "env_date_in e (rp_MintDate req) = Some day"
  shows "keeps (calm (in_ledger e d day p) l e) (RecordPendingMint postgres_repo req)"
proof -
  have "in_ledger e d day p d2"
    if "in_ledger e d day p d1" "q_upsert_pending pm e d1 = (r, d2)" "pm_ParticipantID pm = rp_ParticipantID req"
      "pm_MintDate pm = rp_MintDate req" for pm d1 r d2
  proof (cases r)
    case (Inl x)
    with that(1,2) show ?thesis
      by (auto simp: q_upsert_pending_def in_ledger_def split: if_splits option.splits)
  next
    case (Inr x)
    with that assms(2) have "d2 = put_pending pm day d1"
      by (auto simp: q_upsert_pending_def put_pending_def split: if_splits)
    with in_ledger_put_other [OF that(1)] that(3) assms(1) show ?thesis by simp
  qed
  then have "keeps (calm (in_ledger e d day p) l e) (UpsertPendingMint pm)"
    if "pm_ParticipantID pm = rp_ParticipantID req" "pm_MintDate pm = rp_MintDate req" for pm
    using that unfolding UpsertPendingMint_def by (intro keeps_intros calm_sql) blast
  then show ?thesis
    by (auto simp: RecordPendingMint_def postgres_repo_def Let_def intro!: keeps_intros calm_reads split: option.split)
qed

lemma calm_others_resolved:
  assumes "p_ID p \<notin> p_ID ` set ps" and "env_date_in e date = Some day"
  shows "keeps (calm (in_ledger e d day p) l e) (resolve_all production_resolver date ps acc)"
  using assms
proof (induction ps arbitrary: acc)
  case (Cons q ps)
  have "keeps (calm (in_ledger e d day p) l e) (RecordPendingMint postgres_repo
      \<lparr>rp_ParticipantID = p_ID q, rp_MintDate = date, rp_RideIDs = rides, rp_ScannedAts = ats\<rparr>)" for rides ats
    by (rule calm_other_pending) (use Cons.prems in auto)
  moreover have "keeps (calm (in_ledger e d day p) l e) (resolve_all production_resolver date ps acc)" for acc
    using Cons by simp
  ultimately show ?case
    by (auto simp: production_resolver_def Let_def intro!: keeps_intros calm_reads)
qed (simp add: keeps_intros)

text \<open>A pass without an error has put everyone who rode and has no wallet into the ledger.\<close>

lemma resolve_all_ledger:
  assumes "run_state (resolve_all production_resolver date ps acc) w = ((rs, None), w')"
    and "same_inputs d (db w)" and "env w = e" and "env_date_in e date = Some day"
    and "distinct (map p_ID ps)" and "\<forall>p \<in> set ps. find (\<lambda>q. p_ID q = p_ID p) (participants d) = Some p"
  shows "\<forall>p \<in> set (attending e d day ps). mr_Pending (ResolveMintWallet p) \<longrightarrow> in_ledger e d day p (db w')"
  using assms
proof (induction ps arbitrary: w acc)
  case (Cons p ps)
  have rest: "\<forall>p \<in> set (attending e d day ps). mr_Pending (ResolveMintWallet p) \<longrightarrow> in_ledger e d day p (db w')"
    if "same_inputs d (db v)" "env v = e"
      "run_state (resolve_all production_resolver date ps acc') v = ((rs, None), w')" for v acc'
    using Cons.IH [OF that(3,1,2) Cons.prems(4)] Cons.prems(5,6) by simp
  from Cons.prems(1-4) show ?case
  proof (cases rule: resolve_round)
    case (absent w1)
    with rest [OF absent(2,3,4)] show ?thesis by (simp add: attending_def)
  next
    case (ready w1)
    with rest [OF ready(3,4,5)] show ?thesis by (simp add: attending_def)
  next
    case (pending w1 w2)
    let ?req = "ledger_request e d day date p"
    have "db w2 = put_pending (pending_of ?req p) day (db w1)"
      by (rule pending_recorded [OF pending(7,3)]) (use pending(4) Cons.prems(4,6) in \<open>simp_all add: ledger_request_def\<close>)
    then have "in_ledger e d day p (db w2)"
      using in_ledger_put [OF pending(3), of ?req p e day] by (simp add: ledger_request_def)
    moreover have "p_ID p \<notin> p_ID ` set ps" using Cons.prems(5) by auto
    ultimately have "in_ledger e d day p (db w')"
      using keepsD [OF calm_others_resolved [of p ps e date day "rpc_log w2" d] _ pending(8)] pending(6) Cons.prems(4)
      by simp
    with rest [OF pending(5,6,8)] show ?thesis by (simp add: attending_def)
  qed simp
qed (simp add: attending_def)

lemma ResolveDay_ledger:
  assumes "run_state (ResolveDay production_resolver date) w = ((rs, None), w')"
    and "env_date_in (env w) date = Some day" and "distinct (map p_ID (participants (db w)))"
    and "p \<in> set (participants (db w))" and "rides_on (env w) (db w) day p \<noteq> []" and "mr_Pending (ResolveMintWallet p)"
  shows "in_ledger (env w) (db w) day p (db w')"
proof -
  let ?ps = "sort_key p_ID (participants (db w))"
  obtain r w1 where r: "run_state ListParticipants w = (r, w1)" by fastforce
  from keepsD [OF calm_reads(3) _ r, of "rpc_log w" "env w" "same_inputs (db w)"]
  have w1: "same_inputs (db w) (db w1)" "env w1 = env w" by (auto simp: same_inputs_def)
  from assms(1) r have "r = Inr ?ps"
    by (auto simp: ResolveDay_def production_resolver_def ListParticipants_def dest!: sql_ok
        split: prod.splits sum.splits)
  with assms(1) r have run: "run_state (resolve_all production_resolver date ?ps []) w1 = ((rs, None), w')"
    by (simp add: ResolveDay_def) (simp add: production_resolver_def)
  have "distinct (map p_ID ?ps)" using assms(3) by (metis distinct_map distinct_sort set_sort)
  moreover have "\<forall>p \<in> set ?ps. find (\<lambda>q. p_ID q = p_ID p) (participants (db w)) = Some p"
    using find_by_key [OF assms(3)] by simp
  ultimately show ?thesis
    using resolve_all_ledger [OF run w1 assms(2)] assms(4-6) by (simp add: attending_def)
qed

section \<open>The run of the day\<close>

interpretation ledger: mint_invariant "in_ledger e d day p" for e d day p
  by unfold_locales (auto simp: q_record_mint_def in_ledger_def split: option.splits if_splits)

lemma handle_run_day_ok:
  assumes "run_state (handle_run_day (Some (client_minter c)) (cid_metadata (Some pc)) r) w = (rep, w')"
    and "hp_Status rep = 200" and "unmarshal_date (hq_Body r) = Inr date"
  obtains resolutions w1 results where
    "run_state (ResolveDay production_resolver date) w = ((resolutions, None), w1)"
    "run_state (Run (production_batch c pc) (mint_ready date resolutions)) w1 = (results, w')"
    "rep = run_day_reply date resolutions results"
proof -
  obtain resolutions err w1 where r: "run_state (ResolveDay production_resolver date) w = ((resolutions, err), w1)"
    using prod.exhaust by metis
  obtain results w2 where run: "run_state (Run (production_batch c pc) (mint_ready date resolutions)) w1 = (results, w2)"
    by fastforce
  from assms r have "err = None"
    by (cases err) (auto simp: handle_run_day_def only_def decoding_def http_Error_def not_post_def split: if_splits)
  with assms r run that [of resolutions w1 results] show thesis
    by (auto simp: handle_run_day_def only_def decoding_def http_Error_def not_post_def production_batch_def
        split: if_splits)
qed

text \<open>The account of a participant: the user a mint is recorded for.\<close>

definition owner_of :: "world \<Rightarrow> Participant \<Rightarrow> int" where
  "owner_of w p = env_pick (env w) (owner_rows (p_ID p) (db w))"

text \<open>
  What a ride of \<open>p\<close> has become: in the ledger if there is no wallet, else part of a result, and in
  the table if the result carries no error. (A dependent whose wallet was never made has no address;
  the run leaves it out.)
\<close>

definition settled :: "world \<Rightarrow> Participant \<Rightarrow> string \<Rightarrow> int \<Rightarrow> MintResolutionResult list \<Rightarrow> database \<Rightarrow> bool" where
  "settled w p ride day results d \<longleftrightarrow>
     (if mr_Pending (ResolveMintWallet p)
      then \<exists>r \<in> set (pending_mints d). pending_key r = (p_ID p, day) \<and> ride \<in> set (pr_RideIDs r)
      else mr_WalletAddress (ResolveMintWallet p) = [] \<or>
        (\<exists>res \<in> set results. mx_ParticipantID res = p_ID p \<and> ride \<in> set (mx_RideIDs res) \<and>
           (mx_Error res = [] \<longrightarrow> mx_Minted res \<and> confirmed (owner_of w p, ride, day) d)))"

text \<open>
  From the topic to the mint. While the services answer the consumer, and whatever its
  interleaving: once the message of a new scan has been processed and is not in the dead-letter topic,
  a run of its day that answers 200, under every schedule of delays, failures and lost answers, has
  the ride among those of the participant it belongs to, by account or by ticket; and the ride is in
  the ledger when the participant has no wallet, else in a result, and where that result carries no
  error there is a confirmed mint of it for the owner of the participant.
\<close>

lemma settled_scan:
  assumes "processed_scan w rcfg c n position st m ev" and "rider_of (db w) (ev_UserID ev) (ev_TicketID ev) p"
    and "distinct (map p_ID (participants (db w)))"
    and "\<forall>rows. set (env_order (env w) rows) = set rows"
    and "unmarshal_date (hq_Body r) = Inr date"
    and "env_date_in (env w) date = Some (env_ts_date (env w) (ev_Timestamp ev))"
    and "run_state (handle_run_day (Some (client_minter sc)) (cid_metadata (Some pc)) r) (cn_world st) = (rep, w')"
    and "hp_Status rep = 200"
  shows "\<exists>resolutions results. rep = run_day_reply date resolutions results \<and>
    (\<exists>res \<in> set resolutions. rs_ParticipantID res = p_ID p \<and> ev_RideID ev \<in> set (rs_RideIDs res)) \<and>
    settled w p (ev_RideID ev) (env_ts_date (env w) (ev_Timestamp ev)) results (db w')"
proof -
  let ?w = "cn_world st" and ?day = "env_ts_date (env w) (ev_Timestamp ev)" and ?ride = "ev_RideID ev"
  obtain rs w1 results where
    day: "run_state (ResolveDay production_resolver date) ?w = ((rs, None), w1)" and
    run: "run_state (Run (production_batch sc pc) (mint_ready date rs)) w1 = (results, w')" and
    rep: "rep = run_day_reply date rs results"
    using handle_run_day_ok [OF assms(7,8,5)] .
  note ride = processed_ride [OF assms(1,2,4)]
  obtain rides where rides: "?ride \<in> set rides" "resolution date p rides (ResolveMintWallet p) \<in> set rs"
    using resolved_ride [OF assms(1,2,4,6) day] by blast
  have w1: "env w1 = env w" "people (participants (db w)) (users (db w)) (db w1)"
    using ResolveDay_rode(3,4) [OF day, of ?day] assms(6) ride(2,3) by (auto simp: same_inputs_def people_def)
  have "settled w p ?ride ?day results (db w')"
  proof (cases "mr_Pending (ResolveMintWallet p)")
    case True
    have "in_ledger (env w) (db ?w) ?day p (db w1)"
      using ResolveDay_ledger [OF day _ _ _ _ True, of ?day] assms(2,3,6) ride
      by (fastforce simp: people_def rider_of_def)
    with keepsD [OF ledger.keeps_Run _ run] have "in_ledger (env w) (db ?w) ?day p (db w')" by blast
    then obtain row where "row \<in> set (pending_mints (db w'))" "pending_key row = (p_ID p, ?day)"
      "pr_RideIDs row = map fst (rides_on (env w) (db ?w) ?day p)" by (auto simp: in_ledger_def)
    with True ride(1) have "\<exists>r \<in> set (pending_mints (db w')). pending_key r = (p_ID p, ?day) \<and> ?ride \<in> set (pr_RideIDs r)"
      by (intro bexI [of _ row]) simp_all
    with True show ?thesis by (simp add: settled_def)
  next
    case False
    let ?l = "\<lparr>ml_ParticipantID = p_ID p, ml_WalletAddress = mr_WalletAddress (ResolveMintWallet p),
      ml_RideIDs = rides, ml_Date = date\<rparr>"
    show ?thesis
    proof (cases "mr_WalletAddress (ResolveMintWallet p) = []")
      case False
      with rides \<open>\<not> mr_Pending _\<close> have "?l \<in> set (mint_ready date rs)"
        by (force simp: mint_ready_def resolution_def)
      with run_recorded [OF run] obtain res where res: "res \<in> set results" "result_of (env w1) (db w1) (db w') ?l res"
        by (metis in_set_conv_nth list_all2_conv_all_nth)
      have "owner_rows (p_ID p) (db w1) = owner_rows (p_ID p) (db w)"
        using w1(2) by (rule owner_rows_people)
      with res(2) rides(1) w1(1) assms(6) have "mx_ParticipantID res = p_ID p \<and> ?ride \<in> set (mx_RideIDs res) \<and>
          (mx_Error res = [] \<longrightarrow> mx_Minted res \<and> confirmed (owner_of w p, ?ride, ?day) (db w'))"
        by (auto simp: result_of_def has_mint_def owner_of_def)
      with res(1) \<open>\<not> mr_Pending _\<close> show ?thesis by (auto simp: settled_def)
    qed (use False in \<open>simp add: settled_def\<close>)
  qed
  with rep rides show ?thesis by (intro exI [of _ rs] exI [of _ results]) (force simp: resolution_def)
qed

end
