(* ===== verification/Scan_To_Mint.thy ===== *)
theory Scan_To_Mint
  imports Day_Run Http_Gate
begin

text \<open>
  The whole way of a ride: from the wristband at the reader of the ride (\<^verbatim>\<open>cmd/gate\<close>) through
  the topic and the consumer (\<^verbatim>\<open>cmd/consumer\<close>) to the run of the day (\<^verbatim>\<open>cmd/minter\<close>).
\<close>

section \<open>What the gate has published\<close>

lemma timely_on_err: "timely m \<Longrightarrow> (\<And>e. timely (h e)) \<Longrightarrow> (\<And>x. timely (f x)) \<Longrightarrow> timely (on_err m h f)"
  unfolding on_err_def by (rule timely_bind) (auto split: sum.split)

lemma timely_GetBinding: "timely (GetBinding uid)"
  unfolding GetBinding_def rdb_Get_def redis_call_def
  by (intro timely_on_err timely_call) (auto intro: timely_return split: prod.split sum.split)

lemma timely_publish: "timely (PublishScanEvent p e)"
proof -
  have "timely (write_attempts n t m)" for n t m
    by (induction n) (auto intro!: timely_on_err timely_call intro: timely_return)
  then have "timely (WriteMessages n t ms)" for n t ms
    by (induction ms) (auto intro!: timely_bind intro: timely_return)
  then show ?thesis
    unfolding PublishScanEvent_def writer_write_def by (auto intro!: timely_check timely_bind intro: timely_return)
qed

lemma timely_markTicketUsed: "timely (markTicketUsed has_db ticketID)"
  unfolding markTicketUsed_def sql_def
  by (auto intro!: timely_check timely_call intro: timely_return split: prod.split)

lemma published:
  assumes "run_state (PublishScanEvent (NewProducer False) e) w = (Inr u, w')"
  shows "\<exists>ms. ride_scans w' = ride_scans w @ ms \<and> marshal_ScanEvent e \<in> set (written ms)"
proof -
  from assms obtain u where "run_state (write_attempts 3 RideScans (buildMessage e)) w = (Inr u, w')"
    by (auto simp: PublishScanEvent_def writer_write_def buildMessages_def NewProducer_def split: prod.splits sum.splits)
  from write_attempts_appends [of 3 "buildMessage e" w w'] this show ?thesis by (simp add: buildMessage_def)
qed

lemma same_but_time: "stable (\<lambda>w. env w = e \<and> uuid_next w = n \<and> ride_scans w = ms)"
  unfolding stable_def next_event_def by (auto simp: elapse_def split: list.splits)

text \<open>
  A scan that the gate answers with 200 has appended a message whose event carries the account and
  the ticket of the binding, the ride, and a fresh trace id, with a time within the request.
\<close>

lemma scan_published:
  assumes "run_state (handle_ride_scan (PublishScanEvent (NewProducer False)) q) w = (rep, w')" and "hp_Status rep = 200"
    and "unmarshal_RideScanRequest (hq_Body q) = Inr req"
    and "redis w (bindingKey (rq_WristbandUID req)) = Some (RStr (marshal_WristbandBinding b), x)"
    and "in_int64 (wb_BoundAt b)"
  shows "\<exists>t ms e. clock w \<le> t \<and> t \<le> clock w' \<and> env w' = env w \<and> ride_scans w' = ride_scans w @ ms \<and>
    marshal_ScanEvent e \<in> set (written ms) \<and> ev_UserID e = wb_UserEmail b \<and> ev_TicketID e = wb_TicketID b \<and>
    ev_RideID e = rq_RideID req \<and> ev_TraceID e = env_uuid (env w) (uuid_next w) \<and> ev_Timestamp e = UnixMilli t"
proof -
  let ?pub = "PublishScanEvent (NewProducer False)"
  obtain res v where r: "run_state (Scan True ?pub req) w = (res, v)" by fastforce
  from assms(2) assms(1,3) r have rep: "rep = scan_reply res" "w' = v"
    by (auto simp: handle_ride_scan_def only_def decoding_def writeErr_def writeJSON_def split: if_splits)
  with assms(2) obtain resp where res: "res = Inr resp"
    by (cases res) (auto simp: scan_reply_def writeErr_def writeJSON_def split: if_splits)
  obtain b' w1 w2 st where g: "run_state (GetBinding (rq_WristbandUID req)) w = (Inr (Some b'), w1)"
    and pub: "run_state (?pub (scan_event w1 b' req)) (w1\<lparr>uuid_next := uuid_next w1 + 1\<rparr>) = (Inr (), w2)"
    and m: "run_state (markTicketUsed True (wb_TicketID b')) w2 = (st, w')"
    using Scan_recorded [OF r [unfolded res]] rep(2) by metis
  have w1: "env w1 = env w" "uuid_next w1 = uuid_next w" "ride_scans w1 = ride_scans w"
    using keepsD [OF keeps_GetBinding [OF same_but_time] _ g, of "env w" "uuid_next w" "ride_scans w"] by simp_all
  have "b' = b"
  proof -
    from g obtain p x' where p: "redis w1 (bindingKey (rq_WristbandUID req)) = Some (RStr p, x')"
      "unmarshal_WristbandBinding p = Inr b'" by (rule run_GetBinding_Some)
    have "only_time (redis w) w1"
      by (rule keepsD [OF keeps_GetBinding [OF timeless_stable [OF timeless_only_time]] _ g]) (simp add: only_time_def)
    with p(1) have "redis w (bindingKey (rq_WristbandUID req)) = Some (RStr p, x')"
      unfolding only_time_def by (metis option.distinct(1))
    with assms(4,5) p(2) show ?thesis by simp
  qed
  from published [OF pub] w1 obtain ms where ms: "ride_scans w2 = ride_scans w @ ms"
    "marshal_ScanEvent (scan_event w1 b req) \<in> set (written ms)" unfolding \<open>b' = b\<close> by auto
  have "keeps (\<lambda>v. env v = env w) (?pub (scan_event w1 b' req))"
    by (rule sync.publish_frame) (auto intro: timeless_stable simp: timeless_def)
  from keepsD [OF this _ pub] w1 have w2: "env w2 = env w" by simp
  have "keeps (\<lambda>v. env v = env w \<and> ride_scans v = ride_scans w2) (markTicketUsed True (wb_TicketID b'))"
    unfolding markTicketUsed_def
    by (intro keeps_intros keeps_sql_frame) (auto simp: stable_def next_event_def split: list.splits)
  from keepsD [OF this _ m] w2 have w': "env w' = env w" "ride_scans w' = ride_scans w2" by simp_all
  have "clock w \<le> clock w1" "clock w1 \<le> clock w2" "clock w2 \<le> clock w'"
    using timelyD [OF timely_GetBinding g] timelyD [OF timely_publish pub] timelyD [OF timely_markTicketUsed m] by simp_all
  with ms w1 w' show ?thesis
    by (intro exI [of _ "clock w1"] exI [of _ ms] exI [of _ "scan_event w1 b req"]) (simp add: scan_event_def)
qed

section \<open>From the reader to the mint\<close>

text \<open>
  A run of the consumer from \<open>w\<close> while the services answer, in which trace ids name one event each.
\<close>

definition consumed :: "world \<Rightarrow> RedisConfig \<Rightarrow> consumer \<Rightarrow> nat \<Rightarrow> nat \<Rightarrow> consuming \<Rightarrow> bool" where
  "consumed w rcfg c n position st \<longleftrightarrow> all_up w \<and>
     (\<forall>t. redis w (dedupKey t) \<noteq> None \<longrightarrow> (\<exists>s \<in> set (scan_events (db w)). s_TraceID s = t)) \<and>
     cs_handler c = Handle (production_handler rcfg) \<and>
     (run_step c n (production_handler rcfg))\<^sup>*\<^sup>* (start_consuming position w) st \<and>
     (\<forall>m \<in> set (cn_fetched st). \<forall>m' \<in> set (cn_fetched st). \<forall>ev ev'. parseMessage m = Inr ev \<longrightarrow>
        parseMessage m' = Inr ev' \<longrightarrow> ev_TraceID ev' = ev_TraceID ev \<longrightarrow> ev' = ev)"

lemma processed_fetched:
  assumes "(run_step c n h)\<^sup>*\<^sup>* (start_consuming position w) st" and "m \<in> set (cn_processed st)"
  shows "m \<in> set (cn_fetched st)"
proof -
  have "m \<in># mset (cn_fetched st)"
    using conserved_reachable [OF assms(1)] assms(2) by (simp add: conserved_def)
  then show ?thesis by simp
qed

lemma consumed_scan:
  assumes "consumed w rcfg c n position st" and "m \<in> set (cn_processed st)" and "k_Value m = marshal_ScanEvent e"
    and "in_int64 (ev_Timestamp e)" and "ev_TraceID e \<noteq> []"
    and "\<forall>s \<in> set (scan_events (db w)). s_TraceID s \<noteq> ev_TraceID e"
    and "k_Value m \<notin> set (written (dlq (cn_world st)))"
  shows "processed_scan w rcfg c n position st m e"
proof -
  have p: "parseMessage m = Inr e" using assms(3-5) by (simp add: parseMessage_def)
  have "m \<in> set (cn_fetched st)" using assms(1,2) processed_fetched unfolding consumed_def by blast
  with assms(1) p have "\<forall>m' \<in> set (cn_fetched st). \<forall>ev'. parseMessage m' = Inr ev' \<longrightarrow>
      ev_TraceID ev' = ev_TraceID e \<longrightarrow> ev' = e"
    unfolding consumed_def by blast
  with assms p show ?thesis unfolding consumed_def processed_scan_def by blast
qed


end
