(* ===== verification/Ride_Witness.thy ===== *)
theory Ride_Witness
  imports Scan_To_Mint Pipeline_Witnesses
begin

text \<open>The way of one ride from the reader to the day's mint, at a concrete visitor.\<close>

definition visitor :: User where
  "visitor = \<lparr>u_ID = 1, u_Email = ''a@x'', u_SuiAddress = None, u_EphemeralKey = None, u_ZkloginProof = None\<rparr>"

definition rider :: Participant where
  "rider = \<lparr>p_ID = 7, p_Name = ''A'', p_AccountEmail = Some ''a@x'', p_GuardianID = None,
     p_WalletState = ParticipantWalletOwn, p_CustodialWalletAddress = Some ''0xa'', p_KeysEnc = None\<rparr>"

definition band :: WristbandBinding where
  "band = \<lparr>wb_WristbandUID = ''wb1'', wb_TicketID = ''T1'', wb_UserEmail = ''a@x'',
     wb_Status = BindingStatusBound, wb_BoundAt = 900\<rparr>"

definition ride_day :: environment where
  "ride_day = busy_chain\<lparr>env_uuid := (\<lambda>n. ''t-'' @ show_nat n)\<rparr>"

definition morning :: world where
  "morning = (start_world ride_day 1000 [])\<lparr>db := empty_database\<lparr>users := [visitor], participants := [rider]\<rparr>,
     cid_cache := [''coaster'' \<mapsto> coaster_assets],
     redis := [bindingKey ''wb1'' \<mapsto> (RStr (marshal_WristbandBinding band), None)]\<rparr>"

definition park :: world where
  "park = append_topic RideScans ride_message (morning\<lparr>uuid_next := 1\<rparr>)"

lemma morning_sel [simp]:
  "quiet morning" "schedule morning = []" "clock morning = 1000" "env morning = ride_day" "uuid_next morning = 0" "ride_scans morning = []"
  "redis morning (bindingKey ''wb1'') = Some (RStr (marshal_WristbandBinding band), None)"
  "tickets (db morning) = []"
  by (simp_all add: morning_def quiet_def start_world_def empty_database_def)

lemma park_sel [simp]:
  "quiet park" "redis park = [bindingKey ''wb1'' \<mapsto> (RStr (marshal_WristbandBinding band), None)]"
  "scan_events (db park) = []" "dlq park = []" "env park = ride_day" "mint_logs (db park) = []" "clock park = 1000"
  "cid_cache park = [''coaster'' \<mapsto> coaster_assets]" "inflight park = 0" "users (db park) = [visitor]"
  "participants (db park) = [rider]" "all_up park" "ride_scans park = [ride_message]"
  by (simp_all add: park_def morning_def append_topic_def quiet_def start_world_def empty_database_def all_up_def
      ride_message_def buildMessage_def)

lemma ride_day_sel [simp]:
  "env_zone ride_day = 0" "env_order ride_day rs = rs" "env_pick ride_day = hd" "env_uuid ride_day 0 = ''t-0''"
  "env_date_in ride_day = parse_date" "env_ts_date ride_day ms = ms div 86400000"
  "env_rpc ride_day log req = Inr (JObj [(''digest'', JStr ''Dg'')])"
  by (simp_all add: ride_day_def busy_chain_def plain_environment_def) code_simp

lemma parse_first_day [simp]: "parse_date ''1970-01-01'' = Some 0"
  by code_simp

section \<open>The scan at the reader\<close>

definition scan_request :: http_request where
  "scan_request = \<lparr>hq_Method = ''POST'', hq_Query = (\<lambda>_. []),
     hq_Body = Json (JObj [(''wristband_uid'', JStr ''wb1''), (''ride_id'', JStr ''coaster'')])\<rparr>"

lemma scan_request_body:
  "unmarshal_RideScanRequest (hq_Body scan_request) = Inr \<lparr>rq_WristbandUID = ''wb1'', rq_RideID = ''coaster''\<rparr>"
  by code_simp

lemma visitor_at_reader:
  "\<exists>rep. run_state (handle_ride_scan (PublishScanEvent (NewProducer False)) scan_request) morning = (rep, park) \<and>
     hp_Status rep = 200"
proof -
  have t: "UnixMilli 1000 = 1000" by code_simp
  have w: "run_state (write_attempts 3 RideScans ride_message) (morning\<lparr>uuid_next := 1\<rparr>) = (Inr (), park)"
    using run_write_quiet [of "morning\<lparr>uuid_next := 1\<rparr>" 2 RideScans ride_message]
    by (simp add: park_def quiet_def eval_nat_numeral del: write_attempts.simps)
  have pub: "run_state (PublishScanEvent (NewProducer False) ride_event) (morning\<lparr>uuid_next := 1\<rparr>) = (Inr (), park)"
    using w by (simp add: PublishScanEvent_def writer_write_def buildMessages_def NewProducer_def flip: ride_message_def)
  have "tickets (db park) = []" by (simp add: park_def append_topic_def)
  then have "mark_ticket_used ''T1'' (db park) = db park" by (simp add: mark_ticket_used_def update_where_def)
  then have m: "run_state (markTicketUsed True ''T1'') park = (Inr (), park)" by (simp add: markTicketUsed_def)
  have g: "run_state (GetBinding ''wb1'') morning = (Inr (Some band), morning)"
    by (simp add: GetBinding_def rdb_Get_def r_GET_def band_def in_int64_def)
  have "run_state (Scan True (PublishScanEvent (NewProducer False)) \<lparr>rq_WristbandUID = ''wb1'', rq_RideID = ''coaster''\<rparr>)
      morning = (Inr \<lparr>rr_TraceID = ''t-0'', rr_RideID = ''coaster'', rr_Status = ''recorded''\<rparr>, park)"
    using g pub m t by (simp add: Scan_def band_def ride_event_def Let_def)
  then show ?thesis
    using scan_request_body
    by (simp add: handle_ride_scan_def only_def decoding_def scan_reply_def writeJSON_def) (simp add: scan_request_def)
qed

section \<open>The message in the consumer\<close>

definition after_ride :: world where
  "after_ride = snd (run_state (processAndCommit production_consumer ride_message) park)"

text \<open>What is as before the ride.\<close>

definition untouched :: "world \<Rightarrow> bool" where
  "untouched v \<longleftrightarrow> quiet v \<and> dlq v = [] \<and> inflight v = 0 \<and> cid_cache v = [''coaster'' \<mapsto> coaster_assets] \<and>
     mint_logs (db v) = []"

lemma after_ride_untouched: "untouched after_ride"
proof -
  have w: "untouched park" by (simp add: untouched_def)
  obtain w1 where h: "run_state (Handle (production_handler default_RedisConfig) ride_event) park = (Inr (), w1)"
    using run_ride_event [of park] by (auto simp: sets_ok_def)
  have "scan_invariant ride_event untouched"
    unfolding scan_invariant_def stable_def untouched_def
    by (auto simp: quiet_def next_event_def q_insert_scan_def split: if_splits)
  from keepsD [OF keeps_Handle [OF this] _ h] w have w1: "untouched w1" by auto
  have "run_state (processAndCommit production_consumer ride_message) park = (Inr (), w1\<lparr>commits := commits w1 @ [ride_message]\<rparr>)"
    using h run_commit [of w1] w1
    by (simp add: processAndCommit_def parse_ride handle_from.simps untouched_def)
  with w1 show ?thesis by (simp add: after_ride_def quiet_def untouched_def)
qed

lemma after_ride_sel [simp]:
  "quiet after_ride" "dlq after_ride = []" "inflight after_ride = 0"
  "cid_cache after_ride = [''coaster'' \<mapsto> coaster_assets]" "mint_logs (db after_ride) = []"
  using after_ride_untouched by (simp_all add: untouched_def)

lemma visitor_run:
  obtains st where "(run_step production_consumer 1 (production_handler default_RedisConfig))\<^sup>*\<^sup>* (start_consuming 0 park) st"
    "cn_processed st = [ride_message]" "cn_fetched st = [ride_message]" "cn_world st = after_ride"
  using waiting_message_run [of park ride_message production_consumer "production_handler default_RedisConfig"] that
  by (auto simp: after_ride_def)

lemma visitor_scan:
  obtains st where "processed_scan park default_RedisConfig production_consumer 1 0 st ride_message ride_event"
    "cn_fetched st = [ride_message]" "cn_world st = after_ride" "cn_processed st = [ride_message]"
proof -
  obtain st where st: "(run_step production_consumer 1 (production_handler default_RedisConfig))\<^sup>*\<^sup>* (start_consuming 0 park) st"
    "cn_processed st = [ride_message]" "cn_fetched st = [ride_message]" "cn_world st = after_ride" by (rule visitor_run)
  then have "processed_scan park default_RedisConfig production_consumer 1 0 st ride_message ride_event"
    by (simp add: processed_scan_def parse_ride written_def)
  with st show thesis using that by blast
qed

lemma visitor_rides: "rider_of (db park) (ev_UserID ride_event) (ev_TicketID ride_event) rider"
  by (simp add: rider_of_def rider_def visitor_def ride_event_def)

lemma after_ride_people [simp]:
  "env after_ride = ride_day" "participants (db after_ride) = [rider]" "users (db after_ride) = [visitor]"
  and rides_after_ride: "rides_on ride_day (db after_ride) 0 rider = [(''coaster'', 1000)]"
proof -
  obtain st where st: "processed_scan park default_RedisConfig production_consumer 1 0 st ride_message ride_event"
    "cn_fetched st = [ride_message]" "cn_world st = after_ride" by (rule visitor_scan)
  then have run: "(run_step production_consumer 1 (production_handler default_RedisConfig))\<^sup>*\<^sup>* (start_consuming 0 park) st"
    by (simp add: processed_scan_def)
  have at: "attributed park {ride_event} after_ride"
    using run_attributed [OF run production_consumer_sel(1), of "{ride_event}"] st(2,3) by (simp add: parse_ride)
  then show "env after_ride = ride_day" "participants (db after_ride) = [rider]" "users (db after_ride) = [visitor]"
    by (simp_all add: attributed_def)
  let ?rides = "rides_on ride_day (db after_ride) 0 rider"
  have "set ?rides \<subseteq> {(''coaster'', 1000)}"
    using at by (auto simp: attributed_def row_for_def row_of_def ride_event_def rides_on_def ordered_rides_def)
  moreover have "''coaster'' \<in> set (map fst ?rides)"
    using processed_ride(1) [OF st(1) visitor_rides] st(3) by (simp add: ride_event_def)
  moreover have "distinct ?rides" by (simp add: rides_on_def ordered_rides_def)
  ultimately show "?rides = [(''coaster'', 1000)]"
    by (cases ?rides rule: remdups_adj.cases) auto
qed

section \<open>The day of the visitor\<close>

lemma rider_ready: "ResolveMintWallet rider = \<lparr>mr_WalletState = ParticipantWalletOwn, mr_WalletAddress = ''0xa'', mr_Pending = False\<rparr>"
  by (simp add: ResolveMintWallet_def rider_def attached_def)

definition rider_resolution :: Resolution where
  "rider_resolution = resolution ''1970-01-01'' rider [''coaster''] (ResolveMintWallet rider)"

lemma after_ride_resolves:
  "run_state (ResolveDay production_resolver ''1970-01-01'') after_ride = (([rider_resolution], None), after_ride)"
proof -
  have "run_state (RidesForParticipant rider ''1970-01-01'') after_ride = (Inr ([''coaster''], [1000]), after_ride)"
    using run_Rides [of after_ride "''1970-01-01''" 0 rider] by (simp add: rides_after_ride)
  then show ?thesis
    by (simp add: ResolveDay_def production_resolver_def ListParticipants_def rider_resolution_def rider_ready Let_def)
qed

theorem scanned_ride_is_resolved_witness:
  "\<exists>resolutions w' res. run_state (ResolveDay production_resolver ''1970-01-01'') after_ride = ((resolutions, None), w') \<and>
     res \<in> set resolutions \<and> rs_ParticipantID res = 7 \<and> ''coaster'' \<in> set (rs_RideIDs res)"
proof -
  obtain st where st: "processed_scan park default_RedisConfig production_consumer 1 0 st ride_message ride_event"
    "cn_world st = after_ride" by (rule visitor_scan)
  have "\<exists>res \<in> set [rider_resolution]. rs_ParticipantID res = p_ID rider \<and> ev_RideID ride_event \<in> set (rs_RideIDs res)"
    by (rule scanned_ride_is_resolved [OF _ _ _ _ _ _ _ _ _ _ _ _ _ _ _ _ after_ride_resolves [folded st(2)],
        where u = visitor and w = park and m = ride_message and ev = ride_event and c = production_consumer
        and n = 1 and position = 0])
      (use st in \<open>auto simp: processed_scan_def visitor_def rider_def ride_event_def\<close>)
  with after_ride_resolves show ?thesis by (auto simp: rider_def ride_event_def)
qed

definition first_day :: http_request where
  "first_day = \<lparr>hq_Method = ''POST'', hq_Query = (\<lambda>_. []),
     hq_Body = Json (JObj [(''date'', JStr ''1970-01-01'')])\<rparr>"

definition rider_live :: MintLive where
  "rider_live = \<lparr>ml_ParticipantID = 7, ml_WalletAddress = ''0xa'', ml_RideIDs = [''coaster''], ml_Date = ''1970-01-01''\<rparr>"

lemma rider_minted:
  "\<exists>res w'. run_state (mintOne (production_batch demo_client demo_pinata) rider_live) after_ride = (res, w') \<and> mx_Error res = []"
proof -
  let ?resp = "JObj [(''digest'', JStr ''Dg'')]"
  have o: "owner_rows 7 (db after_ride) = [1]"
    by (simp add: owner_rows_def rider_def visitor_def)
  have d: "string_field ''digest'' ?resp = ''Dg''" by (simp add: json_field_def json_string_def)
  have "\<exists>w'. run_state (record_all (production_batch demo_client demo_pinata) rider_live ''Dg'' [''coaster''])
      (after_ride\<lparr>rpc_log := log\<rparr>) = (Inr (), w')" for log
    using o by (simp add: rider_live_def run_RecordFor RecordMint_def q_record_mint_def varchar_def char_length_def
        fk_user_def fk_participant_def rider_def visitor_def)
  then obtain w' where w': "run_state (record_all (production_batch demo_client demo_pinata) rider_live
      (string_field ''digest'' ?resp) (ml_RideIDs rider_live))
      (after_ride\<lparr>rpc_log := rpc_log after_ride @ [live_request demo_client after_ride rider_live,
        sign_request demo_client ?resp mint_options]\<rparr>) = (Inr (), w')"
    unfolding d by (simp add: rider_live_def) blast
  show ?thesis
    using run_mintOne_cached [OF _ _ _ _ _ _ _ _ w'] by (simp add: demo_client_def rider_live_def)
qed

lemma visitor_consumed:
  obtains st where "consumed park default_RedisConfig production_consumer 1 0 st"
    "cn_processed st = [ride_message]" "cn_world st = after_ride"
proof -
  obtain st where st: "processed_scan park default_RedisConfig production_consumer 1 0 st ride_message ride_event"
    "cn_fetched st = [ride_message]" "cn_world st = after_ride" "cn_processed st = [ride_message]"
    by (rule visitor_scan)
  then have "consumed park default_RedisConfig production_consumer 1 0 st"
    by (simp add: consumed_def processed_scan_def)
  with st show thesis using that by blast
qed


end
