(* ===== verification/Startup.thy ===== *)
theory Startup
  imports Http_Gate Http_Voucher Http_Minter Demo_Service Consumer_Run
begin

text \<open>
  The starts of the five services (\<^verbatim>\<open>cmd/*/main.go\<close>): the configuration, the
  required environment, the connections, the wait for the dependencies, and what is served then.
  \<^verbatim>\<open>log.Fatal\<close> ends the process, a configuration that cannot be loaded panics.
\<close>

datatype 'r launch = Panicked | Fatal string goerr | Serving 'r

text \<open>What a process finds: envconfig, the keys of \<^verbatim>\<open>.env\<close>, the variables that are set.\<close>

record process =
  ps_process :: "(string \<rightharpoonup> string) \<Rightarrow> goerr + Config"
  ps_dotenv :: "(string \<times> string) list"
  ps_vars :: "string \<rightharpoonup> string"

text \<open>\<^verbatim>\<open>os.Getenv\<close> once the configuration is loaded.\<close>

definition getenv :: "process \<Rightarrow> string \<Rightarrow> string" where
  "getenv p = Getenv (copy_keys (ps_dotenv p) (ps_vars p))"

definition configured :: "process \<Rightarrow> (Config \<Rightarrow> world \<Rightarrow> ('r launch \<times> world) option) \<Rightarrow>
    world \<Rightarrow> ('r launch \<times> world) option" where
  "configured p k w = (case MustLoad (ps_process p) (ps_dotenv p) (ps_vars p) of
       None \<Rightarrow> Some (Panicked, w)
     | Some cfg \<Rightarrow> k cfg w)"

definition validated :: "process \<Rightarrow> string list \<Rightarrow> string \<Rightarrow> (world \<Rightarrow> ('r launch \<times> world) option) \<Rightarrow>
    world \<Rightarrow> ('r launch \<times> world) option" where
  "validated p required msg k w = (case Validate (getenv p) required of
       Some err \<Rightarrow> Some (Fatal msg err, w)
     | None \<Rightarrow> k w)"

text \<open>\<^verbatim>\<open>sqlx.Connect\<close> opens the pool and pings.\<close>

definition connected :: "(world \<Rightarrow> ('r launch \<times> world) option) \<Rightarrow> world \<Rightarrow> ('r launch \<times> world) option" where
  "connected k w = (case run_state Postgres_Ping w of
       (Inl err, w1) \<Rightarrow> Some (Fatal ''postgres connect failed'' err, w1)
     | (Inr _, w1) \<Rightarrow> k w1)"

definition waiting :: "string \<Rightarrow> HealthChecker \<Rightarrow> 'r \<Rightarrow> world \<Rightarrow> ('r launch \<times> world) option" where
  "waiting msg h r w = (case WaitForChecks h 20000 w of
       None \<Rightarrow> None
     | Some (Inl err, w1) \<Rightarrow> Some (Fatal msg err, w1)
     | Some (Inr _, w1) \<Rightarrow> Some (Serving r, w1))"

section \<open>The services\<close>

type_synonym routes = "(string \<times> handler) list"

definition gate_main :: "process \<Rightarrow> world \<Rightarrow> (routes launch \<times> world) option" where
  "gate_main p = configured p (\<lambda>cfg.
     validated p [''HMAC_SECRET''] ''gate startup: missing required environment'' (connected (\<lambda>w.
       case run_state (gate_checker (BrokerList (cf_Kafka cfg))) w of (h, w1) \<Rightarrow>
         waiting ''gate startup: dependencies not ready'' h
           (gate_routes (cf_Gate cfg) (cf_Redis cfg) (NewProducer (kc_ProducerAsync (cf_Kafka cfg))) h) w1)))"

definition voucher_main :: "jwt_lib \<Rightarrow> process \<Rightarrow> world \<Rightarrow> (routes launch \<times> world) option" where
  "voucher_main jl p = configured p (\<lambda>cfg. connected (\<lambda>w.
     case run_state voucher_checker w of (h, w1) \<Rightarrow>
       waiting ''voucher startup: dependencies not ready'' h (voucher_routes jl (cf_Gate cfg) h) w1))"

definition pinata_of :: "PinataConfig \<Rightarrow> PinataClient" where
  "pinata_of c = NewPinataClient (pi_APIKey c) (pi_APISecret c) (pi_JWT c) (pi_Gateway c)"

definition minter_main :: "jwt_lib \<Rightarrow> crypto_lib \<Rightarrow> process \<Rightarrow> world \<Rightarrow> (routes launch \<times> world) option" where
  "minter_main jl cl p = configured p (\<lambda>cfg.
     validated p [''SUI_PACKAGE_ID'', ''SUI_MINTCAP_ID''] ''minter startup: missing required environment''
       (connected (\<lambda>w.
         let sui = minter_client cl (cf_Sui cfg);
             meta = cid_metadata (Some (pinata_of (cf_Pinata cfg)))
         in case run_state (minter_checker sui) w of (h, w1) \<Rightarrow>
           waiting ''minter startup: dependencies not ready'' h
             (minter_routes jl cl (cf_Auth cfg) sui meta h) w1)))"

definition demo_main :: "crypto_lib \<Rightarrow> nat \<Rightarrow> process \<Rightarrow> world \<Rightarrow> (Orchestrator launch \<times> world) option" where
  "demo_main cl fuel p = configured p (\<lambda>cfg.
     validated p [''SUI_PACKAGE_ID'', ''SUI_MINTCAP_ID'', ''SUI_GAS_POOL_MNEMONIC'']
       ''demo startup: missing required environment'' (connected (\<lambda>w.
         case NewClient cl (cf_Sui cfg) of
           Inl err \<Rightarrow> Some (Fatal ''sui client init failed'' err, w)
         | Inr c \<Rightarrow>
             (case run_state (NewOrchestrator cl (BrokerList (cf_Kafka cfg)) (Some (client_minter c))
                 (Some (client_reader fuel c)) (cid_metadata (Some (pinata_of (cf_Pinata cfg)))) cfg) w of
                (Inl err, w1) \<Rightarrow> Some (Fatal ''demo orchestrator build failed'' err, w1)
              | (Inr oc, w1) \<Rightarrow> waiting ''demo startup: dependencies not ready'' (oc_checker oc) oc w1))))"

text \<open>What the consumer runs with ten workers (\<open>run_step\<close>), beside its probes.\<close>

definition consumer_main :: "process \<Rightarrow> world \<Rightarrow> ((routes \<times> consumer \<times> nat) launch \<times> world) option" where
  "consumer_main p = configured p (\<lambda>cfg. connected (\<lambda>w.
     case run_state (consumer_checker (cf_Kafka cfg)) w of (h, w1) \<Rightarrow>
       waiting ''consumer startup: dependencies not ready'' h
         (consumer_routes h, NewConsumer (cf_Kafka cfg) (Handle (production_handler (cf_Redis cfg))), 10) w1))"

section \<open>What a service that serves has checked\<close>

text \<open>
  The process ends its start, and if it serves, its required variables are set and its last act was
  a round of checks on all its dependencies in which every one answered.
\<close>

definition guarded :: "process \<Rightarrow> string list \<Rightarrow> (Config \<Rightarrow> Checker list) \<Rightarrow> world \<Rightarrow> ('r launch \<times> world) option \<Rightarrow> bool" where
  "guarded p required checks w out \<longleftrightarrow> (\<exists>res w'. out = Some (res, w') \<and>
     (\<forall>r. res = Serving r \<longrightarrow> (\<forall>key \<in> set required. getenv p key \<noteq> []) \<and>
        (\<exists>cfg w1. MustLoad (ps_process p) (ps_dotenv p) (ps_vars p) = Some cfg \<and> clock w \<le> clock w1 \<and>
           run_state (run_checks (checks cfg)) w1 = (Inr (), w'))))"

lemma timely_sdk [simp]: "timely (sdk req)"
  unfolding sdk_def by (rule timely_call) simp

lemma timely_Client_Ping [simp]: "timely Client_Ping"
  unfolding Client_Ping_def by (intro timely_check timely_return timely_sdk)

lemma guarded_stopped [simp]:
  "guarded p required checks w (Some (Fatal msg err, w1))" "guarded p required checks w (Some (Panicked, w1))"
  by (simp_all add: guarded_def)

lemma guarded_configured:
  assumes "\<And>cfg. MustLoad (ps_process p) (ps_dotenv p) (ps_vars p) = Some cfg \<Longrightarrow> guarded p required checks w (k cfg w)"
  shows "guarded p required checks w (configured p k w)"
  using assms
  by (cases "MustLoad (ps_process p) (ps_dotenv p) (ps_vars p)") (simp_all add: configured_def)

lemma guarded_validated:
  assumes "(\<forall>key \<in> set required. getenv p key \<noteq> []) \<Longrightarrow> guarded p required checks w (k w)"
  shows "guarded p required checks w (validated p required msg k w)"
proof (cases "Validate (getenv p) required")
  case None
  then have "\<forall>key \<in> set required. getenv p key \<noteq> []" using Validate_ok_iff by blast
  with assms None show ?thesis by (simp add: validated_def)
qed (simp add: validated_def)

lemma guarded_connected:
  assumes "\<And>w1. clock w \<le> clock w1 \<Longrightarrow> guarded p required checks w (k w1)"
  shows "guarded p required checks w (connected k w)"
proof -
  obtain r w1 where r: "run_state Postgres_Ping w = (r, w1)" by fastforce
  have "clock w \<le> clock w1" using timelyD [OF timely_pings(3) r] .
  with assms r show ?thesis by (cases r) (auto simp: connected_def)
qed

lemma guarded_waiting:
  assumes "MustLoad (ps_process p) (ps_dotenv p) (ps_vars p) = Some cfg" and "\<forall>key \<in> set required. getenv p key \<noteq> []"
    and "checks cfg = hc_checks h" and "\<forall>c \<in> set (hc_checks h). timely c" and "clock w \<le> clock w1"
  shows "guarded p required checks w (waiting msg h r w1)"
proof -
  from poll_ends [OF assms(4)] obtain res w' where
    r: "poll (hc_checks h) (clock w1 + 20000) 20000 w1 = Some (res, w')" and
    w: "waited (hc_checks h) (clock w1 + 20000)
      (Msg (''readiness checks did not pass within '' @ duration_text 20000)) w1 res w'" by blast
  show ?thesis
  proof (cases res)
    case (Inl err)
    with r show ?thesis by (simp add: waiting_def WaitForChecks_def)
  next
    case (Inr u)
    with w obtain w2 where "clock w1 \<le> clock w2" "run_state (run_checks (hc_checks h)) w2 = (Inr (), w')"
      by (auto simp: waited_def)
    with r Inr assms(1,2,3,5) show ?thesis
      by (auto simp: waiting_def WaitForChecks_def guarded_def intro!: exI [of _ w2])
  qed
qed

definition kafka_checks :: "Config \<Rightarrow> Checker" where
  "kafka_checks cfg = Kafka_Ping (BrokerList (cf_Kafka cfg))"

definition sui_checks :: "crypto_lib \<Rightarrow> Config \<Rightarrow> Checker list" where
  "sui_checks cl cfg = (case NewClient cl (cf_Sui cfg) of Inl _ \<Rightarrow> [] | Inr _ \<Rightarrow> [Client_Ping])"

text \<open>
  C24: no service starts blind. The start of each of the five ends, whatever the environment holds
  and the services do; and one that serves has its required variables set (the secret of the gate,
  the package and the mint capability of the minter, for the demo the mnemonic as well), and has seen
  Postgres, Redis, every Kafka broker and Sui, as far as it uses them, answer in one round. The
  voucher service and the consumer require no variable.
\<close>

theorem starts_guarded:
  "guarded p [''HMAC_SECRET''] (\<lambda>cfg. [Postgres_Ping, Redis_Ping, kafka_checks cfg]) w (gate_main p w) \<and>
   guarded p [] (\<lambda>cfg. [Postgres_Ping, Redis_Ping]) w (voucher_main jl p w) \<and>
   guarded p [''SUI_PACKAGE_ID'', ''SUI_MINTCAP_ID''] (\<lambda>cfg. [Postgres_Ping, Redis_Ping] @ sui_checks cl cfg) w
     (minter_main jl cl p w) \<and>
   guarded p [''SUI_PACKAGE_ID'', ''SUI_MINTCAP_ID'', ''SUI_GAS_POOL_MNEMONIC'']
     (\<lambda>cfg. [Postgres_Ping, Redis_Ping, kafka_checks cfg, Client_Ping]) w (demo_main cl fuel p w) \<and>
   guarded p [] (\<lambda>cfg. [Redis_Ping, Postgres_Ping, kafka_checks cfg]) w (consumer_main p w)"
proof (intro conjI)
  note defs = NewHealthChecker_def AddCheck_def kafka_checks_def
  show "guarded p [''HMAC_SECRET''] (\<lambda>cfg. [Postgres_Ping, Redis_Ping, kafka_checks cfg]) w (gate_main p w)"
    unfolding gate_main_def
    by (intro guarded_configured guarded_validated guarded_connected)
      (auto simp: gate_checker_def defs simp del: Kafka_Ping.simps intro!: guarded_waiting)
  show "guarded p [] (\<lambda>cfg. [Postgres_Ping, Redis_Ping]) w (voucher_main jl p w)"
    unfolding voucher_main_def
    by (intro guarded_configured guarded_connected) (auto simp: voucher_checker_def defs intro!: guarded_waiting)
  show "guarded p [''SUI_PACKAGE_ID'', ''SUI_MINTCAP_ID''] (\<lambda>cfg. [Postgres_Ping, Redis_Ping] @ sui_checks cl cfg) w
     (minter_main jl cl p w)"
    unfolding minter_main_def
    by (intro guarded_configured guarded_validated guarded_connected)
      (auto simp: Let_def minter_checker_def minter_client_def client_minter_def sui_checks_def defs
        intro!: guarded_waiting split: sum.split)
  show "guarded p [''SUI_PACKAGE_ID'', ''SUI_MINTCAP_ID'', ''SUI_GAS_POOL_MNEMONIC'']
     (\<lambda>cfg. [Postgres_Ping, Redis_Ping, kafka_checks cfg, Client_Ping]) w (demo_main cl fuel p w)"
    unfolding demo_main_def
    by (intro guarded_configured guarded_validated guarded_connected)
      (auto simp: NewOrchestrator_def client_minter_def defs simp del: Kafka_Ping.simps
        intro!: guarded_waiting split: sum.split)
  show "guarded p [] (\<lambda>cfg. [Redis_Ping, Postgres_Ping, kafka_checks cfg]) w (consumer_main p w)"
    unfolding consumer_main_def
    by (intro guarded_configured guarded_connected)
      (auto simp: consumer_checker_def Consumer_Ping_def defs simp del: Kafka_Ping.simps intro!: guarded_waiting)
qed

section \<open>What no start requires\<close>

lemma run_reachable: "quiet w \<Longrightarrow> run_state Health.reachable w = (Inr (), w)"
  by (simp add: Health.reachable_def)

text \<open>
  The voucher service signs and verifies its links with \<^verbatim>\<open>HMAC_SECRET\<close> and does not require
  it: with services that answer it serves whatever the environment holds, also with an empty secret.
\<close>

lemma voucher_serves:
  assumes "MustLoad (ps_process p) (ps_dotenv p) (ps_vars p) = Some cfg" and "quiet w"
  shows "\<exists>h. voucher_main jl p w = Some (Serving (voucher_routes jl (cf_Gate cfg) h), w)"
proof -
  have "run_state (run_checks [Postgres_Ping, Redis_Ping]) w = (Inr (), w)"
    using run_reachable [OF assms(2)] by (simp add: Postgres_Ping_def Redis_Ping_def)
  then have "poll [Postgres_Ping, Redis_Ping] (clock w + 20000) 20000 w = Some (Inr (), w)"
    by (subst poll.simps) simp
  then show ?thesis
    using assms(1) run_reachable [OF assms(2)]
    by (auto simp: voucher_main_def configured_def connected_def voucher_checker_def NewHealthChecker_def AddCheck_def
        waiting_def WaitForChecks_def Postgres_Ping_def)
qed

end
