(* ===== verification/Telemetry.thy ===== *)
theory Telemetry
  imports Config
begin

text \<open>
  \<^verbatim>\<open>internal/telemetry/telemetry.go\<close>: the setup of OpenTelemetry. The SDK is a parameter:
  what it says to a resource and to the two exporters. Its global registrations are the state.
\<close>

record ('r, 't, 'm) otel_sdk =
  sdk_resource :: "string \<Rightarrow> goerr + 'r"
  sdk_trace :: "string \<Rightarrow> goerr + 't"
  sdk_metric :: "string \<Rightarrow> goerr + 'm"

datatype ('r, 't, 'm) provider = TracerProvider 't 'r | MeterProvider 'm 'r

datatype propagator = TraceContext | Baggage

record ('r, 't, 'm) otel_globals =
  og_tracer :: "('r, 't, 'm) provider option"
  og_propagators :: "propagator list"
  og_meter :: "('r, 't, 'm) provider option"
  og_shut :: "('r, 't, 'm) provider list"

text \<open>The returned function: both providers are shut down, an error of one is only logged.\<close>

definition shutdown :: "('r, 't, 'm) provider \<Rightarrow> ('r, 't, 'm) provider \<Rightarrow> (('r, 't, 'm) otel_globals, unit) state" where
  "shutdown tp mp = do {
     modify (\<lambda>g. g\<lparr>og_shut := og_shut g @ [tp]\<rparr>);
     modify (\<lambda>g. g\<lparr>og_shut := og_shut g @ [mp]\<rparr>)
   }"

definition Init :: "('r, 't, 'm) otel_sdk \<Rightarrow> OTelConfig \<Rightarrow>
    (('r, 't, 'm) otel_globals, (('r, 't, 'm) otel_globals, unit) state) go" where
  "Init sdk cfg =
     check (State_Monad.return (sdk_resource sdk (ot_ServiceName cfg))) (wrapf ''resource: '') (\<lambda>res.
     check (State_Monad.return (sdk_trace sdk (ot_ExporterEndpoint cfg))) (wrapf ''trace exporter: '') (\<lambda>traceExp. do {
       let tp = TracerProvider traceExp res;
       modify (\<lambda>g. g\<lparr>og_tracer := Some tp\<rparr>);
       modify (\<lambda>g. g\<lparr>og_propagators := [TraceContext, Baggage]\<rparr>);
       check (State_Monad.return (sdk_metric sdk (ot_ExporterEndpoint cfg))) (wrapf ''metric exporter: '') (\<lambda>metricExp. do {
         let mp = MeterProvider metricExp res;
         modify (\<lambda>g. g\<lparr>og_meter := Some mp\<rparr>);
         returns (shutdown tp mp)
       })
     }))"

text \<open>A setup that succeeds registers both providers, and its shutdown ends exactly those.\<close>

lemma Init_registers:
  assumes "run_state (Init sdk cfg) g = (Inr stop, g')"
  shows "\<exists>tp mp. og_tracer g' = Some tp \<and> og_meter g' = Some mp \<and> og_shut g' = og_shut g \<and>
    og_shut (snd (run_state stop g')) = og_shut g @ [tp, mp]"
  using assms
  by (auto simp: Init_def shutdown_def Let_def split: sum.splits prod.splits)

text \<open>
  A setup that fails at the metric exporter leaves its tracer provider registered, and returns nothing
  that would shut it down.
\<close>

lemma Init_leaves_tracer:
  assumes "sdk_resource sdk (ot_ServiceName cfg) = Inr r" and "sdk_trace sdk (ot_ExporterEndpoint cfg) = Inr t"
    and "sdk_metric sdk (ot_ExporterEndpoint cfg) = Inl err"
  shows "run_state (Init sdk cfg) g =
    (Inl (wrapf ''metric exporter: '' err), g\<lparr>og_tracer := Some (TracerProvider t r), og_propagators := [TraceContext, Baggage]\<rparr>)"
  using assms by (simp add: Init_def Let_def)

end
