(* ===== verification/Loadgen.thy ===== *)
theory Loadgen
  imports Complex_Main Kafka_Producer "HOL-Library.Multiset"
begin

text \<open>
  \<^verbatim>\<open>cmd/loadgen/main.go\<close>: the load generator. One generator feeds a bounded channel, a
  pool of workers publishes its events in batches, and a writer appends the delivered trace ids to
  the manifest. The draws of \<^verbatim>\<open>math/rand\<close>, the fresh ids and the ends of the run are
  the inputs of an iteration; percentages are exact fractions.
\<close>

section \<open>The generator\<close>

record loadgen_flags =
  lf_rate :: int
  lf_maxEvents :: int
  lf_users :: int
  lf_dupPct :: rat
  lf_rides :: int
  lf_concurrency :: int
  lf_emailDomain :: string

definition userIDs :: "loadgen_flags \<Rightarrow> string list" where
  "userIDs f = map (\<lambda>i. ''user-'' @ pad 4 (show_int i) @ ''@'' @ lf_emailDomain f) [1..lf_users f]"

definition rideIDs :: "loadgen_flags \<Rightarrow> string list" where
  "rideIDs f = map (\<lambda>i. ''ride-'' @ pad 3 (show_int i)) [1..lf_rides f]"

definition eventChBuf :: "loadgen_flags \<Rightarrow> int" where
  "eventChBuf f = (if lf_rate f * 2 = 0 then 4096 else lf_rate f * 2)"

record eventPair =
  ep_event :: ScanEvent
  ep_isDup :: bool

text \<open>
  What one turn of the loop meets: whether the run has ended when it starts and while it pauses,
  the two draws and the roll, a fresh id, the position of the key a range over the map starts
  with, and the time in milliseconds.
\<close>

record iteration =
  it_ended :: bool
  it_user :: nat
  it_ride :: nat
  it_uuid :: string
  it_roll :: rat
  it_key :: nat
  it_now :: int
  it_interrupted :: bool

definition is_dup :: "loadgen_flags \<Rightarrow> iteration \<Rightarrow> bool" where
  "is_dup f it \<longleftrightarrow> 0 < lf_dupPct f \<and> it_roll it * 100 < lf_dupPct f"

definition next_trace :: "loadgen_flags \<Rightarrow> iteration \<Rightarrow> string list \<Rightarrow> string" where
  "next_trace f it dups =
     (if is_dup f it \<and> dups \<noteq> [] then dups ! (it_key it mod length dups) else it_uuid it)"

definition next_event_pair :: "loadgen_flags \<Rightarrow> iteration \<Rightarrow> string list \<Rightarrow> eventPair" where
  "next_event_pair f it dups =
     \<lparr>ep_event = \<lparr>ev_UserID = userIDs f ! (it_user it mod length (userIDs f)),
        ev_RideID = rideIDs f ! (it_ride it mod length (rideIDs f)), ev_Timestamp = it_now it,
        ev_TraceID = next_trace f it dups, ev_TicketID = []\<rparr>,
      ep_isDup = is_dup f it\<rparr>"

text \<open>
  The loop: the events sent, given how many were and the keys of the map of ids. A draw from an
  empty list panics (\<open>None\<close>).
\<close>

fun generate :: "loadgen_flags \<Rightarrow> iteration list \<Rightarrow> int \<Rightarrow> string list \<Rightarrow> eventPair list option" where
  "generate f [] emitted dups = Some []"
| "generate f (it # its) emitted dups =
     (if it_ended it then Some []
      else if 0 < lf_maxEvents f \<and> lf_maxEvents f \<le> emitted then Some []
      else if userIDs f = [] \<or> rideIDs f = [] then None
      else let ep = next_event_pair f it dups
        in if it_interrupted it then Some [ep]
           else map_option (Cons ep) (generate f its (emitted + 1)
             (if is_dup f it then dups else List.insert (it_uuid it) dups)))"

lemma generate_max:
  assumes "generate f its emitted dups = Some evs" and "0 < lf_maxEvents f" and "emitted \<le> lf_maxEvents f"
  shows "emitted + int (length evs) \<le> lf_maxEvents f"
  using assms by (induction f its emitted dups arbitrary: evs rule: generate.induct)
    (fastforce split: if_splits simp: Let_def)+

text \<open>Run to its end, it sends exactly as many events as it was asked for.\<close>

lemma generate_exact:
  assumes "generate f its emitted dups = Some evs" and "0 < lf_maxEvents f" and "emitted \<le> lf_maxEvents f"
    and "\<forall>it \<in> set its. \<not> it_ended it \<and> \<not> it_interrupted it"
    and "lf_maxEvents f \<le> emitted + int (length its)"
  shows "emitted + int (length evs) = lf_maxEvents f"
  using assms by (induction f its emitted dups arbitrary: evs rule: generate.induct)
    (fastforce split: if_splits simp: Let_def)+

text \<open>An id is sent as fresh unless an earlier one is sent again.\<close>

lemma generate_traces:
  assumes "generate f its emitted dups = Some evs" and "ep \<in> set evs"
  shows "ev_TraceID (ep_event ep) \<in> set dups \<union> it_uuid ` set its"
  using assms
proof (induction f its emitted dups arbitrary: evs rule: generate.induct)
  case (2 f it its emitted dups)
  have "next_trace f it dups \<in> insert (it_uuid it) (set dups)" by (simp add: next_trace_def)
  with 2 show ?case by (auto split: if_splits simp: Let_def next_event_pair_def)
qed simp

section \<open>The pool\<close>

record pool =
  pl_todo :: "eventPair list"
  pl_queue :: "eventPair list"
  pl_closed :: bool
  pl_running :: "nat \<Rightarrow> bool"
  pl_batch :: "nat \<Rightarrow> ScanEvent list"
  pl_produced :: int
  pl_errors :: int
  pl_duplicates :: int
  pl_channel :: "string list list"
  pl_manifest :: "string list"
  pl_latencies :: "int list"
  pl_world :: world

definition start_pool :: "eventPair list \<Rightarrow> world \<Rightarrow> pool" where
  "start_pool evs w = \<lparr>pl_todo = evs, pl_queue = [], pl_closed = False, pl_running = (\<lambda>_. True),
     pl_batch = (\<lambda>_. []), pl_produced = 0, pl_errors = 0, pl_duplicates = 0, pl_channel = [],
     pl_manifest = [], pl_latencies = [], pl_world = w\<rparr>"

text \<open>
  A worker publishes its batch: all of it is counted as produced, or all of it as lost. The latency
  of a publication is kept in nanoseconds, as precise as the clock.
\<close>

definition flush :: "producer \<Rightarrow> nat \<Rightarrow> pool \<Rightarrow> pool" where
  "flush p i st = (if pl_batch st i = [] then st
     else (case run_state (PublishBatch p (pl_batch st i)) (pl_world st) of
         (Inl err, w) \<Rightarrow> st\<lparr>pl_world := w, pl_errors := pl_errors st + int (length (pl_batch st i)),
           pl_batch := (pl_batch st)(i := [])\<rparr>
       | (Inr _, w) \<Rightarrow> st\<lparr>pl_world := w, pl_channel := pl_channel st @ [map ev_TraceID (pl_batch st i)],
           pl_produced := pl_produced st + int (length (pl_batch st i)),
           pl_latencies := pl_latencies st @ [(clock w - clock (pl_world st)) * 1000000],
           pl_batch := (pl_batch st)(i := [])\<rparr>))"

definition receive :: "producer \<Rightarrow> nat \<Rightarrow> eventPair \<Rightarrow> pool \<Rightarrow> pool" where
  "receive p i ep st =
     (let st = st\<lparr>pl_batch := (pl_batch st)(i := pl_batch st i @ [ep_event ep]),
                 pl_duplicates := pl_duplicates st + (if ep_isDup ep then 1 else 0)\<rparr>
      in if 100 \<le> length (pl_batch st i) then flush p i st else st)"

text \<open>
  The goroutines, one action at a time: the generator sends while the channel has room and closes
  it in the end; a running worker receives, is ticked, or flushes and returns when the channel is
  closed and empty; the writer appends what was delivered.
\<close>

inductive pool_step :: "producer \<Rightarrow> nat \<Rightarrow> nat \<Rightarrow> pool \<Rightarrow> pool \<Rightarrow> bool" for p n buf where
  send: "pl_todo st = ep # eps \<Longrightarrow> length (pl_queue st) < buf \<Longrightarrow>
    pool_step p n buf st (st\<lparr>pl_todo := eps, pl_queue := pl_queue st @ [ep]\<rparr>)"
| close: "pl_todo st = [] \<Longrightarrow> pool_step p n buf st (st\<lparr>pl_closed := True\<rparr>)"
| take: "i < n \<Longrightarrow> pl_running st i \<Longrightarrow> pl_queue st = ep # q \<Longrightarrow>
    pool_step p n buf st (receive p i ep (st\<lparr>pl_queue := q\<rparr>))"
| tick: "i < n \<Longrightarrow> pl_running st i \<Longrightarrow> pool_step p n buf st (flush p i st)"
| quit: "i < n \<Longrightarrow> pl_running st i \<Longrightarrow> pl_queue st = [] \<Longrightarrow> pl_closed st \<Longrightarrow>
    pool_step p n buf st ((flush p i st)\<lparr>pl_running := (pl_running st)(i := False)\<rparr>)"
| record_ids: "pl_channel st = ids # rest \<Longrightarrow>
    pool_step p n buf st (st\<lparr>pl_channel := rest, pl_manifest := pl_manifest st @ ids\<rparr>)"

text \<open>The end of \<^verbatim>\<open>main\<close>: the workers have returned, the manifest is written.\<close>

definition finished :: "nat \<Rightarrow> pool \<Rightarrow> bool" where
  "finished n st \<longleftrightarrow> list_all (\<lambda>i. \<not> pl_running st i) [0..<n] \<and> pl_channel st = []"

section \<open>The summary\<close>

text \<open>The sort by swapping neighbours, with its indices.\<close>

fun sink :: "nat \<Rightarrow> 'a::linorder list \<Rightarrow> 'a list" where
  "sink 0 vals = vals"
| "sink (Suc j) vals =
     (if vals ! Suc j < vals ! j then sink j (vals[Suc j := vals ! j, j := vals ! Suc j]) else vals)"

definition insertionSort :: "'a::linorder list \<Rightarrow> 'a list" where
  "insertionSort vals = fold sink [1..<length vals] vals"

text \<open>The latencies in nanoseconds, exact as float64 below 104 days.\<close>

definition percentile :: "int list \<Rightarrow> rat \<Rightarrow> int" where
  "percentile ds p = (if ds = [] then 0
     else insertionSort ds ! nat \<lfloor>p * of_nat (length ds - 1)\<rfloor>)"

lemma sink_append:
  assumes "i < length xs"
  shows "sink i (xs @ ys) = sink i xs @ ys"
  using assms
proof (induction i arbitrary: xs)
  case (Suc i)
  then show ?case by (simp add: nth_append list_update_append)
qed simp

lemma sink_sort:
  assumes "sorted xs"
  shows "sink (length xs) (xs @ [x]) = sort (xs @ [x])"
  using assms
proof (induction xs rule: rev_induct)
  case (snoc y ys)
  show ?case
  proof (cases "x < y")
    case True
    then have "sink (length (ys @ [y])) ((ys @ [y]) @ [x]) = sink (length ys) ((ys @ [x]) @ [y])"
      by (simp add: nth_append list_update_append)
    also have "\<dots> = sink (length ys) (ys @ [x]) @ [y]" by (rule sink_append) simp
    also have "\<dots> = sort (ys @ [x]) @ [y]" using snoc by (simp add: sorted_append)
    also have "\<dots> = sort ((ys @ [y]) @ [x])"
      using snoc.prems True by (intro properties_for_sort [symmetric]) (auto simp: sorted_append)
    finally show ?thesis .
  next
    case False
    with snoc.prems have "sort ((ys @ [y]) @ [x]) = (ys @ [y]) @ [x]"
      by (intro properties_for_sort) (auto simp: sorted_append)
    with False show ?thesis by (simp add: nth_append)
  qed
qed simp

lemma insertionSort_append:
  "n \<le> length vals \<Longrightarrow> fold sink [1..<n] vals = sort (List.take n vals) @ drop n vals"
proof (induction n)
  case (Suc n)
  show ?case
  proof (cases "n = 0")
    case True
    with Suc show ?thesis by (cases vals) auto
  next
    case False
    have v: "drop n vals = vals ! n # drop (Suc n) vals" using Suc by (simp add: Cons_nth_drop_Suc)
    have len: "length (sort (List.take n vals)) = n" using Suc by simp
    have "fold sink [1..<Suc n] vals = sink n (sort (List.take n vals) @ drop n vals)"
      using Suc False by simp
    also have "\<dots> = sink n (sort (List.take n vals) @ [vals ! n]) @ drop (Suc n) vals"
      using v len sink_append [of n "sort (List.take n vals) @ [vals ! n]" "drop (Suc n) vals"] by simp
    also have "\<dots> = sort (List.take (Suc n) vals) @ drop (Suc n) vals"
      using sink_sort [of "sort (List.take n vals)" "vals ! n"] len Suc.prems
      by (simp add: take_Suc_conv_app_nth) (intro properties_for_sort; simp)
    finally show ?thesis .
  qed
qed simp

lemma insertionSort_sort: "insertionSort vals = sort vals"
  using insertionSort_append [of "length vals" vals] by (cases vals) (simp_all add: insertionSort_def)

lemma percentile_sort:
  "percentile ds p = (if ds = [] then 0 else sort ds ! nat \<lfloor>p * of_nat (length ds - 1)\<rfloor>)"
  by (simp add: percentile_def insertionSort_sort)

record summary =
  su_TotalProduced :: int
  su_TotalErrors :: int
  su_Duplicates :: int
  su_AvgRate :: rat
  su_ElapsedSec :: rat
  su_P99LatencyMS :: rat

text \<open>The elapsed time in nanoseconds.\<close>

definition summarise :: "pool \<Rightarrow> int \<Rightarrow> summary" where
  "summarise st elapsed = \<lparr>su_TotalProduced = pl_produced st, su_TotalErrors = pl_errors st,
     su_Duplicates = pl_duplicates st, su_AvgRate = of_int (pl_produced st) / (of_int elapsed / 1000000000),
     su_ElapsedSec = of_int elapsed / 1000000000,
     su_P99LatencyMS = of_int (percentile (pl_latencies st) (99 / 100)) / 1000000\<rparr>"

end
