(* ===== verification/Loadgen_Pool.thy ===== *)
theory Loadgen_Pool
  imports Loadgen
begin

text \<open>
  The bookkeeping of the load generator: an invariant of the pool that accounts for every event,
  and what it gives when the pool has finished.
\<close>

section \<open>What a publication leaves in the topic\<close>

lemma written_stays: "keeps (\<lambda>w. v \<in> set (written (ride_scans w))) (PublishBatch p es)"
proof -
  have "stable (\<lambda>w. v \<in> set (written (ride_scans w)))"
    by (rule timeless_stable) (simp add: timeless_def)
  then show ?thesis unfolding PublishBatch_def writer_write_def
    by (intro keeps_intros keeps_WriteMessages) (auto simp: append_topic_def written_def split: topic.split)
qed

lemma WriteMessages_delivers:
  assumes "run_state (WriteMessages n RideScans ms) w = (Inr (), w')" and "m \<in> set ms"
  shows "k_Value m \<in> set (written (ride_scans w'))"
  using assms
proof (induction ms arbitrary: w)
  case (Cons m0 ms)
  obtain r w1 where 1: "run_state (write_attempts n RideScans m0) w = (r, w1)" by fastforce
  obtain rs w2 where 2: "run_state (WriteMessages n RideScans ms) w1 = (rs, w2)" by fastforce
  from Cons.prems 1 2 have r: "r = Inr ()" "rs = Inr ()" "w2 = w'"
    by (auto split: sum.splits)
  show ?case
  proof (cases "m = m0")
    case True
    have "k_Value m \<in> set (written (ride_scans w1))"
      using write_attempts_delivers [of n RideScans m0 w w1] 1 r True by simp
    moreover have "stable (\<lambda>w. k_Value m \<in> set (written (ride_scans w)))"
      by (rule timeless_stable) (simp add: timeless_def)
    then have "keeps (\<lambda>w. k_Value m \<in> set (written (ride_scans w))) (WriteMessages n RideScans ms)"
      by (rule keeps_WriteMessages) (auto simp: append_topic_def written_def)
    ultimately show ?thesis using keepsD 2 r(3) by fast
  qed (use Cons 2 r in auto)
qed simp

lemma PublishBatch_delivers:
  assumes "run_state (PublishBatch p es) w = (Inr (), w')" and "\<not> pd_Async p" and "e \<in> set es"
  shows "marshal_ScanEvent e \<in> set (written (ride_scans w'))"
proof -
  from assms have "run_state (WriteMessages (pd_MaxAttempts p) RideScans (buildMessages es)) w = (Inr (), w')"
    by (auto simp: PublishBatch_def writer_write_def split: prod.splits sum.splits)
  from WriteMessages_delivers [OF this, of "buildMessage e"] assms(3) show ?thesis
    by (simp add: buildMessages_def buildMessage_def)
qed

definition in_topic :: "world \<Rightarrow> string \<Rightarrow> bool" where
  "in_topic w t \<longleftrightarrow> (\<exists>e. ev_TraceID e = t \<and> marshal_ScanEvent e \<in> set (written (ride_scans w)))"

section \<open>The invariant\<close>

definition trace_of :: "eventPair \<Rightarrow> string" where
  "trace_of ep = ev_TraceID (ep_event ep)"

definition dups_in :: "eventPair list \<Rightarrow> int" where
  "dups_in eps = int (length (filter ep_isDup eps))"

definition batched :: "nat \<Rightarrow> (nat \<Rightarrow> ScanEvent list) \<Rightarrow> string multiset" where
  "batched n b = (\<Sum>i<n. mset (map ev_TraceID (b i)))"

lemma batched_upd:
  assumes "i < n"
  shows "batched n (b(i := x)) + mset (map ev_TraceID (b i)) = batched n b + mset (map ev_TraceID x)"
proof -
  have "batched n c = mset (map ev_TraceID (c i)) + (\<Sum>k \<in> {..<n} - {i}. mset (map ev_TraceID (c k)))" for c
    unfolding batched_def using assms by (intro sum.remove) auto
  then show ?thesis by simp
qed

definition acknowledged :: "pool \<Rightarrow> string list" where
  "acknowledged st = concat (pl_channel st) @ pl_manifest st"

definition accounted :: "nat \<Rightarrow> eventPair list \<Rightarrow> pool \<Rightarrow> bool" where
  "accounted n evs st \<longleftrightarrow> (\<exists>lost. size lost = nat (pl_errors st) \<and>
     mset (map trace_of evs) = mset (map trace_of (pl_todo st)) + mset (map trace_of (pl_queue st)) +
       batched n (pl_batch st) + mset (acknowledged st) + lost)"

definition pool_ok :: "producer \<Rightarrow> nat \<Rightarrow> eventPair list \<Rightarrow> pool \<Rightarrow> bool" where
  "pool_ok p n evs st \<longleftrightarrow> accounted n evs st \<and> 0 \<le> pl_errors st \<and>
     pl_produced st = int (length (acknowledged st)) \<and>
     pl_duplicates st + dups_in (pl_queue st) + dups_in (pl_todo st) = dups_in evs \<and>
     (\<not> pd_Async p \<longrightarrow> (\<forall>t \<in> set (acknowledged st). in_topic (pl_world st) t)) \<and>
     (pl_closed st \<longrightarrow> pl_todo st = []) \<and>
     (\<forall>i<n. \<not> pl_running st i \<longrightarrow> pl_batch st i = [] \<and> pl_queue st = [] \<and> pl_closed st)"

lemma flush_sel [simp]:
  "pl_todo (flush p i st) = pl_todo st" "pl_queue (flush p i st) = pl_queue st"
  "pl_closed (flush p i st) = pl_closed st" "pl_running (flush p i st) = pl_running st"
  "pl_duplicates (flush p i st) = pl_duplicates st" "pl_manifest (flush p i st) = pl_manifest st"
  "pl_batch (flush p i st) = (pl_batch st)(i := [])"
  by (auto simp: flush_def split: prod.split sum.split)

lemma receive_sel [simp]:
  "pl_todo (receive p i ep st) = pl_todo st" "pl_queue (receive p i ep st) = pl_queue st"
  "pl_closed (receive p i ep st) = pl_closed st" "pl_running (receive p i ep st) = pl_running st"
  by (auto simp: receive_def Let_def)

lemma pool_ok_start: "pool_ok p n evs (start_pool evs w)"
  by (auto simp: pool_ok_def start_pool_def accounted_def acknowledged_def batched_def dups_in_def)

lemma pool_ok_flush:
  assumes "pool_ok p n evs st" and "i < n"
  shows "pool_ok p n evs (flush p i st)"
proof (cases "pl_batch st i = []")
  case False
  note ok = assms(1) [unfolded pool_ok_def]
  have upd: "batched n (pl_batch st) = batched n ((pl_batch st)(i := [])) + mset (map ev_TraceID (pl_batch st i))"
    using batched_upd [OF assms(2), of "pl_batch st" "[]"] by simp
  obtain r w where run: "run_state (PublishBatch p (pl_batch st i)) (pl_world st) = (r, w)" by fastforce
  have stays: "in_topic w t" if "in_topic (pl_world st) t" for t
    using that keepsD [OF written_stays _ run] by (auto simp: in_topic_def)
  show ?thesis
  proof (cases r)
    case (Inl err)
    have fl: "flush p i st = st\<lparr>pl_world := w, pl_errors := pl_errors st + int (length (pl_batch st i)),
        pl_batch := (pl_batch st)(i := [])\<rparr>" using False run Inl by (simp add: flush_def)
    have "accounted n evs (flush p i st)"
    proof -
      from ok obtain lost where l: "size lost = nat (pl_errors st)" and
        m: "mset (map trace_of evs) = mset (map trace_of (pl_todo st)) + mset (map trace_of (pl_queue st)) +
          batched n (pl_batch st) + mset (acknowledged st) + lost" unfolding accounted_def by blast
      show ?thesis unfolding accounted_def using ok l m upd
        by (intro exI [of _ "lost + mset (map ev_TraceID (pl_batch st i))"])
          (simp add: fl acknowledged_def nat_add_distrib)
    qed
    with ok stays show ?thesis by (simp add: pool_ok_def fl acknowledged_def)
  next
    case (Inr u)
    have fl: "flush p i st = st\<lparr>pl_world := w,
        pl_channel := pl_channel st @ [map ev_TraceID (pl_batch st i)],
        pl_produced := pl_produced st + int (length (pl_batch st i)),
        pl_latencies := pl_latencies st @ [(clock w - clock (pl_world st)) * 1000000],
        pl_batch := (pl_batch st)(i := [])\<rparr>" using False run Inr by (simp add: flush_def)
    have ack: "mset (acknowledged (flush p i st)) = mset (acknowledged st) + mset (map ev_TraceID (pl_batch st i))"
      "length (acknowledged (flush p i st)) = length (acknowledged st) + length (pl_batch st i)"
      "set (acknowledged (flush p i st)) = set (acknowledged st) \<union> ev_TraceID ` set (pl_batch st i)"
      by (auto simp: acknowledged_def fl)
    have "accounted n evs (flush p i st)"
      using ok upd unfolding accounted_def ack by (fastforce simp: fl)
    moreover have "in_topic w (ev_TraceID e)" if "e \<in> set (pl_batch st i)" "\<not> pd_Async p" for e
      using PublishBatch_delivers [of p "pl_batch st i" "pl_world st" w] run Inr that by (auto simp: in_topic_def)
    ultimately show ?thesis using ok stays unfolding pool_ok_def ack by (auto simp: fl)
  qed
qed (use assms in \<open>simp add: flush_def\<close>)

lemma pool_ok_receive:
  assumes "pool_ok p n evs st" and "pl_queue st = ep # q" and "i < n" and "pl_running st i"
  shows "pool_ok p n evs (receive p i ep (st\<lparr>pl_queue := q\<rparr>))"
proof -
  let ?st = "st\<lparr>pl_queue := q, pl_batch := (pl_batch st)(i := pl_batch st i @ [ep_event ep]),
    pl_duplicates := pl_duplicates st + (if ep_isDup ep then 1 else 0)\<rparr>"
  have "batched n ((pl_batch st)(i := pl_batch st i @ [ep_event ep])) = batched n (pl_batch st) + {#trace_of ep#}"
    using batched_upd [OF assms(3), of "pl_batch st" "pl_batch st i @ [ep_event ep]"] by (simp add: trace_of_def)
  with assms have "pool_ok p n evs ?st"
    unfolding pool_ok_def accounted_def by (auto simp: acknowledged_def dups_in_def)
  with pool_ok_flush assms(3) show ?thesis by (simp add: receive_def Let_def)
qed

lemma pool_ok_step:
  assumes "pool_step p n buf st st'" and "pool_ok p n evs st"
  shows "pool_ok p n evs st'"
  using assms
proof cases
  case (send ep eps)
  with assms(2) show ?thesis by (auto simp: pool_ok_def accounted_def acknowledged_def dups_in_def)
next
  case (take i ep q)
  with pool_ok_receive [OF assms(2)] show ?thesis by simp
next
  case (tick i)
  with pool_ok_flush [OF assms(2)] show ?thesis by simp
next
  case (quit i)
  with pool_ok_flush [OF assms(2), of i] show ?thesis
    by (auto simp: pool_ok_def accounted_def acknowledged_def)
next
  case (record_ids ids rest)
  with assms(2) show ?thesis
    by (auto simp: pool_ok_def accounted_def acknowledged_def)
qed (use assms(2) in \<open>auto simp: pool_ok_def accounted_def acknowledged_def\<close>)

lemma pool_ok_reachable:
  "(pool_step p n buf)\<^sup>*\<^sup>* (start_pool evs w) st \<Longrightarrow> pool_ok p n evs st"
  by (induction rule: rtranclp_induct) (auto intro: pool_ok_start pool_ok_step)


section \<open>A small run\<close>

definition small_load :: loadgen_flags where
  "small_load = \<lparr>lf_rate = 1, lf_maxEvents = 1, lf_users = 1, lf_dupPct = 0, lf_rides = 1,
     lf_concurrency = 1, lf_emailDomain = ''bench.local''\<rparr>"

definition first_turn :: iteration where
  "first_turn = \<lparr>it_ended = False, it_user = 5, it_ride = 7, it_uuid = ''t1'', it_roll = 0, it_key = 0,
     it_now = 9, it_interrupted = False\<rparr>"

definition small_event :: ScanEvent where
  "small_event = \<lparr>ev_UserID = ''user-0001@bench.local'', ev_RideID = ''ride-001'', ev_Timestamp = 9,
     ev_TraceID = ''t1'', ev_TicketID = []\<rparr>"

lemma small_generate: "generate small_load [first_turn] 0 [] = Some [\<lparr>ep_event = small_event, ep_isDup = False\<rparr>]"
  by code_simp

lemma small_publish:
  "run_state (PublishBatch (NewProducer False) [small_event]) (start_world plain_environment 0 []) =
     (Inr (), append_topic RideScans (buildMessage small_event) (start_world plain_environment 0 []))"
  by (simp add: PublishBatch_def writer_write_def buildMessages_def NewProducer_def eval_nat_numeral
      call_def next_event_def start_world_def)

lemma small_run:
  "\<exists>st. (pool_step (NewProducer False) 1 2)\<^sup>*\<^sup>* (start_pool [\<lparr>ep_event = small_event, ep_isDup = False\<rparr>]
     (start_world plain_environment 0 [])) st \<and> finished 1 st \<and> pl_manifest st = [''t1'']"
proof -
  let ?p = "NewProducer False" and ?ep = "\<lparr>ep_event = small_event, ep_isDup = False\<rparr>"
  let ?s0 = "start_pool [?ep] (start_world plain_environment 0 [])"
  let ?s1 = "?s0\<lparr>pl_todo := [], pl_queue := [?ep]\<rparr>"
  let ?s2 = "?s1\<lparr>pl_closed := True\<rparr>"
  let ?s3 = "receive ?p 0 ?ep (?s2\<lparr>pl_queue := []\<rparr>)"
  let ?s4 = "(flush ?p 0 ?s3)\<lparr>pl_running := (pl_running ?s3)(0 := False)\<rparr>"
  let ?s5 = "?s4\<lparr>pl_channel := [], pl_manifest := [''t1'']\<rparr>"
  have s3: "?s3 = ?s2\<lparr>pl_queue := [], pl_batch := (\<lambda>_. [])(0 := [small_event])\<rparr>"
    by (simp add: receive_def start_pool_def)
  have c4: "pl_channel ?s4 = [[''t1'']]"
    unfolding s3 by (simp add: flush_def start_pool_def small_publish) (simp add: small_event_def)
  have m4: "pl_manifest ?s4 = []" unfolding s3 by (simp add: start_pool_def)
  have 1: "pool_step ?p 1 2 ?s0 ?s1" using pool_step.send [of ?s0 ?ep "[]" 2 ?p 1] by (simp add: start_pool_def)
  have 2: "pool_step ?p 1 2 ?s1 ?s2" by (rule pool_step.close) simp
  have 3: "pool_step ?p 1 2 ?s2 ?s3" by (rule pool_step.take) (simp_all add: start_pool_def)
  have 4: "pool_step ?p 1 2 ?s3 ?s4"
    by (rule pool_step.quit) (simp_all add: s3 start_pool_def)
  have 5: "pool_step ?p 1 2 ?s4 ?s5"
    using pool_step.record_ids [OF c4, of ?p 1 2] unfolding m4 append_Nil .
  note step = converse_rtranclp_into_rtranclp [of "pool_step ?p 1 2"]
  have "(pool_step ?p 1 2)\<^sup>*\<^sup>* ?s0 ?s5"
    by (rule step [OF 1 step [OF 2 step [OF 3 step [OF 4 step [OF 5 rtranclp.rtrancl_refl]]]]])
  moreover have "finished 1 ?s5" by (simp add: finished_def)
  ultimately show ?thesis by (intro exI [of _ ?s5]) simp
qed



end
