(* ===== verification/Verify_Delivery.thy ===== *)
theory Verify_Delivery
  imports Loadgen_Pool
begin

text \<open>
  \<^verbatim>\<open>scripts/bench/verify_delivery.go\<close>: the manifest of a load is read, the topic is
  consumed from its start until every id of the manifest has been seen, and the counts decide.
  The lines of the manifest and the results of the fetches are the inputs (the reader is kafka-go's,
  the end of the list is the timeout); rates are exact fractions. The error of a line that does not
  parse leaves out the line.
\<close>

section \<open>The manifest\<close>

record manifest =
  mf_expected :: "string \<Rightarrow> int"
  mf_seen :: "string \<Rightarrow> bool"
  mf_uniques :: int
  mf_lines :: int

definition empty_manifest :: manifest where
  "empty_manifest = \<lparr>mf_expected = (\<lambda>_. 0), mf_seen = (\<lambda>_. False), mf_uniques = 0, mf_lines = 0\<rparr>"

definition unmarshal_entry :: "payload \<Rightarrow> goerr + string" where
  "unmarshal_entry = unmarshal
     (\<lambda>k v. if key_is ''trace_id'' k then set_string (\<lambda>s _. s) v else (\<lambda>acc. acc)) []"

definition blank :: "payload \<Rightarrow> bool" where
  "blank line = (case line of Json _ \<Rightarrow> False
     | Text s \<Rightarrow> list_all (\<lambda>c. of_char c \<in> {9, 10, 11, 12, 13, 32 :: nat}) s)"

definition add_entry :: "string \<Rightarrow> manifest \<Rightarrow> manifest" where
  "add_entry t m = m\<lparr>mf_lines := mf_lines m + 1,
     mf_expected := (mf_expected m)(t := mf_expected m t + 1),
     mf_seen := (mf_seen m)(t := True),
     mf_uniques := mf_uniques m + (if mf_seen m t then 0 else 1)\<rparr>"

fun read_manifest :: "payload list \<Rightarrow> manifest \<Rightarrow> goerr + manifest" where
  "read_manifest [] m = Inr m"
| "read_manifest (line # lines) m =
     (if blank line then read_manifest lines m
      else (case unmarshal_entry line of
          Inl err \<Rightarrow> Inl (wrapf ''parse manifest line: '' err)
        | Inr t \<Rightarrow> read_manifest lines (add_entry t m)))"

definition load_manifest :: "payload list \<Rightarrow> goerr + manifest" where
  "load_manifest lines = (case read_manifest lines empty_manifest of
       Inl err \<Rightarrow> Inl err
     | Inr m \<Rightarrow> if mf_uniques m = 0 then Inl (Msg ''manifest contains no unique trace_ids'') else Inr m)"

section \<open>Counting the deliveries\<close>

text \<open>A fetch gives a message, counted at a time in milliseconds, or fails.\<close>

datatype fetch = Fetched payload int | FetchFailed

record tally =
  ty_observed :: int
  ty_duplicates :: int
  ty_lastObserved :: int
  ty_count :: "string \<Rightarrow> int"

definition empty_tally :: tally where
  "empty_tally = \<lparr>ty_observed = 0, ty_duplicates = 0, ty_lastObserved = 0, ty_count = (\<lambda>_. 0)\<rparr>"

definition tally_one :: "manifest \<Rightarrow> string \<Rightarrow> int \<Rightarrow> tally \<Rightarrow> tally" where
  "tally_one m t now ty =
     (let c = ty_count ty t + 1;
          ty = ty\<lparr>ty_count := (ty_count ty)(t := c)\<rparr>;
          ty = (if c = 1 then ty\<lparr>ty_observed := ty_observed ty + 1, ty_lastObserved := now\<rparr> else ty)
      in if mf_expected m t < c then ty\<lparr>ty_duplicates := ty_duplicates ty + 1\<rparr> else ty)"

fun observe :: "manifest \<Rightarrow> fetch list \<Rightarrow> tally \<Rightarrow> tally" where
  "observe m [] ty = ty"
| "observe m (FetchFailed # fs) ty = observe m fs ty"
| "observe m (Fetched v now # fs) ty = (case unmarshal_entry v of
       Inl _ \<Rightarrow> observe m fs ty
     | Inr t \<Rightarrow>
         if t = [] \<or> \<not> mf_seen m t then observe m fs ty
         else let ty = tally_one m t now ty
           in if ty_observed ty = mf_uniques m then ty else observe m fs ty)"

section \<open>The verdict\<close>

record delivery =
  dl_ManifestUnique :: int
  dl_ManifestLines :: int
  dl_ObservedUnique :: int
  dl_DeliveryDuplicates :: int
  dl_SuccessRate :: rat
  dl_RecoverySec :: rat
  dl_Pass :: bool

text \<open>Times in milliseconds; the elapsed time counts when nothing was observed.\<close>

definition verdict :: "rat \<Rightarrow> int \<Rightarrow> int \<Rightarrow> int \<Rightarrow> manifest \<Rightarrow> tally \<Rightarrow> delivery" where
  "verdict target dupAllowed start elapsed m ty =
     (let successRate = of_int (ty_observed ty) / of_int (mf_uniques m)
      in \<lparr>dl_ManifestUnique = mf_uniques m, dl_ManifestLines = mf_lines m,
          dl_ObservedUnique = ty_observed ty, dl_DeliveryDuplicates = ty_duplicates ty,
          dl_SuccessRate = successRate,
          dl_RecoverySec = (if 0 < ty_lastObserved ty then of_int (ty_lastObserved ty - start) / 1000
            else of_int elapsed / 1000),
          dl_Pass = (target \<le> successRate \<and> ty_duplicates ty \<le> dupAllowed)\<rparr>)"

definition verify_delivery :: "rat \<Rightarrow> int \<Rightarrow> int \<Rightarrow> int \<Rightarrow> payload list \<Rightarrow> fetch list \<Rightarrow> goerr + delivery" where
  "verify_delivery target dupAllowed start elapsed lines fs = (case load_manifest lines of
       Inl err \<Rightarrow> Inl err
     | Inr m \<Rightarrow> Inr (verdict target dupAllowed start elapsed m (observe m fs empty_tally)))"

section \<open>What the counts mean\<close>

text \<open>The ids of the manifest, and those of the messages that carry one.\<close>

definition manifest_ids :: "payload list \<Rightarrow> string list" where
  "manifest_ids lines = concat (map (\<lambda>line. if blank line then []
     else (case unmarshal_entry line of Inl _ \<Rightarrow> [] | Inr t \<Rightarrow> [t])) lines)"

fun traces :: "fetch list \<Rightarrow> string list" where
  "traces [] = []"
| "traces (FetchFailed # fs) = traces fs"
| "traces (Fetched v now # fs) = (case unmarshal_entry v of
       Inl _ \<Rightarrow> traces fs | Inr t \<Rightarrow> if t = [] then traces fs else t # traces fs)"

lemma traces_append [simp]: "traces (xs @ ys) = traces xs @ traces ys"
  by (induction xs rule: traces.induct) (auto split: sum.split)

definition manifest_of :: "string list \<Rightarrow> manifest \<Rightarrow> bool" where
  "manifest_of ids m \<longleftrightarrow> mf_expected m = (\<lambda>t. int (count_list ids t)) \<and>
     mf_seen m = (\<lambda>t. t \<in> set ids) \<and> mf_uniques m = int (card (set ids)) \<and> mf_lines m = int (length ids)"

lemma manifest_of_add: "manifest_of ids m \<Longrightarrow> manifest_of (ids @ [t]) (add_entry t m)"
  by (auto simp: manifest_of_def add_entry_def fun_eq_iff insert_absorb)

lemma read_manifest_ids:
  assumes "read_manifest lines m = Inr m'" and "manifest_of ids m"
  shows "manifest_of (ids @ manifest_ids lines) m'"
  using assms
proof (induction lines arbitrary: m ids)
  case (Cons line lines)
  show ?case
  proof (cases "blank line")
    case False
    with Cons.prems obtain t where t: "unmarshal_entry line = Inr t"
      and "read_manifest lines (add_entry t m) = Inr m'" by (auto split: sum.splits)
    from Cons.IH [OF this(2) manifest_of_add [OF Cons.prems(2)]] False t
    show ?thesis by (simp add: manifest_ids_def)
  qed (use Cons in \<open>auto simp: manifest_ids_def\<close>)
qed (simp add: manifest_ids_def)

lemma load_manifest_ids:
  assumes "load_manifest lines = Inr m"
  shows "manifest_of (manifest_ids lines) m"
  using assms read_manifest_ids [of lines empty_manifest m "[]"]
  by (auto simp: load_manifest_def manifest_of_def empty_manifest_def split: sum.splits if_splits)

definition surplus :: "string list \<Rightarrow> string list \<Rightarrow> int" where
  "surplus ids ts = (\<Sum>t \<in> set ids. int (count_list ts t - count_list ids t))"

definition tally_of :: "string list \<Rightarrow> string list \<Rightarrow> tally \<Rightarrow> bool" where
  "tally_of ids ts ty \<longleftrightarrow> ty_observed ty = int (card (set ts \<inter> set ids)) \<and>
     ty_duplicates ty = surplus ids ts \<and> (\<forall>t \<in> set ids. ty_count ty t = int (count_list ts t))"

lemma surplus_snoc:
  "surplus ids (ts @ [t]) = surplus ids ts +
     (if t \<in> set ids \<and> count_list ids t < count_list ts t + 1 then 1 else 0)"
proof -
  have "surplus ids (ts @ [t]) = (\<Sum>u \<in> set ids. int (count_list ts u - count_list ids u) +
      (if t = u then (if count_list ids t < count_list ts t + 1 then 1 else 0) else 0))"
    unfolding surplus_def by (rule sum.cong) auto
  also have "\<dots> = surplus ids ts + (\<Sum>u \<in> set ids. if t = u then (if count_list ids t < count_list ts t + 1 then 1 else 0) else 0)"
    unfolding surplus_def by (rule sum.distrib)
  also have "(\<Sum>u \<in> set ids. if t = u then (if count_list ids t < count_list ts t + 1 then 1 else (0::int)) else 0) =
      (if t \<in> set ids \<and> count_list ids t < count_list ts t + 1 then 1 else 0)"
    by (subst sum.delta') auto
  finally show ?thesis .
qed

lemma tally_skip: "t \<notin> set ids \<Longrightarrow> tally_of ids (ts @ [t]) ty = tally_of ids ts ty"
  by (auto simp: tally_of_def surplus_snoc)

lemma tally_of_one:
  assumes "tally_of ids ts ty" and "manifest_of ids m" and "t \<in> set ids"
  shows "tally_of ids (ts @ [t]) (tally_one m t now ty)"
proof -
  have "int (card (set (ts @ [t]) \<inter> set ids)) = int (card (set ts \<inter> set ids)) + (if count_list ts t = 0 then 1 else 0)"
    using assms(3) by (auto simp: count_list_0_iff insert_absorb)
  with assms show ?thesis
    by (auto simp: tally_of_def tally_one_def manifest_of_def surplus_snoc Let_def)
qed

lemma covered_card: "set ids \<subseteq> set ts \<longleftrightarrow> card (set ts \<inter> set ids) = card (set ids)"
  by (metis Int_absorb1 Int_lower2 List.finite_set card_subset_eq inf.absorb_iff2)

text \<open>
  The loop stops right after the message that completes the manifest: what it counts is the
  shortest part of the fetches that has every id, or all of them.
\<close>

lemma observe_counts:
  assumes "manifest_of ids m" and "tally_of ids (traces pre) ty"
    and "\<forall>k \<le> length pre. \<not> set ids \<subseteq> set (traces (List.take k pre))"
  shows "\<exists>mid post. fs = mid @ post \<and> tally_of ids (traces (pre @ mid)) (observe m fs ty) \<and>
    (post \<noteq> [] \<longrightarrow> set ids \<subseteq> set (traces (pre @ mid))) \<and>
    (\<forall>k < length (pre @ mid). \<not> set ids \<subseteq> set (traces (List.take k (pre @ mid))))"
  using assms
proof (induction fs arbitrary: pre ty)
  case (Cons x fs)
  have go: ?case if o: "observe m (x # fs) ty = observe m fs ty'" and t: "tally_of ids (traces (pre @ [x])) ty'"
    and nc: "\<not> set ids \<subseteq> set (traces (pre @ [x]))" for ty'
  proof -
    have "\<forall>k \<le> length (pre @ [x]). \<not> set ids \<subseteq> set (traces (List.take k (pre @ [x])))"
      using Cons.prems(3) nc by (auto simp: le_Suc_eq)
    from Cons.IH [OF Cons.prems(1) t this] obtain mid post where "fs = mid @ post"
      "tally_of ids (traces (pre @ [x] @ mid)) (observe m fs ty')"
      "post \<noteq> [] \<longrightarrow> set ids \<subseteq> set (traces (pre @ [x] @ mid))"
      "\<forall>k < length (pre @ [x] @ mid). \<not> set ids \<subseteq> set (traces (List.take k (pre @ [x] @ mid)))"
      by auto
    then show ?thesis unfolding o by (intro exI [of _ "x # mid"] exI [of _ post]) simp
  qed
  have nc: "\<not> set ids \<subseteq> set (traces pre)" using Cons.prems(3) [rule_format, of "length pre"] by simp
  have skip: ?case if o: "observe m (x # fs) ty = observe m fs ty" and t: "set (traces [x]) \<inter> set ids = {}"
    "length (traces [x]) \<le> 1"
  proof -
    have "tally_of ids (traces (pre @ [x])) ty" using t Cons.prems(2)
      by (cases "traces [x]") (auto simp: tally_skip)
    moreover have "\<not> set ids \<subseteq> set (traces (pre @ [x]))" using nc t by auto
    ultimately show ?thesis using go o by blast
  qed
  show ?case
  proof (cases x)
    case FetchFailed
    then show ?thesis by (intro skip) simp_all
  next
    case (Fetched v now)
    show ?thesis
    proof (cases "\<exists>t. unmarshal_entry v = Inr t \<and> t \<noteq> [] \<and> t \<in> set ids")
      case False
      with Fetched Cons.prems(1) show ?thesis
        by (intro skip) (auto simp: manifest_of_def split: sum.splits)
    next
      case True
      then obtain t where t: "unmarshal_entry v = Inr t" "t \<noteq> []" "t \<in> set ids" by blast
      let ?ty = "tally_one m t now ty"
      have trx: "traces [x] = [t]" using t Fetched by simp
      have ty: "tally_of ids (traces (pre @ [x])) ?ty"
        using tally_of_one [OF Cons.prems(2,1) t(3), of now] trx by simp
      have seen: "mf_seen m t" using t(3) Cons.prems(1) by (simp add: manifest_of_def)
      have all: "ty_observed ?ty = mf_uniques m \<longleftrightarrow> set ids \<subseteq> set (traces (pre @ [x]))"
        using ty Cons.prems(1) covered_card [of ids "traces (pre @ [x])"]
        by (simp add: tally_of_def manifest_of_def)
      show ?thesis
      proof (cases "ty_observed ?ty = mf_uniques m")
        case True
        then have "observe m (x # fs) ty = ?ty" using t seen Fetched by simp
        then show ?thesis using ty True all Cons.prems(3)
          by (intro exI [of _ "[x]"] exI [of _ fs]) (auto simp: less_Suc_eq_le)
      next
        case False
        then have "observe m (x # fs) ty = observe m fs ?ty" using t seen Fetched by simp
        then show ?thesis using go ty False all by blast
      qed
    qed
  qed
qed (auto intro: exI [of _ "[]"])

lemma verify_counts:
  assumes "verify_delivery target dupAllowed start elapsed lines fs = Inr d"
  obtains counted rest m ty where "fs = counted @ rest"
    "d = verdict target dupAllowed start elapsed m ty" "manifest_of (manifest_ids lines) m" "0 < mf_uniques m"
    "tally_of (manifest_ids lines) (traces counted) ty"
    "rest \<noteq> [] \<longrightarrow> set (manifest_ids lines) \<subseteq> set (traces counted)"
    "\<forall>k < length counted. \<not> set (manifest_ids lines) \<subseteq> set (traces (List.take k counted))"
proof -
  let ?ids = "manifest_ids lines"
  from assms obtain m where m: "load_manifest lines = Inr m"
    and d: "d = verdict target dupAllowed start elapsed m (observe m fs empty_tally)"
    by (auto simp: verify_delivery_def split: sum.splits)
  from load_manifest_ids [OF m] have mo: "manifest_of ?ids m" .
  have pos: "0 < mf_uniques m"
    using m mo by (auto simp: load_manifest_def manifest_of_def card_gt_0_iff split: sum.splits if_splits)
  then have "\<not> set ?ids \<subseteq> set (traces (List.take 0 []))" using mo by (auto simp: manifest_of_def)
  moreover have "tally_of ?ids (traces []) empty_tally"
    by (simp add: tally_of_def empty_tally_def surplus_def)
  ultimately obtain mid post where "fs = mid @ post" "tally_of ?ids (traces mid) (observe m fs empty_tally)"
    "post \<noteq> [] \<longrightarrow> set ?ids \<subseteq> set (traces mid)"
    "\<forall>k < length mid. \<not> set ?ids \<subseteq> set (traces (List.take k mid))"
    using observe_counts [OF mo, of "[]" empty_tally fs] by auto
  with that d mo pos show ?thesis by blast
qed

text \<open>
  C37: the verdict is what its counts say: of the fetches, the shortest part that has every id of
  the manifest is counted (all of them when none has), the ids observed are the distinct ids of the
  manifest in it, the duplicates are the copies in it beyond those the manifest lists, and the
  verdict is a pass exactly when the share of the ids observed reaches the target and the duplicates
  stay within the bound. Copies that arrive after the last id was first seen are not counted.
\<close>

theorem delivery_verdict:
  assumes "verify_delivery target dupAllowed start elapsed lines fs = Inr d"
  shows "\<exists>counted rest. fs = counted @ rest \<and>
    (rest \<noteq> [] \<longrightarrow> set (manifest_ids lines) \<subseteq> set (traces counted)) \<and>
    (\<forall>k < length counted. \<not> set (manifest_ids lines) \<subseteq> set (traces (List.take k counted))) \<and>
    dl_ManifestUnique d = int (card (set (manifest_ids lines))) \<and>
    dl_ManifestLines d = int (length (manifest_ids lines)) \<and>
    dl_ObservedUnique d = int (card (set (traces counted) \<inter> set (manifest_ids lines))) \<and>
    dl_DeliveryDuplicates d = (\<Sum>t \<in> set (manifest_ids lines).
      int (count_list (traces counted) t - count_list (manifest_ids lines) t)) \<and>
    (dl_Pass d \<longleftrightarrow> target * of_int (dl_ManifestUnique d) \<le> of_int (dl_ObservedUnique d) \<and>
      dl_DeliveryDuplicates d \<le> dupAllowed)"
proof -
  from verify_counts [OF assms] obtain counted rest m ty where v: "fs = counted @ rest"
    "d = verdict target dupAllowed start elapsed m ty" "manifest_of (manifest_ids lines) m" "0 < mf_uniques m"
    "tally_of (manifest_ids lines) (traces counted) ty"
    "rest \<noteq> [] \<longrightarrow> set (manifest_ids lines) \<subseteq> set (traces counted)"
    "\<forall>k < length counted. \<not> set (manifest_ids lines) \<subseteq> set (traces (List.take k counted))" .
  then show ?thesis
    by (intro exI [of _ counted] exI [of _ rest])
      (simp add: verdict_def Let_def tally_of_def manifest_of_def surplus_def pos_le_divide_eq)
qed

section \<open>A load that is delivered\<close>

text \<open>The line the manifest writer encodes.\<close>

definition manifest_line :: "string \<Rightarrow> payload" where
  "manifest_line t = Json (JObj [(''trace_id'', JStr t)])"

lemma unmarshal_manifest_line [simp]: "unmarshal_entry (manifest_line t) = Inr t"
  by (simp add: unmarshal_entry_def manifest_line_def unmarshal_def key_is_def set_string_def lower_def)

lemma manifest_line_ids [simp]: "manifest_ids (map manifest_line ts) = ts"
  by (induction ts) (simp_all add: manifest_ids_def, simp add: blank_def manifest_line_def)

lemma unmarshal_entry_event [simp]: "unmarshal_entry (marshal_ScanEvent e) = Inr (ev_TraceID e)"
  by (simp add: unmarshal_entry_def codec_defs unmarshal_def key_is_def set_string_def lower_def)

text \<open>
  A topic in which each id of the manifest is found as often as the manifest lists it passes with
  every target and no tolerance.
\<close>

lemma exact_delivery_passes:
  assumes "verify_delivery target dupAllowed start elapsed (map manifest_line ts) fs = Inr d"
    and "\<forall>t \<in> set ts. count_list (traces fs) t = count_list ts t"
    and "target \<le> 1" and "0 \<le> dupAllowed"
  shows "dl_Pass d \<and> dl_SuccessRate d = 1 \<and> dl_DeliveryDuplicates d = 0"
proof -
  from verify_counts [OF assms(1)] obtain counted rest m ty where v: "fs = counted @ rest"
    "d = verdict target dupAllowed start elapsed m ty" "manifest_of ts m" "0 < mf_uniques m"
    "tally_of ts (traces counted) ty" "rest \<noteq> [] \<longrightarrow> set ts \<subseteq> set (traces counted)"
    unfolding manifest_line_ids by metis
  have "set ts \<subseteq> set (traces fs)" using assms(2) by (metis count_list_0_iff subsetI)
  with v(1,6) have "set ts \<subseteq> set (traces counted)" by (cases "rest = []") auto
  then have "ty_observed ty = mf_uniques m"
    using v(3,5) covered_card [of ts "traces counted"] by (simp add: tally_of_def manifest_of_def)
  moreover have "count_list (traces counted) t \<le> count_list ts t" if "t \<in> set ts" for t
    using assms(2) that unfolding v(1) by (metis add_leD1 le_refl count_list_append traces_append)
  then have "ty_duplicates ty = 0" using v(5) by (simp add: tally_of_def surplus_def)
  ultimately show ?thesis using v(2,4) assms(3,4) by (simp add: verdict_def Let_def)
qed

text \<open>Nothing tells the copies that come after the last id was seen.\<close>

lemma late_copies_pass:
  "verify_delivery (999 / 1000) 0 0 0 [manifest_line ''t1'']
     (Fetched (manifest_line ''t1'') 1 # replicate 9 (Fetched (manifest_line ''t1'') 2)) =
   verify_delivery (999 / 1000) 0 0 0 [manifest_line ''t1''] [Fetched (manifest_line ''t1'') 1]"
  by code_simp

theorem delivery_verdict_witness:
  "\<exists>d counted rest. verify_delivery (999 / 1000) 0 0 0 [manifest_line ''t1'', manifest_line ''t2'']
     [Fetched (manifest_line ''t2'') 1, FetchFailed, Fetched (manifest_line ''t1'') 2] = Inr d \<and>
   dl_ObservedUnique d = int (card (set (traces counted) \<inter> {''t1'', ''t2''})) \<and>
   [Fetched (manifest_line ''t2'') 1, FetchFailed, Fetched (manifest_line ''t1'') 2] = counted @ rest"
proof -
  let ?lines = "[manifest_line ''t1'', manifest_line ''t2'']"
  let ?fs = "[Fetched (manifest_line ''t2'') 1, FetchFailed, Fetched (manifest_line ''t1'') 2]"
  have "\<not> Option.is_none (case verify_delivery (999 / 1000) 0 0 0 ?lines ?fs of Inl _ \<Rightarrow> None | Inr d \<Rightarrow> Some d)"
    by code_simp
  then obtain d where d: "verify_delivery (999 / 1000) 0 0 0 ?lines ?fs = Inr d"
    by (auto split: sum.splits)
  have ids: "manifest_ids ?lines = [''t1'', ''t2'']"
    using manifest_line_ids [of "[''t1'', ''t2'']"] by simp
  from delivery_verdict [OF d] d show ?thesis unfolding ids by auto
qed

end
