(* ===== verification/Migrate.thy ===== *)
theory Migrate
  imports Config
begin

text \<open>
  \<^verbatim>\<open>cmd/migrate/main.go\<close>: the subcommands. The migrations are run by golang-migrate,
  which is a parameter: an instance whose operations act on a state of its own.
\<close>

record 's migrations =
  mg_Up :: "('s, unit) go"
  mg_Down :: "('s, unit) go"
  mg_Version :: "('s, int \<times> bool) go"
  mg_Force :: "int \<Rightarrow> ('s, unit) go"

definition ErrNoChange :: goerr where
  "ErrNoChange = Msg ''no change''"

text \<open>How the process ends: what it reports, or the text of the failure (status 1).\<close>

datatype ended = Completed string | Failed string

definition version_text :: "int \<times> bool \<Rightarrow> string" where
  "version_text v = ''version='' @ show_int (fst v) @ '' dirty='' @ (if snd v then ''true'' else ''false'')"

definition exits :: "ended \<Rightarrow> ('s, ended) state" where
  "exits e = State_Monad.return e"

definition unless_unchanged :: "('s, unit) go \<Rightarrow> string \<Rightarrow> ('s, ended) state \<Rightarrow> ('s, ended) state" where
  "unless_unchanged act failure next = on_err act
     (\<lambda>err. if err = ErrNoChange then next else exits (Failed failure)) (\<lambda>_. next)"

definition migrate_main :: "'s migrations \<Rightarrow> string list \<Rightarrow> ('s, ended) state" where
  "migrate_main m args = (case args of
       [] \<Rightarrow> exits (Failed ''usage: migrate <up|down|version|force N>'')
     | command # rest \<Rightarrow>
         if command = ''up'' then unless_unchanged (mg_Up m) ''migrate up failed''
           (on_err (mg_Version m) (\<lambda>_. exits (Failed ''read version''))
             (\<lambda>v. exits (Completed (''migrate up complete '' @ version_text v))))
         else if command = ''down'' then unless_unchanged (mg_Down m) ''migrate down failed''
           (exits (Completed ''migrate down complete''))
         else if command = ''version'' then on_err (mg_Version m) (\<lambda>_. exits (Failed ''read version''))
           (\<lambda>v. exits (Completed (version_text v)))
         else if command = ''force'' then (case rest of
             [] \<Rightarrow> exits (Failed ''usage: migrate force N'')
           | arg # _ \<Rightarrow> (case atoi arg of
                 None \<Rightarrow> exits (Failed ''invalid version'')
               | Some n \<Rightarrow> on_err (mg_Force m n) (\<lambda>_. exits (Failed ''force failed''))
                   (\<lambda>_. exits (Completed (''forced version '' @ show_int n)))))
         else exits (Failed (''unknown subcommand: '' @ command)))"

text \<open>Only the four subcommands reach the database, and force only with a number.\<close>

lemma refused_commands_do_nothing:
  assumes "args = [] \<or> hd args \<notin> {''up'', ''down'', ''version'', ''force''} \<or> args = [''force''] \<or>
    (\<exists>a rest. args = ''force'' # a # rest \<and> atoi a = None)"
  shows "\<exists>t. run_state (migrate_main m args) s = (Failed t, s)"
  using assms by (cases args) (auto simp: migrate_main_def exits_def)

text \<open>Migrations that are already applied are no failure.\<close>

lemma up_without_changes:
  assumes "run_state (mg_Up m) s = (Inl ErrNoChange, s1)" and "run_state (mg_Version m) s1 = (Inr v, s2)"
  shows "run_state (migrate_main m [''up'']) s = (Completed (''migrate up complete '' @ version_text v), s2)"
  using assms by (simp add: migrate_main_def unless_unchanged_def exits_def)

end
