(* ===== verification/Spec2Isabelle.thy ===== *)
theory Spec2Isabelle
  imports Gate_Witnesses Pipeline_Witnesses Sui_Reader Http_Gate Voucher_Api Minter_Api
    Demo_Witnesses Demo_Wallet Ride_Witness Startup Telemetry Verify_Delivery Migrate
begin

text \<open>
  A theme park that gives its visitors attendance NFTs. Tickets are sold as vouchers, claimed
  through magic links and delegated to participants (\<^verbatim>\<open>cmd/voucher\<close>); at the gate a
  rotating QR code pairs a wristband with a ticket, a second scan activates the pair, and the
  wristband is scanned at the rides (\<^verbatim>\<open>cmd/gate\<close>); the scans go through Kafka to Postgres
  and Redis (\<^verbatim>\<open>cmd/consumer\<close>); at the end of the day everyone who rode gets one mint
  on Sui (\<^verbatim>\<open>cmd/minter\<close>). \<^verbatim>\<open>cmd/demo\<close> runs whole scenarios,
  \<^verbatim>\<open>cmd/loadgen\<close> and \<^verbatim>\<open>scripts/bench\<close> measure the pipeline.

  \<^bold>\<open>How programs are modelled.\<close> A Go function that returns an error is a state-passing
  computation on a \<open>world\<close> whose result is an error or a value (\<open>go\<close>, with \<open>check\<close>
  and \<open>on_err\<close> for \<^verbatim>\<open>if err != nil\<close>). The world (\<open>Services\<close>) holds Redis,
  the tables, the topics, the clock and the log of requests to the chain. Every call to a service
  takes one entry of a schedule that the program does not see: a delay, and whether the call
  is answered, refused, or carried out with its answer lost. A theorem that says "under every
  schedule" speaks about all of these. Structs are records under their Go names (a field has a
  prefix for its record, as in \<open>ev_TraceID\<close>), enums are datatypes, durations and
  identifiers are integers that wrap where the code can overflow, JSON is a tree. Goroutines are
  steps of a relation.

  \<^bold>\<open>Theories.\<close>
  \<^item> \<open>Prelude\<close>, \<open>Go_Runtime\<close>, \<open>Sha256\<close>: reasoning about stateful computations
    (\<open>wp\<close>, \<open>keeps\<close>, their rule collections), errors, dates, JSON, quoting; SHA-256,
    HMAC and hex.
  \<^item> \<open>Models\<close>, \<open>Config\<close>: \<^verbatim>\<open>internal/models\<close>, \<^verbatim>\<open>internal/config\<close>.
  \<^item> \<open>Services\<close>, \<open>Redis_Client\<close>, \<open>Postgres_Repository\<close>: the services and
    \<^verbatim>\<open>internal/redis\<close> (with its Lua scripts) and \<^verbatim>\<open>internal/postgres\<close> (each
    statement on the tables, with the constraints of \<^verbatim>\<open>migrations/\<close>).
  \<^item> \<open>Gate_QR\<close>, \<open>Gate_Binding\<close>, \<open>Gate_Ride_Scan\<close>: \<^verbatim>\<open>internal/gate\<close> and the
    transaction check of \<^verbatim>\<open>internal/auth\<close>. \<open>Binding_Index\<close> and \<open>Binding_Machine\<close>
    show that the keys of the bindings are a two-way index, also for gates that interleave;
    \<open>Gate_Invariants\<close>, \<open>Gate_Behaviour\<close>, \<open>Gate_Safety\<close> and \<open>Gate_Denied\<close> what
    each handler does and what holds over runs of requests.
  \<^item> \<open>Kafka_Producer\<close>, \<open>Kafka_Consumer\<close>, \<open>Pipeline_Handler\<close>: \<^verbatim>\<open>internal/kafka\<close>
    and \<^verbatim>\<open>internal/pipeline\<close>. \<open>Pipeline_Safety\<close>, \<open>Scan_Pipeline\<close> and
    \<open>Consumer_Run\<close> (the pool of workers, the drain of the outbox, \<^verbatim>\<open>cmd/consumer\<close>):
    one row per scan, nothing lost while the services answer, what happens when they do not.
    \<open>Ride_To_Mint\<close>, \<open>Day_Run\<close> and \<open>Scan_To_Mint\<close> compose the reader, the topic,
    the pipeline, the day's resolution and the batch: a ride scanned at the gate ends in the ledger
    or in a result of its day, and with a mint when that result has no error;
    \<open>Ride_Witness\<close> is one visitor on this way.
  \<^item> \<open>Magic_Link\<close>, \<open>Voucher_Service\<close>: \<^verbatim>\<open>internal/voucher\<close> and
    \<^verbatim>\<open>internal/auth/google.go\<close>. \<open>Repository_Invariants\<close> and \<open>Voucher_Behaviour\<close>:
    the constraints of the schema, vouchers claimed and delegated once, what a delegation does.
  \<^item> \<open>Storage\<close>, \<open>Sui_Client\<close>, \<open>Sui_Reader\<close>, \<open>Mint_Day\<close>: \<^verbatim>\<open>internal/storage\<close>,
    \<^verbatim>\<open>internal/sui\<close>, \<^verbatim>\<open>internal/minter\<close>; bounds on uploads and requests, the
    day's resolution against its specification. \<open>Mint_Attribution\<close>: whom a mint is recorded for.
  \<^item> \<open>Http\<close>, \<open>Health\<close>, \<open>Http_Gate\<close>, \<open>Http_Voucher\<close>, \<open>Http_Minter\<close>: the
    endpoints of \<^verbatim>\<open>cmd/gate\<close>, \<^verbatim>\<open>cmd/voucher\<close>, \<^verbatim>\<open>cmd/minter\<close> and
    \<^verbatim>\<open>internal/health\<close>. \<open>Voucher_Api\<close>, \<open>Minter_Api\<close>: guarantees over requests.
    \<open>Startup\<close>: the starts of the five services; \<open>Telemetry\<close>: \<^verbatim>\<open>internal/telemetry\<close>,
    which no service calls.
  \<^item> \<open>Demo_Types\<close>, \<open>Demo_Seed\<close>, \<open>Demo_Run\<close>, \<open>Demo_Service\<close>:
    \<^verbatim>\<open>internal/demo\<close> and \<^verbatim>\<open>cmd/demo\<close>. \<open>Demo_Invariants\<close>,
    \<open>Demo_Schema\<close>, \<open>Demo_Behaviour\<close>, \<open>Demo_Wallet\<close>, \<open>Demo_Rerun\<close>: what the
    service keeps, its reports, the reset, the attribution of a wallet, the guard against minting
    twice.
  \<^item> \<open>Loadgen\<close>, \<open>Loadgen_Pool\<close>, \<open>Verify_Delivery\<close>, \<open>Migrate\<close>:
    \<^verbatim>\<open>cmd/loadgen\<close>, \<^verbatim>\<open>scripts/bench/verify_delivery.go\<close>,
    \<^verbatim>\<open>cmd/migrate\<close>.
  \<^item> \<open>Gate_Witnesses\<close>, \<open>Pipeline_Witnesses\<close>, \<open>Demo_Witnesses\<close>: the statements at
    concrete inputs.

  \<^bold>\<open>Interfaces.\<close> Where the code takes an interface or several operations share a contract
  there is a locale, interpreted on the code's own providers: \<open>binding_store\<close> (a binding index
  implements a store of visits), \<open>txn_check\<close> and \<open>publisher\<close>, extended by
  \<open>gate_invariant\<close> (what the gate's handlers keep), \<open>scan_redis\<close> and \<open>outbox_writer\<close>
  (the scan handler's collaborators), \<open>message_handler\<close> (the consumer's handler),
  \<open>table_invariant\<close> (a property of the tables every statement keeps) with \<open>mint_invariant\<close>
  and \<open>day_invariant\<close> below it, \<open>seed_invariant\<close> and \<open>demo_invariant\<close> above
  those (what the demo's parts keep).

  \<^bold>\<open>Bounds and fuel.\<close> The recursive owner query takes as many steps as there are
  participants; \<open>guardian_chain_ends\<close> shows that this is enough when guardians are registered
  before their dependents. \<open>OwnedNFTs\<close> counts pages: more fuel does not change an answer, and
  as much fuel as there are pages gives one. A submission makes five attempts, a write to Kafka
  three. The wait at startup is a partial function, shown to return on every schedule. Other loops
  recurse on their lists, and retries are measured by the attempts left.

  \<^bold>\<open>Parameters.\<close> Code that is not in the repository is a parameter: \<open>environment\<close>
  (fresh UUIDs, \<^verbatim>\<open>math/rand\<close>, the zone, Postgres's conversions, collation and choice of
  a row for \<^verbatim>\<open>LIMIT 1\<close>, the replies of Sui and Pinata), \<open>crypto_lib\<close> (blake2b,
  ed25519, bip39 and its derivation), \<open>jwt_lib\<close>, envconfig, golang-migrate, the OpenTelemetry SDK. What a theorem
  needs of one is a hypothesis of the theorem. Rows that an \<^verbatim>\<open>ORDER BY\<close> leaves equal come
  in the order of the table. Redis runs one command or script at a time, Postgres one statement.

  \<^bold>\<open>Not modelled.\<close> Logging, listeners, connections, signals and closing are left out of every component. Bookkeeping
  columns (\<^verbatim>\<open>created_at\<close>, \<^verbatim>\<open>updated_at\<close>) and structs that no code uses are left
  out of the data. Handlers that run at the same time interleave at the granularity of a Redis
  script (\<open>Binding_Machine\<close>) or of a message (\<open>Consumer_Run\<close>, \<open>Loadgen\<close>);
  elsewhere requests come one after the other, with the rest of the system in the schedule. The Move
  contracts and the web front end are not part of the Go program.
\<close>

end
